(* ===== verification/Go_Prelude.thy ===== *)
theory Go_Prelude
  imports Complex_Main "HOL-Library.Multiset" "HOL-Library.Char_ord" "HOL-Library.List_Lexorder"
begin

text \<open>
  Shared vocabulary of the development: the result of a call that may panic, Go's byte strings
  and the parts of \<^verbatim>\<open>strings\<close>/\<^verbatim>\<open>bytes\<close> the program uses, and the two loop shapes that occur
  again and again in the sources (update the first element that matches; keep the best
  element seen so far).

  Conventions. A Go \<^verbatim>\<open>string\<close> or \<^verbatim>\<open>[]byte\<close> is a \<open>string\<close> (a list of bytes). A Go \<^verbatim>\<open>int\<close> is an
  \<open>int\<close>: no modelled operation gets near the 64-bit limits except where a theory says so. A
  \<^verbatim>\<open>time.Time\<close> or \<^verbatim>\<open>time.Duration\<close> is an \<open>int\<close> (nanoseconds unless stated), and \<^verbatim>\<open>time.Now()\<close> is an
  argument. A pair \<^verbatim>\<open>(v, ok)\<close> is an \<open>option\<close>. Logging is not modelled.
\<close>

section \<open>Named collections\<close>

named_theorems loop_simps \<open>closed forms of the list loops\<close>
named_theorems str_simps \<open>facts on byte strings\<close>

section \<open>Calls that may panic\<close>

datatype 'a outcome = Returns 'a | Panics

section \<open>Byte strings\<close>

definition has_prefix :: "string \<Rightarrow> string \<Rightarrow> bool" where
  "has_prefix s p \<longleftrightarrow> take (length p) s = p"

definition has_suffix :: "string \<Rightarrow> string \<Rightarrow> bool" where
  "has_suffix s p \<longleftrightarrow> length p \<le> length s \<and> drop (length s - length p) s = p"

definition trim_prefix :: "string \<Rightarrow> string \<Rightarrow> string" where
  "trim_prefix s p = (if has_prefix s p then drop (length p) s else s)"

definition trim_suffix :: "string \<Rightarrow> string \<Rightarrow> string" where
  "trim_suffix s p = (if has_suffix s p then take (length s - length p) s else s)"

lemma has_prefix_iff [str_simps]: "has_prefix s p \<longleftrightarrow> (\<exists>t. s = p @ t)"
  unfolding has_prefix_def by (metis append_eq_conv_conj append_take_drop_id)

lemma has_suffix_iff [str_simps]: "has_suffix s p \<longleftrightarrow> (\<exists>t. s = t @ p)"
  unfolding has_suffix_def
  by (auto intro: exI [of _ "take (length s - length p) s"]) (metis append_take_drop_id)

lemma has_prefix_append [simp]: "has_prefix (p @ s) p"
  by (simp add: has_prefix_def)

lemma has_suffix_append [simp]: "has_suffix (s @ p) p"
  by (simp add: has_suffix_def)

lemma trim_prefix_append [simp]: "trim_prefix (p @ s) p = s"
  by (simp add: trim_prefix_def)

lemma trim_suffix_append [simp]: "trim_suffix (s @ p) p = s"
  by (simp add: trim_suffix_def)

text \<open>\<^verbatim>\<open>bytes.Index\<close>: the least offset of a substring.\<close>

fun index_of :: "string \<Rightarrow> string \<Rightarrow> nat option" where
  "index_of [] p = (if p = [] then Some 0 else None)"
| "index_of (c # s) p = (if has_prefix (c # s) p then Some 0 else map_option Suc (index_of s p))"

definition contains_sub :: "string \<Rightarrow> string \<Rightarrow> bool" where
  "contains_sub s p \<longleftrightarrow> index_of s p \<noteq> None"

lemma index_of_Some:
  "index_of s p = Some n \<Longrightarrow>
    s = take n s @ p @ drop (n + length p) s \<and> n + length p \<le> length s"
proof (induction s arbitrary: n)
  case Nil
  then show ?case by (auto split: if_splits)
next
  case (Cons c s)
  show ?case
  proof (cases "has_prefix (c # s) p")
    case True
    with Cons.prems have "n = 0" by simp
    from True obtain t where "c # s = p @ t" by (auto simp: has_prefix_iff)
    then have "drop (length p) (c # s) = t" "length p \<le> length (c # s)" by auto
    with \<open>n = 0\<close> \<open>c # s = p @ t\<close> show ?thesis by simp
  next
    case False
    with Cons.prems obtain m where "index_of s p = Some m" "n = Suc m" by auto
    with Cons.IH show ?thesis by auto
  qed
qed

lemma contains_sub_iff [str_simps]: "contains_sub s p \<longleftrightarrow> (\<exists>u v. s = u @ p @ v)"
proof
  assume "contains_sub s p"
  then show "\<exists>u v. s = u @ p @ v"
    unfolding contains_sub_def using index_of_Some by fastforce
next
  assume "\<exists>u v. s = u @ p @ v"
  then obtain u v where "s = u @ p @ v" by blast
  then show "contains_sub s p"
  proof (induction u arbitrary: s)
    case Nil
    then have "has_prefix s p" by simp
    then show ?case by (cases s) (auto simp: contains_sub_def has_prefix_def)
  next
    case (Cons c u)
    then show ?case by (auto simp: contains_sub_def)
  qed
qed

text \<open>
  \<^verbatim>\<open>strings.Split\<close> with a one-byte separator: always at least one piece.
\<close>

fun split_on :: "char \<Rightarrow> string \<Rightarrow> string list" where
  "split_on sep [] = [[]]"
| "split_on sep (c # s) =
     (if c = sep then [] # split_on sep s
      else (case split_on sep s of [] \<Rightarrow> [[c]] | w # ws \<Rightarrow> (c # w) # ws))"

fun join_with :: "string \<Rightarrow> string list \<Rightarrow> string" where
  "join_with sep [] = []"
| "join_with sep [w] = w"
| "join_with sep (w # v # ws) = w @ sep @ join_with sep (v # ws)"

lemma split_on_ne [simp]: "split_on sep s \<noteq> []"
  by (induction s) (auto split: list.splits)

lemma join_split_on: "join_with [sep] (split_on sep s) = s"
proof (induction s)
  case Nil
  then show ?case by simp
next
  case (Cons c s)
  obtain w ws where "split_on sep s = w # ws" by (cases "split_on sep s") auto
  with Cons show ?case by (cases ws) auto
qed

lemma split_on_no_sep: "w \<in> set (split_on sep s) \<Longrightarrow> sep \<notin> set w"
  by (induction s arbitrary: w) (auto split: if_splits list.splits)

text \<open>
  ASCII case mapping, the fast path of \<^verbatim>\<open>strings.ToLower\<close> and \<^verbatim>\<open>strings.ToUpper\<close>. Bytes outside
  A-Z/a-z are left alone, so the model agrees with Go on ASCII strings.
\<close>

definition char_lower :: "char \<Rightarrow> char" where
  "char_lower c = (if 65 \<le> (of_char c :: nat) \<and> (of_char c :: nat) \<le> 90
     then char_of ((of_char c :: nat) + 32) else c)"

definition char_upper :: "char \<Rightarrow> char" where
  "char_upper c = (if 97 \<le> (of_char c :: nat) \<and> (of_char c :: nat) \<le> 122
     then char_of ((of_char c :: nat) - 32) else c)"

definition to_lower :: "string \<Rightarrow> string" where
  "to_lower = map char_lower"

definition to_upper :: "string \<Rightarrow> string" where
  "to_upper = map char_upper"

definition equal_fold :: "string \<Rightarrow> string \<Rightarrow> bool" where
  "equal_fold s t \<longleftrightarrow> to_lower s = to_lower t"

lemma char_lower_idem [simp]: "char_lower (char_lower c) = char_lower c"
  by (simp add: char_lower_def)

lemma to_lower_idem [simp]: "to_lower (to_lower s) = to_lower s"
  by (simp add: to_lower_def)

lemma equal_fold_refl [simp]: "equal_fold s s"
  by (simp add: equal_fold_def)

text \<open>
  \<^verbatim>\<open>strings.TrimSpace\<close>. White space is Unicode's White_Space; each member is listed by its UTF-8
  encoding, and a byte string starts (ends) with a white-space rune exactly if one of the
  encodings is a prefix (suffix) of it.
\<close>

definition space_encodings :: "string list" where
  "space_encodings =
     [[CHR 0x09], [CHR 0x0A], [CHR 0x0B], [CHR 0x0C], [CHR 0x0D], [CHR 0x20],
      [CHR 0xC2, CHR 0x85], [CHR 0xC2, CHR 0xA0], [CHR 0xE1, CHR 0x9A, CHR 0x80],
      [CHR 0xE2, CHR 0x80, CHR 0x80], [CHR 0xE2, CHR 0x80, CHR 0x81],
      [CHR 0xE2, CHR 0x80, CHR 0x82], [CHR 0xE2, CHR 0x80, CHR 0x83],
      [CHR 0xE2, CHR 0x80, CHR 0x84], [CHR 0xE2, CHR 0x80, CHR 0x85],
      [CHR 0xE2, CHR 0x80, CHR 0x86], [CHR 0xE2, CHR 0x80, CHR 0x87],
      [CHR 0xE2, CHR 0x80, CHR 0x88], [CHR 0xE2, CHR 0x80, CHR 0x89],
      [CHR 0xE2, CHR 0x80, CHR 0x8A], [CHR 0xE2, CHR 0x80, CHR 0xA8],
      [CHR 0xE2, CHR 0x80, CHR 0xA9], [CHR 0xE2, CHR 0x80, CHR 0xAF],
      [CHR 0xE2, CHR 0x81, CHR 0x9F], [CHR 0xE3, CHR 0x80, CHR 0x80]]"

lemma space_encodings_pos: "p \<in> set space_encodings \<Longrightarrow> 0 < length p"
  by (auto simp: space_encodings_def)

function trim_space_left :: "string \<Rightarrow> string" where
  "trim_space_left s =
     (case find (has_prefix s) space_encodings of
        None \<Rightarrow> s
      | Some p \<Rightarrow> trim_space_left (drop (length p) s))"
  by pat_completeness auto

termination
proof (relation "measure length")
  fix s p
  assume f: "find (has_prefix s) space_encodings = Some p"
  then have "p \<in> set space_encodings" "has_prefix s p" by (auto simp: find_Some_iff)
  then have "0 < length p" "length p \<le> length s"
    using space_encodings_pos [of p] by (auto simp: has_prefix_iff)
  then show "(drop (length p) s, s) \<in> measure length"
    by (simp add: diff_less del: length_greater_0_conv)
qed simp

function trim_space_right :: "string \<Rightarrow> string" where
  "trim_space_right s =
     (case find (has_suffix s) space_encodings of
        None \<Rightarrow> s
      | Some p \<Rightarrow> trim_space_right (take (length s - length p) s))"
  by pat_completeness auto

termination
proof (relation "measure length")
  fix s p
  assume f: "find (has_suffix s) space_encodings = Some p"
  then have "p \<in> set space_encodings" "has_suffix s p" by (auto simp: find_Some_iff)
  then have "0 < length p" "length p \<le> length s"
    using space_encodings_pos [of p] by (auto simp: has_suffix_iff)
  then show "(take (length s - length p) s, s) \<in> measure length"
    by (simp add: diff_less del: length_greater_0_conv)
qed simp

declare trim_space_left.simps [simp del] trim_space_right.simps [simp del]

definition trim_space :: "string \<Rightarrow> string" where
  "trim_space s = trim_space_right (trim_space_left s)"

lemma trim_space_left_suffix: "\<exists>u. s = u @ trim_space_left s"
proof (induction s rule: trim_space_left.induct)
  case (1 s)
  show ?case
  proof (cases "find (has_prefix s) space_encodings")
    case None
    then show ?thesis by (simp add: trim_space_left.simps [of s])
  next
    case (Some p)
    from 1 [OF Some] obtain u where "drop (length p) s = u @ trim_space_left (drop (length p) s)"
      by blast
    then have "s = (take (length p) s @ u) @ trim_space_left s"
      by (metis Some append.assoc append_take_drop_id option.simps(5) trim_space_left.simps)
    then show ?thesis by blast
  qed
qed

lemma trim_space_left_no_space: "p \<in> set space_encodings \<Longrightarrow> \<not> has_prefix (trim_space_left s) p"
proof (induction s rule: trim_space_left.induct)
  case (1 s)
  show ?case
  proof (cases "find (has_prefix s) space_encodings")
    case None
    then have "trim_space_left s = s" by (simp add: trim_space_left.simps [of s])
    with None "1.prems" show ?thesis by (auto simp: find_None_iff)
  next
    case (Some q)
    with "1.IH" [OF Some "1.prems"] show ?thesis by (simp add: trim_space_left.simps [of s])
  qed
qed

section \<open>Decimal numbers\<close>

text \<open>\<^verbatim>\<open>%d\<close> and \<^verbatim>\<open>strconv.Itoa\<close>.\<close>

definition digit_char :: "nat \<Rightarrow> char" where
  "digit_char d = char_of (48 + d)"

fun nat_digits :: "nat \<Rightarrow> string" where
  "nat_digits n = (if n < 10 then [digit_char n] else nat_digits (n div 10) @ [digit_char (n mod 10)])"

declare nat_digits.simps [simp del]

definition itoa :: "int \<Rightarrow> string" where
  "itoa i = (if i < 0 then CHR ''-'' # nat_digits (nat (- i)) else nat_digits (nat i))"

section \<open>Loop: update the first match\<close>

text \<open>
  \<^verbatim>\<open>for i, s := range xs { if P(s) { xs[i] = f(s); return g(s), true } }; return _, false\<close>
\<close>

fun update_first :: "('a \<Rightarrow> bool) \<Rightarrow> ('a \<Rightarrow> 'a) \<Rightarrow> 'a list \<Rightarrow> 'a list \<times> 'a option" where
  "update_first P f [] = ([], None)"
| "update_first P f (x # xs) =
     (if P x then (f x # xs, Some x)
      else (let (ys, r) = update_first P f xs in (x # ys, r)))"

lemma update_first_None [loop_simps]:
  "snd (update_first P f xs) = None \<longleftrightarrow> (\<forall>x \<in> set xs. \<not> P x)"
  by (induction xs) (auto simp: Let_def split_def)

lemma update_first_None_id: "snd (update_first P f xs) = None \<Longrightarrow> fst (update_first P f xs) = xs"
  by (induction xs) (auto simp: Let_def split_def split: if_splits)

lemma update_first_Some:
  "snd (update_first P f xs) = Some x \<Longrightarrow>
    \<exists>us vs. xs = us @ x # vs \<and> P x \<and> (\<forall>u \<in> set us. \<not> P u) \<and>
      fst (update_first P f xs) = us @ f x # vs"
proof (induction xs)
  case Nil
  then show ?case by simp
next
  case (Cons y xs)
  show ?case
  proof (cases "P y")
    case True
    with Cons.prems show ?thesis by (intro exI [of _ "[]"] exI [of _ xs]) auto
  next
    case False
    with Cons obtain us vs where "xs = us @ x # vs" "P x" "\<forall>u \<in> set us. \<not> P u"
      "fst (update_first P f xs) = us @ f x # vs"
      by (auto simp: Let_def split_def)
    with False show ?thesis
      by (intro exI [of _ "y # us"] exI [of _ vs]) (auto simp: Let_def split_def)
  qed
qed

lemma update_first_cases:
  obtains (none) "update_first P f xs = (xs, None)" "\<forall>x \<in> set xs. \<not> P x"
  | (some) us x vs where "xs = us @ x # vs" "P x" "\<forall>u \<in> set us. \<not> P u"
      "update_first P f xs = (us @ f x # vs, Some x)"
proof (cases "snd (update_first P f xs)")
  case None
  then show ?thesis
    using none update_first_None update_first_None_id by (metis prod.collapse)
next
  case (Some x)
  with update_first_Some [OF Some] show ?thesis
    using some by (metis prod.collapse)
qed

section \<open>Loop: keep the best element\<close>

text \<open>
  \<^verbatim>\<open>best := nil; for _, x := range xs { if best == nil || better(x, best) { best = x } }\<close>
\<close>

definition first_best :: "('a \<Rightarrow> 'a \<Rightarrow> bool) \<Rightarrow> 'a list \<Rightarrow> 'a option" where
  "first_best better xs =
     foldl (\<lambda>b x. case b of None \<Rightarrow> Some x | Some y \<Rightarrow> if better x y then Some x else b) None xs"

lemma first_best_Nil [simp]: "first_best better [] = None"
  by (simp add: first_best_def)

lemma first_best_single [simp]: "first_best better [x] = Some x"
  by (simp add: first_best_def)

lemma first_best_snoc:
  "first_best better (xs @ [x]) =
     (case first_best better xs of None \<Rightarrow> Some x
      | Some y \<Rightarrow> if better x y then Some x else Some y)"
  by (simp add: first_best_def split: option.split)

lemma first_best_None [simp]: "first_best better xs = None \<longleftrightarrow> xs = []"
  by (induction xs rule: rev_induct) (auto simp: first_best_snoc split: option.split)

text \<open>
  For a strict comparison of keys the loop returns an extremal element, and the earliest one.
\<close>

lemma first_best_key:
  fixes key :: "'a \<Rightarrow> 'b::linorder"
  assumes "first_best (\<lambda>x y. key x < key y) xs = Some b"
  shows "\<exists>us vs. xs = us @ b # vs \<and> (\<forall>u \<in> set us. key b < key u) \<and> (\<forall>v \<in> set vs. key b \<le> key v)"
  using assms
proof (induction xs arbitrary: b rule: rev_induct)
  case Nil
  then show ?case by simp
next
  case (snoc x xs)
  show ?case
  proof (cases "first_best (\<lambda>x y. key x < key y) xs")
    case None
    then have "xs = []" by simp
    with snoc.prems have "b = x" by (simp add: first_best_def)
    with \<open>xs = []\<close> show ?thesis by (intro exI [of _ "[]"] exI [of _ "[]"]) simp
  next
    case (Some y)
    from snoc.IH [OF Some] obtain us vs where
      split: "xs = us @ y # vs" "\<forall>u \<in> set us. key y < key u" "\<forall>v \<in> set vs. key y \<le> key v"
      by blast
    show ?thesis
    proof (cases "key x < key y")
      case True
      with Some snoc.prems have "b = x" by (simp add: first_best_snoc)
      moreover have "\<forall>u \<in> set xs. key x < key u" using split True by auto
      ultimately show ?thesis by (intro exI [of _ xs] exI [of _ "[]"]) simp
    next
      case False
      with Some snoc.prems have "b = y" by (simp add: first_best_snoc)
      with False split show ?thesis
        by (intro exI [of _ us] exI [of _ "vs @ [x]"]) auto
    qed
  qed
qed

corollary first_best_least:
  fixes key :: "'a \<Rightarrow> 'b::linorder"
  assumes "first_best (\<lambda>x y. key x < key y) xs = Some b"
  shows "b \<in> set xs" and "x \<in> set xs \<Longrightarrow> key b \<le> key x"
  using first_best_key [OF assms] by (auto simp: less_imp_le)

lemma filter_split:
  "filter P xs = us @ b # vs \<Longrightarrow>
    \<exists>us' vs'. xs = us' @ b # vs' \<and> P b \<and> filter P us' = us \<and> filter P vs' = vs"
proof (induction xs arbitrary: us)
  case Nil
  then show ?case by simp
next
  case (Cons x xs)
  show ?case
  proof (cases "P x \<and> us = []")
    case True
    with Cons.prems show ?thesis by (intro exI [of _ "[]"] exI [of _ xs]) auto
  next
    case False
    with Cons.prems have "filter P xs = (if P x then tl us else us) @ b # vs"
      by (cases us) (auto split: if_splits)
    from Cons.IH [OF this] obtain us' vs' where
      "xs = us' @ b # vs'" "P b" "filter P us' = (if P x then tl us else us)" "filter P vs' = vs"
      by blast
    with False Cons.prems show ?thesis
      by (intro exI [of _ "x # us'"] exI [of _ vs']) (cases us; auto split: if_splits)
  qed
qed

lemma first_best_filter:
  fixes key :: "'a \<Rightarrow> 'b::linorder"
  assumes "first_best (\<lambda>x y. key x < key y) (filter P xs) = Some b"
  shows "\<exists>us vs. xs = us @ b # vs \<and> P b \<and> (\<forall>u \<in> set us. P u \<longrightarrow> key b < key u) \<and>
    (\<forall>v \<in> set vs. P v \<longrightarrow> key b \<le> key v)"
proof -
  from first_best_key [OF assms] obtain us vs where f: "filter P xs = us @ b # vs"
    and k: "\<forall>u \<in> set us. key b < key u" "\<forall>v \<in> set vs. key b \<le> key v" by blast
  from filter_split [OF f] obtain us' vs' where
    "xs = us' @ b # vs'" "P b" "filter P us' = us" "filter P vs' = vs" by blast
  with k show ?thesis by (intro exI [of _ us'] exI [of _ vs']) auto
qed

section \<open>Lists, options and multisets\<close>

lemma nth_split: "i < length xs \<Longrightarrow> xs = take i xs @ xs ! i # drop (Suc i) xs"
  by (simp add: id_take_nth_drop)

lemma find_Some_in: "find P xs = Some x \<Longrightarrow> x \<in> set xs \<and> P x"
  by (auto simp: find_Some_iff)

lemma subset_add_mset_notin: "A \<subseteq># add_mset c B \<Longrightarrow> c \<notin># A \<Longrightarrow> A \<subseteq># B"
  by (metis diff_single_trivial subset_eq_diff_conv add_mset_add_single)

end
