(* ===== verification/Slots.thy ===== *)
theory Slots
  imports Go_Prelude
begin

text \<open>
  The slot table of the LLM broker (\<^verbatim>\<open>internal/broker/slots.go\<close>): the inference server's KV slots,
  each of a fixed class, handed to agents in two phases (provisional, then assigned once the
  agent acknowledges). Every method takes the table's mutex, so each is one atomic function
  on the list of entries. The theory ends with the interface \<open>slot_pool\<close> that the broker relies
  on and its interpretation on these functions.
\<close>

section \<open>Data\<close>

datatype SlotState = SlotUnassigned | SlotProvisional | SlotAssigned

fun SlotState_String :: "SlotState \<Rightarrow> string" where
  "SlotState_String SlotUnassigned = ''unassigned''"
| "SlotState_String SlotProvisional = ''provisional''"
| "SlotState_String SlotAssigned = ''assigned''"

type_synonym SlotClass = string

definition SlotClassAgent :: SlotClass where "SlotClassAgent = ''agent''"
definition SlotClassHindsight :: SlotClass where "SlotClassHindsight = ''hindsight''"

lemmas slot_class_defs = SlotClassAgent_def SlotClassHindsight_def

definition NormalizeClass :: "string \<Rightarrow> SlotClass option" where
  "NormalizeClass s =
     (if s = '''' \<or> s = SlotClassAgent then Some SlotClassAgent
      else if s = SlotClassHindsight then Some SlotClassHindsight
      else None)"

record SlotEntry =
  se_SlotID :: int
  se_Class :: SlotClass
  se_State :: SlotState
  se_AgentID :: string
  se_Priority :: int
  se_AssignedAt :: int
  se_CorrelationID :: string

record SlotSnapshotEntry =
  ss_SlotID :: int
  ss_Class :: string
  ss_State :: string
  ss_AgentID :: string
  ss_Priority :: int
  ss_AgeS :: rat

type_synonym SlotTable = "SlotEntry list"

text \<open>\<^verbatim>\<open>SlotEntry{SlotID: i, Class: c, State: SlotUnassigned}\<close>, the other fields zero.\<close>

definition free_entry :: "int \<Rightarrow> SlotClass \<Rightarrow> SlotEntry" where
  "free_entry i c = \<lparr>se_SlotID = i, se_Class = c, se_State = SlotUnassigned, se_AgentID = '''',
     se_Priority = 0, se_AssignedAt = 0, se_CorrelationID = ''''\<rparr>"

section \<open>Operations\<close>

definition NewSlotTableWithClasses :: "int \<Rightarrow> int \<Rightarrow> SlotTable" where
  "NewSlotTableWithClasses agentCount hindsightCount =
     (let a = nat (if agentCount < 0 then 0 else agentCount);
          h = nat (if hindsightCount < 0 then 0 else hindsightCount);
          total = a + h
      in map (\<lambda>i. free_entry (int i) SlotClassAgent) [0..<a] @
         map (\<lambda>i. free_entry (int i) SlotClassHindsight) [a..<total])"

definition NewSlotTable :: "int \<Rightarrow> SlotTable" where
  "NewSlotTable n = NewSlotTableWithClasses n 0"

definition FindUnassigned :: "SlotClass \<Rightarrow> SlotTable \<Rightarrow> int option" where
  "FindUnassigned class st =
     map_option se_SlotID (find (\<lambda>s. se_Class s = class \<and> se_State s = SlotUnassigned) st)"

definition in_range :: "int \<Rightarrow> SlotTable \<Rightarrow> bool" where
  "in_range slotID st \<longleftrightarrow> \<not> (slotID < 0 \<or> slotID \<ge> int (length st))"

definition ClassOf :: "int \<Rightarrow> SlotTable \<Rightarrow> SlotClass" where
  "ClassOf slotID st = (if \<not> in_range slotID st then '''' else se_Class (st ! nat slotID))"

definition AssignProvisional ::
  "int \<Rightarrow> string \<Rightarrow> int \<Rightarrow> string \<Rightarrow> int \<Rightarrow> SlotTable \<Rightarrow> SlotTable \<times> bool" where
  "AssignProvisional slotID agentID priority correlationID now st =
     (if \<not> in_range slotID st then (st, False)
      else if se_State (st ! nat slotID) \<noteq> SlotUnassigned then (st, False)
      else (st[nat slotID := \<lparr>se_SlotID = slotID, se_Class = se_Class (st ! nat slotID),
              se_State = SlotProvisional, se_AgentID = agentID, se_Priority = priority,
              se_AssignedAt = now, se_CorrelationID = correlationID\<rparr>], True))"

definition provisional_for :: "string \<Rightarrow> SlotEntry \<Rightarrow> bool" where
  "provisional_for correlationID s \<longleftrightarrow>
     se_State s = SlotProvisional \<and> se_CorrelationID s = correlationID"

definition CommitAssignment :: "string \<Rightarrow> SlotTable \<Rightarrow> SlotTable \<times> int option" where
  "CommitAssignment correlationID st =
     apsnd (map_option se_SlotID)
       (update_first (provisional_for correlationID)
          (\<lambda>s. s\<lparr>se_State := SlotAssigned, se_CorrelationID := ''''\<rparr>) st)"

definition RevertProvisional :: "string \<Rightarrow> SlotTable \<Rightarrow> SlotTable \<times> int option" where
  "RevertProvisional correlationID st =
     apsnd (map_option se_SlotID)
       (update_first (provisional_for correlationID)
          (\<lambda>s. free_entry (se_SlotID s) (se_Class s)) st)"

text \<open>
  \<^verbatim>\<open>Assign\<close> and \<^verbatim>\<open>ForceAssign\<close> test only the upper bound: a negative id indexes out of range and
  panics.
\<close>

definition assigned_entry :: "int \<Rightarrow> SlotClass \<Rightarrow> string \<Rightarrow> int \<Rightarrow> int \<Rightarrow> SlotEntry" where
  "assigned_entry slotID class agentID priority now =
     \<lparr>se_SlotID = slotID, se_Class = class, se_State = SlotAssigned, se_AgentID = agentID,
      se_Priority = priority, se_AssignedAt = now, se_CorrelationID = ''''\<rparr>"

definition Assign :: "int \<Rightarrow> string \<Rightarrow> int \<Rightarrow> int \<Rightarrow> SlotTable \<Rightarrow> (SlotTable \<times> bool) outcome" where
  "Assign slotID agentID priority now st =
     (if slotID \<ge> int (length st) then Returns (st, False)
      else if slotID < 0 then Panics
      else if se_State (st ! nat slotID) \<noteq> SlotUnassigned then Returns (st, False)
      else Returns (st[nat slotID :=
        assigned_entry slotID (se_Class (st ! nat slotID)) agentID priority now], True))"

definition ForceAssign :: "int \<Rightarrow> string \<Rightarrow> int \<Rightarrow> int \<Rightarrow> SlotTable \<Rightarrow> SlotTable outcome" where
  "ForceAssign slotID agentID priority now st =
     (if slotID \<ge> int (length st) then Returns st
      else if slotID < 0 then Panics
      else Returns (st[nat slotID :=
        assigned_entry slotID (se_Class (st ! nat slotID)) agentID priority now]))"

definition Release :: "int \<Rightarrow> SlotTable \<Rightarrow> SlotTable" where
  "Release slotID st =
     (if in_range slotID st
      then st[nat slotID := free_entry slotID (se_Class (st ! nat slotID))] else st)"

definition ReleaseByAgent :: "string \<Rightarrow> SlotTable \<Rightarrow> SlotTable \<times> int list" where
  "ReleaseByAgent agentID st =
     (map (\<lambda>(i, s). if se_AgentID s = agentID then free_entry (int i) (se_Class s) else s)
        (enumerate 0 st),
      map (\<lambda>(i, s). int i) (filter (\<lambda>(i, s). se_AgentID s = agentID) (enumerate 0 st)))"

text \<open>
  The victim search: the loop keeps \<^verbatim>\<open>(bestSlot, bestAgent, bestPriority)\<close>, with slot -1 for none.
\<close>

definition victim_step ::
  "SlotClass \<Rightarrow> (string \<Rightarrow> bool) \<Rightarrow> int \<times> string \<times> int \<Rightarrow> SlotEntry \<Rightarrow> int \<times> string \<times> int" where
  "victim_step class preemptible best s =
     (case best of (bestSlot, bestAgent, bestPriority) \<Rightarrow>
        if se_Class s \<noteq> class then best
        else if se_State s = SlotAssigned \<and> preemptible (se_AgentID s) then
          (if bestSlot = -1 \<or> se_Priority s > bestPriority
           then (se_SlotID s, se_AgentID s, se_Priority s) else best)
        else best)"

definition FindLowestPriorityPreemptible ::
  "SlotClass \<Rightarrow> (string \<Rightarrow> bool) \<Rightarrow> SlotTable \<Rightarrow> (int \<times> string \<times> int) option" where
  "FindLowestPriorityPreemptible class preemptible st =
     (case foldl (victim_step class preemptible) (-1, '''', -1) st of
        (bestSlot, bestAgent, bestPriority) \<Rightarrow>
          if bestSlot = -1 then None else Some (bestSlot, bestAgent, bestPriority))"

definition GetByAgent :: "string \<Rightarrow> SlotTable \<Rightarrow> int option" where
  "GetByAgent agentID st =
     map_option se_SlotID (find (\<lambda>s. se_AgentID s = agentID \<and> se_State s = SlotAssigned) st)"

definition IsOwnedBy :: "int \<Rightarrow> string \<Rightarrow> SlotTable \<Rightarrow> bool" where
  "IsOwnedBy slotID agentID st =
     (if \<not> in_range slotID st then False
      else let s = st ! nat slotID in
        (se_State s = SlotAssigned \<or> se_State s = SlotProvisional) \<and> se_AgentID s = agentID)"

definition Snapshot :: "int \<Rightarrow> SlotTable \<Rightarrow> SlotSnapshotEntry list" where
  "Snapshot now st =
     map (\<lambda>s. \<lparr>ss_SlotID = se_SlotID s, ss_Class = se_Class s,
        ss_State = SlotState_String (se_State s),
        ss_AgentID = (if se_State s \<noteq> SlotUnassigned then se_AgentID s else ''''),
        ss_Priority = se_Priority s,
        ss_AgeS = (if se_State s \<noteq> SlotUnassigned
          then of_int (now - se_AssignedAt s) / 1000000000 else 0)\<rparr>) st"

section \<open>Well-formed tables\<close>

definition slot_ok :: "nat \<Rightarrow> SlotEntry \<Rightarrow> bool" where
  "slot_ok i s \<longleftrightarrow>
     se_SlotID s = int i \<and>
     se_Class s \<in> {SlotClassAgent, SlotClassHindsight} \<and>
     (se_State s = SlotUnassigned \<longrightarrow> s = free_entry (int i) (se_Class s)) \<and>
     (se_State s = SlotAssigned \<longrightarrow> se_CorrelationID s = '''')"

definition slot_inv :: "SlotTable \<Rightarrow> bool" where
  "slot_inv st \<longleftrightarrow> (\<forall>i < length st. slot_ok i (st ! i))"

text \<open>The correlation ids of the provisional slots, with multiplicity.\<close>

definition prov_mset :: "SlotTable \<Rightarrow> string multiset" where
  "prov_mset st = mset (map se_CorrelationID (filter (\<lambda>s. se_State s = SlotProvisional) st))"

text \<open>Who holds a slot (provisionally or not).\<close>

definition slot_holder :: "SlotTable \<Rightarrow> int \<Rightarrow> string option" where
  "slot_holder st i =
     (if in_range i st \<and> se_State (st ! nat i) \<noteq> SlotUnassigned
      then Some (se_AgentID (st ! nat i)) else None)"

lemma free_entry_simps [simp]:
  "se_SlotID (free_entry i c) = i" "se_Class (free_entry i c) = c"
  "se_State (free_entry i c) = SlotUnassigned" "se_AgentID (free_entry i c) = ''''"
  "se_CorrelationID (free_entry i c) = ''''" "se_Priority (free_entry i c) = 0"
  by (simp_all add: free_entry_def)

lemma assigned_entry_simps [simp]:
  "se_SlotID (assigned_entry i c a p n) = i" "se_Class (assigned_entry i c a p n) = c"
  "se_State (assigned_entry i c a p n) = SlotAssigned"
  "se_AgentID (assigned_entry i c a p n) = a"
  "se_CorrelationID (assigned_entry i c a p n) = ''''"
  "se_Priority (assigned_entry i c a p n) = p"
  by (simp_all add: assigned_entry_def)

lemma slot_invD: "slot_inv st \<Longrightarrow> i < length st \<Longrightarrow> slot_ok i (st ! i)"
  by (simp add: slot_inv_def)

lemma slot_inv_update:
  "slot_inv st \<Longrightarrow> slot_ok i s \<Longrightarrow> slot_inv (st[i := s])"
  by (cases "i < length st") (auto simp: slot_inv_def nth_list_update list_update_beyond)

lemma slot_ok_free [intro]: "slot_ok i s \<Longrightarrow> slot_ok i (free_entry (int i) (se_Class s))"
  by (simp add: slot_ok_def)

lemma slot_inv_in_set:
  assumes "slot_inv st" "s \<in> set st"
  shows "0 \<le> se_SlotID s \<and> se_SlotID s < int (length st) \<and> st ! nat (se_SlotID s) = s \<and>
    slot_ok (nat (se_SlotID s)) s"
proof -
  from assms(2) obtain i where "i < length st" "st ! i = s" by (auto simp: in_set_conv_nth)
  with slot_invD [OF assms(1), of i] show ?thesis by (auto simp: slot_ok_def)
qed

lemma slot_inv_middle: "slot_inv (us @ s # vs) \<Longrightarrow> slot_ok (length us) s"
  using slot_invD [of "us @ s # vs" "length us"] by simp

lemma slot_inv_replace:
  "slot_inv (us @ s # vs) \<Longrightarrow> slot_ok (length us) s' \<Longrightarrow> slot_inv (us @ s' # vs)"
  using slot_inv_update [of "us @ s # vs" "length us" s'] by simp

lemma slot_inv_New: "slot_inv (NewSlotTableWithClasses a h)"
  by (auto simp: slot_inv_def slot_ok_def NewSlotTableWithClasses_def Let_def nth_append)

lemma prov_mset_update:
  "i < length st \<Longrightarrow>
    prov_mset (st[i := s]) =
      prov_mset st - prov_mset [st ! i] + prov_mset [s]"
proof -
  assume i: "i < length st"
  then have e: "st[i := s] = take i st @ s # drop (Suc i) st" by (rule upd_conv_take_nth_drop)
  have "prov_mset st = prov_mset (take i st @ st ! i # drop (Suc i) st)"
    using id_take_nth_drop [OF i] by simp
  then show ?thesis
    unfolding e by (auto simp: prov_mset_def)
qed

section \<open>Every operation keeps the table well-formed\<close>

text \<open>
  The common contract: the invariant holds again and no slot changes its class.
\<close>

definition keeps_table :: "SlotTable \<Rightarrow> SlotTable \<Rightarrow> bool" where
  "keeps_table st st' \<longleftrightarrow> slot_inv st' \<and> map se_Class st' = map se_Class st"

lemma in_range_nat: "in_range i st \<Longrightarrow> nat i < length st \<and> int (nat i) = i"
  by (auto simp: in_range_def)

lemma keeps_table_refl [intro]: "slot_inv st \<Longrightarrow> keeps_table st st"
  by (simp add: keeps_table_def)

lemma keeps_table_trans: "keeps_table a b \<Longrightarrow> keeps_table b c \<Longrightarrow> keeps_table a c"
  by (simp add: keeps_table_def)

lemma keeps_table_update:
  assumes "slot_inv st" "in_range i st" "se_SlotID s = i" "se_Class s = se_Class (st ! nat i)"
    and "se_State s = SlotUnassigned \<Longrightarrow> s = free_entry i (se_Class s)"
    and "se_State s = SlotAssigned \<Longrightarrow> se_CorrelationID s = ''''"
  shows "keeps_table st (st[nat i := s])"
proof -
  note r = in_range_nat [OF assms(2)]
  have "slot_ok (nat i) (st ! nat i)" using assms(1) r by (auto intro: slot_invD)
  then have "slot_ok (nat i) s" using assms r by (auto simp: slot_ok_def)
  moreover have "map se_Class (st[nat i := s]) = map se_Class st"
    using assms(4) r by (metis list_update_id map_update)
  ultimately show ?thesis
    using assms(1) by (simp add: keeps_table_def slot_inv_update)
qed

lemma AssignProvisional_keeps:
  "slot_inv st \<Longrightarrow> keeps_table st (fst (AssignProvisional i a p c n st))"
  by (auto simp: AssignProvisional_def intro!: keeps_table_update)

lemma Assign_keeps:
  "slot_inv st \<Longrightarrow> Assign i a p n st = Returns (st', ok) \<Longrightarrow> keeps_table st st'"
  by (auto simp: Assign_def in_range_def split: if_splits intro!: keeps_table_update)

lemma ForceAssign_keeps:
  "slot_inv st \<Longrightarrow> ForceAssign i a p n st = Returns st' \<Longrightarrow> keeps_table st st'"
  by (auto simp: ForceAssign_def in_range_def split: if_splits intro!: keeps_table_update)

lemma Release_keeps: "slot_inv st \<Longrightarrow> keeps_table st (Release i st)"
  by (auto simp: Release_def intro!: keeps_table_update)

lemma update_first_keeps:
  assumes "slot_inv st" and "\<And>i s. slot_ok i s \<Longrightarrow> P s \<Longrightarrow> slot_ok i (f s) \<and> se_Class (f s) = se_Class s"
  shows "keeps_table st (fst (update_first P f st))"
proof (cases rule: update_first_cases [of P f st])
  case none
  with assms show ?thesis by (simp add: keeps_table_def)
next
  case (some us x vs)
  with assms(1) have "slot_ok (length us) x" by (auto intro: slot_inv_middle)
  with assms some show ?thesis
    using slot_inv_replace [of us x vs "f x"] by (auto simp: keeps_table_def)
qed

lemma CommitAssignment_keeps: "slot_inv st \<Longrightarrow> keeps_table st (fst (CommitAssignment c st))"
  unfolding CommitAssignment_def
  by (auto simp: apsnd_def map_prod_def split_def slot_ok_def provisional_for_def
      intro!: update_first_keeps)

lemma RevertProvisional_keeps: "slot_inv st \<Longrightarrow> keeps_table st (fst (RevertProvisional c st))"
  unfolding RevertProvisional_def
  by (auto simp: apsnd_def map_prod_def split_def slot_ok_def intro!: update_first_keeps)

lemma ReleaseByAgent_nth:
  "i < length st \<Longrightarrow> fst (ReleaseByAgent a st) ! i =
     (if se_AgentID (st ! i) = a then free_entry (int i) (se_Class (st ! i)) else st ! i)"
  by (simp add: ReleaseByAgent_def nth_enumerate_eq)

lemma ReleaseByAgent_length [simp]: "length (fst (ReleaseByAgent a st)) = length st"
  by (simp add: ReleaseByAgent_def)

lemma ReleaseByAgent_keeps: "slot_inv st \<Longrightarrow> keeps_table st (fst (ReleaseByAgent a st))"
  by (auto simp: keeps_table_def slot_inv_def ReleaseByAgent_nth slot_ok_def
      intro!: nth_equalityI)

lemmas keeps_intros =
  AssignProvisional_keeps Assign_keeps ForceAssign_keeps Release_keeps
  CommitAssignment_keeps RevertProvisional_keeps ReleaseByAgent_keeps


section \<open>What the searches return\<close>

lemma FindUnassigned_Some:
  assumes "slot_inv st" "FindUnassigned c st = Some i"
  shows "in_range i st" "se_State (st ! nat i) = SlotUnassigned" "se_Class (st ! nat i) = c"
proof -
  from assms(2) obtain s where "s \<in> set st" "se_SlotID s = i" "se_Class s = c"
    "se_State s = SlotUnassigned"
    by (auto simp: FindUnassigned_def dest: find_Some_in)
  with slot_inv_in_set [OF assms(1), of s]
  show "in_range i st" "se_State (st ! nat i) = SlotUnassigned" "se_Class (st ! nat i) = c"
    by (auto simp: in_range_def)
qed

lemma FindUnassigned_None:
  "FindUnassigned c st = None \<longleftrightarrow> (\<forall>s \<in> set st. \<not> (se_Class s = c \<and> se_State s = SlotUnassigned))"
  by (auto simp: FindUnassigned_def find_None_iff)

text \<open>The entries a request of class \<open>c\<close> may preempt, and the reference for the search loop.\<close>

definition preempt_candidate :: "SlotClass \<Rightarrow> (string \<Rightarrow> bool) \<Rightarrow> SlotEntry \<Rightarrow> bool" where
  "preempt_candidate c preemptible s \<longleftrightarrow>
     se_Class s = c \<and> se_State s = SlotAssigned \<and> preemptible (se_AgentID s)"

definition slot_triple :: "SlotEntry \<Rightarrow> int \<times> string \<times> int" where
  "slot_triple s = (se_SlotID s, se_AgentID s, se_Priority s)"

lemma victim_step_eq:
  "victim_step c pr (b, a, p) s =
     (if preempt_candidate c pr s \<and> (b = -1 \<or> se_Priority s > p) then slot_triple s else (b, a, p))"
  by (auto simp: victim_step_def preempt_candidate_def slot_triple_def)

lemma victim_loop:
  assumes "\<forall>s \<in> set st. 0 \<le> se_SlotID s"
  shows "foldl (victim_step c pr) (-1, [], -1) st =
    (case first_best (\<lambda>x y. - se_Priority x < - se_Priority y)
        (filter (preempt_candidate c pr) st) of
       None \<Rightarrow> (-1, [], -1) | Some s \<Rightarrow> slot_triple s)"
  using assms
proof (induction st rule: rev_induct)
  case Nil
  then show ?case by simp
next
  case (snoc s st)
  let ?best = "first_best (\<lambda>x y. - se_Priority x < - se_Priority y) (filter (preempt_candidate c pr) st)"
  have nn: "0 \<le> se_SlotID b" if "?best = Some b" for b
    using first_best_least(1) [OF that] snoc.prems by auto
  show ?case
  proof (cases "preempt_candidate c pr s")
    case True
    show ?thesis
    proof (cases ?best)
      case None
      with True snoc show ?thesis by (simp add: first_best_snoc victim_step_eq)
    next
      case (Some b)
      with nn [OF Some] True snoc show ?thesis
        by (simp add: first_best_snoc victim_step_eq slot_triple_def)
    qed
  next
    case False
    with snoc show ?thesis
      by (simp add: victim_step_eq slot_triple_def split: option.splits)
  qed
qed

lemma FindLowestPriorityPreemptible_ref:
  assumes "slot_inv st"
  shows "FindLowestPriorityPreemptible c pr st =
    map_option slot_triple (first_best (\<lambda>x y. - se_Priority x < - se_Priority y)
      (filter (preempt_candidate c pr) st))"
proof -
  have nn: "\<forall>s \<in> set st. 0 \<le> se_SlotID s" using slot_inv_in_set [OF assms] by blast
  show ?thesis
  proof (cases "first_best (\<lambda>x y. - se_Priority x < - se_Priority y) (filter (preempt_candidate c pr) st)")
    case None
    with victim_loop [OF nn] show ?thesis by (simp add: FindLowestPriorityPreemptible_def)
  next
    case (Some b)
    with nn first_best_least(1) [OF Some] have "0 \<le> se_SlotID b" by auto
    with Some victim_loop [OF nn] show ?thesis
      by (simp add: FindLowestPriorityPreemptible_def slot_triple_def)
  qed
qed

section \<open>The provisional slots, as a multiset of correlation ids\<close>

lemma prov_mset_Cons [simp]:
  "prov_mset (s # st) = (if se_State s = SlotProvisional then {#se_CorrelationID s#} else {#}) + prov_mset st"
  by (simp add: prov_mset_def)

lemma prov_mset_Nil [simp]: "prov_mset [] = {#}"
  by (simp add: prov_mset_def)

lemma prov_mset_append [simp]: "prov_mset (xs @ ys) = prov_mset xs + prov_mset ys"
  by (simp add: prov_mset_def)

lemma prov_mset_in: "c \<in># prov_mset st \<longleftrightarrow> (\<exists>s \<in> set st. provisional_for c s)"
  by (auto simp: prov_mset_def provisional_for_def)

lemma prov_mset_replace_sub:
  assumes "i < length st" "se_State s \<noteq> SlotProvisional"
  shows "prov_mset (st[i := s]) \<subseteq># prov_mset st"
proof -
  have "prov_mset (take i st @ s # drop (Suc i) st) \<subseteq># prov_mset (take i st @ st ! i # drop (Suc i) st)"
    using assms(2) by simp
  then show ?thesis
    using assms(1) id_take_nth_drop [of i st] upd_conv_take_nth_drop [of i st s] by simp
qed

lemma prov_mset_AssignProvisional:
  assumes "AssignProvisional i a p c n st = (st', True)"
  shows "prov_mset st' = add_mset c (prov_mset st)"
proof -
  from assms have r: "in_range i st" and free: "se_State (st ! nat i) = SlotUnassigned"
    and st': "st' = st[nat i := \<lparr>se_SlotID = i, se_Class = se_Class (st ! nat i),
        se_State = SlotProvisional, se_AgentID = a, se_Priority = p, se_AssignedAt = n,
        se_CorrelationID = c\<rparr>]"
    by (auto simp: AssignProvisional_def split: if_splits)
  from in_range_nat [OF r] have "prov_mset st = prov_mset (take (nat i) st @ st ! nat i # drop (Suc (nat i)) st)"
    using id_take_nth_drop [of "nat i" st] by simp
  with free st' in_range_nat [OF r] show ?thesis
    by (simp add: upd_conv_take_nth_drop)
qed

lemma prov_mset_update_first:
  assumes "update_first (provisional_for c) f st = (st', Some s)"
    and "\<And>s. se_State (f s) \<noteq> SlotProvisional"
  shows "prov_mset st = add_mset c (prov_mset st')"
  using update_first_Some [of "provisional_for c" f st s] assms
  by (auto simp: provisional_for_def)

lemma prov_mset_Revert:
  "RevertProvisional c st = (st', Some i) \<Longrightarrow> prov_mset st = add_mset c (prov_mset st')"
  by (auto simp: RevertProvisional_def apsnd_def map_prod_def split: prod.splits
      intro: prov_mset_update_first)

lemma prov_mset_Commit:
  "CommitAssignment c st = (st', Some i) \<Longrightarrow> prov_mset st = add_mset c (prov_mset st')"
  by (auto simp: CommitAssignment_def apsnd_def map_prod_def split: prod.splits
      intro: prov_mset_update_first)

lemma Revert_None:
  "RevertProvisional c st = (st', None) \<Longrightarrow> st' = st \<and> c \<notin># prov_mset st"
  by (cases rule: update_first_cases [of "provisional_for c" "\<lambda>s. free_entry (se_SlotID s) (se_Class s)" st])
    (auto simp: RevertProvisional_def prov_mset_in)

lemma Commit_None:
  "CommitAssignment c st = (st', None) \<Longrightarrow> st' = st \<and> c \<notin># prov_mset st"
  by (cases rule: update_first_cases [of "provisional_for c"
        "\<lambda>s. s\<lparr>se_State := SlotAssigned, se_CorrelationID := []\<rparr>" st])
    (auto simp: CommitAssignment_def prov_mset_in)

lemma prov_mset_Release: "prov_mset (Release i st) \<subseteq># prov_mset st"
  by (auto simp: Release_def in_range_nat intro!: prov_mset_replace_sub)

lemma prov_mset_ForceAssign:
  "ForceAssign i a p n st = Returns st' \<Longrightarrow> prov_mset st' \<subseteq># prov_mset st"
  by (auto simp: ForceAssign_def split: if_splits intro!: prov_mset_replace_sub)

lemma prov_mset_map_sub:
  "(\<And>i s. (i, s) \<in> set (enumerate k st) \<Longrightarrow> f (i, s) = s \<or> se_State (f (i, s)) \<noteq> SlotProvisional) \<Longrightarrow>
    prov_mset (map f (enumerate k st)) \<subseteq># prov_mset st"
proof (induction st arbitrary: k)
  case Nil
  then show ?case by simp
next
  case (Cons s st)
  have "prov_mset (map f (enumerate (Suc k) st)) \<subseteq># prov_mset st"
    using Cons.prems by (intro Cons.IH) auto
  then have "prov_mset (map f (enumerate (Suc k) st)) \<subseteq># prov_mset st"
    "prov_mset (map f (enumerate (Suc k) st)) \<subseteq># add_mset (se_CorrelationID s) (prov_mset st)"
    by (auto intro: subset_mset.order_trans)
  with Cons.prems [of k s] show ?case by auto
qed

lemma prov_mset_ReleaseByAgent: "prov_mset (fst (ReleaseByAgent a st)) \<subseteq># prov_mset st"
  unfolding ReleaseByAgent_def fst_conv by (rule prov_mset_map_sub) auto


section \<open>The interface the broker relies on\<close>

text \<open>
  A pool of slots: a search for a free slot of a class, an assignment that only takes free
  slots, and a release. The laws are stated on the observers \<open>holder\<close> and \<open>class_of\<close>.
\<close>

locale slot_pool =
  fixes inv :: "'t \<Rightarrow> bool"
    and holder :: "'t \<Rightarrow> int \<Rightarrow> string option"
    and class_of :: "int \<Rightarrow> 't \<Rightarrow> string"
    and find_free :: "string \<Rightarrow> 't \<Rightarrow> int option"
    and assign :: "int \<Rightarrow> string \<Rightarrow> int \<Rightarrow> string \<Rightarrow> int \<Rightarrow> 't \<Rightarrow> 't \<times> bool"
    and release :: "int \<Rightarrow> 't \<Rightarrow> 't"
  assumes find_free_Some: "inv t \<Longrightarrow> find_free c t = Some i \<Longrightarrow> holder t i = None \<and> class_of i t = c \<and> c \<noteq> []"
    and find_free_None: "inv t \<Longrightarrow> find_free c t = None \<Longrightarrow> class_of i t = c \<Longrightarrow> c \<noteq> [] \<Longrightarrow> holder t i \<noteq> None"
    and assign_True: "inv t \<Longrightarrow> assign i a p q n t = (t', True) \<Longrightarrow>
          inv t' \<and> holder t i = None \<and> holder t' = (holder t)(i \<mapsto> a) \<and> (\<forall>j. class_of j t' = class_of j t)"
    and assign_False: "assign i a p q n t = (t', False) \<Longrightarrow> t' = t"
    and assign_free: "inv t \<Longrightarrow> holder t i = None \<Longrightarrow> class_of i t \<noteq> [] \<Longrightarrow> snd (assign i a p q n t)"
    and release_law: "inv t \<Longrightarrow>
          inv (release i t) \<and> holder (release i t) = (holder t)(i := None) \<and> (\<forall>j. class_of j (release i t) = class_of j t)"
begin

lemma find_then_assign:
  assumes "inv t" "find_free c t = Some i"
  shows "\<exists>t'. assign i a p q n t = (t', True) \<and> inv t' \<and> class_of i t' = c \<and>
    holder t' i = Some a \<and> (\<forall>j. j \<noteq> i \<longrightarrow> holder t' j = holder t j)"
proof -
  from find_free_Some [OF assms] have h: "holder t i = None" "class_of i t = c" "class_of i t \<noteq> []"
    by auto
  obtain t' ok where e: "assign i a p q n t = (t', ok)" by fastforce
  with assign_free [OF assms(1) h(1) h(3)] have ok by (metis snd_conv)
  with e assign_True [OF assms(1), of i a p q n t'] h show ?thesis by auto
qed

lemma assign_never_steals:
  assumes "inv t" "holder t j = Some b"
  shows "holder (fst (assign i a p q n t)) j = Some b"
proof (cases "snd (assign i a p q n t)")
  case True
  then have "assign i a p q n t = (fst (assign i a p q n t), True)" by (metis prod.collapse)
  from assign_True [OF assms(1) this] assms(2) show ?thesis by auto
next
  case False
  then have "assign i a p q n t = (fst (assign i a p q n t), False)" by (metis prod.collapse)
  from assign_False [OF this] assms(2) show ?thesis by simp
qed

lemma assign_release:
  assumes "inv t" "assign i a p q n t = (t', True)"
  shows "holder (release i t') = holder t"
  using assign_True [OF assms] release_law [of t' i] by auto

end

lemma keeps_table_length: "keeps_table st st' \<Longrightarrow> length st' = length st"
  unfolding keeps_table_def by (metis length_map)

lemma keeps_table_ClassOf:
  assumes "keeps_table st st'"
  shows "ClassOf i st' = ClassOf i st"
proof -
  from keeps_table_length [OF assms] have l: "length st' = length st" .
  have "se_Class (st' ! nat i) = se_Class (st ! nat i)" if "nat i < length st"
    using assms that l unfolding keeps_table_def by (metis nth_map)
  with l show ?thesis by (auto simp: ClassOf_def in_range_def)
qed

lemma slot_holder_update:
  "in_range i st \<Longrightarrow>
    slot_holder (st[nat i := s]) =
      (slot_holder st)(i := (if se_State s = SlotUnassigned then None else Some (se_AgentID s)))"
  by (rule ext) (auto simp: slot_holder_def in_range_def nth_list_update nat_eq_iff2 split: if_splits)

lemma ClassOf_known: "slot_inv st \<Longrightarrow> in_range i st \<Longrightarrow> ClassOf i st \<noteq> []"
  using slot_invD [of st "nat i"] in_range_nat [of i st]
  by (auto simp: ClassOf_def slot_ok_def slot_class_defs)

lemma IsOwnedBy_holder: "IsOwnedBy i a st \<longleftrightarrow> slot_holder st i = Some a"
  by (cases "se_State (st ! nat i)") (auto simp: IsOwnedBy_def slot_holder_def)

interpretation table: slot_pool slot_inv slot_holder ClassOf FindUnassigned AssignProvisional Release
proof (unfold_locales, goal_cases)
  case (1 t c i)
  from FindUnassigned_Some [OF 1] ClassOf_known [of t i] 1 show ?case
    by (auto simp: slot_holder_def ClassOf_def)
next
  case (2 t c i)
  then have r: "in_range i t" by (auto simp: ClassOf_def split: if_splits)
  with in_range_nat have "t ! nat i \<in> set t" by (auto intro: nth_mem)
  with 2 r show ?case by (auto simp: FindUnassigned_None slot_holder_def ClassOf_def)
next
  case (3 t i a p q n t')
  then have r: "in_range i t" and f: "se_State (t ! nat i) = SlotUnassigned"
    by (auto simp: AssignProvisional_def split: if_splits)
  from AssignProvisional_keeps [OF 3(1), of i a p q n] 3(2) have k: "keeps_table t t'" by simp
  have "slot_holder t' = (slot_holder t)(i \<mapsto> a)"
    using 3(2) r f by (auto simp: AssignProvisional_def slot_holder_update)
  with k keeps_table_ClassOf [OF k] f show ?case
    by (auto simp: keeps_table_def slot_holder_def)
next
  case (4 i a p q n t t')
  then show ?case by (auto simp: AssignProvisional_def split: if_splits)
next
  case (5 t i a p q n)
  then show ?case by (auto simp: AssignProvisional_def slot_holder_def ClassOf_def split: if_splits)
next
  case (6 t i)
  from Release_keeps [OF 6, of i] have k: "keeps_table t (Release i t)" .
  have "slot_holder (Release i t) = (slot_holder t)(i := None)"
    by (cases "in_range i t") (auto simp: Release_def slot_holder_update fun_eq_iff slot_holder_def)
  with k keeps_table_ClassOf [OF k] show ?case by (auto simp: keeps_table_def)
qed

lemma slot_holder_ReleaseByAgent:
  assumes "a \<noteq> []"
  shows "slot_holder (fst (ReleaseByAgent a st)) i = (if slot_holder st i = Some a then None else slot_holder st i)"
  using in_range_nat [of i st]
  by (cases "in_range i st") (auto simp: slot_holder_def ReleaseByAgent_nth in_range_def)

section \<open>Reachable tables\<close>

inductive slot_step :: "SlotTable \<Rightarrow> SlotTable \<Rightarrow> bool" where
  provisional: "slot_step st (fst (AssignProvisional i a p c n st))"
| commit: "slot_step st (fst (CommitAssignment c st))"
| revert: "slot_step st (fst (RevertProvisional c st))"
| assign: "Assign i a p n st = Returns (st', ok) \<Longrightarrow> slot_step st st'"
| force: "ForceAssign i a p n st = Returns st' \<Longrightarrow> slot_step st st'"
| release: "slot_step st (Release i st)"
| by_agent: "slot_step st (fst (ReleaseByAgent a st))"

inductive slots_reachable :: "int \<Rightarrow> int \<Rightarrow> SlotTable \<Rightarrow> bool" for a h where
  new: "slots_reachable a h (NewSlotTableWithClasses a h)"
| step: "slots_reachable a h st \<Longrightarrow> slot_step st st' \<Longrightarrow> slots_reachable a h st'"

lemma slot_step_keeps: "slot_step st st' \<Longrightarrow> slot_inv st \<Longrightarrow> keeps_table st st'"
  by (induction rule: slot_step.induct) (auto intro: keeps_intros)

text \<open>
  Whatever sequence of operations runs, every slot of the table keeps its own index as id, an
  unassigned slot has every other field zero, an assigned slot carries no correlation id, and
  the classes are those of the constructor: agent slots first, then hindsight slots, forever.
\<close>

theorem slots_reachable_inv:
  assumes "slots_reachable a h st"
  shows "slot_inv st \<and> map se_Class st =
    replicate (nat a) SlotClassAgent @ replicate (nat h) SlotClassHindsight"
  using assms
proof induction
  case new
  have "map se_Class (NewSlotTableWithClasses a h) =
      replicate (nat a) SlotClassAgent @ replicate (nat h) SlotClassHindsight"
    by (auto simp: NewSlotTableWithClasses_def Let_def map_replicate_trivial comp_def
        map_replicate_const)
  with slot_inv_New show ?case by blast
next
  case (step st st')
  with slot_step_keeps [of st st'] show ?case by (simp add: keeps_table_def)
qed

theorem slots_reachable_inv_witness:
  "slot_inv (Release 0 (NewSlotTableWithClasses 1 1)) \<and>
   map se_Class (Release 0 (NewSlotTableWithClasses 1 1)) =
     replicate (nat 1) SlotClassAgent @ replicate (nat 1) SlotClassHindsight"
  using slots_reachable_inv [OF slots_reachable.step [OF slots_reachable.new slot_step.release]]
  by blast

text \<open>
  Preemption picks its victim correctly: the result is the first slot of the given class, held
  for good by a preemptible agent, whose priority value is the largest (the least urgent); there
  is no result exactly if the class has no such slot.
\<close>

theorem FindLowestPriorityPreemptible_correct:
  assumes "slot_inv st"
  shows "case FindLowestPriorityPreemptible c pr st of
      None \<Rightarrow> \<not> (\<exists>s \<in> set st. preempt_candidate c pr s)
    | Some (i, a, p) \<Rightarrow>
        in_range i st \<and> preempt_candidate c pr (st ! nat i) \<and>
        a = se_AgentID (st ! nat i) \<and> p = se_Priority (st ! nat i) \<and>
        (\<forall>s \<in> set st. preempt_candidate c pr s \<longrightarrow> se_Priority s \<le> p) \<and>
        (\<forall>j < nat i. preempt_candidate c pr (st ! j) \<longrightarrow> se_Priority (st ! j) < p)"
proof (cases "first_best (\<lambda>x y. - se_Priority x < - se_Priority y) (filter (preempt_candidate c pr) st)")
  case None
  then have "\<not> (\<exists>s \<in> set st. preempt_candidate c pr s)" by (simp add: filter_empty_conv)
  with FindLowestPriorityPreemptible_ref [OF assms, of c pr] None show ?thesis by simp
next
  case (Some b)
  from first_best_filter [OF Some] obtain us vs where
    st: "st = us @ b # vs" and b: "preempt_candidate c pr b"
    and us: "\<forall>u \<in> set us. preempt_candidate c pr u \<longrightarrow> se_Priority u < se_Priority b"
    and vs: "\<forall>v \<in> set vs. preempt_candidate c pr v \<longrightarrow> se_Priority v \<le> se_Priority b"
    by auto
  from st slot_inv_middle [of us b vs] assms have i: "se_SlotID b = int (length us)"
    by (auto simp: slot_ok_def)
  have low: "se_Priority (st ! j) < se_Priority b" if "j < length us" "preempt_candidate c pr (st ! j)" for j
    using that us unfolding st by (auto simp: nth_append)
  have "\<forall>s \<in> set st. preempt_candidate c pr s \<longrightarrow> se_Priority s \<le> se_Priority b"
    using us vs unfolding st by auto
  with FindLowestPriorityPreemptible_ref [OF assms, of c pr] Some low i st b show ?thesis
    by (auto simp: slot_triple_def in_range_def)
qed


theorem FindLowestPriorityPreemptible_correct_witness:
  "let st = [assigned_entry 0 ''agent'' ''bg'' 1 0, assigned_entry 1 ''agent'' ''retro'' 5 0] in
   FindLowestPriorityPreemptible ''agent'' (\<lambda>_. True) st = Some (1, ''retro'', 5) \<and>
   (\<forall>s \<in> set st. preempt_candidate ''agent'' (\<lambda>_. True) s \<longrightarrow> se_Priority s \<le> 5)"
proof -
  let ?st = "[assigned_entry 0 ''agent'' ''bg'' 1 0, assigned_entry 1 ''agent'' ''retro'' 5 0]"
  have inv: "slot_inv ?st" by (auto simp: slot_inv_def slot_ok_def slot_class_defs less_Suc_eq)
  have r: "FindLowestPriorityPreemptible ''agent'' (\<lambda>_. True) ?st = Some (1, ''retro'', 5)"
    by (simp add: FindLowestPriorityPreemptible_def victim_step_def)
  from FindLowestPriorityPreemptible_correct [OF inv, of "''agent''" "\<lambda>_. True"] r
  show ?thesis by (simp add: Let_def)
qed

text \<open>Under a fresh correlation id, commit and revert find exactly the slot that was just taken.\<close>

definition provisional_entry :: "int \<Rightarrow> SlotClass \<Rightarrow> string \<Rightarrow> int \<Rightarrow> string \<Rightarrow> int \<Rightarrow> SlotEntry" where
  "provisional_entry i class agent p c now = \<lparr>se_SlotID = i, se_Class = class, se_State = SlotProvisional,
     se_AgentID = agent, se_Priority = p, se_AssignedAt = now, se_CorrelationID = c\<rparr>"

lemma update_first_taken:
  assumes fresh: "c \<notin># prov_mset st" and a: "AssignProvisional i agent p c now st = (st', True)"
  shows "update_first (provisional_for c) f st' =
    (st[nat i := f (provisional_entry i (se_Class (st ! nat i)) agent p c now)],
     Some (provisional_entry i (se_Class (st ! nat i)) agent p c now))"
proof -
  from a have r: "in_range i st" by (auto simp: AssignProvisional_def split: if_splits)
  then have n: "nat i < length st" by (simp add: in_range_nat)
  let ?us = "take (nat i) st" and ?vs = "drop (Suc (nat i)) st"
    and ?e = "provisional_entry i (se_Class (st ! nat i)) agent p c now"
  have st': "st' = ?us @ ?e # ?vs"
    using a r n upd_conv_take_nth_drop [of "nat i" st ?e]
    by (auto simp: AssignProvisional_def provisional_entry_def split: if_splits)
  have "\<forall>s \<in> set st. \<not> provisional_for c s" using fresh by (auto simp: prov_mset_in)
  then have no: "\<forall>u \<in> set ?us. \<not> provisional_for c u" "\<forall>u \<in> set ?vs. \<not> provisional_for c u"
    by (auto dest: in_set_takeD in_set_dropD)
  have here: "provisional_for c ?e" by (simp add: provisional_for_def provisional_entry_def)
  have "update_first (provisional_for c) f (us @ ?e # vs) = (us @ f ?e # vs, Some ?e)"
    if "\<forall>u \<in> set us. \<not> provisional_for c u" for us vs
    using that here by (induction us) auto
  from this [OF no(1)] show ?thesis
    unfolding st' using upd_conv_take_nth_drop [OF n, of "f ?e"] by simp
qed

lemma free_again:
  "slot_inv st \<Longrightarrow> in_range i st \<Longrightarrow> se_State (st ! nat i) = SlotUnassigned \<Longrightarrow>
    st[nat i := free_entry i (se_Class (st ! nat i))] = st"
  using slot_invD [of st "nat i"] in_range_nat [of i st] by (auto simp: slot_ok_def list_update_same_conv)

lemma commit_taken:
  assumes "c \<notin># prov_mset st" "AssignProvisional i agent p c now st = (st', True)"
  shows "CommitAssignment c st' = (st[nat i := assigned_entry i (se_Class (st ! nat i)) agent p now], Some i)"
  using update_first_taken [OF assms]
  by (simp add: CommitAssignment_def provisional_entry_def assigned_entry_def)

lemma release_taken:
  assumes "slot_inv st" "in_range i st" "se_State (st ! nat i) = SlotUnassigned" "se_Class s = se_Class (st ! nat i)"
  shows "Release i (st[nat i := s]) = st"
proof -
  have "in_range i (st[nat i := s])" using assms(2) by (simp add: in_range_def)
  with free_again [OF assms(1-3)] assms(4) in_range_nat [OF assms(2)] show ?thesis by (simp add: Release_def)
qed

text \<open>
  A provisional assignment that is not acknowledged leaves no trace: taking a free slot and
  reverting it (under a correlation id no other provisional slot uses) gives back the very
  same table and reports the slot that was freed.
\<close>

theorem assign_revert_roundtrip:
  assumes inv: "slot_inv st" and fresh: "c \<notin># prov_mset st"
    and a: "AssignProvisional i agent p c now st = (st', True)"
  shows "RevertProvisional c st' = (st, Some i)"
proof -
  from a have r: "in_range i st" and f: "se_State (st ! nat i) = SlotUnassigned"
    by (auto simp: AssignProvisional_def split: if_splits)
  show ?thesis
    using update_first_taken [OF fresh a] free_again [OF inv r f]
    by (simp add: RevertProvisional_def provisional_entry_def)
qed

theorem assign_revert_roundtrip_witness:
  "RevertProvisional ''c1'' (fst (AssignProvisional 0 ''main'' 0 ''c1'' 7 (NewSlotTable 2))) =
     (NewSlotTable 2, Some 0)"
proof -
  have "slot_inv (NewSlotTable 2)" by (simp add: NewSlotTable_def slot_inv_New)
  moreover have "''c1'' \<notin># prov_mset (NewSlotTable 2)"
    by (simp add: NewSlotTable_def NewSlotTableWithClasses_def Let_def prov_mset_def)
  moreover have "AssignProvisional 0 ''main'' 0 ''c1'' 7 (NewSlotTable 2) =
      (fst (AssignProvisional 0 ''main'' 0 ''c1'' 7 (NewSlotTable 2)), True)"
    by (simp add: AssignProvisional_def NewSlotTable_def NewSlotTableWithClasses_def Let_def in_range_def
        numeral_2_eq_2)
  ultimately show ?thesis by (rule assign_revert_roundtrip)
qed

end
