(* ===== verification/Go_Json.thy ===== *)
theory Go_Json
  imports Go_Prelude
begin

text \<open>
  JSON values and the rules by which \<^verbatim>\<open>encoding/json\<close> decodes a value into a Go struct: keys match
  field names without regard to case, unknown keys are ignored, a later key overwrites an
  earlier one, \<^verbatim>\<open>null\<close> leaves a scalar or struct field as it was and empties a slice, a value of
  the wrong type is an error, and a number with a fraction or exponent is no integer. \<open>JInt\<close> is an
  integer literal in the 64-bit range; every other number literal is a \<open>JReal\<close>. The
  concrete syntax (bytes to values) is not modelled: where the code parses text, the parser is
  an argument of the model.
\<close>

datatype json =
    JNull
  | JBool bool
  | JInt int
  | JReal rat
  | JStr string
  | JArr "json list"
  | JObj "(string \<times> json) list"

text \<open>A decoder gets the value the Go variable has before and the JSON value.\<close>

type_synonym 'a decoder = "'a \<Rightarrow> json \<Rightarrow> 'a option"

fun dec_string :: "string decoder" where
  "dec_string old JNull = Some old"
| "dec_string old (JStr s) = Some s"
| "dec_string old _ = None"

fun dec_int :: "int decoder" where
  "dec_int old JNull = Some old"
| "dec_int old (JInt n) = Some n"
| "dec_int old _ = None"

fun dec_bool :: "bool decoder" where
  "dec_bool old JNull = Some old"
| "dec_bool old (JBool b) = Some b"
| "dec_bool old _ = None"

fun dec_float :: "rat decoder" where
  "dec_float old JNull = Some old"
| "dec_float old (JInt n) = Some (of_int n)"
| "dec_float old (JReal q) = Some q"
| "dec_float old _ = None"

fun those_map :: "('a \<Rightarrow> 'b option) \<Rightarrow> 'a list \<Rightarrow> 'b list option" where
  "those_map f [] = Some []"
| "those_map f (x # xs) =
     (case f x of None \<Rightarrow> None | Some y \<Rightarrow> map_option ((#) y) (those_map f xs))"

fun dec_list :: "'a \<Rightarrow> 'a decoder \<Rightarrow> 'a list decoder" where
  "dec_list z d old JNull = Some []"
| "dec_list z d old (JArr js) = those_map (d z) js"
| "dec_list z d old _ = None"

text \<open>\<^verbatim>\<open>any\<close> and \<^verbatim>\<open>json.RawMessage\<close> take the value as it is.\<close>

definition dec_raw :: "json decoder" where
  "dec_raw old j = Some j"

definition dec_option :: "'a \<Rightarrow> 'a decoder \<Rightarrow> 'a option decoder" where
  "dec_option z d old j = (if j = JNull then Some None else map_option Some (d z j))"

type_synonym 'a field_dec = "string \<times> (json \<Rightarrow> 'a \<Rightarrow> 'a option)"

definition fld ::
  "string \<Rightarrow> 'v decoder \<Rightarrow> ('a \<Rightarrow> 'v) \<Rightarrow> (('v \<Rightarrow> 'v) \<Rightarrow> 'a \<Rightarrow> 'a) \<Rightarrow> 'a field_dec" where
  "fld name d get upd = (name, \<lambda>j a. map_option (\<lambda>v. upd (\<lambda>_. v) a) (d (get a) j))"

text \<open>
  Keys are compared after folding, as \<^verbatim>\<open>encoding/json\<close> does. The field names of the program are ASCII;
  besides the ASCII letters exactly two runes fold to a letter of theirs: U+017F (to s) and
  U+212A (to k), here by their UTF-8 bytes.
\<close>

fun fold_key :: "string \<Rightarrow> string" where
  "fold_key [] = []"
| "fold_key (c # s) =
     (if c = CHR 0xC5 \<and> take 1 s = [CHR 0xBF] then CHR ''s'' # fold_key (drop 1 s)
      else if c = CHR 0xE2 \<and> take 2 s = [CHR 0x84, CHR 0xAA] then CHR ''k'' # fold_key (drop 2 s)
      else char_lower c # fold_key s)"

definition dec_key :: "'a field_dec list \<Rightarrow> string \<Rightarrow> json \<Rightarrow> 'a \<Rightarrow> 'a option" where
  "dec_key fs k v a =
     (case find (\<lambda>(n, _). fold_key k = fold_key n) fs of None \<Rightarrow> Some a | Some (_, f) \<Rightarrow> f v a)"

fun dec_keys :: "'a field_dec list \<Rightarrow> 'a \<Rightarrow> (string \<times> json) list \<Rightarrow> 'a option" where
  "dec_keys fs a [] = Some a"
| "dec_keys fs a ((k, v) # kvs) =
     (case dec_key fs k v a of None \<Rightarrow> None | Some b \<Rightarrow> dec_keys fs b kvs)"

fun dec_struct :: "'a field_dec list \<Rightarrow> 'a decoder" where
  "dec_struct fs old JNull = Some old"
| "dec_struct fs old (JObj kvs) = dec_keys fs old kvs"
| "dec_struct fs old _ = None"

section \<open>Go maps\<close>

text \<open>
  A Go map is marshalled with its keys in ascending order; decoding an object into a map keeps the
  last of several equal keys. As a value, a map is the list of its entries in ascending order.
\<close>

definition map_entries :: "(string \<times> 'v) list \<Rightarrow> (string \<times> 'v) list" where
  "map_entries kvs = map (\<lambda>k. (k, the (map_of (rev kvs) k))) (sort (remdups (map fst kvs)))"

fun dec_str_entry :: "string \<times> json \<Rightarrow> (string \<times> string) option" where
  "dec_str_entry (k, v) = map_option (Pair k) (dec_string [] v)"

fun dec_str_map :: "(string \<times> string) list decoder" where
  "dec_str_map old JNull = Some []"
| "dec_str_map old (JObj kvs) = map_option (\<lambda>new. map_entries (old @ new)) (those_map dec_str_entry kvs)"
| "dec_str_map old _ = None"

definition enc_str_map :: "(string \<times> string) list \<Rightarrow> json" where
  "enc_str_map m = JObj (map (\<lambda>(k, v). (k, JStr v)) m)"

lemma map_entries_keys: "map fst (map_entries kvs) = sort (remdups (map fst kvs))"
  by (simp add: map_entries_def comp_def)

lemma map_entries_last: "(k, v) \<in> set (map_entries (kvs @ [(k, x)])) \<longleftrightarrow> v = x"
  by (auto simp: map_entries_def)

lemma map_of_map_entries: "map_of (map_entries kvs) k = map_of (rev kvs) k"
proof (cases "k \<in> fst ` set kvs")
  case True
  then have "map_of (rev kvs) k \<noteq> None" by (simp add: map_of_eq_None_iff)
  with True show ?thesis by (auto simp: map_entries_def map_of_map_restrict restrict_map_def)
next
  case False
  then have "map_of (rev kvs) k = None" "map_of (map_entries kvs) k = None"
    by (force simp: map_of_eq_None_iff map_entries_def)+
  then show ?thesis by simp
qed

lemma map_entries_sorted:
  assumes "sorted (map fst m)" "distinct (map fst m)"
  shows "map_entries m = m"
proof -
  have "sort (remdups (map fst m)) = map fst m" using assms by (simp add: distinct_remdups_id sorted_sort_id)
  moreover have "map_of (rev m) k = map_of m k" for k
    using assms(2) by (metis distinct_rev map_of_eqI rev_map set_map set_rev map_of_inject_set)
  moreover have "map (\<lambda>x. (fst x, the (map_of m (fst x)))) m = m"
    using assms(2) by (intro map_idI) auto
  ultimately show ?thesis by (simp add: map_entries_def comp_def)
qed

lemma map_entries_idem [simp]: "map_entries (map_entries m) = map_entries m"
  by (rule map_entries_sorted) (simp_all only: map_entries_keys, simp_all)

section \<open>Encoders\<close>

definition enc_list :: "('a \<Rightarrow> json) \<Rightarrow> 'a list \<Rightarrow> json" where
  "enc_list e xs = JArr (map e xs)"

text \<open>A field with \<^verbatim>\<open>omitempty\<close> is left out at its zero value.\<close>

definition omit_empty :: "string \<Rightarrow> json \<Rightarrow> (string \<times> json) list" where
  "omit_empty k v =
     (if v \<in> {JStr [], JInt 0, JBool False, JArr [], JNull, JObj []} then [] else [(k, v)])"

section \<open>Facts\<close>

lemma those_map_Some: "(\<And>x. x \<in> set xs \<Longrightarrow> f (e x) = Some x) \<Longrightarrow> those_map f (map e xs) = Some xs"
  by (induction xs) auto

lemma dec_enc_list [simp]:
  "(\<And>x. x \<in> set xs \<Longrightarrow> d z (e x) = Some x) \<Longrightarrow> dec_list z d old (enc_list e xs) = Some xs"
  by (simp add: enc_list_def those_map_Some)

lemma enc_list_Nil [simp]: "enc_list e [] = JArr []"
  by (simp add: enc_list_def)

lemma enc_list_eq_simps [simp]:
  "enc_list e xs \<noteq> JNull" "enc_list e xs \<noteq> JStr s" "enc_list e xs \<noteq> JInt n"
  "enc_list e xs \<noteq> JBool b" "enc_list e xs \<noteq> JObj kvs"
  "enc_list e xs = JArr [] \<longleftrightarrow> xs = []"
  by (auto simp: enc_list_def)

lemma dec_keys_append:
  "dec_keys fs a (xs @ ys) = (case dec_keys fs a xs of None \<Rightarrow> None | Some b \<Rightarrow> dec_keys fs b ys)"
  by (induction xs arbitrary: a) (auto split: option.splits)

lemma dec_keys_omit:
  assumes "dec_key fs k v a = Some b"
    and "v \<in> {JStr [], JInt 0, JBool False, JArr [], JNull, JObj []} \<Longrightarrow> b = a"
  shows "dec_keys fs a (omit_empty k v @ kvs) = dec_keys fs b kvs"
  using assms by (auto simp: omit_empty_def)

text \<open>Optional fields, one at a time: no case split on whether the field is there.\<close>

lemma dec_omit_str:
  assumes "dec_key fs k (JStr s) a = Some b" "s = [] \<Longrightarrow> b = a"
  shows "dec_keys fs a (omit_empty k (JStr s) @ kvs) = dec_keys fs b kvs"
    and "dec_keys fs a (omit_empty k (JStr s)) = Some b"
  using assms by (auto simp: omit_empty_def)

lemma dec_omit_list:
  assumes "dec_key fs k (enc_list e xs) a = Some b" "xs = [] \<Longrightarrow> b = a"
  shows "dec_keys fs a (omit_empty k (enc_list e xs) @ kvs) = dec_keys fs b kvs"
    and "dec_keys fs a (omit_empty k (enc_list e xs)) = Some b"
  using assms by (auto simp: omit_empty_def)

lemma dec_omit_int:
  assumes "dec_key fs k (JInt n) a = Some b" "n = 0 \<Longrightarrow> b = a"
  shows "dec_keys fs a (omit_empty k (JInt n) @ kvs) = dec_keys fs b kvs"
    and "dec_keys fs a (omit_empty k (JInt n)) = Some b"
  using assms by (auto simp: omit_empty_def)

lemma dec_omit_map:
  assumes "dec_key fs k (enc_str_map m) a = Some b" "m = [] \<Longrightarrow> b = a"
  shows "dec_keys fs a (omit_empty k (enc_str_map m) @ kvs) = dec_keys fs b kvs"
    and "dec_keys fs a (omit_empty k (enc_str_map m)) = Some b"
  using assms by (auto simp: omit_empty_def enc_str_map_def)

lemmas dec_omits = dec_omit_str dec_omit_list dec_omit_int dec_omit_map

lemma dec_enc_str_map [simp]: "map_entries m = m \<Longrightarrow> dec_str_map [] (enc_str_map m) = Some m"
proof -
  assume "map_entries m = m"
  moreover have "those_map dec_str_entry (map (\<lambda>(k, v). (k, JStr v)) m) = Some m"
    by (rule those_map_Some) auto
  ultimately show ?thesis by (simp add: enc_str_map_def)
qed

text \<open>What every field decoder keeps, the decoder of the struct keeps.\<close>

lemma dec_keys_keeps:
  assumes "\<And>n f v a b. (n, f) \<in> set fs \<Longrightarrow> P a \<Longrightarrow> f v a = Some b \<Longrightarrow> P b"
  shows "P a \<Longrightarrow> dec_keys fs a kvs = Some b \<Longrightarrow> P b"
proof (induction kvs arbitrary: a)
  case (Cons kv kvs)
  obtain k v where kv: "kv = (k, v)" by (cases kv)
  with Cons.prems obtain a' where a': "dec_key fs k v a = Some a'" "dec_keys fs a' kvs = Some b"
    by (auto split: option.splits)
  have "P a'"
  proof (cases "find (\<lambda>(n, _). fold_key k = fold_key n) fs")
    case None
    with a'(1) Cons.prems(1) show ?thesis by (simp add: dec_key_def)
  next
    case (Some nf)
    then have "nf \<in> set fs" by (metis find_Some_iff nth_mem)
    with a'(1) Some Cons.prems(1) assms [of "fst nf" "snd nf" a v a'] show ?thesis
      by (simp add: dec_key_def split_def)
  qed
  with Cons.IH a'(2) show ?case by blast
qed auto

lemma dec_struct_keeps:
  assumes "dec_struct fs a j = Some b" "P a"
    "\<And>n f v a b. (n, f) \<in> set fs \<Longrightarrow> P a \<Longrightarrow> f v a = Some b \<Longrightarrow> P b"
  shows "P b"
proof (cases j)
  case (JObj kvs)
  with assms(1) have "dec_keys fs a kvs = Some b" by simp
  from assms(3,2) this show ?thesis by (rule dec_keys_keeps)
qed (use assms(1,2) in simp_all)

lemma dec_str_map_normal: "dec_str_map old j = Some m \<Longrightarrow> map_entries m = m"
  by (cases j) (auto simp: map_entries_sorted)

lemma map_of_normal: "map_entries m = m \<Longrightarrow> map_of (rev m) k = map_of m k"
  by (metis map_of_map_entries)

text \<open>Keys are compared by their lower-case forms; these make literal keys compute.\<close>

lemmas key_simps = char_lower_def dec_key_def fld_def

end
