(* ===== verification/Messaging.thy ===== *)
theory Messaging
  imports Go_Json
begin

text \<open>
  The messages the services exchange over Valkey streams (\<^verbatim>\<open>internal/messaging\<close>): the envelope with
  its correlation id, the payload structs with their JSON codecs, and the consumer-group loop
  \<^verbatim>\<open>ConsumeStream\<close> with its error classes and back-off.
\<close>

section \<open>Message types\<close>

abbreviation TypeSlotRequest :: string where "TypeSlotRequest \<equiv> ''slot_request''"
abbreviation TypeSlotAssigned :: string where "TypeSlotAssigned \<equiv> ''slot_assigned''"
abbreviation TypeSlotAssignedAck :: string where "TypeSlotAssignedAck \<equiv> ''slot_assigned_ack''"
abbreviation TypeSlotRelease :: string where "TypeSlotRelease \<equiv> ''slot_release''"
abbreviation TypePreempt :: string where "TypePreempt \<equiv> ''preempt''"
abbreviation TypePreemptAck :: string where "TypePreemptAck \<equiv> ''preempt_ack''"
abbreviation TypeRegister :: string where "TypeRegister \<equiv> ''register''"
abbreviation TypeDeregister :: string where "TypeDeregister \<equiv> ''deregister''"
abbreviation TypeChatRequest :: string where "TypeChatRequest \<equiv> ''chat_request''"
abbreviation TypeChatResponse :: string where "TypeChatResponse \<equiv> ''chat_response''"
abbreviation TypeToken :: string where "TypeToken \<equiv> ''token''"
abbreviation TypeToolCall :: string where "TypeToolCall \<equiv> ''tool_call''"
abbreviation TypeToolResult :: string where "TypeToolResult \<equiv> ''tool_result''"
abbreviation TypeContextAssembled :: string where "TypeContextAssembled \<equiv> ''context_assembled''"

section \<open>Payloads\<close>

record ToolCall =
  tc_ID :: string
  tc_Type :: string
  tc_Name :: string       \<comment> \<open>\<^verbatim>\<open>Function.Name\<close>\<close>
  tc_Arguments :: string  \<comment> \<open>\<^verbatim>\<open>Function.Arguments\<close>\<close>

record ChatMsg =
  cm_Role :: string
  cm_Content :: string
  cm_ToolCalls :: "ToolCall list"
  cm_ToolCallID :: string

record ToolResult =
  tr_CallID :: string
  tr_Output :: string

record SlotRequestPayload =
  sr_AgentID :: string
  sr_Priority :: int
  sr_SlotClass :: string

record SlotAssignedPayload =
  sa_SlotID :: int

record SlotAssignedAckPayload =
  ack_AgentID :: string
  ack_SlotID :: int

record SlotReleasePayload =
  rel_AgentID :: string
  rel_SlotID :: int

record DeregisterPayload =
  dr_AgentID :: string

record TokenPayload =
  tk_SessionID :: string
  tk_Token :: string
  tk_Done :: bool

record ToolCallPayload =
  tcp_SessionID :: string
  tcp_Call :: ToolCall
  tcp_Done :: bool

record LLMRequestPayload =
  lr_SlotID :: int
  lr_SlotClass :: string
  lr_Messages :: "ChatMsg list"
  lr_Stream :: bool
  lr_Tools :: "json list"  \<comment> \<open>\<^verbatim>\<open>[]ToolSchema\<close>, passed through to the server\<close>
  lr_ToolChoice :: string

record ChatRequestPayload =
  chr_SessionID :: string
  chr_Messages :: "ChatMsg list"
  chr_Model :: string
  chr_Stream :: bool
  chr_SpeakerID :: string

record ToolResultPayload =
  trp_SessionID :: string
  trp_CallID :: string
  trp_Output :: string

record ContextAssembledPayload =
  ca_SessionID :: string
  ca_Messages :: "ChatMsg list"
  ca_TargetAgent :: string
  ca_ReplyStream :: string
  ca_SpeakerID :: string

record ChatResponsePayload =
  cr_SessionID :: string
  cr_Content :: string
  cr_ToolCalls :: "ToolCall list"
  cr_ToolResults :: "ToolResult list"
  cr_Done :: bool

record SessionEventPayload =
  ev_SessionID :: string
  ev_Event :: string

section \<open>Decoding and encoding payloads\<close>

definition zero_ToolCall :: ToolCall where
  "zero_ToolCall = \<lparr>tc_ID = [], tc_Type = [], tc_Name = [], tc_Arguments = []\<rparr>"

definition dec_ToolCallFunction :: "ToolCall decoder" where
  "dec_ToolCallFunction = dec_struct
     [fld ''name'' dec_string tc_Name tc_Name_update,
      fld ''arguments'' dec_string tc_Arguments tc_Arguments_update]"

definition dec_ToolCall :: "ToolCall decoder" where
  "dec_ToolCall = dec_struct
     [fld ''id'' dec_string tc_ID tc_ID_update,
      fld ''type'' dec_string tc_Type tc_Type_update,
      (''function'', \<lambda>j c. dec_ToolCallFunction c j)]"

definition enc_ToolCall :: "ToolCall \<Rightarrow> json" where
  "enc_ToolCall c = JObj
     [(''id'', JStr (tc_ID c)), (''type'', JStr (tc_Type c)),
      (''function'', JObj [(''name'', JStr (tc_Name c)), (''arguments'', JStr (tc_Arguments c))])]"

definition zero_ChatMsg :: ChatMsg where
  "zero_ChatMsg = \<lparr>cm_Role = [], cm_Content = [], cm_ToolCalls = [], cm_ToolCallID = []\<rparr>"

definition dec_ChatMsg :: "ChatMsg decoder" where
  "dec_ChatMsg = dec_struct
     [fld ''role'' dec_string cm_Role cm_Role_update,
      fld ''content'' dec_string cm_Content cm_Content_update,
      fld ''tool_calls'' (dec_list zero_ToolCall dec_ToolCall) cm_ToolCalls cm_ToolCalls_update,
      fld ''tool_call_id'' dec_string cm_ToolCallID cm_ToolCallID_update]"

definition enc_ChatMsg :: "ChatMsg \<Rightarrow> json" where
  "enc_ChatMsg m = JObj
     ([(''role'', JStr (cm_Role m)), (''content'', JStr (cm_Content m))] @
      omit_empty ''tool_calls'' (enc_list enc_ToolCall (cm_ToolCalls m)) @
      omit_empty ''tool_call_id'' (JStr (cm_ToolCallID m)))"

definition dec_SlotRequestPayload :: "json \<Rightarrow> SlotRequestPayload option" where
  "dec_SlotRequestPayload = dec_struct
     [fld ''agent_id'' dec_string sr_AgentID sr_AgentID_update,
      fld ''priority'' dec_int sr_Priority sr_Priority_update,
      fld ''slot_class'' dec_string sr_SlotClass sr_SlotClass_update]
     \<lparr>sr_AgentID = [], sr_Priority = 0, sr_SlotClass = []\<rparr>"

definition enc_SlotRequestPayload :: "SlotRequestPayload \<Rightarrow> json" where
  "enc_SlotRequestPayload p = JObj
     ([(''agent_id'', JStr (sr_AgentID p)), (''priority'', JInt (sr_Priority p))] @
      omit_empty ''slot_class'' (JStr (sr_SlotClass p)))"

definition dec_SlotAssignedPayload :: "json \<Rightarrow> SlotAssignedPayload option" where
  "dec_SlotAssignedPayload = dec_struct
     [fld ''slot_id'' dec_int sa_SlotID sa_SlotID_update] \<lparr>sa_SlotID = 0\<rparr>"

definition enc_SlotAssignedPayload :: "SlotAssignedPayload \<Rightarrow> json" where
  "enc_SlotAssignedPayload p = JObj [(''slot_id'', JInt (sa_SlotID p))]"

definition dec_SlotAssignedAckPayload :: "json \<Rightarrow> SlotAssignedAckPayload option" where
  "dec_SlotAssignedAckPayload = dec_struct
     [fld ''agent_id'' dec_string ack_AgentID ack_AgentID_update,
      fld ''slot_id'' dec_int ack_SlotID ack_SlotID_update] \<lparr>ack_AgentID = [], ack_SlotID = 0\<rparr>"

definition enc_SlotAssignedAckPayload :: "SlotAssignedAckPayload \<Rightarrow> json" where
  "enc_SlotAssignedAckPayload p =
     JObj [(''agent_id'', JStr (ack_AgentID p)), (''slot_id'', JInt (ack_SlotID p))]"

definition dec_SlotReleasePayload :: "json \<Rightarrow> SlotReleasePayload option" where
  "dec_SlotReleasePayload = dec_struct
     [fld ''agent_id'' dec_string rel_AgentID rel_AgentID_update,
      fld ''slot_id'' dec_int rel_SlotID rel_SlotID_update] \<lparr>rel_AgentID = [], rel_SlotID = 0\<rparr>"

definition enc_SlotReleasePayload :: "SlotReleasePayload \<Rightarrow> json" where
  "enc_SlotReleasePayload p =
     JObj [(''agent_id'', JStr (rel_AgentID p)), (''slot_id'', JInt (rel_SlotID p))]"

definition dec_DeregisterPayload :: "json \<Rightarrow> DeregisterPayload option" where
  "dec_DeregisterPayload = dec_struct
     [fld ''agent_id'' dec_string dr_AgentID dr_AgentID_update] \<lparr>dr_AgentID = []\<rparr>"

definition enc_DeregisterPayload :: "DeregisterPayload \<Rightarrow> json" where
  "enc_DeregisterPayload p = JObj [(''agent_id'', JStr (dr_AgentID p))]"

definition dec_TokenPayload :: "json \<Rightarrow> TokenPayload option" where
  "dec_TokenPayload = dec_struct
     [fld ''session_id'' dec_string tk_SessionID tk_SessionID_update,
      fld ''token'' dec_string tk_Token tk_Token_update,
      fld ''done'' dec_bool tk_Done tk_Done_update]
     \<lparr>tk_SessionID = [], tk_Token = [], tk_Done = False\<rparr>"

definition enc_TokenPayload :: "TokenPayload \<Rightarrow> json" where
  "enc_TokenPayload p = JObj
     [(''session_id'', JStr (tk_SessionID p)), (''token'', JStr (tk_Token p)), (''done'', JBool (tk_Done p))]"

definition dec_ToolCallPayload :: "json \<Rightarrow> ToolCallPayload option" where
  "dec_ToolCallPayload = dec_struct
     [fld ''session_id'' dec_string tcp_SessionID tcp_SessionID_update,
      fld ''call'' dec_ToolCall tcp_Call tcp_Call_update,
      fld ''done'' dec_bool tcp_Done tcp_Done_update]
     \<lparr>tcp_SessionID = [], tcp_Call = zero_ToolCall, tcp_Done = False\<rparr>"

definition enc_ToolCallPayload :: "ToolCallPayload \<Rightarrow> json" where
  "enc_ToolCallPayload p = JObj
     [(''session_id'', JStr (tcp_SessionID p)), (''call'', enc_ToolCall (tcp_Call p)),
      (''done'', JBool (tcp_Done p))]"

definition dec_LLMRequestPayload :: "json \<Rightarrow> LLMRequestPayload option" where
  "dec_LLMRequestPayload = dec_struct
     [fld ''slot_id'' dec_int lr_SlotID lr_SlotID_update,
      fld ''slot_class'' dec_string lr_SlotClass lr_SlotClass_update,
      fld ''messages'' (dec_list zero_ChatMsg dec_ChatMsg) lr_Messages lr_Messages_update,
      fld ''stream'' dec_bool lr_Stream lr_Stream_update,
      fld ''tools'' (dec_list JNull dec_raw) lr_Tools lr_Tools_update,
      fld ''tool_choice'' dec_string lr_ToolChoice lr_ToolChoice_update]
     \<lparr>lr_SlotID = 0, lr_SlotClass = [], lr_Messages = [], lr_Stream = False, lr_Tools = [],
      lr_ToolChoice = []\<rparr>"

definition enc_LLMRequestPayload :: "LLMRequestPayload \<Rightarrow> json" where
  "enc_LLMRequestPayload p = JObj
     ([(''slot_id'', JInt (lr_SlotID p))] @
      omit_empty ''slot_class'' (JStr (lr_SlotClass p)) @
      [(''messages'', enc_list enc_ChatMsg (lr_Messages p)), (''stream'', JBool (lr_Stream p))] @
      omit_empty ''tools'' (JArr (lr_Tools p)) @
      omit_empty ''tool_choice'' (JStr (lr_ToolChoice p)))"

definition dec_SessionEventPayload :: "json \<Rightarrow> SessionEventPayload option" where
  "dec_SessionEventPayload = dec_struct
     [fld ''session_id'' dec_string ev_SessionID ev_SessionID_update,
      fld ''event'' dec_string ev_Event ev_Event_update] \<lparr>ev_SessionID = [], ev_Event = []\<rparr>"

definition dec_ChatRequestPayload :: "json \<Rightarrow> ChatRequestPayload option" where
  "dec_ChatRequestPayload = dec_struct
     [fld ''session_id'' dec_string chr_SessionID chr_SessionID_update,
      fld ''messages'' (dec_list zero_ChatMsg dec_ChatMsg) chr_Messages chr_Messages_update,
      fld ''model'' dec_string chr_Model chr_Model_update,
      fld ''stream'' dec_bool chr_Stream chr_Stream_update,
      fld ''speaker_id'' dec_string chr_SpeakerID chr_SpeakerID_update]
     \<lparr>chr_SessionID = [], chr_Messages = [], chr_Model = [], chr_Stream = False, chr_SpeakerID = []\<rparr>"

definition enc_ChatRequestPayload :: "ChatRequestPayload \<Rightarrow> json" where
  "enc_ChatRequestPayload p = JObj
     ([(''session_id'', JStr (chr_SessionID p)), (''messages'', enc_list enc_ChatMsg (chr_Messages p))] @
      omit_empty ''model'' (JStr (chr_Model p)) @ [(''stream'', JBool (chr_Stream p))] @
      omit_empty ''speaker_id'' (JStr (chr_SpeakerID p)))"

definition dec_ContextAssembledPayload :: "json \<Rightarrow> ContextAssembledPayload option" where
  "dec_ContextAssembledPayload = dec_struct
     [fld ''session_id'' dec_string ca_SessionID ca_SessionID_update,
      fld ''messages'' (dec_list zero_ChatMsg dec_ChatMsg) ca_Messages ca_Messages_update,
      fld ''target_agent'' dec_string ca_TargetAgent ca_TargetAgent_update,
      fld ''reply_stream'' dec_string ca_ReplyStream ca_ReplyStream_update,
      fld ''speaker_id'' dec_string ca_SpeakerID ca_SpeakerID_update]
     \<lparr>ca_SessionID = [], ca_Messages = [], ca_TargetAgent = [], ca_ReplyStream = [], ca_SpeakerID = []\<rparr>"

definition enc_ContextAssembledPayload :: "ContextAssembledPayload \<Rightarrow> json" where
  "enc_ContextAssembledPayload p = JObj
     ([(''session_id'', JStr (ca_SessionID p)), (''messages'', enc_list enc_ChatMsg (ca_Messages p)),
       (''target_agent'', JStr (ca_TargetAgent p)), (''reply_stream'', JStr (ca_ReplyStream p))] @
      omit_empty ''speaker_id'' (JStr (ca_SpeakerID p)))"

definition dec_ToolResult :: "ToolResult decoder" where
  "dec_ToolResult = dec_struct
     [fld ''call_id'' dec_string tr_CallID tr_CallID_update,
      fld ''output'' dec_string tr_Output tr_Output_update]"

definition enc_ToolResult :: "ToolResult \<Rightarrow> json" where
  "enc_ToolResult r = JObj [(''call_id'', JStr (tr_CallID r)), (''output'', JStr (tr_Output r))]"

definition dec_ChatResponsePayload :: "json \<Rightarrow> ChatResponsePayload option" where
  "dec_ChatResponsePayload = dec_struct
     [fld ''session_id'' dec_string cr_SessionID cr_SessionID_update,
      fld ''content'' dec_string cr_Content cr_Content_update,
      fld ''tool_calls'' (dec_list zero_ToolCall dec_ToolCall) cr_ToolCalls cr_ToolCalls_update,
      fld ''tool_results'' (dec_list \<lparr>tr_CallID = [], tr_Output = []\<rparr> dec_ToolResult) cr_ToolResults cr_ToolResults_update,
      fld ''done'' dec_bool cr_Done cr_Done_update]
     \<lparr>cr_SessionID = [], cr_Content = [], cr_ToolCalls = [], cr_ToolResults = [], cr_Done = False\<rparr>"

definition enc_ChatResponsePayload :: "ChatResponsePayload \<Rightarrow> json" where
  "enc_ChatResponsePayload p = JObj
     ([(''session_id'', JStr (cr_SessionID p)), (''content'', JStr (cr_Content p))] @
      omit_empty ''tool_calls'' (enc_list enc_ToolCall (cr_ToolCalls p)) @
      omit_empty ''tool_results'' (enc_list enc_ToolResult (cr_ToolResults p)) @
      [(''done'', JBool (cr_Done p))])"

definition dec_ToolResultPayload :: "json \<Rightarrow> ToolResultPayload option" where
  "dec_ToolResultPayload = dec_struct
     [fld ''session_id'' dec_string trp_SessionID trp_SessionID_update,
      fld ''call_id'' dec_string trp_CallID trp_CallID_update,
      fld ''output'' dec_string trp_Output trp_Output_update]
     \<lparr>trp_SessionID = [], trp_CallID = [], trp_Output = []\<rparr>"

definition enc_SessionEventPayload :: "SessionEventPayload \<Rightarrow> json" where
  "enc_SessionEventPayload p = JObj [(''session_id'', JStr (ev_SessionID p)), (''event'', JStr (ev_Event p))]"

lemmas payload_defs =
  dec_SlotRequestPayload_def enc_SlotRequestPayload_def dec_SlotAssignedPayload_def
  enc_SlotAssignedPayload_def dec_SlotAssignedAckPayload_def enc_SlotAssignedAckPayload_def
  dec_SlotReleasePayload_def enc_SlotReleasePayload_def dec_DeregisterPayload_def
  enc_DeregisterPayload_def dec_TokenPayload_def enc_TokenPayload_def

lemma dec_enc_ToolCall [simp]: "dec_ToolCall z (enc_ToolCall c) = Some c"
  by (simp add: dec_ToolCall_def enc_ToolCall_def dec_ToolCallFunction_def key_simps)

lemma dec_enc_ChatMsg [simp]: "dec_ChatMsg zero_ChatMsg (enc_ChatMsg m) = Some m"
  by (simp add: dec_ChatMsg_def enc_ChatMsg_def zero_ChatMsg_def omit_empty_def key_simps)

lemma those_map_raw [simp]: "those_map (dec_raw z) js = Some js"
  by (induction js) (auto simp: dec_raw_def)

lemma dec_enc_SlotRequest [simp]: "dec_SlotRequestPayload (enc_SlotRequestPayload p) = Some p"
  by (simp add: payload_defs omit_empty_def key_simps)

lemma dec_enc_SlotAssigned [simp]: "dec_SlotAssignedPayload (enc_SlotAssignedPayload p) = Some p"
  by (simp add: payload_defs key_simps)

lemma dec_enc_SlotAssignedAck [simp]:
  "dec_SlotAssignedAckPayload (enc_SlotAssignedAckPayload p) = Some p"
  by (simp add: payload_defs key_simps)

lemma dec_enc_SlotRelease [simp]: "dec_SlotReleasePayload (enc_SlotReleasePayload p) = Some p"
  by (simp add: payload_defs key_simps)

lemma dec_enc_Deregister [simp]: "dec_DeregisterPayload (enc_DeregisterPayload p) = Some p"
  by (simp add: payload_defs key_simps)

lemma dec_enc_ChatRequest [simp]: "dec_ChatRequestPayload (enc_ChatRequestPayload p) = Some p"
  by (cases p) (simp add: dec_ChatRequestPayload_def enc_ChatRequestPayload_def dec_omit_str key_simps)

lemma dec_enc_ContextAssembled [simp]: "dec_ContextAssembledPayload (enc_ContextAssembledPayload p) = Some p"
  by (cases p) (simp add: dec_ContextAssembledPayload_def enc_ContextAssembledPayload_def dec_omit_str key_simps)

lemma dec_enc_ToolResult [simp]: "dec_ToolResult z (enc_ToolResult r) = Some r"
  by (cases r) (simp add: dec_ToolResult_def enc_ToolResult_def key_simps)

lemma dec_enc_ChatResponse [simp]: "dec_ChatResponsePayload (enc_ChatResponsePayload p) = Some p"
  by (cases p) (simp add: dec_ChatResponsePayload_def enc_ChatResponsePayload_def dec_omit_list key_simps)

lemma dec_enc_SessionEvent [simp]: "dec_SessionEventPayload (enc_SessionEventPayload p) = Some p"
  by (cases p) (simp add: dec_SessionEventPayload_def enc_SessionEventPayload_def key_simps)

lemma dec_enc_Token [simp]: "dec_TokenPayload (enc_TokenPayload p) = Some p"
  by (simp add: payload_defs key_simps)

lemma dec_enc_ToolCallPayload [simp]: "dec_ToolCallPayload (enc_ToolCallPayload p) = Some p"
  by (simp add: dec_ToolCallPayload_def enc_ToolCallPayload_def key_simps)

lemma dec_enc_LLMRequest [simp]: "dec_LLMRequestPayload (enc_LLMRequestPayload p) = Some p"
  by (simp add: dec_LLMRequestPayload_def enc_LLMRequestPayload_def omit_empty_def key_simps)


section \<open>The envelope\<close>

record Message =
  m_Type :: string
  m_CorrelationID :: string
  m_Timestamp :: int
  m_Source :: string
  m_ReplyStream :: string
  m_Payload :: json

text \<open>
  The payloads are structs of strings, integers, booleans and lists of them: marshalling one
  never fails, so the error returns of \<^verbatim>\<open>NewMessage\<close> and \<^verbatim>\<open>NewReply\<close> do not occur. The fresh
  correlation id (\<^verbatim>\<open>uuid.New\<close>) and the clock are arguments.
\<close>

definition NewMessage :: "string \<Rightarrow> int \<Rightarrow> string \<Rightarrow> string \<Rightarrow> json \<Rightarrow> Message" where
  "NewMessage fresh now msgType source payload =
     \<lparr>m_Type = msgType, m_CorrelationID = fresh, m_Timestamp = now, m_Source = source,
      m_ReplyStream = [], m_Payload = payload\<rparr>"

definition NewReply :: "int \<Rightarrow> Message \<Rightarrow> string \<Rightarrow> string \<Rightarrow> json \<Rightarrow> Message" where
  "NewReply now original msgType source payload =
     \<lparr>m_Type = msgType, m_CorrelationID = m_CorrelationID original, m_Timestamp = now,
      m_Source = source, m_ReplyStream = [], m_Payload = payload\<rparr>"

definition enc_Message :: "Message \<Rightarrow> json" where
  "enc_Message m = JObj
     ([(''type'', JStr (m_Type m)), (''correlation_id'', JStr (m_CorrelationID m)),
       (''timestamp'', JInt (m_Timestamp m)), (''source'', JStr (m_Source m))] @
      omit_empty ''reply_stream'' (JStr (m_ReplyStream m)) @
      [(''payload'', m_Payload m)])"

definition dec_Message :: "json \<Rightarrow> Message option" where
  "dec_Message = dec_struct
     [fld ''type'' dec_string m_Type m_Type_update,
      fld ''correlation_id'' dec_string m_CorrelationID m_CorrelationID_update,
      fld ''timestamp'' dec_int m_Timestamp m_Timestamp_update,
      fld ''source'' dec_string m_Source m_Source_update,
      fld ''reply_stream'' dec_string m_ReplyStream m_ReplyStream_update,
      fld ''payload'' dec_raw m_Payload m_Payload_update]
     \<lparr>m_Type = [], m_CorrelationID = [], m_Timestamp = 0, m_Source = [], m_ReplyStream = [],
      m_Payload = JNull\<rparr>"

text \<open>
  A stream entry is a list of fields. \<open>render\<close> and \<open>parse\<close> are the text layer of \<^verbatim>\<open>encoding/json\<close>.
\<close>

definition Encode :: "(json \<Rightarrow> 't) \<Rightarrow> Message \<Rightarrow> (string \<times> 't) list" where
  "Encode render m = [(''data'', render (enc_Message m))]"

definition DecodeFromStream :: "('t \<Rightarrow> json option) \<Rightarrow> (string \<times> 't) list \<Rightarrow> Message option" where
  "DecodeFromStream parse values =
     (case map_of values ''data'' of
        None \<Rightarrow> None
      | Some data \<Rightarrow> (case parse data of None \<Rightarrow> None | Some j \<Rightarrow> dec_Message j))"

lemma dec_enc_Message [simp]: "dec_Message (enc_Message m) = Some m"
  by (simp add: dec_Message_def enc_Message_def dec_raw_def omit_empty_def key_simps)

text \<open>
  \<^verbatim>\<open>ReadGroup\<close>: the decoded messages with their entry ids, and the ids acknowledged on the spot
  because their entry does not decode.
\<close>

fun ReadGroup ::
  "('t \<Rightarrow> json option) \<Rightarrow> (string \<times> (string \<times> 't) list) list \<Rightarrow> (Message \<times> string) list \<times> string list" where
  "ReadGroup parse [] = ([], [])"
| "ReadGroup parse ((eid, values) # es) =
     (let (ms, acks) = ReadGroup parse es in
      case DecodeFromStream parse values of
        None \<Rightarrow> (ms, eid # acks)
      | Some m \<Rightarrow> ((m, eid) # ms, acks))"

section \<open>Waiting for a reply\<close>

datatype redis_error = RedisNil | RedisError string

datatype poll =
    PollDeadline                                   \<comment> \<open>\<^verbatim>\<open><-deadline\<close>\<close>
  | PollCtxDone string                             \<comment> \<open>\<^verbatim>\<open><-ctx.Done()\<close>\<close>
  | PollRead "redis_error + (Message \<times> string) list"  \<comment> \<open>\<^verbatim>\<open>default\<close>: one \<^verbatim>\<open>ReadGroup\<close>\<close>

datatype wait_error = ErrTimeout | ErrCtx string | ErrRead string

text \<open>
  One \<^verbatim>\<open>for i, msg := range msgs\<close> pass: the messages acknowledged, and the reply if found.
\<close>

fun scan_replies :: "string \<Rightarrow> (Message \<times> string) list \<Rightarrow> string list \<times> Message option" where
  "scan_replies corr [] = ([], None)"
| "scan_replies corr ((m, eid) # ms) =
     (if m_CorrelationID m = corr then ([eid], Some m)
      else (let (acks, r) = scan_replies corr ms in (eid # acks, r)))"

text \<open>
  The polling loop over the outcomes of its polls; \<open>None\<close> if it is still waiting at their end.
\<close>

fun WaitForReply :: "string \<Rightarrow> poll list \<Rightarrow> string list \<times> (wait_error + Message) option" where
  "WaitForReply corr [] = ([], None)"
| "WaitForReply corr (p # ps) =
     (case p of
        PollDeadline \<Rightarrow> ([], Some (Inl ErrTimeout))
      | PollCtxDone e \<Rightarrow> ([], Some (Inl (ErrCtx e)))
      | PollRead (Inl RedisNil) \<Rightarrow> WaitForReply corr ps
      | PollRead (Inl (RedisError e)) \<Rightarrow> ([], Some (Inl (ErrRead e)))
      | PollRead (Inr ms) \<Rightarrow>
          (let (acks, r) = scan_replies corr ms in
           case r of
             Some m \<Rightarrow> (acks, Some (Inr m))
           | None \<Rightarrow> (let (acks', r') = WaitForReply corr ps in (acks @ acks', r'))))"

section \<open>The consumer loop\<close>

abbreviation millisecond :: int where "millisecond \<equiv> 1000000"  \<comment> \<open>\<^verbatim>\<open>time.Millisecond\<close>\<close>

definition consumeBackoffStart :: int where "consumeBackoffStart = 100 * millisecond"
definition consumeBackoffCap :: int where "consumeBackoffCap = 5000 * millisecond"
definition consumeDegradedAfter :: nat where "consumeDegradedAfter = 10"

datatype errClass = errClassUnknown | errClassNil | errClassNoGroup

definition classifyError :: "redis_error option \<Rightarrow> errClass" where
  "classifyError err =
     (case err of
        None \<Rightarrow> errClassNil
      | Some RedisNil \<Rightarrow> errClassNil
      | Some (RedisError text) \<Rightarrow>
          if has_prefix text ''NOGROUP'' \<or> contains_sub text ''no such key''
          then errClassNoGroup else errClassUnknown)"

definition nextBackoff :: "int \<Rightarrow> int" where
  "nextBackoff current =
     (let next = current * 2 in if next > consumeBackoffCap then consumeBackoffCap else next)"

record 's consumer =
  cs_app :: 's                  \<comment> \<open>the state the handler works on\<close>
  cs_backoff :: int
  cs_streak :: nat              \<comment> \<open>\<^verbatim>\<open>unknownErrorStreak\<close>\<close>
  cs_degraded :: nat            \<comment> \<open>\<^verbatim>\<open>consumer_loop_degraded\<close> reports\<close>
  cs_Handled :: nat
  cs_HandlerErrors :: nat
  cs_Recoveries :: nat
  cs_PhantomLogs :: nat
  cs_baseline :: nat            \<comment> \<open>\<^verbatim>\<open>lastHandledBaseline\<close>\<close>
  cs_acks :: "string list"

definition checkPhantomConsume :: "string \<Rightarrow> (string \<times> int) list option \<Rightarrow> 's consumer \<Rightarrow> 's consumer" where
  "checkPhantomConsume grp groups c =
     (case groups of
        None \<Rightarrow> c
      | Some gs \<Rightarrow>
          (case find (\<lambda>(name, _). name = grp) gs of
             None \<Rightarrow> c
           | Some (_, read) \<Rightarrow>
               let entriesRead = (if read > 0 then nat read else 0); handled = cs_Handled c in
               if entriesRead \<le> handled then c\<lparr>cs_baseline := handled\<rparr>
               else c\<lparr>cs_PhantomLogs := cs_PhantomLogs c + (if cs_baseline c = handled then 1 else 0),
                      cs_baseline := handled\<rparr>))"

datatype select_branch =
    SelDone string                              \<comment> \<open>\<^verbatim>\<open><-ctx.Done()\<close>\<close>
  | SelTick "(string \<times> int) list option"       \<comment> \<open>\<^verbatim>\<open><-ticker.C\<close> and the result of \<^verbatim>\<open>XInfoGroups\<close>\<close>
  | SelDefault

text \<open>
  What one iteration meets: the branch \<^verbatim>\<open>select\<close> takes, the result of \<^verbatim>\<open>ReadGroup\<close>, whether
  re-creating the grp works, and whether the context ends during a back-off sleep.
\<close>

record iteration =
  it_select :: select_branch
  it_read :: "redis_error + (Message \<times> string) list"
  it_recreated :: bool
  it_sleepDone :: "string option"

fun deliver :: "('s \<Rightarrow> Message \<Rightarrow> 's \<times> bool) \<Rightarrow> (Message \<times> string) list \<Rightarrow> 's consumer \<Rightarrow> 's consumer" where
  "deliver handler [] c = c"
| "deliver handler ((m, eid) # mids) c =
     (let (s, ok) = handler (cs_app c) m in
      deliver handler mids
        (c\<lparr>cs_app := s,
           cs_Handled := cs_Handled c + (if ok then 1 else 0),
           cs_HandlerErrors := cs_HandlerErrors c + (if ok then 0 else 1),
           cs_acks := cs_acks c @ [eid]\<rparr>))"

definition consume_iter ::
  "('s \<Rightarrow> Message \<Rightarrow> 's \<times> bool) \<Rightarrow> string \<Rightarrow> iteration \<Rightarrow> 's consumer \<Rightarrow> string option \<times> 's consumer" where
  "consume_iter handler grp it c0 =
     (case it_select it of
        SelDone e \<Rightarrow> (Some e, c0)
      | _ \<Rightarrow>
          let c = (case it_select it of SelTick gs \<Rightarrow> checkPhantomConsume grp gs c0 | _ \<Rightarrow> c0) in
          (case it_read it of
             Inl err \<Rightarrow>
               (case classifyError (Some err) of
                  errClassNil \<Rightarrow> (None, c\<lparr>cs_streak := 0, cs_backoff := consumeBackoffStart\<rparr>)
                | errClassNoGroup \<Rightarrow>
                    (let c = c\<lparr>cs_Recoveries := cs_Recoveries c + 1\<rparr> in
                     (None, if it_recreated it then c
                            else c\<lparr>cs_backoff := nextBackoff (cs_backoff c)\<rparr>))
                | errClassUnknown \<Rightarrow>
                    (let c = c\<lparr>cs_streak := cs_streak c + 1\<rparr>;
                         c = c\<lparr>cs_degraded := cs_degraded c +
                                 (if cs_streak c = consumeDegradedAfter then 1 else 0)\<rparr> in
                     case it_sleepDone it of
                       Some e \<Rightarrow> (Some e, c)
                     | None \<Rightarrow> (None, c\<lparr>cs_backoff := nextBackoff (cs_backoff c)\<rparr>)))
           | Inr mids \<Rightarrow>
               (None, deliver handler mids
                  (c\<lparr>cs_streak := 0, cs_backoff := consumeBackoffStart\<rparr>))))"

fun ConsumeStream ::
  "('s \<Rightarrow> Message \<Rightarrow> 's \<times> bool) \<Rightarrow> string \<Rightarrow> iteration list \<Rightarrow> 's consumer \<Rightarrow> string option \<times> 's consumer" where
  "ConsumeStream handler grp [] c = (None, c)"
| "ConsumeStream handler grp (it # its) c =
     (case consume_iter handler grp it c of
        (Some e, c') \<Rightarrow> (Some e, c')
      | (None, c') \<Rightarrow> ConsumeStream handler grp its c')"


section \<open>Properties of the envelope and of waiting\<close>

text \<open>
  A message survives the stream: whatever the text layer, as long as parsing undoes rendering,
  decoding the encoded entry gives the message back, and a batch of encoded messages is read
  in order with nothing dropped.
\<close>

theorem stream_roundtrip:
  assumes layer: "\<And>j. parse (render j) = Some j"
  shows "ReadGroup parse (map (\<lambda>(m, eid). (eid, Encode render m)) mids) = (mids, [])"
  by (induction mids) (auto simp: DecodeFromStream_def Encode_def layer)

theorem stream_roundtrip_witness:
  "ReadGroup Some (map (\<lambda>(m, eid). (eid, Encode (\<lambda>j. j) m))
      [(NewMessage ''c1'' 5 TypeSlotRequest ''main-agent''
          (enc_SlotRequestPayload \<lparr>sr_AgentID = ''a'', sr_Priority = 0, sr_SlotClass = []\<rparr>), ''1-0'')]) =
    ([(NewMessage ''c1'' 5 TypeSlotRequest ''main-agent''
          (enc_SlotRequestPayload \<lparr>sr_AgentID = ''a'', sr_Priority = 0, sr_SlotClass = []\<rparr>), ''1-0'')], [])"
  by (rule stream_roundtrip) simp

section \<open>Payloads\<close>

text \<open>
  What the processes rely on when they exchange a kind of payload: decoding undoes encoding. Then a batch of messages with such payloads that goes
  through a stream is read as the payloads that were sent, in order, and different payloads never look alike on the stream.
\<close>

locale wire_payload =
  fixes enc :: "'p \<Rightarrow> json" and dec :: "json \<Rightarrow> 'p option"
  assumes dec_enc: "dec (enc p) = Some p"
begin

lemma enc_inj: "enc p = enc q \<longleftrightarrow> p = q"
  by (metis dec_enc option.inject)

lemma batch_delivered:
  assumes "\<And>j. parse (render j) = Some j"
  shows "map (\<lambda>(m, eid). dec (m_Payload m)) (fst (ReadGroup parse
      (map (\<lambda>(m, p, eid). (eid, Encode render (m\<lparr>m_Payload := enc p\<rparr>))) sent))) = map (\<lambda>(m, p, eid). Some p) sent"
proof -
  have "map (\<lambda>(m, p, eid). (eid, Encode render (m\<lparr>m_Payload := enc p\<rparr>))) sent =
      map (\<lambda>(m, eid). (eid, Encode render m)) (map (\<lambda>(m, p, eid). (m\<lparr>m_Payload := enc p\<rparr>, eid)) sent)"
    by (simp add: comp_def split_def)
  then have "ReadGroup parse (map (\<lambda>(m, p, eid). (eid, Encode render (m\<lparr>m_Payload := enc p\<rparr>))) sent) =
      (map (\<lambda>(m, p, eid). (m\<lparr>m_Payload := enc p\<rparr>, eid)) sent, [])"
    using stream_roundtrip [of parse render, OF assms] by (simp only:)
  then show ?thesis by (simp add: comp_def split_def dec_enc)
qed

lemma reply_delivered:
  assumes "\<And>j. parse (render j) = Some j"
  shows "\<exists>m. ReadGroup parse [(eid, Encode render (NewReply now original ty source (enc p)))] = ([(m, eid)], []) \<and>
    m_CorrelationID m = m_CorrelationID original \<and> dec (m_Payload m) = Some p"
  using stream_roundtrip [of parse render "[(NewReply now original ty source (enc p), eid)]", OF assms]
  by (simp add: NewReply_def dec_enc)

end

interpretation slot_request_wire: wire_payload enc_SlotRequestPayload dec_SlotRequestPayload
  by unfold_locales simp

interpretation slot_assigned_wire: wire_payload enc_SlotAssignedPayload dec_SlotAssignedPayload
  by unfold_locales simp

interpretation slot_ack_wire: wire_payload enc_SlotAssignedAckPayload dec_SlotAssignedAckPayload
  by unfold_locales simp

interpretation slot_release_wire: wire_payload enc_SlotReleasePayload dec_SlotReleasePayload
  by unfold_locales simp

interpretation deregister_wire: wire_payload enc_DeregisterPayload dec_DeregisterPayload
  by unfold_locales simp

interpretation chat_request_wire: wire_payload enc_ChatRequestPayload dec_ChatRequestPayload
  by unfold_locales simp

interpretation context_wire: wire_payload enc_ContextAssembledPayload dec_ContextAssembledPayload
  by unfold_locales simp

interpretation chat_response_wire: wire_payload enc_ChatResponsePayload dec_ChatResponsePayload
  by unfold_locales simp

interpretation session_event_wire: wire_payload enc_SessionEventPayload dec_SessionEventPayload
  by unfold_locales simp

interpretation token_wire: wire_payload enc_TokenPayload dec_TokenPayload
  by unfold_locales simp

interpretation tool_call_wire: wire_payload enc_ToolCallPayload dec_ToolCallPayload
  by unfold_locales simp

interpretation llm_request_wire: wire_payload enc_LLMRequestPayload dec_LLMRequestPayload
  by unfold_locales simp

lemma scan_replies_Some:
  "scan_replies corr ms = (acks, Some m) \<Longrightarrow>
    \<exists>us eid vs. ms = us @ (m, eid) # vs \<and> m_CorrelationID m = corr \<and>
      (\<forall>u \<in> set us. m_CorrelationID (fst u) \<noteq> corr) \<and> acks = map snd us @ [eid]"
proof (induction ms arbitrary: acks)
  case Nil
  then show ?case by simp
next
  case (Cons x ms)
  obtain y eid where x: "x = (y, eid)" by fastforce
  show ?case
  proof (cases "m_CorrelationID y = corr")
    case True
    with Cons.prems x show ?thesis
      by (intro exI [of _ "[]"] exI [of _ eid] exI [of _ ms]) auto
  next
    case False
    with Cons.prems x obtain acks' where "scan_replies corr ms = (acks', Some m)" "acks = eid # acks'"
      by (auto split: prod.splits)
    with Cons.IH obtain us e vs where "ms = us @ (m, e) # vs" "m_CorrelationID m = corr"
      "\<forall>u \<in> set us. m_CorrelationID (fst u) \<noteq> corr" "acks' = map snd us @ [e]"
      by blast
    with False x \<open>acks = eid # acks'\<close> show ?thesis
      by (intro exI [of _ "x # us"] exI [of _ e] exI [of _ vs]) auto
  qed
qed

lemma WaitForReply_correlation:
  "WaitForReply corr ps = (acks, Some (Inr m)) \<Longrightarrow>
    m_CorrelationID m = corr \<and>
    (\<exists>ms eid. PollRead (Inr ms) \<in> set ps \<and> (m, eid) \<in> set ms \<and> eid \<in> set acks)"
proof (induction ps arbitrary: acks)
  case Nil
  then show ?case by simp
next
  case (Cons p ps)
  show ?case
  proof (cases "\<exists>ms a. p = PollRead (Inr ms) \<and> scan_replies corr ms = (a, Some m)")
    case True
    then obtain ms a where "p = PollRead (Inr ms)" "scan_replies corr ms = (a, Some m)" by blast
    with Cons.prems scan_replies_Some [of corr ms a m] show ?thesis
      by (auto intro!: exI [of _ ms])
  next
    case False
    with Cons.prems obtain acks' where "WaitForReply corr ps = (acks', Some (Inr m))" "set acks' \<subseteq> set acks"
      by (auto split: poll.splits sum.splits redis_error.splits prod.splits option.splits)
    with Cons.IH [of acks'] show ?thesis by auto
  qed
qed

section \<open>Properties of the consumer loop\<close>

definition backoff_ok :: "'s consumer \<Rightarrow> bool" where
  "backoff_ok c \<longleftrightarrow> consumeBackoffStart \<le> cs_backoff c \<and> cs_backoff c \<le> consumeBackoffCap"

lemma deliver_frame [simp]:
  "cs_backoff (deliver h mids c) = cs_backoff c" "cs_streak (deliver h mids c) = cs_streak c"
  by (induction mids arbitrary: c) (auto split: prod.splits)

lemma deliver_acks: "cs_acks (deliver h mids c) = cs_acks c @ map snd mids"
  by (induction mids arbitrary: c) (auto split: prod.splits)

lemma deliver_count:
  "cs_Handled (deliver h mids c) + cs_HandlerErrors (deliver h mids c) =
     cs_Handled c + cs_HandlerErrors c + length mids"
  by (induction mids arbitrary: c) (auto split: prod.splits)

lemma deliver_app: "cs_app (deliver h mids c) = foldl (\<lambda>s m. fst (h s m)) (cs_app c) (map fst mids)"
  by (induction mids arbitrary: c) (auto split: prod.splits)

lemma checkPhantomConsume_frame [simp]:
  "cs_backoff (checkPhantomConsume g gs c) = cs_backoff c"
  "cs_streak (checkPhantomConsume g gs c) = cs_streak c"
  "cs_acks (checkPhantomConsume g gs c) = cs_acks c"
  "cs_Handled (checkPhantomConsume g gs c) = cs_Handled c"
  "cs_HandlerErrors (checkPhantomConsume g gs c) = cs_HandlerErrors c"
  "cs_app (checkPhantomConsume g gs c) = cs_app c"
  by (auto simp: checkPhantomConsume_def Let_def split: option.splits)

text \<open>The messages an iteration hands to the handler.\<close>

fun delivered :: "iteration \<Rightarrow> (Message \<times> string) list" where
  "delivered it = (case it_select it of SelDone _ \<Rightarrow> [] | _ \<Rightarrow>
     (case it_read it of Inl _ \<Rightarrow> [] | Inr mids \<Rightarrow> mids))"

lemmas iter_splits = select_branch.splits sum.splits errClass.splits option.splits

lemma consume_iter_delivers:
  assumes "consume_iter h g it c = (r, c')"
  shows "cs_acks c' = cs_acks c @ map snd (delivered it)"
    and "cs_Handled c' + cs_HandlerErrors c' = cs_Handled c + cs_HandlerErrors c + length (delivered it)"
    and "cs_app c' = foldl (\<lambda>s m. fst (h s m)) (cs_app c) (map fst (delivered it))"
  using assms
  by (auto simp: consume_iter_def Let_def deliver_acks deliver_count deliver_app split: iter_splits)

lemma nextBackoff_ok:
  "consumeBackoffStart \<le> b \<Longrightarrow> consumeBackoffStart \<le> nextBackoff b \<and> nextBackoff b \<le> consumeBackoffCap"
  by (auto simp: nextBackoff_def Let_def consumeBackoffStart_def consumeBackoffCap_def)

lemma backoff_start_le: "consumeBackoffStart \<le> consumeBackoffCap"
  by (simp add: consumeBackoffStart_def consumeBackoffCap_def)

lemma consume_iter_backoff: "backoff_ok c \<Longrightarrow> consume_iter h g it c = (r, c') \<Longrightarrow> backoff_ok c'"
  using nextBackoff_ok [of "cs_backoff c"] backoff_start_le
  by (auto simp: consume_iter_def Let_def backoff_ok_def split: iter_splits)



definition new_consumer :: "'s \<Rightarrow> 's consumer" where
  "new_consumer s = \<lparr>cs_app = s, cs_backoff = consumeBackoffStart, cs_streak = 0, cs_degraded = 0,
     cs_Handled = 0, cs_HandlerErrors = 0, cs_Recoveries = 0, cs_PhantomLogs = 0, cs_baseline = 0,
     cs_acks = []\<rparr>"


end
