(* ===== verification/Dashboard.thy ===== *)
theory Dashboard
  imports Go_Json "HOL-Library.AList"
begin

text \<open>
  Dashboard panel descriptors (\<^verbatim>\<open>internal/dashboard/descriptor.go\<close>): the declaration a service
  publishes when it registers, its validator, the order clamp that keeps services out of the
  range reserved for built-in panels, and the flat JSON form of a section. A Go map is an
  association list; the list's order is the order in which the run-time happens to iterate.
\<close>

section \<open>Data\<close>

definition CurrentDescriptorVersion :: int where "CurrentDescriptorVersion = 1"
definition ReservedOrderCeiling :: int where "ReservedOrderCeiling = 100"

abbreviation KindForm :: string where "KindForm \<equiv> ''form''"
abbreviation KindIframe :: string where "KindIframe \<equiv> ''iframe''"
abbreviation KindStatus :: string where "KindStatus \<equiv> ''status''"
abbreviation KindLogs :: string where "KindLogs \<equiv> ''logs''"
abbreviation KindAction :: string where "KindAction \<equiv> ''action''"

abbreviation FieldString :: string where "FieldString \<equiv> ''string''"
abbreviation FieldNumber :: string where "FieldNumber \<equiv> ''number''"
abbreviation FieldInteger :: string where "FieldInteger \<equiv> ''integer''"
abbreviation FieldBoolean :: string where "FieldBoolean \<equiv> ''boolean''"
abbreviation FieldEnum :: string where "FieldEnum \<equiv> ''enum''"
abbreviation FieldTextarea :: string where "FieldTextarea \<equiv> ''textarea''"

abbreviation StatusKeyValue :: string where "StatusKeyValue \<equiv> ''key_value''"
abbreviation StatusTable :: string where "StatusTable \<equiv> ''table''"

record FieldSchema =
  fs_Type :: string
  fs_Label :: string
  fs_Description :: string
  fs_Default :: json
  fs_Readonly :: bool
  fs_Min :: "rat option"
  fs_Max :: "rat option"
  fs_Step :: "rat option"
  fs_Values :: "string list"

record FormSection =
  form_Title :: string
  form_ConfigKey :: string
  form_Fields :: "(string \<times> FieldSchema) list"

record IframeSection =
  if_Title :: string
  if_URL :: string
  if_Height :: string

record StatusSection =
  st_Title :: string
  st_URL :: string
  st_Layout :: string

record LogsSection =
  lg_Title :: string
  lg_TailURL :: string
  lg_HistoryURL :: string
  lg_ServicesURL :: string
  lg_DefaultServices :: "string list"
  lg_DefaultLevel :: string

record ActionParam =
  ap_Name :: string
  ap_Type :: string
  ap_Required :: bool
  ap_Label :: string
  ap_Description :: string
  ap_Default :: json
  ap_Values :: "string list"

record Action =
  act_Label :: string
  act_URL :: string
  act_Method :: string
  act_Body :: "(string \<times> json) list"
  act_Params :: "ActionParam list"
  act_Confirm :: string
  act_StatusKey :: string

record ActionSection =
  as_Title :: string
  as_Actions :: "Action list"

record Section =
  sec_Kind :: string
  sec_Form :: "FormSection option"
  sec_Iframe :: "IframeSection option"
  sec_Status :: "StatusSection option"
  sec_Logs :: "LogsSection option"
  sec_Action :: "ActionSection option"

record PanelDescriptor =
  pd_Version :: int
  pd_Title :: string
  pd_Order :: "int option"
  pd_Sections :: "Section list"

section \<open>Validation\<close>

text \<open>The violations, with the path the message names.\<close>

datatype verror =
    NilDescriptor
  | UnsupportedVersion int
  | Required string
  | MustHaveEntries string
  | MissingBody string
  | UnknownKind string
  | BadMethod string
  | BadLevel string
  | UnknownLayout string
  | EnumWithoutValues
  | UnknownType string
  | AtIndex nat verror
  | AtField string verror

text \<open>\<^verbatim>\<open>for i, x := range xs { if err := f(x); err != nil { return wrap(i, err) } }\<close>\<close>

fun first_error :: "('a \<Rightarrow> verror option) \<Rightarrow> nat \<Rightarrow> 'a list \<Rightarrow> verror option" where
  "first_error f i [] = None"
| "first_error f i (x # xs) =
     (case f x of Some e \<Rightarrow> Some (AtIndex i e) | None \<Rightarrow> first_error f (Suc i) xs)"

definition simple_types :: "string list" where
  "simple_types = [FieldString, FieldNumber, FieldInteger, FieldBoolean, FieldTextarea]"

definition validateField :: "FieldSchema \<Rightarrow> verror option" where
  "validateField f =
     (if fs_Type f \<in> set simple_types then None
      else if fs_Type f = FieldEnum then
        (if fs_Values f = [] then Some EnumWithoutValues else None)
      else if fs_Type f = [] then Some (Required ''type'')
      else Some (UnknownType (fs_Type f)))"

definition validateActionParamType :: "ActionParam \<Rightarrow> verror option" where
  "validateActionParamType p =
     (if ap_Type p \<in> set simple_types then None
      else if ap_Type p = FieldEnum then
        (if ap_Values p = [] then Some EnumWithoutValues else None)
      else if ap_Type p = [] then Some (Required ''type'')
      else Some (UnknownType (ap_Type p)))"

definition validateStatus :: "StatusSection \<Rightarrow> verror option" where
  "validateStatus s =
     (if st_Title s = [] then Some (Required ''status.title'')
      else if st_URL s = [] then Some (Required ''status.url'')
      else if st_Layout s = StatusKeyValue \<or> st_Layout s = StatusTable then None
      else if st_Layout s = [] then Some (Required ''status.layout'')
      else Some (UnknownLayout (st_Layout s)))"

definition validateIframe :: "IframeSection \<Rightarrow> verror option" where
  "validateIframe i =
     (if if_Title i = [] then Some (Required ''iframe.title'')
      else if if_URL i = [] then Some (Required ''iframe.url'')
      else None)"

fun validate_fields :: "(string \<times> FieldSchema) list \<Rightarrow> verror option" where
  "validate_fields [] = None"
| "validate_fields ((name, f) # fs) =
     (case validateField f of Some e \<Rightarrow> Some (AtField name e) | None \<Rightarrow> validate_fields fs)"

definition validateForm :: "FormSection \<Rightarrow> verror option" where
  "validateForm f =
     (if form_Title f = [] then Some (Required ''form.title'')
      else if form_ConfigKey f = [] then Some (Required ''form.config_key'')
      else if form_Fields f = [] then Some (MustHaveEntries ''form.fields'')
      else validate_fields (form_Fields f))"

definition validateLogs :: "LogsSection \<Rightarrow> verror option" where
  "validateLogs l =
     (if lg_Title l = [] then Some (Required ''logs.title'')
      else if lg_TailURL l = [] then Some (Required ''logs.tail_url'')
      else if lg_HistoryURL l = [] then Some (Required ''logs.history_url'')
      else if lg_ServicesURL l = [] then Some (Required ''logs.services_url'')
      else if lg_DefaultLevel l \<noteq> [] \<and>
        to_lower (lg_DefaultLevel l) \<notin> {''debug'', ''info'', ''warn'', ''error''}
        then Some (BadLevel (lg_DefaultLevel l))
      else None)"

definition validate_param :: "ActionParam \<Rightarrow> verror option" where
  "validate_param p =
     (if ap_Name p = [] then Some (Required ''name'') else validateActionParamType p)"

definition validate_one_action :: "Action \<Rightarrow> verror option" where
  "validate_one_action act =
     (if act_Label act = [] then Some (Required ''label'')
      else if act_URL act = [] then Some (Required ''url'')
      else if act_Method act \<noteq> [] \<and> to_upper (act_Method act) \<notin> {''POST'', ''PUT'', ''DELETE''}
        then Some (BadMethod (act_Method act))
      else first_error validate_param 0 (act_Params act))"

definition validateAction :: "ActionSection \<Rightarrow> verror option" where
  "validateAction a =
     (if as_Title a = [] then Some (Required ''action.title'')
      else if as_Actions a = [] then Some (MustHaveEntries ''action.actions'')
      else first_error validate_one_action 0 (as_Actions a))"

definition validate_body :: "string \<Rightarrow> ('a \<Rightarrow> verror option) \<Rightarrow> 'a option \<Rightarrow> verror option" where
  "validate_body kind f b = (case b of None \<Rightarrow> Some (MissingBody kind) | Some x \<Rightarrow> f x)"

definition validateSection :: "Section \<Rightarrow> verror option" where
  "validateSection s =
     (if sec_Kind s = KindForm then validate_body KindForm validateForm (sec_Form s)
      else if sec_Kind s = KindIframe then validate_body KindIframe validateIframe (sec_Iframe s)
      else if sec_Kind s = KindStatus then validate_body KindStatus validateStatus (sec_Status s)
      else if sec_Kind s = KindLogs then validate_body KindLogs validateLogs (sec_Logs s)
      else if sec_Kind s = KindAction then validate_body KindAction validateAction (sec_Action s)
      else if sec_Kind s = [] then Some (Required ''kind'')
      else Some (UnknownKind (sec_Kind s)))"

definition ValidateDescriptor :: "PanelDescriptor option \<Rightarrow> verror option" where
  "ValidateDescriptor pd =
     (case pd of
        None \<Rightarrow> Some NilDescriptor
      | Some d \<Rightarrow>
          if pd_Version d \<noteq> CurrentDescriptorVersion then Some (UnsupportedVersion (pd_Version d))
          else if pd_Title d = [] then Some (Required ''title'')
          else if pd_Sections d = [] then Some (MustHaveEntries ''sections'')
          else first_error validateSection 0 (pd_Sections d))"

definition ClampOrder :: "PanelDescriptor option \<Rightarrow> bool \<Rightarrow> int \<times> bool" where
  "ClampOrder pd isServiceContributed =
     (case pd of
        None \<Rightarrow> (0, False)
      | Some d \<Rightarrow>
          (case pd_Order d of
             None \<Rightarrow> (0, False)
           | Some ord \<Rightarrow>
               if isServiceContributed \<and> ord < ReservedOrderCeiling then (ReservedOrderCeiling, True)
               else (ord, True)))"

section \<open>The rules a descriptor must satisfy\<close>

definition typed_ok :: "string \<Rightarrow> string list \<Rightarrow> bool" where
  "typed_ok ty vals \<longleftrightarrow> ty \<in> set simple_types \<or> ty = FieldEnum \<and> vals \<noteq> []"

definition action_ok :: "Action \<Rightarrow> bool" where
  "action_ok act \<longleftrightarrow> act_Label act \<noteq> [] \<and> act_URL act \<noteq> [] \<and>
     (act_Method act = [] \<or> to_upper (act_Method act) \<in> {''POST'', ''PUT'', ''DELETE''}) \<and>
     (\<forall>p \<in> set (act_Params act). ap_Name p \<noteq> [] \<and> typed_ok (ap_Type p) (ap_Values p))"

definition section_ok :: "Section \<Rightarrow> bool" where
  "section_ok s \<longleftrightarrow>
     (sec_Kind s = KindForm \<and> (\<exists>f. sec_Form s = Some f \<and> form_Title f \<noteq> [] \<and>
        form_ConfigKey f \<noteq> [] \<and> form_Fields f \<noteq> [] \<and>
        (\<forall>(n, x) \<in> set (form_Fields f). typed_ok (fs_Type x) (fs_Values x)))) \<or>
     (sec_Kind s = KindIframe \<and> (\<exists>i. sec_Iframe s = Some i \<and> if_Title i \<noteq> [] \<and> if_URL i \<noteq> [])) \<or>
     (sec_Kind s = KindStatus \<and> (\<exists>t. sec_Status s = Some t \<and> st_Title t \<noteq> [] \<and> st_URL t \<noteq> [] \<and>
        st_Layout t \<in> {StatusKeyValue, StatusTable})) \<or>
     (sec_Kind s = KindLogs \<and> (\<exists>l. sec_Logs s = Some l \<and> lg_Title l \<noteq> [] \<and> lg_TailURL l \<noteq> [] \<and>
        lg_HistoryURL l \<noteq> [] \<and> lg_ServicesURL l \<noteq> [] \<and>
        (lg_DefaultLevel l = [] \<or>
         to_lower (lg_DefaultLevel l) \<in> {''debug'', ''info'', ''warn'', ''error''}))) \<or>
     (sec_Kind s = KindAction \<and> (\<exists>a. sec_Action s = Some a \<and> as_Title a \<noteq> [] \<and>
        as_Actions a \<noteq> [] \<and> (\<forall>x \<in> set (as_Actions a). action_ok x)))"

lemma first_error_None [simp]: "first_error f i xs = None \<longleftrightarrow> (\<forall>x \<in> set xs. f x = None)"
  by (induction xs arbitrary: i) (auto split: option.splits)

lemma first_error_Some:
  "first_error f i xs = Some e \<Longrightarrow>
    \<exists>k < length xs. \<exists>e'. e = AtIndex (i + k) e' \<and> f (xs ! k) = Some e' \<and> (\<forall>j < k. f (xs ! j) = None)"
proof (induction xs arbitrary: i)
  case Nil
  then show ?case by simp
next
  case (Cons x xs)
  show ?case
  proof (cases "f x")
    case None
    with Cons.prems have "first_error f (Suc i) xs = Some e" by simp
    from Cons.IH [OF this] obtain k e' where "k < length xs" "e = AtIndex (Suc i + k) e'"
      "f (xs ! k) = Some e'" "\<forall>j < k. f (xs ! j) = None" by blast
    with None show ?thesis
      by (intro exI [of _ "Suc k"]) (auto simp: less_Suc_eq_0_disj)
  next
    case (Some e')
    with Cons.prems show ?thesis by (intro exI [of _ "0::nat"]) auto
  qed
qed

lemma validate_fields_None [simp]:
  "validate_fields fs = None \<longleftrightarrow> (\<forall>(n, f) \<in> set fs. validateField f = None)"
  by (induction fs) (auto split: option.splits)

lemma validateField_None: "validateField f = None \<longleftrightarrow> typed_ok (fs_Type f) (fs_Values f)"
  by (auto simp: validateField_def typed_ok_def)

lemma validate_param_None:
  "validate_param p = None \<longleftrightarrow> ap_Name p \<noteq> [] \<and> typed_ok (ap_Type p) (ap_Values p)"
  by (auto simp: validate_param_def validateActionParamType_def typed_ok_def)

lemma validate_one_action_None: "validate_one_action a = None \<longleftrightarrow> action_ok a"
  by (auto simp: validate_one_action_def action_ok_def validate_param_None)

lemma validateSection_None: "validateSection s = None \<longleftrightarrow> section_ok s"
  by (simp add: validateSection_def section_ok_def validate_body_def validateForm_def
      validateIframe_def validateStatus_def validateLogs_def validateAction_def
      validateField_None validate_one_action_None split: option.split)

text \<open>
  The validator is exact: it accepts a descriptor if and only if the descriptor has the current
  version, a title and at least one section, and every section carries the body of its kind with
  the required fields, known field types (enumerations with values), methods, levels and layouts.
  When it rejects because of a section, the index it reports is that of the first bad section.
\<close>

theorem ValidateDescriptor_exact:
  "(ValidateDescriptor (Some d) = None \<longleftrightarrow>
      pd_Version d = CurrentDescriptorVersion \<and> pd_Title d \<noteq> [] \<and> pd_Sections d \<noteq> [] \<and>
      (\<forall>s \<in> set (pd_Sections d). section_ok s)) \<and>
   (\<forall>i e. ValidateDescriptor (Some d) = Some (AtIndex i e) \<longrightarrow>
      i < length (pd_Sections d) \<and> \<not> section_ok (pd_Sections d ! i) \<and>
      (\<forall>j < i. section_ok (pd_Sections d ! j)))"
proof (intro conjI allI impI)
  show "ValidateDescriptor (Some d) = None \<longleftrightarrow>
      pd_Version d = CurrentDescriptorVersion \<and> pd_Title d \<noteq> [] \<and> pd_Sections d \<noteq> [] \<and>
      (\<forall>s \<in> set (pd_Sections d). section_ok s)"
    by (auto simp: ValidateDescriptor_def validateSection_None)
next
  fix i e
  assume "ValidateDescriptor (Some d) = Some (AtIndex i e)"
  then have "first_error validateSection 0 (pd_Sections d) = Some (AtIndex i e)"
    by (auto simp: ValidateDescriptor_def split: if_splits)
  from first_error_Some [OF this]
  have "i < length (pd_Sections d)" "validateSection (pd_Sections d ! i) = Some e"
    "\<forall>j < i. validateSection (pd_Sections d ! j) = None" by auto
  then show "i < length (pd_Sections d)" "\<not> section_ok (pd_Sections d ! i)"
    "\<And>j. j < i \<Longrightarrow> section_ok (pd_Sections d ! j)"
    by (auto simp: validateSection_None [symmetric])
qed

lemma ClampOrder_reserved:
  "ClampOrder pd True = (ord, True) \<Longrightarrow> ReservedOrderCeiling \<le> ord"
  by (auto simp: ClampOrder_def split: option.splits if_splits)


definition blank_section :: "string \<Rightarrow> Section" where
  "blank_section kind = \<lparr>sec_Kind = kind, sec_Form = None, sec_Iframe = None, sec_Status = None,
     sec_Logs = None, sec_Action = None\<rparr>"

theorem ValidateDescriptor_exact_witness:
  "let good = blank_section KindIframe\<lparr>sec_Iframe := Some \<lparr>if_Title = ''Open'', if_URL = ''/x'', if_Height = []\<rparr>\<rparr>;
       d = \<lparr>pd_Version = 1, pd_Title = ''Broker'', pd_Order = Some 300,
            pd_Sections = [good, blank_section KindForm]\<rparr>
   in ValidateDescriptor (Some d) = Some (AtIndex 1 (MissingBody KindForm)) \<and>
      section_ok good \<and> \<not> section_ok (blank_section KindForm)"
proof -
  let ?good = "blank_section KindIframe\<lparr>sec_Iframe := Some \<lparr>if_Title = ''Open'', if_URL = ''/x'', if_Height = []\<rparr>\<rparr>"
  let ?d = "\<lparr>pd_Version = 1, pd_Title = ''Broker'', pd_Order = Some 300,
            pd_Sections = [?good, blank_section KindForm]\<rparr>"
  have "ValidateDescriptor (Some ?d) = Some (AtIndex 1 (MissingBody KindForm))"
    by (simp add: ValidateDescriptor_def CurrentDescriptorVersion_def validateSection_def
        validateIframe_def validate_body_def blank_section_def)
  moreover from conjunct2 [OF ValidateDescriptor_exact, of ?d] this
  have "\<not> section_ok (pd_Sections ?d ! 1)" "section_ok (pd_Sections ?d ! 0)"
    by (metis less_one)+
  ultimately show ?thesis by (simp add: Let_def)
qed

section \<open>JSON form of sections\<close>

text \<open>
  A section is a flat object with a \<^verbatim>\<open>kind\<close> key beside the fields of its body. Floating-point
  numbers are rationals; an integral one is printed as an integer literal.
\<close>

definition enc_float :: "rat \<Rightarrow> json" where
  "enc_float q = (if q = of_int \<lfloor>q\<rfloor> \<and> \<bar>q\<bar> < 2 ^ 63 then JInt \<lfloor>q\<rfloor> else JReal q)"

definition enc_opt_float :: "string \<Rightarrow> rat option \<Rightarrow> (string \<times> json) list" where
  "enc_opt_float k q = (case q of None \<Rightarrow> [] | Some x \<Rightarrow> [(k, enc_float x)])"

text \<open>An \<^verbatim>\<open>any\<close> field with \<^verbatim>\<open>omitempty\<close> is left out only when it is nil.\<close>

definition enc_any :: "string \<Rightarrow> json \<Rightarrow> (string \<times> json) list" where
  "enc_any k v = (if v = JNull then [] else [(k, v)])"

definition enc_FieldSchema :: "FieldSchema \<Rightarrow> json" where
  "enc_FieldSchema f = JObj
     ([(''type'', JStr (fs_Type f))] @
      omit_empty ''label'' (JStr (fs_Label f)) @
      omit_empty ''description'' (JStr (fs_Description f)) @
      enc_any ''default'' (fs_Default f) @
      omit_empty ''readonly'' (JBool (fs_Readonly f)) @
      enc_opt_float ''min'' (fs_Min f) @ enc_opt_float ''max'' (fs_Max f) @
      enc_opt_float ''step'' (fs_Step f) @
      omit_empty ''values'' (enc_list JStr (fs_Values f)))"

definition zero_FieldSchema :: FieldSchema where
  "zero_FieldSchema = \<lparr>fs_Type = [], fs_Label = [], fs_Description = [], fs_Default = JNull,
     fs_Readonly = False, fs_Min = None, fs_Max = None, fs_Step = None, fs_Values = []\<rparr>"

definition dec_FieldSchema :: "FieldSchema decoder" where
  "dec_FieldSchema = dec_struct
     [fld ''type'' dec_string fs_Type fs_Type_update,
      fld ''label'' dec_string fs_Label fs_Label_update,
      fld ''description'' dec_string fs_Description fs_Description_update,
      fld ''default'' dec_raw fs_Default fs_Default_update,
      fld ''readonly'' dec_bool fs_Readonly fs_Readonly_update,
      fld ''min'' (dec_option 0 dec_float) fs_Min fs_Min_update,
      fld ''max'' (dec_option 0 dec_float) fs_Max fs_Max_update,
      fld ''step'' (dec_option 0 dec_float) fs_Step fs_Step_update,
      fld ''values'' (dec_list [] dec_string) fs_Values fs_Values_update]"

text \<open>Maps: the encoder sorts the keys; the decoder inserts the pairs one by one.\<close>

fun dec_map :: "'a \<Rightarrow> 'a decoder \<Rightarrow> (string \<times> 'a) list decoder" where
  "dec_map z d old JNull = Some []"
| "dec_map z d old (JObj kvs) =
     map_option (\<lambda>kas. foldl (\<lambda>m (k, a). AList.update k a m) old kas)
       (those_map (\<lambda>(k, j). map_option (Pair k) (d z j)) kvs)"
| "dec_map z d old _ = None"

definition enc_map :: "('a \<Rightarrow> json) \<Rightarrow> (string \<times> 'a) list \<Rightarrow> json" where
  "enc_map e m = JObj (map (\<lambda>(k, a). (k, e a)) (sort_key fst m))"

definition enc_FormSection :: "FormSection \<Rightarrow> (string \<times> json) list" where
  "enc_FormSection f =
     [(''title'', JStr (form_Title f)), (''config_key'', JStr (form_ConfigKey f)),
      (''fields'', enc_map enc_FieldSchema (form_Fields f))]"

definition dec_FormSection :: "json \<Rightarrow> FormSection option" where
  "dec_FormSection = dec_struct
     [fld ''title'' dec_string form_Title form_Title_update,
      fld ''config_key'' dec_string form_ConfigKey form_ConfigKey_update,
      fld ''fields'' (dec_map zero_FieldSchema dec_FieldSchema) form_Fields form_Fields_update]
     \<lparr>form_Title = [], form_ConfigKey = [], form_Fields = []\<rparr>"

definition enc_IframeSection :: "IframeSection \<Rightarrow> (string \<times> json) list" where
  "enc_IframeSection i =
     [(''title'', JStr (if_Title i)), (''url'', JStr (if_URL i))] @
     omit_empty ''height'' (JStr (if_Height i))"

definition dec_IframeSection :: "json \<Rightarrow> IframeSection option" where
  "dec_IframeSection = dec_struct
     [fld ''title'' dec_string if_Title if_Title_update,
      fld ''url'' dec_string if_URL if_URL_update,
      fld ''height'' dec_string if_Height if_Height_update]
     \<lparr>if_Title = [], if_URL = [], if_Height = []\<rparr>"

definition enc_StatusSection :: "StatusSection \<Rightarrow> (string \<times> json) list" where
  "enc_StatusSection s =
     [(''title'', JStr (st_Title s)), (''url'', JStr (st_URL s)), (''layout'', JStr (st_Layout s))]"

definition dec_StatusSection :: "json \<Rightarrow> StatusSection option" where
  "dec_StatusSection = dec_struct
     [fld ''title'' dec_string st_Title st_Title_update,
      fld ''url'' dec_string st_URL st_URL_update,
      fld ''layout'' dec_string st_Layout st_Layout_update]
     \<lparr>st_Title = [], st_URL = [], st_Layout = []\<rparr>"

definition enc_LogsSection :: "LogsSection \<Rightarrow> (string \<times> json) list" where
  "enc_LogsSection l =
     [(''title'', JStr (lg_Title l)), (''tail_url'', JStr (lg_TailURL l)),
      (''history_url'', JStr (lg_HistoryURL l)), (''services_url'', JStr (lg_ServicesURL l))] @
     omit_empty ''default_services'' (enc_list JStr (lg_DefaultServices l)) @
     omit_empty ''default_level'' (JStr (lg_DefaultLevel l))"

definition dec_LogsSection :: "json \<Rightarrow> LogsSection option" where
  "dec_LogsSection = dec_struct
     [fld ''title'' dec_string lg_Title lg_Title_update,
      fld ''tail_url'' dec_string lg_TailURL lg_TailURL_update,
      fld ''history_url'' dec_string lg_HistoryURL lg_HistoryURL_update,
      fld ''services_url'' dec_string lg_ServicesURL lg_ServicesURL_update,
      fld ''default_services'' (dec_list [] dec_string) lg_DefaultServices lg_DefaultServices_update,
      fld ''default_level'' dec_string lg_DefaultLevel lg_DefaultLevel_update]
     \<lparr>lg_Title = [], lg_TailURL = [], lg_HistoryURL = [], lg_ServicesURL = [],
      lg_DefaultServices = [], lg_DefaultLevel = []\<rparr>"

definition enc_ActionParam :: "ActionParam \<Rightarrow> json" where
  "enc_ActionParam p = JObj
     ([(''name'', JStr (ap_Name p)), (''type'', JStr (ap_Type p))] @
      omit_empty ''required'' (JBool (ap_Required p)) @
      omit_empty ''label'' (JStr (ap_Label p)) @
      omit_empty ''description'' (JStr (ap_Description p)) @
      enc_any ''default'' (ap_Default p) @
      omit_empty ''values'' (enc_list JStr (ap_Values p)))"

definition zero_ActionParam :: ActionParam where
  "zero_ActionParam = \<lparr>ap_Name = [], ap_Type = [], ap_Required = False, ap_Label = [],
     ap_Description = [], ap_Default = JNull, ap_Values = []\<rparr>"

definition dec_ActionParam :: "ActionParam decoder" where
  "dec_ActionParam = dec_struct
     [fld ''name'' dec_string ap_Name ap_Name_update,
      fld ''type'' dec_string ap_Type ap_Type_update,
      fld ''required'' dec_bool ap_Required ap_Required_update,
      fld ''label'' dec_string ap_Label ap_Label_update,
      fld ''description'' dec_string ap_Description ap_Description_update,
      fld ''default'' dec_raw ap_Default ap_Default_update,
      fld ''values'' (dec_list [] dec_string) ap_Values ap_Values_update]"

definition enc_Action :: "Action \<Rightarrow> json" where
  "enc_Action a = JObj
     ([(''label'', JStr (act_Label a)), (''url'', JStr (act_URL a))] @
      omit_empty ''method'' (JStr (act_Method a)) @
      omit_empty ''body'' (enc_map (\<lambda>j. j) (act_Body a)) @
      omit_empty ''params'' (enc_list enc_ActionParam (act_Params a)) @
      omit_empty ''confirm'' (JStr (act_Confirm a)) @
      omit_empty ''status_key'' (JStr (act_StatusKey a)))"

definition zero_Action :: Action where
  "zero_Action = \<lparr>act_Label = [], act_URL = [], act_Method = [], act_Body = [], act_Params = [],
     act_Confirm = [], act_StatusKey = []\<rparr>"

definition dec_Action :: "Action decoder" where
  "dec_Action = dec_struct
     [fld ''label'' dec_string act_Label act_Label_update,
      fld ''url'' dec_string act_URL act_URL_update,
      fld ''method'' dec_string act_Method act_Method_update,
      fld ''body'' (dec_map JNull dec_raw) act_Body act_Body_update,
      fld ''params'' (dec_list zero_ActionParam dec_ActionParam) act_Params act_Params_update,
      fld ''confirm'' dec_string act_Confirm act_Confirm_update,
      fld ''status_key'' dec_string act_StatusKey act_StatusKey_update]"

definition enc_ActionSection :: "ActionSection \<Rightarrow> (string \<times> json) list" where
  "enc_ActionSection a =
     [(''title'', JStr (as_Title a)), (''actions'', enc_list enc_Action (as_Actions a))]"

definition dec_ActionSection :: "json \<Rightarrow> ActionSection option" where
  "dec_ActionSection = dec_struct
     [fld ''title'' dec_string as_Title as_Title_update,
      fld ''actions'' (dec_list zero_Action dec_Action) as_Actions as_Actions_update]
     \<lparr>as_Title = [], as_Actions = []\<rparr>"

definition enc_kind :: "string \<Rightarrow> (string \<times> json) list \<Rightarrow> json" where
  "enc_kind k body = JObj ((''kind'', JStr k) # body)"

definition Section_MarshalJSON :: "Section \<Rightarrow> json option" where
  "Section_MarshalJSON s =
     (if sec_Kind s = KindForm then map_option (enc_kind (sec_Kind s) \<circ> enc_FormSection) (sec_Form s)
      else if sec_Kind s = KindIframe then map_option (enc_kind (sec_Kind s) \<circ> enc_IframeSection) (sec_Iframe s)
      else if sec_Kind s = KindStatus then map_option (enc_kind (sec_Kind s) \<circ> enc_StatusSection) (sec_Status s)
      else if sec_Kind s = KindLogs then map_option (enc_kind (sec_Kind s) \<circ> enc_LogsSection) (sec_Logs s)
      else if sec_Kind s = KindAction then map_option (enc_kind (sec_Kind s) \<circ> enc_ActionSection) (sec_Action s)
      else None)"

text \<open>\<^verbatim>\<open>sectionEnvelope\<close>: only the kind is read first.\<close>

definition dec_envelope :: "json \<Rightarrow> string option" where
  "dec_envelope = dec_struct [(''kind'', \<lambda>j k. dec_string k j)] []"

definition Section_UnmarshalJSON :: "Section \<Rightarrow> json \<Rightarrow> Section option" where
  "Section_UnmarshalJSON old j =
     (case dec_envelope j of
        None \<Rightarrow> None
      | Some k \<Rightarrow>
          let s = old\<lparr>sec_Kind := k\<rparr> in
          if k = KindForm then map_option (\<lambda>b. s\<lparr>sec_Form := Some b\<rparr>) (dec_FormSection j)
          else if k = KindIframe then map_option (\<lambda>b. s\<lparr>sec_Iframe := Some b\<rparr>) (dec_IframeSection j)
          else if k = KindStatus then map_option (\<lambda>b. s\<lparr>sec_Status := Some b\<rparr>) (dec_StatusSection j)
          else if k = KindLogs then map_option (\<lambda>b. s\<lparr>sec_Logs := Some b\<rparr>) (dec_LogsSection j)
          else if k = KindAction then map_option (\<lambda>b. s\<lparr>sec_Action := Some b\<rparr>) (dec_ActionSection j)
          else None)"

end
