(* ===== verification/Registry.thy ===== *)
theory Registry
  imports Messaging Dashboard
begin

text \<open>
  The agent registry (\<^verbatim>\<open>internal/registry\<close>): the in-memory table of announced agents, the consumer of
  registration messages, and the heartbeat monitor that declares silent agents dead. The
  table is a Go map: an association list with distinct keys, whose order stands for the
  iteration order of the run-time; every method holds the registry's mutex.
\<close>

section \<open>The table\<close>

record AgentInfo =
  ai_AgentID :: string
  ai_Priority :: int
  ai_Preemptible :: bool
  ai_Capabilities :: "string list"
  ai_Trigger :: string
  ai_HeartbeatIntervalMS :: int
  ai_LastHeartbeat :: int
  ai_Alive :: bool
  ai_DashboardPanel :: "PanelDescriptor option"

type_synonym Registry = "(string \<times> AgentInfo) list"

definition NewRegistry :: Registry where
  "NewRegistry = []"

definition Registry_Register :: "int \<Rightarrow> AgentInfo \<Rightarrow> Registry \<Rightarrow> Registry" where
  "Registry_Register now info r =
     AList.update (ai_AgentID info) (info\<lparr>ai_Alive := True, ai_LastHeartbeat := now\<rparr>) r"

definition Registry_Deregister :: "string \<Rightarrow> Registry \<Rightarrow> Registry" where
  "Registry_Deregister agentID r = AList.delete agentID r"

definition Registry_Get :: "string \<Rightarrow> Registry \<Rightarrow> AgentInfo option" where
  "Registry_Get agentID r = map_of r agentID"

definition MarkHeartbeat :: "int \<Rightarrow> string \<Rightarrow> Registry \<Rightarrow> Registry" where
  "MarkHeartbeat now agentID r =
     (case map_of r agentID of
        None \<Rightarrow> r
      | Some info \<Rightarrow> AList.update agentID (info\<lparr>ai_LastHeartbeat := now, ai_Alive := True\<rparr>) r)"

definition MarkDead :: "string \<Rightarrow> Registry \<Rightarrow> Registry" where
  "MarkDead agentID r =
     (case map_of r agentID of
        None \<Rightarrow> r
      | Some info \<Rightarrow> AList.update agentID (info\<lparr>ai_Alive := False\<rparr>) r)"

definition ListAlive :: "Registry \<Rightarrow> AgentInfo list" where
  "ListAlive r = filter ai_Alive (map snd r)"

definition ListPreemptible :: "Registry \<Rightarrow> AgentInfo list" where
  "ListPreemptible r = filter (\<lambda>i. ai_Alive i \<and> ai_Preemptible i) (map snd r)"

definition ListDead :: "Registry \<Rightarrow> AgentInfo list" where
  "ListDead r = filter (\<lambda>i. \<not> ai_Alive i) (map snd r)"

text \<open>Keys are distinct, and each agent is filed under its own id.\<close>

definition registry_inv :: "Registry \<Rightarrow> bool" where
  "registry_inv r \<longleftrightarrow> distinct (map fst r) \<and> (\<forall>(k, i) \<in> set r. ai_AgentID i = k)"

section \<open>Laws\<close>

lemma set_update_distinct:
  "distinct (map fst r) \<Longrightarrow> set (AList.update k v r) = {(k', v'). (k', v') \<in> set r \<and> k' \<noteq> k} \<union> {(k, v)}"
  by (induction r) (force simp: image_iff)+

lemma registry_inv_update:
  "registry_inv r \<Longrightarrow> ai_AgentID i = k \<Longrightarrow> registry_inv (AList.update k i r)"
  by (auto simp: registry_inv_def set_update_distinct distinct_update)

lemma registry_inv_Get: "registry_inv r \<Longrightarrow> Registry_Get a r = Some i \<Longrightarrow> ai_AgentID i = a"
  by (auto simp: registry_inv_def Registry_Get_def dest: map_of_SomeD)

lemma registry_inv_delete: "registry_inv r \<Longrightarrow> registry_inv (AList.delete k r)"
  unfolding registry_inv_def by (auto simp: AList.delete_eq distinct_map_filter)

text \<open>
  The directory interface of the broker and of the monitor.
\<close>

locale agent_directory =
  fixes inv :: "'r \<Rightarrow> bool"
    and get :: "string \<Rightarrow> 'r \<Rightarrow> AgentInfo option"
    and register :: "int \<Rightarrow> AgentInfo \<Rightarrow> 'r \<Rightarrow> 'r"
    and deregister :: "string \<Rightarrow> 'r \<Rightarrow> 'r"
    and heartbeat :: "int \<Rightarrow> string \<Rightarrow> 'r \<Rightarrow> 'r"
    and dead :: "string \<Rightarrow> 'r \<Rightarrow> 'r"
  assumes get_register: "inv r \<Longrightarrow> get a (register n i r) =
      (if a = ai_AgentID i then Some (i\<lparr>ai_Alive := True, ai_LastHeartbeat := n\<rparr>) else get a r)"
    and get_deregister: "inv r \<Longrightarrow> get a (deregister b r) = (if a = b then None else get a r)"
    and get_heartbeat: "inv r \<Longrightarrow> get a (heartbeat n b r) =
      (if a = b then map_option (\<lambda>i. i\<lparr>ai_LastHeartbeat := n, ai_Alive := True\<rparr>) (get a r) else get a r)"
    and get_dead: "inv r \<Longrightarrow> get a (dead b r) =
      (if a = b then map_option (\<lambda>i. i\<lparr>ai_Alive := False\<rparr>) (get a r) else get a r)"
    and inv_register: "inv r \<Longrightarrow> inv (register n i r)"
    and inv_deregister: "inv r \<Longrightarrow> inv (deregister b r)"
    and inv_heartbeat: "inv r \<Longrightarrow> inv (heartbeat n b r)"
    and inv_dead: "inv r \<Longrightarrow> inv (dead b r)"
begin

definition preemptible :: "string \<Rightarrow> 'r \<Rightarrow> bool" where
  "preemptible a r = (case get a r of None \<Rightarrow> False | Some i \<Rightarrow> ai_Preemptible i)"

text \<open>Whether an agent may be preempted is fixed by its registration alone.\<close>

lemma preemptible_laws:
  assumes "inv r"
  shows "preemptible a (register n i r) = (if a = ai_AgentID i then ai_Preemptible i else preemptible a r)"
    and "preemptible a (deregister b r) = (a \<noteq> b \<and> preemptible a r)"
    and "preemptible a (heartbeat n b r) = preemptible a r"
    and "preemptible a (dead b r) = preemptible a r"
  using assms
  by (auto simp: preemptible_def get_register get_deregister get_heartbeat get_dead split: option.splits)

text \<open>Death is only undone by a heartbeat or a new registration.\<close>

lemma dead_then_heartbeat:
  assumes "inv r" "get a r = Some i"
  shows "get a (dead a r) = Some (i\<lparr>ai_Alive := False\<rparr>)"
    and "get a (heartbeat n a (dead a r)) = Some (i\<lparr>ai_LastHeartbeat := n, ai_Alive := True\<rparr>)"
  using assms by (simp_all add: get_dead get_heartbeat inv_dead)

end

lemma map_of_update: "map_of (AList.update k v r) a = (if a = k then Some v else map_of r a)"
  by (simp add: update_conv')

interpretation reg: agent_directory registry_inv Registry_Get Registry_Register Registry_Deregister
  MarkHeartbeat MarkDead
proof (unfold_locales, goal_cases)
  case (7 r n b)
  then show ?case
    using registry_inv_Get [of r b]
    by (auto simp: MarkHeartbeat_def Registry_Get_def intro!: registry_inv_update split: option.splits)
next
  case (8 r b)
  then show ?case
    using registry_inv_Get [of r b]
    by (auto simp: MarkDead_def Registry_Get_def intro!: registry_inv_update split: option.splits)
qed (auto simp: Registry_Get_def Registry_Register_def Registry_Deregister_def MarkHeartbeat_def
      MarkDead_def map_of_update delete_conv' registry_inv_update registry_inv_delete split: option.splits)

section \<open>The registration consumer\<close>

record RegisterPayload =
  rp_AgentID :: string
  rp_Priority :: int
  rp_Preemptible :: bool
  rp_Capabilities :: "string list"
  rp_Trigger :: string
  rp_HeartbeatIntervalMS :: int
  rp_DashboardPanel :: "PanelDescriptor option"

definition dec_PanelDescriptor :: "PanelDescriptor decoder" where
  "dec_PanelDescriptor = dec_struct
     [fld ''version'' dec_int pd_Version pd_Version_update,
      fld ''title'' dec_string pd_Title pd_Title_update,
      fld ''order'' (dec_option 0 dec_int) pd_Order pd_Order_update,
      fld ''sections'' (dec_list (blank_section []) Section_UnmarshalJSON) pd_Sections pd_Sections_update]"

definition zero_PanelDescriptor :: PanelDescriptor where
  "zero_PanelDescriptor = \<lparr>pd_Version = 0, pd_Title = [], pd_Order = None, pd_Sections = []\<rparr>"

definition dec_RegisterPayload :: "json \<Rightarrow> RegisterPayload option" where
  "dec_RegisterPayload = dec_struct
     [fld ''agent_id'' dec_string rp_AgentID rp_AgentID_update,
      fld ''priority'' dec_int rp_Priority rp_Priority_update,
      fld ''preemptible'' dec_bool rp_Preemptible rp_Preemptible_update,
      fld ''capabilities'' (dec_list [] dec_string) rp_Capabilities rp_Capabilities_update,
      fld ''trigger'' dec_string rp_Trigger rp_Trigger_update,
      fld ''heartbeat_interval_ms'' dec_int rp_HeartbeatIntervalMS rp_HeartbeatIntervalMS_update,
      fld ''dashboard_panel'' (dec_option zero_PanelDescriptor dec_PanelDescriptor)
        rp_DashboardPanel rp_DashboardPanel_update]
     \<lparr>rp_AgentID = [], rp_Priority = 0, rp_Preemptible = False, rp_Capabilities = [],
      rp_Trigger = [], rp_HeartbeatIntervalMS = 0, rp_DashboardPanel = None\<rparr>"

definition info_of_payload :: "RegisterPayload \<Rightarrow> AgentInfo" where
  "info_of_payload p =
     (let panel = (case rp_DashboardPanel p of
                     None \<Rightarrow> None
                   | Some d \<Rightarrow> if ValidateDescriptor (Some d) \<noteq> None then None else Some d)
      in \<lparr>ai_AgentID = rp_AgentID p, ai_Priority = rp_Priority p, ai_Preemptible = rp_Preemptible p,
          ai_Capabilities = rp_Capabilities p, ai_Trigger = rp_Trigger p,
          ai_HeartbeatIntervalMS = rp_HeartbeatIntervalMS p, ai_LastHeartbeat = 0,
          ai_Alive = False, ai_DashboardPanel = panel\<rparr>)"

text \<open>
  One message of the batch: the new registry and whether the message is acknowledged (a payload
  that does not decode is skipped by \<^verbatim>\<open>continue\<close>, before the acknowledgement).
\<close>

definition handle_registration :: "int \<Rightarrow> Message \<Rightarrow> Registry \<Rightarrow> Registry \<times> bool" where
  "handle_registration now msg r =
     (if m_Type msg = TypeRegister then
        (case dec_RegisterPayload (m_Payload msg) of
           None \<Rightarrow> (r, False)
         | Some p \<Rightarrow> (Registry_Register now (info_of_payload p) r, True))
      else if m_Type msg = TypeDeregister then
        (case dec_DeregisterPayload (m_Payload msg) of
           None \<Rightarrow> (r, False)
         | Some p \<Rightarrow> (Registry_Deregister (dr_AgentID p) r, True))
      else (r, True))"

fun RunRegistrationConsumer_batch ::
  "int \<Rightarrow> (Message \<times> string) list \<Rightarrow> Registry \<Rightarrow> Registry \<times> string list" where
  "RunRegistrationConsumer_batch now [] r = (r, [])"
| "RunRegistrationConsumer_batch now ((m, eid) # ms) r =
     (let (r', ack) = handle_registration now m r;
          (r'', acks) = RunRegistrationConsumer_batch now ms r'
      in (r'', if ack then eid # acks else acks))"

text \<open>Every panel the registry holds has passed the validator.\<close>

definition panels_valid :: "Registry \<Rightarrow> bool" where
  "panels_valid r \<longleftrightarrow>
     (\<forall>(k, i) \<in> set r. \<forall>d. ai_DashboardPanel i = Some d \<longrightarrow> ValidateDescriptor (Some d) = None)"

lemma panels_valid_delete: "panels_valid r \<Longrightarrow> panels_valid (AList.delete k r)"
  by (auto simp: panels_valid_def AList.delete_eq)

lemma set_update_sub: "set (AList.update k v r) \<subseteq> insert (k, v) (set r)"
  by (induction r) auto

lemma panels_valid_Register: "panels_valid r \<Longrightarrow> panels_valid (Registry_Register n (info_of_payload p) r)"
  using set_update_sub [of "ai_AgentID (info_of_payload p)"
      "info_of_payload p\<lparr>ai_Alive := True, ai_LastHeartbeat := n\<rparr>" r]
  unfolding panels_valid_def Registry_Register_def
  by (fastforce simp: info_of_payload_def Let_def split: option.splits if_splits)

lemma handle_registration_inv:
  assumes "registry_inv r" "panels_valid r" "handle_registration now m r = (r', ack)"
  shows "registry_inv r' \<and> panels_valid r'"
  using assms reg.inv_register reg.inv_deregister panels_valid_Register
    panels_valid_delete [of r, folded Registry_Deregister_def]
  by (auto simp: handle_registration_def split: if_splits option.splits)

text \<open>
  Whatever messages arrive, the registry keeps one entry per agent, filed under the agent's own
  id, and never exposes a dashboard panel that fails validation: an invalid panel is dropped
  while its agent is registered all the same.
\<close>

theorem registration_batch_inv:
  assumes "registry_inv r" "panels_valid r"
    and "RunRegistrationConsumer_batch now ms r = (r', acks)"
  shows "registry_inv r' \<and> panels_valid r'"
  using assms
proof (induction ms arbitrary: r acks)
  case Nil
  then show ?case by simp
next
  case (Cons x ms)
  obtain m eid where x: "x = (m, eid)" by fastforce
  obtain r1 ack where h: "handle_registration now m r = (r1, ack)" by fastforce
  with Cons.prems x obtain acks' where "RunRegistrationConsumer_batch now ms r1 = (r', acks')"
    by (auto split: prod.splits)
  with Cons.IH handle_registration_inv [OF Cons.prems(1,2) h] show ?case by blast
qed

theorem registration_batch_inv_witness:
  "let p = JObj [(''agent_id'', JStr ''retro''), (''preemptible'', JBool True),
             (''dashboard_panel'', JObj [(''version'', JInt 9), (''title'', JStr ''T'')])];
       r = fst (RunRegistrationConsumer_batch 3 [(NewMessage ''c'' 0 TypeRegister ''retro'' p, ''1-0'')] NewRegistry)
   in registry_inv r \<and> panels_valid r \<and>
      map_option ai_Preemptible (Registry_Get ''retro'' r) = Some True \<and>
      map_option ai_DashboardPanel (Registry_Get ''retro'' r) = Some None"
proof -
  let ?p = "JObj [(''agent_id'', JStr ''retro''), (''preemptible'', JBool True),
             (''dashboard_panel'', JObj [(''version'', JInt 9), (''title'', JStr ''T'')])]"
  let ?b = "RunRegistrationConsumer_batch 3 [(NewMessage ''c'' 0 TypeRegister ''retro'' ?p, ''1-0'')] NewRegistry"
  have "registry_inv (fst ?b) \<and> panels_valid (fst ?b)"
    by (rule registration_batch_inv [of NewRegistry 3 "[(NewMessage ''c'' 0 TypeRegister ''retro'' ?p, ''1-0'')]" "fst ?b" "snd ?b"])
      (simp_all add: NewRegistry_def registry_inv_def panels_valid_def)
  moreover have "dec_RegisterPayload ?p = Some \<lparr>rp_AgentID = ''retro'', rp_Priority = 0, rp_Preemptible = True,
      rp_Capabilities = [], rp_Trigger = [], rp_HeartbeatIntervalMS = 0,
      rp_DashboardPanel = Some \<lparr>pd_Version = 9, pd_Title = ''T'', pd_Order = None, pd_Sections = []\<rparr>\<rparr>"
    by (simp add: dec_RegisterPayload_def dec_PanelDescriptor_def zero_PanelDescriptor_def dec_option_def key_simps)
  ultimately show ?thesis
    by (simp add: Let_def NewMessage_def handle_registration_def Registry_Register_def Registry_Get_def
        NewRegistry_def info_of_payload_def ValidateDescriptor_def CurrentDescriptorVersion_def)
qed

section \<open>The heartbeat monitor\<close>

text \<open>
  \<^verbatim>\<open>RunHeartbeatMonitor\<close> keeps a map of subscriptions and starts one \<^verbatim>\<open>monitorAgent\<close> goroutine per new
  entry; every goroutine, the ticker loop and the registration consumer interleave. The state
  holds the registry, the keys of the subscription map, the goroutines that have not returned and
  the calls of the \<^verbatim>\<open>onDead\<close> callback; an event is one atomic step, at the given time in ns.
  A cancelled goroutine may still take a heartbeat or its expired timer: \<^verbatim>\<open>select\<close> picks any
  branch that is ready.
\<close>

record monitor_goroutine =
  mg_AgentID :: string
  mg_missThreshold :: int
  mg_deadline :: int
  mg_cancelled :: bool

record monitor =
  mon_registry :: Registry
  mon_subscriptions :: "string list"
  mon_goroutines :: "monitor_goroutine list"
  mon_onDead :: "string list"

datatype monitor_event =
  Tick int
| Heartbeat nat int
| TimerFires nat int
| CtxDone nat
| Registers int AgentInfo
| Deregisters string

definition start_monitor :: "int \<Rightarrow> AgentInfo \<Rightarrow> monitor_goroutine" where
  "start_monitor now agent =
     (let missThreshold = ai_HeartbeatIntervalMS agent * 3 * 1000000
      in \<lparr>mg_AgentID = ai_AgentID agent, mg_missThreshold = missThreshold,
          mg_deadline = now + missThreshold, mg_cancelled = False\<rparr>)"

fun subscribe_new :: "int \<Rightarrow> AgentInfo list \<Rightarrow> monitor \<Rightarrow> monitor" where
  "subscribe_new now [] s = s"
| "subscribe_new now (agent # agents) s =
     subscribe_new now agents
       (if ai_AgentID agent \<in> set (mon_subscriptions s) then s
        else s\<lparr>mon_subscriptions := ai_AgentID agent # mon_subscriptions s,
               mon_goroutines := mon_goroutines s @ [start_monitor now agent]\<rparr>)"

definition cancel_missing :: "monitor \<Rightarrow> monitor" where
  "cancel_missing s =
     (let gone = (\<lambda>a. Registry_Get a (mon_registry s) = None \<and> a \<in> set (mon_subscriptions s))
      in s\<lparr>mon_goroutines := map (\<lambda>g. if gone (mg_AgentID g) then g\<lparr>mg_cancelled := True\<rparr> else g)
             (mon_goroutines s),
           mon_subscriptions := filter (\<lambda>a. \<not> gone a) (mon_subscriptions s)\<rparr>)"

definition heartbeat_tick :: "int \<Rightarrow> monitor \<Rightarrow> monitor" where
  "heartbeat_tick now s = cancel_missing (subscribe_new now (ListAlive (mon_registry s)) s)"

definition drop_nth :: "nat \<Rightarrow> 'a list \<Rightarrow> 'a list" where
  "drop_nth i xs = take i xs @ drop (Suc i) xs"

definition monitor_beat :: "nat \<Rightarrow> int \<Rightarrow> monitor \<Rightarrow> monitor option" where
  "monitor_beat i now s =
     (if i < length (mon_goroutines s) then
        (let g = mon_goroutines s ! i in
         Some (s\<lparr>mon_registry := MarkHeartbeat now (mg_AgentID g) (mon_registry s),
                 mon_goroutines := (mon_goroutines s)[i := g\<lparr>mg_deadline := now + mg_missThreshold g\<rparr>]\<rparr>))
      else None)"

definition monitor_timeout :: "nat \<Rightarrow> int \<Rightarrow> monitor \<Rightarrow> monitor option" where
  "monitor_timeout i now s =
     (if i < length (mon_goroutines s) \<and> mg_deadline (mon_goroutines s ! i) \<le> now then
        (let a = mg_AgentID (mon_goroutines s ! i) in
         Some (s\<lparr>mon_registry := MarkDead a (mon_registry s),
                 mon_goroutines := drop_nth i (mon_goroutines s),
                 mon_onDead := a # mon_onDead s\<rparr>))
      else None)"

fun monitor_step :: "monitor_event \<Rightarrow> monitor \<Rightarrow> monitor option" where
  "monitor_step (Tick now) s = Some (heartbeat_tick now s)"
| "monitor_step (Heartbeat i now) s = monitor_beat i now s"
| "monitor_step (TimerFires i now) s = monitor_timeout i now s"
| "monitor_step (CtxDone i) s =
     (if i < length (mon_goroutines s) \<and> mg_cancelled (mon_goroutines s ! i)
      then Some (s\<lparr>mon_goroutines := drop_nth i (mon_goroutines s)\<rparr>) else None)"
| "monitor_step (Registers now info) s = Some (s\<lparr>mon_registry := Registry_Register now info (mon_registry s)\<rparr>)"
| "monitor_step (Deregisters a) s = Some (s\<lparr>mon_registry := Registry_Deregister a (mon_registry s)\<rparr>)"

fun monitor_run :: "monitor_event list \<Rightarrow> monitor \<Rightarrow> monitor option" where
  "monitor_run [] s = Some s"
| "monitor_run (e # es) s = (case monitor_step e s of None \<Rightarrow> None | Some s' \<Rightarrow> monitor_run es s')"

definition new_monitor :: monitor where
  "new_monitor = \<lparr>mon_registry = NewRegistry, mon_subscriptions = [], mon_goroutines = [], mon_onDead = []\<rparr>"

text \<open>The goroutines that watch \<open>a\<close> and are not cancelled.\<close>

definition watchers :: "string \<Rightarrow> monitor \<Rightarrow> monitor_goroutine list" where
  "watchers a s = filter (\<lambda>g. mg_AgentID g = a \<and> \<not> mg_cancelled g) (mon_goroutines s)"

definition monitor_inv :: "monitor \<Rightarrow> bool" where
  "monitor_inv s \<longleftrightarrow> registry_inv (mon_registry s) \<and>
     (\<forall>a. length (watchers a s) \<le> (if a \<in> set (mon_subscriptions s) then 1 else 0))"

lemma watchers_drop_nth: "length (filter P (drop_nth i xs)) \<le> length (filter P xs)"
proof -
  have "length (filter P (take i xs)) + length (filter P (drop i xs)) = length (filter P xs)"
    by (metis append_take_drop_id filter_append length_append)
  moreover have "length (filter P (drop (Suc i) xs)) \<le> length (filter P (drop i xs))"
    by (cases "drop i xs") (auto simp: drop_Suc simp flip: tl_drop)
  ultimately show ?thesis by (simp add: drop_nth_def)
qed

lemma set_drop_nth: "x \<in> set (drop_nth i xs) \<Longrightarrow> \<exists>j < length xs. j \<noteq> i \<and> xs ! j = x"
  unfolding drop_nth_def set_append Un_iff in_set_conv_nth
proof (elim disjE exE conjE)
  fix k
  assume "k < length (drop (Suc i) xs)" "drop (Suc i) xs ! k = x"
  then show ?thesis by (intro exI [of _ "Suc (i + k)"]) auto
qed auto

lemma filter_update_len:
  "i < length xs \<Longrightarrow> P y = P (xs ! i) \<Longrightarrow> length (filter P (xs[i := y])) = length (filter P xs)"
  by (induction xs arbitrary: i) (auto split: nat.splits)

lemma watchers_simps [simp]:
  "watchers a (s\<lparr>mon_registry := r\<rparr>) = watchers a s"
  "watchers a (s\<lparr>mon_subscriptions := x\<rparr>) = watchers a s"
  "watchers a (s\<lparr>mon_onDead := d\<rparr>) = watchers a s"
  by (simp_all add: watchers_def)

definition watch_ok :: "monitor \<Rightarrow> bool" where
  "watch_ok s \<longleftrightarrow> (\<forall>a. length (watchers a s) \<le> Suc 0) \<and>
     (\<forall>a. a \<notin> set (mon_subscriptions s) \<longrightarrow> watchers a s = [])"

lemma monitor_inv_ok: "monitor_inv s \<longleftrightarrow> registry_inv (mon_registry s) \<and> watch_ok s"
proof -
  have "length w \<le> (if b then 1 else 0) \<longleftrightarrow> length w \<le> Suc 0 \<and> (\<not> b \<longrightarrow> w = [])" for w :: "'b list" and b
    by auto
  then show ?thesis unfolding monitor_inv_def watch_ok_def by blast
qed

lemma watch_ok_mono:
  "watch_ok s \<Longrightarrow> mon_subscriptions s' = mon_subscriptions s \<Longrightarrow>
    (\<And>a. length (watchers a s') \<le> length (watchers a s)) \<Longrightarrow> watch_ok s'"
  unfolding watch_ok_def by (metis le_trans length_0_conv le_zero_eq)

lemma subscribe_new_ok:
  "watch_ok s \<Longrightarrow> watch_ok (subscribe_new now as s) \<and>
    mon_registry (subscribe_new now as s) = mon_registry s \<and>
    mon_onDead (subscribe_new now as s) = mon_onDead s"
proof (induction as arbitrary: s)
  case Nil
  then show ?case by simp
next
  case (Cons x as)
  let ?s = "if ai_AgentID x \<in> set (mon_subscriptions s) then s
        else s\<lparr>mon_subscriptions := ai_AgentID x # mon_subscriptions s,
               mon_goroutines := mon_goroutines s @ [start_monitor now x]\<rparr>"
  have "watch_ok ?s"
  proof (cases "ai_AgentID x \<in> set (mon_subscriptions s)")
    case False
    then have "watchers (ai_AgentID x) s = []" using Cons.prems by (auto simp: watch_ok_def)
    with Cons.prems False show ?thesis
      by (auto simp: watch_ok_def watchers_def start_monitor_def Let_def)
  qed (use Cons.prems in simp)
  from Cons.IH [OF this] show ?case by simp
qed

lemma subscribe_new_subscribed:
  "set (mon_subscriptions (subscribe_new now as s)) = set (mon_subscriptions s) \<union> ai_AgentID ` set as"
  by (induction as arbitrary: s) auto

lemma cancel_missing_ok: "watch_ok s \<Longrightarrow> watch_ok (cancel_missing s)"
proof -
  assume ok: "watch_ok s"
  let ?gone = "\<lambda>a. Registry_Get a (mon_registry s) = None \<and> a \<in> set (mon_subscriptions s)"
  let ?f = "\<lambda>g. if ?gone (mg_AgentID g) then g\<lparr>mg_cancelled := True\<rparr> else g"
  have eq: "watchers a (cancel_missing s) = (if ?gone a then [] else watchers a s)" for a
  proof -
    have "filter (\<lambda>g. mg_AgentID g = a \<and> \<not> mg_cancelled g) (map ?f gs) =
       (if ?gone a then [] else filter (\<lambda>g. mg_AgentID g = a \<and> \<not> mg_cancelled g) gs)" for gs
      by (induction gs) auto
    from this [of "mon_goroutines s"] show ?thesis
      by (simp add: cancel_missing_def watchers_def Let_def)
  qed
  show ?thesis
    using ok unfolding watch_ok_def eq by (auto simp: cancel_missing_def Let_def)
qed

lemma monitor_step_inv:
  assumes "monitor_inv s" "monitor_step e s = Some s'"
  shows "monitor_inv s'"
proof -
  have reg: "registry_inv (mon_registry s)" and ok: "watch_ok s"
    using assms(1) by (auto simp: monitor_inv_ok)
  have "registry_inv (mon_registry s') \<and> watch_ok s'"
  proof (cases e)
    case (Tick now)
    with assms(2) reg subscribe_new_ok [OF ok, of now "ListAlive (mon_registry s)"]
    show ?thesis
      by (auto simp: heartbeat_tick_def intro: cancel_missing_ok) (simp add: cancel_missing_def Let_def)
  next
    case (Heartbeat i now)
    with assms(2) reg show ?thesis
      by (auto simp: monitor_beat_def Let_def reg.inv_heartbeat watchers_def split: if_splits
          intro!: watch_ok_mono [OF ok]) (simp add: filter_update_len)
  next
    case (TimerFires i now)
    with assms(2) reg show ?thesis
      by (auto simp: monitor_timeout_def Let_def reg.inv_dead watchers_def watchers_drop_nth split: if_splits
          intro!: watch_ok_mono [OF ok])
  next
    case (CtxDone i)
    with assms(2) reg show ?thesis
      by (auto simp: watchers_def watchers_drop_nth split: if_splits intro!: watch_ok_mono [OF ok])
  next
    case (Registers n i)
    with assms(2) reg show ?thesis by (auto simp: reg.inv_register intro!: watch_ok_mono [OF ok])
  next
    case (Deregisters a)
    with assms(2) reg show ?thesis by (auto simp: reg.inv_deregister intro!: watch_ok_mono [OF ok])
  qed
  then show ?thesis by (simp add: monitor_inv_ok)
qed

lemma monitor_run_inv: "monitor_run es s = Some s' \<Longrightarrow> monitor_inv s \<Longrightarrow> monitor_inv s'"
  by (induction es arbitrary: s) (auto split: option.splits dest: monitor_step_inv)

text \<open>
  C36. The monitor never runs two live watches for one agent: after any interleaving of ticks,
  heartbeats, timeouts, registrations and deregistrations each agent has at most one goroutine
  that is not cancelled, and only while the agent is in the subscription map; the registry stays
  well-formed throughout.
\<close>

theorem monitor_one_watcher:
  assumes "monitor_run es new_monitor = Some s"
  shows "registry_inv (mon_registry s) \<and>
    length (watchers a s) \<le> (if a \<in> set (mon_subscriptions s) then 1 else 0)"
proof -
  have "monitor_inv new_monitor"
    by (simp add: monitor_inv_def new_monitor_def NewRegistry_def registry_inv_def watchers_def)
  from monitor_run_inv [OF assms this] show ?thesis by (simp add: monitor_inv_def)
qed

definition monitored_agent :: AgentInfo where
  "monitored_agent = \<lparr>ai_AgentID = ''a'', ai_Priority = 0, ai_Preemptible = True, ai_Capabilities = [],
     ai_Trigger = [], ai_HeartbeatIntervalMS = 1, ai_LastHeartbeat = 0, ai_Alive = False,
     ai_DashboardPanel = None\<rparr>"

lemmas monitor_eval =
  new_monitor_def NewRegistry_def Registry_Register_def heartbeat_tick_def ListAlive_def
  start_monitor_def cancel_missing_def Registry_Get_def monitor_timeout_def monitor_beat_def
  MarkDead_def MarkHeartbeat_def drop_nth_def monitored_agent_def watchers_def Let_def

theorem monitor_one_watcher_witness:
  "let s = the (monitor_run [Registers 0 monitored_agent, Tick 1, Tick 2] new_monitor)
   in length (watchers ''a'' s) = 1 \<and> length (watchers ''a'' s) \<le> 1"
proof -
  let ?es = "[Registers 0 monitored_agent, Tick 1, Tick 2]"
  have r: "monitor_run ?es new_monitor = Some (the (monitor_run ?es new_monitor))"
    by (simp add: monitor_eval)
  have "length (watchers ''a'' (the (monitor_run ?es new_monitor))) = 1"
    by (simp add: monitor_eval)
  with monitor_one_watcher [OF r, of "''a''"] show ?thesis by (simp add: Let_def split: if_splits)
qed

text \<open>An agent that no goroutine watches although the subscription map still names it.\<close>

definition unwatched :: "string \<Rightarrow> monitor \<Rightarrow> bool" where
  "unwatched a s \<longleftrightarrow> a \<in> set (mon_subscriptions s) \<and> a \<notin> mg_AgentID ` set (mon_goroutines s) \<and>
     (\<exists>i. Registry_Get a (mon_registry s) = Some i \<and> ai_Alive i)"

lemma subscribe_new_other:
  "a \<in> set (mon_subscriptions s) \<Longrightarrow> a \<notin> mg_AgentID ` set (mon_goroutines s) \<Longrightarrow>
    a \<in> set (mon_subscriptions (subscribe_new now as s)) \<and>
    a \<notin> mg_AgentID ` set (mon_goroutines (subscribe_new now as s))"
proof (induction as arbitrary: s)
  case (Cons x as)
  show ?case
    unfolding subscribe_new.simps by (rule Cons.IH) (use Cons.prems in \<open>auto simp: start_monitor_def Let_def\<close>)
qed simp

lemma subscribe_new_same:
  "mon_registry (subscribe_new now as s) = mon_registry s"
  "mon_onDead (subscribe_new now as s) = mon_onDead s"
  by (induction as arbitrary: s) auto

lemma unwatched_step:
  assumes "registry_inv (mon_registry s)" "unwatched a s" "monitor_step e s = Some s'" "e \<noteq> Deregisters a"
  shows "registry_inv (mon_registry s') \<and> unwatched a s' \<and> count_list (mon_onDead s') a = count_list (mon_onDead s) a"
proof (cases e)
  case (Tick now)
  let ?t = "subscribe_new now (ListAlive (mon_registry s)) s"
  from Tick assms(3) have s': "s' = cancel_missing ?t" by (simp add: heartbeat_tick_def)
  from assms(2) subscribe_new_other [of a s now "ListAlive (mon_registry s)"]
  have "unwatched a ?t" by (auto simp: unwatched_def subscribe_new_same)
  with assms(1) show ?thesis
    by (auto simp: s' cancel_missing_def unwatched_def Let_def subscribe_new_same image_iff split: if_splits)
next
  case (Heartbeat i now)
  with assms have i: "i < length (mon_goroutines s)" and
    ne: "mg_AgentID (mon_goroutines s ! i) \<noteq> a"
    by (auto simp: monitor_beat_def unwatched_def split: if_splits)
  have "mg_AgentID ` set ((mon_goroutines s)[i := (mon_goroutines s ! i)\<lparr>mg_deadline := d\<rparr>]) \<subseteq>
      mg_AgentID ` set (mon_goroutines s)" for d
    using i by (auto dest!: subsetD [OF set_update_subset_insert])
  moreover have "s' = s\<lparr>mon_registry := MarkHeartbeat now (mg_AgentID (mon_goroutines s ! i)) (mon_registry s),
      mon_goroutines := (mon_goroutines s)[i := (mon_goroutines s ! i)\<lparr>mg_deadline :=
        now + mg_missThreshold (mon_goroutines s ! i)\<rparr>]\<rparr>"
    using Heartbeat assms(3) i by (simp add: monitor_beat_def Let_def)
  ultimately show ?thesis
    using assms(1,2) ne by (auto simp: unwatched_def reg.inv_heartbeat reg.get_heartbeat dest!: subsetD)
next
  case (TimerFires i now)
  with assms have i: "i < length (mon_goroutines s)" and
    ne: "mg_AgentID (mon_goroutines s ! i) \<noteq> a"
    by (auto simp: monitor_timeout_def unwatched_def split: if_splits)
  have "set (drop_nth i (mon_goroutines s)) \<subseteq> set (mon_goroutines s)"
    by (auto simp: drop_nth_def dest: in_set_takeD in_set_dropD)
  moreover have "s' = s\<lparr>mon_registry := MarkDead (mg_AgentID (mon_goroutines s ! i)) (mon_registry s),
      mon_goroutines := drop_nth i (mon_goroutines s),
      mon_onDead := mg_AgentID (mon_goroutines s ! i) # mon_onDead s\<rparr>"
    using TimerFires assms(3) by (simp add: monitor_timeout_def Let_def split: if_splits)
  ultimately show ?thesis
    using assms(1,2) ne by (auto simp: unwatched_def reg.inv_dead reg.get_dead)
next
  case (CtxDone i)
  have "set (drop_nth i (mon_goroutines s)) \<subseteq> set (mon_goroutines s)"
    by (auto simp: drop_nth_def dest: in_set_takeD in_set_dropD)
  with CtxDone assms show ?thesis by (fastforce simp: unwatched_def split: if_splits)
next
  case (Registers n i)
  with assms show ?thesis
    by (auto simp: unwatched_def reg.inv_register reg.get_register)
next
  case (Deregisters b)
  with assms show ?thesis
    by (auto simp: unwatched_def reg.inv_deregister reg.get_deregister)
qed

lemma unwatched_run:
  "monitor_run es s = Some s' \<Longrightarrow> registry_inv (mon_registry s) \<Longrightarrow> unwatched a s \<Longrightarrow> Deregisters a \<notin> set es \<Longrightarrow>
    unwatched a s' \<and> count_list (mon_onDead s') a = count_list (mon_onDead s) a"
proof (induction es arbitrary: s)
  case Nil
  then show ?case by simp
next
  case (Cons e es)
  then obtain t where t: "monitor_step e s = Some t" "monitor_run es t = Some s'"
    by (auto split: option.splits)
  with unwatched_step [of s a e t] Cons.IH [of t] Cons.prems show ?case by auto
qed

text \<open>
  A timeout leaves the agent's entry in the subscription map, so the agent is never watched
  again: if its only goroutine times out and the agent then registers anew (without a
  deregistration the ticker sees), it stays marked alive for ever, and \<^verbatim>\<open>onDead\<close>, which frees its
  slots, is never called for it again, however long it is silent.
\<close>

theorem timeout_then_unmonitored:
  assumes "monitor_inv s" "a \<in> set (mon_subscriptions s)"
    and "\<forall>j < length (mon_goroutines s). mg_AgentID (mon_goroutines s ! j) = a \<longleftrightarrow> j = i"
    and "ai_AgentID info = a"
    and "monitor_run (TimerFires i t # Registers n info # es) s = Some s'"
    and "Deregisters a \<notin> set es"
  shows "(\<exists>i. Registry_Get a (mon_registry s') = Some i \<and> ai_Alive i) \<and>
    count_list (mon_onDead s') a = Suc (count_list (mon_onDead s) a)"
proof -
  from assms(5) obtain s1 s2 where s1: "monitor_timeout i t s = Some s1"
    and s2: "monitor_step (Registers n info) s1 = Some s2" and run: "monitor_run es s2 = Some s'"
    by (auto split: option.splits)
  from s1 have i: "i < length (mon_goroutines s)" by (auto simp: monitor_timeout_def split: if_splits)
  with assms(3) have gi: "mg_AgentID (mon_goroutines s ! i) = a" by blast
  have none: "a \<notin> mg_AgentID ` set (drop_nth i (mon_goroutines s))"
    using assms(3) by (auto dest!: set_drop_nth)
  have inv: "registry_inv (mon_registry s)" using assms(1) by (simp add: monitor_inv_def)
  from s1 i gi have s1': "s1 = s\<lparr>mon_registry := MarkDead a (mon_registry s),
      mon_goroutines := drop_nth i (mon_goroutines s), mon_onDead := a # mon_onDead s\<rparr>"
    by (auto simp: monitor_timeout_def Let_def split: if_splits)
  have "registry_inv (mon_registry s2)"
    using s2 inv by (auto simp: s1' reg.inv_register reg.inv_dead)
  moreover have "unwatched a s2"
    using s2 none inv assms(2,4)
    by (auto simp: s1' unwatched_def reg.get_register reg.inv_dead)
  moreover have "mon_onDead s2 = a # mon_onDead s" using s2 by (auto simp: s1')
  ultimately show ?thesis
    using unwatched_run [OF run, of a] assms(6) by (auto simp: unwatched_def)
qed

theorem timeout_then_unmonitored_witness:
  "let s = the (monitor_run [Registers 0 monitored_agent, Tick 1, TimerFires 0 5000000,
                 Registers 6000000 monitored_agent, Tick 7000000, Tick 9000000000] new_monitor)
   in (\<exists>i. Registry_Get ''a'' (mon_registry s) = Some i \<and> ai_Alive i) \<and> count_list (mon_onDead s) ''a'' = Suc 0"
proof -
  let ?s0 = "the (monitor_run [Registers 0 monitored_agent, Tick 1] new_monitor)"
  let ?es = "[TimerFires 0 5000000, Registers 6000000 monitored_agent, Tick 7000000, Tick 9000000000]"
  have s0: "monitor_run [Registers 0 monitored_agent, Tick 1] new_monitor = Some ?s0"
    by (simp add: monitor_eval)
  have inv0: "monitor_inv new_monitor"
    by (simp add: monitor_inv_def new_monitor_def NewRegistry_def registry_inv_def watchers_def)
  have "(\<exists>i. Registry_Get ''a'' (mon_registry (the (monitor_run ?es ?s0))) = Some i \<and> ai_Alive i) \<and>
      count_list (mon_onDead (the (monitor_run ?es ?s0))) ''a'' = Suc (count_list (mon_onDead ?s0) ''a'')"
    by (rule timeout_then_unmonitored [OF monitor_run_inv [OF s0 inv0], where i = 0 and info = monitored_agent
          and t = 5000000 and n = 6000000 and es = "[Tick 7000000, Tick 9000000000]"])
      (simp_all add: monitor_eval)
  then show ?thesis by (simp add: monitor_eval)
qed

end
