(* ===== verification/Llm_Stream.thy ===== *)
theory Llm_Stream
  imports Messaging "HOL-Library.AList"
begin

text \<open>
  The broker's client of the inference server (\<^verbatim>\<open>internal/broker/broker.go\<close>, from \<^verbatim>\<open>ProxyLLMRequest\<close>
  down): the request it posts, the decoding of a complete answer, and the server-sent-event reader
  that passes tokens on and assembles tool calls from their fragments.

  The HTTP transport and the JSON text parser are arguments.
\<close>

section \<open>Wire types\<close>

record toolCallDelta =
  td_Index :: int
  td_ID :: string
  td_Type :: string
  td_Name :: string        \<comment> \<open>\<^verbatim>\<open>Function.Name\<close>\<close>
  td_Arguments :: string   \<comment> \<open>\<^verbatim>\<open>Function.Arguments\<close>\<close>

record chunk_delta =
  dl_Content :: string
  dl_ToolCalls :: "toolCallDelta list"
  dl_FunctionCall :: "json option"

record full_message =
  fm_Content :: string
  fm_ToolCalls :: "ToolCall list"

record toolCallAcc =
  ta_ID :: string
  ta_Type :: string
  ta_Name :: string
  ta_ArgsBuf :: string

definition zero_delta :: toolCallDelta where
  "zero_delta = \<lparr>td_Index = 0, td_ID = [], td_Type = [], td_Name = [], td_Arguments = []\<rparr>"

definition dec_toolCallDelta :: "toolCallDelta decoder" where
  "dec_toolCallDelta = dec_struct
     [fld ''index'' dec_int td_Index td_Index_update,
      fld ''id'' dec_string td_ID td_ID_update,
      fld ''type'' dec_string td_Type td_Type_update,
      (''function'', \<lambda>j d. dec_struct
         [fld ''name'' dec_string td_Name td_Name_update,
          fld ''arguments'' dec_string td_Arguments td_Arguments_update] d j)]"

definition dec_chunk_delta :: "chunk_delta decoder" where
  "dec_chunk_delta = dec_struct
     [fld ''content'' dec_string dl_Content dl_Content_update,
      fld ''tool_calls'' (dec_list zero_delta dec_toolCallDelta) dl_ToolCalls dl_ToolCalls_update,
      (''function_call'', \<lambda>j d. Some (d\<lparr>dl_FunctionCall := Some j\<rparr>))]"

definition zero_chunk_delta :: chunk_delta where
  "zero_chunk_delta = \<lparr>dl_Content = [], dl_ToolCalls = [], dl_FunctionCall = None\<rparr>"

text \<open>\<^verbatim>\<open>chatCompletionChunk\<close>: the deltas of its choices.\<close>

definition dec_chunk :: "json \<Rightarrow> chunk_delta list option" where
  "dec_chunk = dec_struct
     [(''choices'', \<lambda>j cs. dec_list zero_chunk_delta
         (dec_struct [(''delta'', \<lambda>j d. dec_chunk_delta d j)]) cs j)] []"

definition zero_full_message :: full_message where
  "zero_full_message = \<lparr>fm_Content = [], fm_ToolCalls = []\<rparr>"

definition dec_full_message :: "full_message decoder" where
  "dec_full_message = dec_struct
     [fld ''content'' dec_string fm_Content fm_Content_update,
      fld ''tool_calls'' (dec_list zero_ToolCall dec_ToolCall) fm_ToolCalls fm_ToolCalls_update]"

text \<open>\<^verbatim>\<open>chatCompletionResponse\<close>: the messages of its choices.\<close>

definition dec_response :: "json \<Rightarrow> full_message list option" where
  "dec_response = dec_struct
     [(''choices'', \<lambda>j cs. dec_list zero_full_message
         (dec_struct [(''message'', \<lambda>j d. dec_full_message d j)]) cs j)] []"

text \<open>\<^verbatim>\<open>chatCompletionRequest\<close>, as marshalled.\<close>

definition enc_chatCompletionRequest ::
  "string \<Rightarrow> ChatMsg list \<Rightarrow> bool \<Rightarrow> json list \<Rightarrow> string \<Rightarrow> int \<Rightarrow> json" where
  "enc_chatCompletionRequest model messages stream tools toolChoice slotID = JObj
     ([(''model'', JStr model), (''messages'', enc_list enc_ChatMsg messages), (''stream'', JBool stream)] @
      omit_empty ''tools'' (JArr tools) @
      omit_empty ''tool_choice'' (JStr toolChoice) @
      [(''id_slot'', JInt slotID)])"

section \<open>Reading the answer\<close>

text \<open>
  What the proxy sends on its three channels: tokens, assembled tool calls, an error.
\<close>

record proxy_output =
  po_tokens :: "string list"
  po_calls :: "ToolCall list"
  po_error :: "string option"

definition proxy_failure :: "string \<Rightarrow> proxy_output" where
  "proxy_failure err = \<lparr>po_tokens = [], po_calls = [], po_error = Some err\<rparr>"

definition readFullResponse :: "(string \<Rightarrow> json option) \<Rightarrow> string \<Rightarrow> proxy_output" where
  "readFullResponse decode body =
     (case Option.bind (decode body) dec_response of
        None \<Rightarrow> proxy_failure ''decode response''
      | Some [] \<Rightarrow> \<lparr>po_tokens = [], po_calls = [], po_error = None\<rparr>
      | Some (m # _) \<Rightarrow>
          \<lparr>po_tokens = (if fm_Content m \<noteq> [] then [fm_Content m] else []),
           po_calls = fm_ToolCalls m, po_error = None\<rparr>)"

text \<open>
  \<^verbatim>\<open>bufio.Scanner\<close> with \<^verbatim>\<open>ScanLines\<close> and a buffer of \<open>maxTokenSize\<close> bytes: the lines, without a trailing
  carriage return, and whether it stopped at a line that does not fit.
\<close>

definition drop_cr :: "string \<Rightarrow> string" where
  "drop_cr l = (if l \<noteq> [] \<and> last l = CHR 0x0D then butlast l else l)"

function scan_lines :: "nat \<Rightarrow> string \<Rightarrow> string list \<times> bool" where
  "scan_lines maxTokenSize body =
     (if body = [] then ([], False)
      else let l = takeWhile (\<lambda>c. c \<noteq> CHR 0x0A) body; rest = drop (Suc (length l)) body in
        if maxTokenSize \<le> length l then ([], True)
        else (let (ls, tooLong) = scan_lines maxTokenSize rest in (drop_cr l # ls, tooLong)))"
  by pat_completeness auto

termination
  by (relation "measure (length \<circ> snd)") (auto simp: Let_def)

declare scan_lines.simps [simp del]

text \<open>One fragment of a tool call, added to the accumulator of its index.\<close>

definition add_fragment :: "toolCallDelta \<Rightarrow> (int \<times> toolCallAcc) list \<Rightarrow> (int \<times> toolCallAcc) list" where
  "add_fragment frag accs =
     (let acc = (case map_of accs (td_Index frag) of
                   None \<Rightarrow> \<lparr>ta_ID = [], ta_Type = [], ta_Name = [], ta_ArgsBuf = []\<rparr>
                 | Some acc \<Rightarrow> acc);
          acc = (if ta_ID acc = [] \<and> td_ID frag \<noteq> [] then acc\<lparr>ta_ID := td_ID frag\<rparr> else acc);
          acc = (if ta_Type acc = [] \<and> td_Type frag \<noteq> [] then acc\<lparr>ta_Type := td_Type frag\<rparr> else acc);
          acc = (if ta_Name acc = [] \<and> td_Name frag \<noteq> [] then acc\<lparr>ta_Name := td_Name frag\<rparr> else acc);
          acc = (if td_Arguments frag \<noteq> [] then acc\<lparr>ta_ArgsBuf := ta_ArgsBuf acc @ td_Arguments frag\<rparr> else acc)
      in AList.update (td_Index frag) acc accs)"

text \<open>The delta of one line: \<open>None\<close> for a line that the loop skips.\<close>

definition line_delta :: "(string \<Rightarrow> json option) \<Rightarrow> string \<Rightarrow> chunk_delta option" where
  "line_delta unmarshal data =
     (case Option.bind (unmarshal data) dec_chunk of
        None \<Rightarrow> None
      | Some [] \<Rightarrow> None
      | Some (d # _) \<Rightarrow> Some d)"

fun sse_loop ::
  "(string \<Rightarrow> json option) \<Rightarrow> string list \<Rightarrow> string list \<Rightarrow> (int \<times> toolCallAcc) list \<Rightarrow>
     string list \<times> (int \<times> toolCallAcc) list" where
  "sse_loop unmarshal [] tokens accs = (tokens, accs)"
| "sse_loop unmarshal (line # lines) tokens accs =
     (if \<not> has_prefix line ''data: '' then sse_loop unmarshal lines tokens accs
      else let data = trim_prefix line ''data: '' in
        if data = ''[DONE]'' then (tokens, accs)
        else case line_delta unmarshal data of
          None \<Rightarrow> sse_loop unmarshal lines tokens accs
        | Some delta \<Rightarrow>
            sse_loop unmarshal lines
              (if dl_Content delta \<noteq> [] then tokens @ [dl_Content delta] else tokens)
              (fold add_fragment (dl_ToolCalls delta) accs))"

definition call_of_acc :: "toolCallAcc \<Rightarrow> ToolCall" where
  "call_of_acc acc =
     (let typ = (if ta_Type acc = [] then ''function'' else ta_Type acc)
      in \<lparr>tc_ID = ta_ID acc, tc_Type = typ, tc_Name = ta_Name acc, tc_Arguments = ta_ArgsBuf acc\<rparr>)"

text \<open>\<open>readErr\<close> is an error of the connection after the bytes of the body.\<close>

definition readSSEStream :: "(string \<Rightarrow> json option) \<Rightarrow> string \<Rightarrow> string option \<Rightarrow> proxy_output" where
  "readSSEStream unmarshal body readErr =
     (let (lines, tooLong) = scan_lines (1024 * 1024) body;
          (tokens, accs) = sse_loop unmarshal lines [] [];
          finished = (\<exists>l \<in> set lines. l = ''data: [DONE]'')
      in \<lparr>po_tokens = tokens,
          po_calls = map (\<lambda>idx. call_of_acc (the (map_of accs idx))) (sort (map fst accs)),
          po_error = (if finished then None
            else if tooLong then Some ''bufio.Scanner: token too long'' else readErr)\<rparr>)"

section \<open>The request\<close>

record llm_config =
  lc_llamaAddr :: string
  lc_llamaAPIKey :: string
  lc_model :: string

record http_request =
  hr_URL :: string
  hr_Headers :: "(string \<times> string) list"
  hr_Body :: json

datatype http_reply =
    HttpFailure string                        \<comment> \<open>\<^verbatim>\<open>NewRequest\<close> or \<^verbatim>\<open>Do\<close> fails\<close>
  | HttpReply int string "string option"      \<comment> \<open>status, body, and a read error after the body\<close>

definition ProxyLLMRequest ::
  "llm_config \<Rightarrow> (http_request \<Rightarrow> http_reply) \<Rightarrow> (string \<Rightarrow> json option) \<Rightarrow> (string \<Rightarrow> json option) \<Rightarrow>
   int \<Rightarrow> ChatMsg list \<Rightarrow> json list \<Rightarrow> string \<Rightarrow> bool \<Rightarrow> proxy_output" where
  "ProxyLLMRequest cfg do unmarshal decode slotID messages tools toolChoice stream =
     (let req = \<lparr>hr_URL = ''http://'' @ lc_llamaAddr cfg @ ''/v1/chat/completions'',
                 hr_Headers = (''Content-Type'', ''application/json'') #
                   (if lc_llamaAPIKey cfg \<noteq> [] then [(''Authorization'', ''Bearer '' @ lc_llamaAPIKey cfg)] else []),
                 hr_Body = enc_chatCompletionRequest (lc_model cfg) messages stream tools toolChoice slotID\<rparr>
      in case do req of
           HttpFailure err \<Rightarrow> proxy_failure err
         | HttpReply status body readErr \<Rightarrow>
             if status \<noteq> 200 then proxy_failure (''llm server returned '' @ itoa status @ '': '' @ body)
             else if stream then readSSEStream unmarshal body readErr
             else readFullResponse decode body)"

section \<open>What the stream reader computes\<close>

text \<open>The deltas the loop looks at: those of the data lines before \<^verbatim>\<open>[DONE]\<close>.\<close>

fun sse_deltas :: "(string \<Rightarrow> json option) \<Rightarrow> string list \<Rightarrow> chunk_delta list" where
  "sse_deltas unmarshal [] = []"
| "sse_deltas unmarshal (line # lines) =
     (if \<not> has_prefix line ''data: '' then sse_deltas unmarshal lines
      else if trim_prefix line ''data: '' = ''[DONE]'' then []
      else (case line_delta unmarshal (trim_prefix line ''data: '') of
              None \<Rightarrow> sse_deltas unmarshal lines
            | Some d \<Rightarrow> d # sse_deltas unmarshal lines))"

lemma sse_loop_deltas:
  "sse_loop unmarshal lines tokens accs =
     (tokens @ filter (\<lambda>t. t \<noteq> []) (map dl_Content (sse_deltas unmarshal lines)),
      fold add_fragment (concat (map dl_ToolCalls (sse_deltas unmarshal lines))) accs)"
  by (induction lines arbitrary: tokens accs) (auto simp: Let_def split: option.splits)

definition first_nonempty :: "string list \<Rightarrow> string" where
  "first_nonempty xs = (case find (\<lambda>x. x \<noteq> []) xs of None \<Rightarrow> [] | Some x \<Rightarrow> x)"

lemma first_nonempty_Nil [simp]: "first_nonempty [] = []"
  by (simp add: first_nonempty_def)

lemma first_nonempty_snoc:
  "first_nonempty (xs @ [x]) = (if first_nonempty xs = [] then x else first_nonempty xs)"
  by (induction xs) (auto simp: first_nonempty_def split: option.splits)

text \<open>The accumulator of one call, from all its fragments.\<close>

definition acc_of :: "toolCallDelta list \<Rightarrow> toolCallAcc" where
  "acc_of fs = \<lparr>ta_ID = first_nonempty (map td_ID fs), ta_Type = first_nonempty (map td_Type fs),
     ta_Name = first_nonempty (map td_Name fs), ta_ArgsBuf = concat (map td_Arguments fs)\<rparr>"

abbreviation fragments_at :: "int \<Rightarrow> toolCallDelta list \<Rightarrow> toolCallDelta list" where
  "fragments_at i fs \<equiv> filter (\<lambda>f. td_Index f = i) fs"

lemma add_fragment_acc_of:
  assumes "map_of accs (td_Index f) = (if gs = [] then None else Some (acc_of gs))"
  shows "add_fragment f accs = AList.update (td_Index f) (acc_of (gs @ [f])) accs"
  using assms by (auto simp: add_fragment_def acc_of_def first_nonempty_snoc Let_def)

lemma accs_lookup:
  "map_of (fold add_fragment fs []) i =
     (if fragments_at i fs = [] then None else Some (acc_of (fragments_at i fs)))"
proof (induction fs arbitrary: i rule: rev_induct)
  case Nil
  then show ?case by simp
next
  case (snoc f fs)
  have "add_fragment f (fold add_fragment fs []) =
      AList.update (td_Index f) (acc_of (fragments_at (td_Index f) fs @ [f])) (fold add_fragment fs [])"
    by (rule add_fragment_acc_of) (rule snoc)
  with snoc show ?case by (auto simp: update_conv')
qed

lemma accs_keys:
  "distinct (map fst (fold add_fragment fs [])) \<and>
   set (map fst (fold add_fragment fs [])) = td_Index ` set fs"
proof (induction fs rule: rev_induct)
  case Nil
  then show ?case by simp
next
  case (snoc f fs)
  then show ?case by (auto simp: add_fragment_def Let_def distinct_update update_keys split: if_splits)
qed

lemma sort_distinct_set:
  fixes xs :: "int list"
  assumes "distinct xs"
  shows "sort xs = sorted_list_of_set (set xs)"
  using assms by (simp add: sorted_list_of_set_sort_remdups distinct_remdups_id)

text \<open>The call a list of fragments stands for.\<close>

definition call_of_fragments :: "toolCallDelta list \<Rightarrow> ToolCall" where
  "call_of_fragments gs =
     (let typ = first_nonempty (map td_Type gs) in
      \<lparr>tc_ID = first_nonempty (map td_ID gs), tc_Type = (if typ = [] then ''function'' else typ),
       tc_Name = first_nonempty (map td_Name gs), tc_Arguments = concat (map td_Arguments gs)\<rparr>)"

lemma assembled_calls:
  "map (\<lambda>idx. call_of_acc (the (map_of (fold add_fragment fs []) idx))) (sort (map fst (fold add_fragment fs []))) =
   map (\<lambda>i. call_of_fragments (fragments_at i fs)) (sorted_list_of_set (td_Index ` set fs))"
proof -
  let ?accs = "fold add_fragment fs []"
  have keys: "sort (map fst ?accs) = sorted_list_of_set (td_Index ` set fs)"
    using accs_keys [of fs] sort_distinct_set [of "map fst ?accs"] by simp
  have "call_of_acc (the (map_of ?accs i)) = call_of_fragments (fragments_at i fs)"
    if "i \<in> td_Index ` set fs" for i
  proof -
    from that have "fragments_at i fs \<noteq> []" by (auto simp: filter_empty_conv)
    with accs_lookup [of fs i] show ?thesis
      by (simp add: call_of_acc_def acc_of_def call_of_fragments_def Let_def)
  qed
  then show ?thesis unfolding keys by (intro map_cong) auto
qed

text \<open>
  C17. The stream reader assembles tool calls correctly, whatever the order in which the server
  interleaves their fragments: there is exactly one call per index that occurs, in ascending
  order of index; its arguments are the concatenation of all argument fragments of that index in
  stream order, its id and name are the first non-empty ones, its type the first non-empty one or
  \<^verbatim>\<open>function\<close>; and the tokens are the non-empty contents in stream order.
\<close>

theorem readSSEStream_assembles:
  "let ds = sse_deltas unmarshal (fst (scan_lines (1024 * 1024) body));
       fs = concat (map dl_ToolCalls ds);
       out = readSSEStream unmarshal body readErr
   in po_tokens out = filter (\<lambda>t. t \<noteq> []) (map dl_Content ds) \<and>
      po_calls out =
        map (\<lambda>i. call_of_fragments (fragments_at i fs))
            (sorted_list_of_set (td_Index ` set fs))"
  by (simp add: readSSEStream_def sse_loop_deltas assembled_calls split_def Let_def)

end
