(* ===== verification/Broker.thy ===== *)
theory Broker
  imports Slots Registry Llm_Stream
begin

text \<open>
  The slot arbiter of the LLM broker (\<^verbatim>\<open>internal/broker/broker.go\<close>): slot requests, acknowledgements
  and releases, the queue of waiting requests, provisional assignments with their reclaim timers,
  preemption and the death of agents.

  Handlers run in several goroutines. A handler is an \<open>action\<close>: a tree of atomic steps, each a
  function of the broker's state (one method of the slot table or registry, one critical section
  under \<^verbatim>\<open>b.mu\<close>, one publication), so that the steps of different handlers may interleave between
  any two of them. \<open>run_action\<close> runs one handler without interference; \<open>broker_step\<close> is the
  interleaved system.
\<close>

section \<open>State\<close>

record slotRequest =
  sq_agentID :: string
  sq_priority :: int
  sq_correlationID :: string
  sq_replyStream :: string
  sq_class :: SlotClass

text \<open>A goroutine asleep in \<^verbatim>\<open>preemptAgent\<close>.\<close>

record preemption =
  pre_victim :: string
  pre_slot :: int
  pre_msg :: Message
  pre_requester :: SlotRequestPayload

record Broker =
  b_slots :: SlotTable
  b_registry :: Registry
  b_pendingQueue :: "slotRequest list"
  b_reclaims :: "string list"                     \<comment> \<open>goroutines asleep in \<^verbatim>\<open>scheduleReclaim\<close>\<close>
  b_preempts :: "preemption list"
  b_published :: "(string \<times> Message) list"       \<comment> \<open>stream entries, oldest first\<close>
  b_signals :: "(string \<times> Message) list"         \<comment> \<open>pub/sub messages\<close>

text \<open>
  What a handler takes from outside: the clock, a fresh correlation id, whether Valkey accepts a
  publication, and, for the scan of \<^verbatim>\<open>assignFromQueue\<close>, the slot table that its i-th call of
  \<^verbatim>\<open>FindUnassigned\<close> sees (the scan holds \<^verbatim>\<open>b.mu\<close> but not the table's own mutex).
\<close>

record env =
  e_now :: int
  e_fresh :: string
  e_publish :: "string \<Rightarrow> Message \<Rightarrow> bool"
  e_view :: "nat \<Rightarrow> SlotTable \<Rightarrow> SlotTable"

datatype action =
    Stop
  | Crash                                       \<comment> \<open>a run-time panic\<close>
  | Atomic "Broker \<Rightarrow> Broker \<times> action"

primrec run_action :: "action \<Rightarrow> Broker \<Rightarrow> Broker outcome" where
  "run_action Stop = (\<lambda>b. Returns b)"
| "run_action Crash = (\<lambda>b. Panics)"
| "run_action (Atomic f) = (\<lambda>b. case (map_prod id run_action \<circ> f) b of (b', r) \<Rightarrow> r b')"

lemma run_Atomic [simp]: "run_action (Atomic f) b = (case f b of (b', k) \<Rightarrow> run_action k b')"
  by (simp split: prod.splits)

declare run_action.simps(3) [simp del]

section \<open>Construction\<close>

definition NewBroker :: "int \<Rightarrow> int \<Rightarrow> Registry \<Rightarrow> Broker" where
  "NewBroker agentSlotCount hindsightSlotCount reg =
     \<lparr>b_slots = NewSlotTableWithClasses agentSlotCount hindsightSlotCount, b_registry = reg,
      b_pendingQueue = [], b_reclaims = [], b_preempts = [], b_published = [], b_signals = []\<rparr>"

section \<open>Handlers\<close>

definition publish :: "env \<Rightarrow> string \<Rightarrow> Message \<Rightarrow> Broker \<Rightarrow> Broker \<times> bool" where
  "publish e stream msg b =
     (if e_publish e stream msg then (b\<lparr>b_published := b_published b @ [(stream, msg)]\<rparr>, True)
      else (b, False))"

definition IsPreemptible :: "Broker \<Rightarrow> string \<Rightarrow> bool" where
  "IsPreemptible b agentID =
     (case Registry_Get agentID (b_registry b) of None \<Rightarrow> False | Some info \<Rightarrow> ai_Preemptible info)"

definition enqueue :: "Message \<Rightarrow> SlotRequestPayload \<Rightarrow> SlotClass \<Rightarrow> action" where
  "enqueue msg payload class = Atomic (\<lambda>b.
     (b\<lparr>b_pendingQueue := b_pendingQueue b @
         [\<lparr>sq_agentID = sr_AgentID payload, sq_priority = sr_Priority payload,
           sq_correlationID = m_CorrelationID msg, sq_replyStream = m_ReplyStream msg,
           sq_class = class\<rparr>]\<rparr>, Stop))"

definition scheduleReclaim :: "string \<Rightarrow> action \<Rightarrow> action" where
  "scheduleReclaim correlationID k = Atomic (\<lambda>b.
     (b\<lparr>b_reclaims := b_reclaims b @ [correlationID]\<rparr>, k))"

text \<open>The scan for the best queued request: \<^verbatim>\<open>(bestIdx, chosenSlot)\<close>, \<open>None\<close> for \<^verbatim>\<open>bestIdx == -1\<close>.\<close>

fun queue_scan ::
  "(nat \<Rightarrow> SlotTable) \<Rightarrow> slotRequest list \<Rightarrow> nat \<Rightarrow> slotRequest list \<Rightarrow> (nat \<times> int) option \<Rightarrow> (nat \<times> int) option" where
  "queue_scan tab q i [] best = best"
| "queue_scan tab q i (req # reqs) best =
     queue_scan tab q (Suc i) reqs
       (case FindUnassigned (sq_class req) (tab i) of
          None \<Rightarrow> best
        | Some sid \<Rightarrow>
            (case best of
               None \<Rightarrow> Some (i, sid)
             | Some (bestIdx, _) \<Rightarrow>
                 if sq_priority req < sq_priority (q ! bestIdx) then Some (i, sid) else best))"

definition revert :: "string \<Rightarrow> Broker \<Rightarrow> Broker" where
  "revert correlationID b = b\<lparr>b_slots := fst (RevertProvisional correlationID (b_slots b))\<rparr>"

definition assigned_reply :: "env \<Rightarrow> string \<Rightarrow> int \<Rightarrow> Message" where
  "assigned_reply e correlationID slotID =
     (NewMessage (e_fresh e) (e_now e) TypeSlotAssigned ''llm-broker''
        (enc_SlotAssignedPayload \<lparr>sa_SlotID = slotID\<rparr>))\<lparr>m_CorrelationID := correlationID\<rparr>"

text \<open>The end of \<^verbatim>\<open>assignFromQueue\<close>: publish the reply, or give the slot back.\<close>

definition confirm_queued :: "env \<Rightarrow> slotRequest \<Rightarrow> int \<Rightarrow> action \<Rightarrow> action" where
  "confirm_queued e req slotID k =
     (if sq_replyStream req = [] then Atomic (\<lambda>b. (revert (sq_correlationID req) b, k))
      else Atomic (\<lambda>b.
        case publish e (sq_replyStream req) (assigned_reply e (sq_correlationID req) slotID) b of
          (b, ok) \<Rightarrow> (b, if ok then scheduleReclaim (sq_correlationID req) k
            else Atomic (\<lambda>b. (revert (sq_correlationID req) b, k)))))"

text \<open>\<open>k\<close> is what the calling handler does after \<^verbatim>\<open>assignFromQueue\<close> returns.\<close>

definition assignFromQueue :: "env \<Rightarrow> action \<Rightarrow> action" where
  "assignFromQueue e k = Atomic (\<lambda>b.
     case queue_scan (\<lambda>i. e_view e i (b_slots b)) (b_pendingQueue b) 0 (b_pendingQueue b) None of
       None \<Rightarrow> (b, k)
     | Some (bestIdx, slotID) \<Rightarrow>
         let req = b_pendingQueue b ! bestIdx;
             b = b\<lparr>b_pendingQueue := take bestIdx (b_pendingQueue b) @ drop (Suc bestIdx) (b_pendingQueue b)\<rparr>
         in (b, Atomic (\<lambda>b.
           let (slots', ok) = AssignProvisional slotID (sq_agentID req) (sq_priority req)
                                (sq_correlationID req) (e_now e) (b_slots b)
           in if \<not> ok then
                (b, Atomic (\<lambda>b. (b\<lparr>b_pendingQueue := b_pendingQueue b @ [req]\<rparr>, k)))
              else (b\<lparr>b_slots := slots'\<rparr>, confirm_queued e req slotID k))))"

text \<open>The body of the goroutine \<^verbatim>\<open>scheduleReclaim\<close> starts, after its sleep.\<close>

definition reclaim :: "env \<Rightarrow> string \<Rightarrow> action" where
  "reclaim e correlationID = Atomic (\<lambda>b.
     case RevertProvisional correlationID (b_slots b) of
       (slots', None) \<Rightarrow> (b, Stop)
     | (slots', Some slotID) \<Rightarrow> (b\<lparr>b_slots := slots'\<rparr>, assignFromQueue e Stop))"

definition sendSlotAssigned :: "env \<Rightarrow> Message \<Rightarrow> int \<Rightarrow> action \<Rightarrow> action" where
  "sendSlotAssigned e original slotID k =
     (if m_ReplyStream original = [] then k
      else Atomic (\<lambda>b.
        case publish e (m_ReplyStream original)
               (NewReply (e_now e) original TypeSlotAssigned ''llm-broker''
                  (enc_SlotAssignedPayload \<lparr>sa_SlotID = slotID\<rparr>)) b of
          (b, ok) \<Rightarrow> (b, if ok then k else Atomic (\<lambda>b.
               case RevertProvisional (m_CorrelationID original) (b_slots b) of
                 (slots', None) \<Rightarrow> (b, k)
               | (slots', Some _) \<Rightarrow> (b\<lparr>b_slots := slots'\<rparr>, assignFromQueue e k)))))"

definition preempt_reason :: "SlotRequestPayload \<Rightarrow> string" where
  "preempt_reason requester =
     ''higher priority agent '' @ sr_AgentID requester @ '' (priority '' @ itoa (sr_Priority requester) @
     '') needs slot''"

definition preemptAgent :: "env \<Rightarrow> string \<Rightarrow> int \<Rightarrow> Message \<Rightarrow> SlotRequestPayload \<Rightarrow> action" where
  "preemptAgent e victimAgent slotID originalMsg requester = Atomic (\<lambda>b.
     (b\<lparr>b_signals := b_signals b @
          [(''channel:agent:'' @ victimAgent @ '':preempt'',
            NewMessage (e_fresh e) (e_now e) TypePreempt ''llm-broker''
              (JObj [(''reason'', JStr (preempt_reason requester))]))],
        b_preempts := b_preempts b @
          [\<lparr>pre_victim = victimAgent, pre_slot = slotID, pre_msg = originalMsg, pre_requester = requester\<rparr>]\<rparr>,
      Stop))"

text \<open>The body of the goroutine \<^verbatim>\<open>preemptAgent\<close> starts, after its sleep.\<close>

definition preempt_force :: "env \<Rightarrow> preemption \<Rightarrow> action" where
  "preempt_force e p = Atomic (\<lambda>b.
     case ForceAssign (pre_slot p) (sr_AgentID (pre_requester p)) (sr_Priority (pre_requester p))
            (e_now e) (b_slots b) of
       Panics \<Rightarrow> (b, Crash)
     | Returns slots' \<Rightarrow> (b\<lparr>b_slots := slots'\<rparr>, sendSlotAssigned e (pre_msg p) (pre_slot p) Stop))"

definition preempt_expire :: "env \<Rightarrow> preemption \<Rightarrow> action" where
  "preempt_expire e p = Atomic (\<lambda>b.
     case GetByAgent (pre_victim p) (b_slots b) of
       None \<Rightarrow> (b, preempt_force e p)
     | Some _ \<Rightarrow> (b, Atomic (\<lambda>b. (b\<lparr>b_slots := Release (pre_slot p) (b_slots b)\<rparr>,
         Atomic (\<lambda>b. (b\<lparr>b_registry := MarkDead (pre_victim p) (b_registry b)\<rparr>,
           preempt_force e p))))))"

definition handleSlotRequest :: "env \<Rightarrow> Message \<Rightarrow> SlotRequestPayload \<Rightarrow> action" where
  "handleSlotRequest e msg payload =
     (case NormalizeClass (sr_SlotClass payload) of
        None \<Rightarrow> Stop
      | Some class \<Rightarrow> Atomic (\<lambda>b.
          case FindUnassigned class (b_slots b) of
            Some slotID \<Rightarrow> (b, Atomic (\<lambda>b.
              let (slots', ok) = AssignProvisional slotID (sr_AgentID payload) (sr_Priority payload)
                                   (m_CorrelationID msg) (e_now e) (b_slots b)
              in if \<not> ok then (b, enqueue msg payload class)
                 else (b\<lparr>b_slots := slots'\<rparr>,
                       sendSlotAssigned e msg slotID (scheduleReclaim (m_CorrelationID msg) Stop))))
          | None \<Rightarrow> (b, Atomic (\<lambda>b.
              case FindLowestPriorityPreemptible class (IsPreemptible b) (b_slots b) of
                Some (victimSlot, victimAgent, victimPriority) \<Rightarrow>
                  if sr_Priority payload < victimPriority
                  then (b, preemptAgent e victimAgent victimSlot msg payload)
                  else (b, enqueue msg payload class)
              | None \<Rightarrow> (b, enqueue msg payload class)))))"

definition handleSlotAssignedAck :: "Message \<Rightarrow> action" where
  "handleSlotAssignedAck msg = Atomic (\<lambda>b.
     (b\<lparr>b_slots := fst (CommitAssignment (m_CorrelationID msg) (b_slots b))\<rparr>, Stop))"

definition handleSlotRelease :: "env \<Rightarrow> SlotReleasePayload \<Rightarrow> action" where
  "handleSlotRelease e payload =
     (if rel_SlotID payload = -1 then
        Atomic (\<lambda>b.
          let (slots', released) = ReleaseByAgent (rel_AgentID payload) (b_slots b)
          in (b\<lparr>b_slots := slots'\<rparr>, if released = [] then Stop else assignFromQueue e Stop))
      else Atomic (\<lambda>b. (b\<lparr>b_slots := Release (rel_SlotID payload) (b_slots b)\<rparr>, assignFromQueue e Stop)))"

definition handleDeadAgent :: "env \<Rightarrow> string \<Rightarrow> action" where
  "handleDeadAgent e agentID = Atomic (\<lambda>b.
     let (slots', released) = ReleaseByAgent agentID (b_slots b)
     in (b\<lparr>b_slots := slots'\<rparr>, if released \<noteq> [] then assignFromQueue e Stop else Stop))"

definition handleMessage :: "env \<Rightarrow> Message \<Rightarrow> action" where
  "handleMessage e msg =
     (if m_Type msg = TypeSlotRequest then
        (case dec_SlotRequestPayload (m_Payload msg) of None \<Rightarrow> Stop | Some p \<Rightarrow> handleSlotRequest e msg p)
      else if m_Type msg = TypeSlotAssignedAck then
        (case dec_SlotAssignedAckPayload (m_Payload msg) of None \<Rightarrow> Stop | Some p \<Rightarrow> handleSlotAssignedAck msg)
      else if m_Type msg = TypeSlotRelease then
        (case dec_SlotReleasePayload (m_Payload msg) of None \<Rightarrow> Stop | Some p \<Rightarrow> handleSlotRelease e p)
      else Stop)"

text \<open>Replies published one after the other; failures are ignored.\<close>

primrec publish_seq :: "env \<Rightarrow> string \<Rightarrow> Message list \<Rightarrow> action \<Rightarrow> action" where
  "publish_seq e stream [] k = k"
| "publish_seq e stream (m # ms) k = Atomic (\<lambda>b. (fst (publish e stream m b), publish_seq e stream ms k))"

definition done_msg :: "env \<Rightarrow> Message \<Rightarrow> Message" where
  "done_msg e msg = NewReply (e_now e) msg TypeToken ''llm-broker''
     (enc_TokenPayload \<lparr>tk_SessionID = [], tk_Token = [], tk_Done = True\<rparr>)"

definition token_msg :: "env \<Rightarrow> Message \<Rightarrow> string \<Rightarrow> Message" where
  "token_msg e msg token = NewReply (e_now e) msg TypeToken ''llm-broker''
     (enc_TokenPayload \<lparr>tk_SessionID = [], tk_Token = token, tk_Done = False\<rparr>)"

definition tool_call_msg :: "env \<Rightarrow> Message \<Rightarrow> ToolCall \<Rightarrow> Message" where
  "tool_call_msg e msg call = NewReply (e_now e) msg TypeToolCall ''llm-broker''
     (enc_ToolCallPayload \<lparr>tcp_SessionID = [], tcp_Call = call, tcp_Done = False\<rparr>)"

definition sendDoneOnReply :: "env \<Rightarrow> Message \<Rightarrow> action" where
  "sendDoneOnReply e msg =
     (if m_ReplyStream msg = [] then Stop else publish_seq e (m_ReplyStream msg) [done_msg e msg] Stop)"

text \<open>
  \<^verbatim>\<open>select\<close> over the token and the tool-call channel: \<open>sched\<close> says which of two ready channels is read.
\<close>

fun select_merge :: "bool list \<Rightarrow> 'a list \<Rightarrow> 'a list \<Rightarrow> 'a list" where
  "select_merge sched [] ys = ys"
| "select_merge sched (x # xs) [] = x # xs"
| "select_merge [] (x # xs) (y # ys) = x # xs @ y # ys"
| "select_merge (t # sched) (x # xs) (y # ys) =
     (if t then x # select_merge sched xs (y # ys) else y # select_merge sched (x # xs) ys)"

definition handleLLMRequest ::
  "env \<Rightarrow> (int \<Rightarrow> ChatMsg list \<Rightarrow> json list \<Rightarrow> string \<Rightarrow> bool \<Rightarrow> proxy_output) \<Rightarrow> bool list \<Rightarrow> Message \<Rightarrow> action" where
  "handleLLMRequest e proxy sched msg =
     (case dec_LLMRequestPayload (m_Payload msg) of
        None \<Rightarrow> Stop
      | Some payload \<Rightarrow>
          (case NormalizeClass (lr_SlotClass payload) of
             None \<Rightarrow> sendDoneOnReply e msg
           | Some requestedClass \<Rightarrow> Atomic (\<lambda>b.
               if ClassOf (lr_SlotID payload) (b_slots b) \<noteq> requestedClass then (b, sendDoneOnReply e msg)
               else (b, Atomic (\<lambda>b.
                 if \<not> IsOwnedBy (lr_SlotID payload) (m_Source msg) (b_slots b) then (b, sendDoneOnReply e msg)
                 else (b,
                   let out = proxy (lr_SlotID payload) (lr_Messages payload) (lr_Tools payload)
                               (lr_ToolChoice payload) (lr_Stream payload)
                   in if m_ReplyStream msg = [] then Stop
                      else publish_seq e (m_ReplyStream msg)
                        (select_merge sched (map (token_msg e msg) (po_tokens out))
                           (map (tool_call_msg e msg) (po_calls out)) @ [done_msg e msg]) Stop))))))"

definition enc_SlotSnapshotEntry :: "SlotSnapshotEntry \<Rightarrow> json" where
  "enc_SlotSnapshotEntry s = JObj
     ([(''slot'', JInt (ss_SlotID s)), (''class'', JStr (ss_Class s)), (''state'', JStr (ss_State s))] @
      omit_empty ''agent'' (JStr (ss_AgentID s)) @
      [(''priority'', JInt (ss_Priority s)), (''age_s'', JReal (ss_AgeS s))])"

definition handleSnapshotRequest :: "env \<Rightarrow> Message \<Rightarrow> action" where
  "handleSnapshotRequest e msg =
     (if m_Type msg \<noteq> ''slot_snapshot_request'' then Stop
      else Atomic (\<lambda>b.
        let reply = NewReply (e_now e) msg ''slot_snapshot_response'' ''llm-broker''
              (JObj [(''slots'', enc_list enc_SlotSnapshotEntry (Snapshot (e_now e) (b_slots b)))])
        in (b, if m_ReplyStream msg = [] then Stop
               else publish_seq e (m_ReplyStream msg) [reply] Stop)))"

section \<open>The interleaved system\<close>

text \<open>
  The broker's state and the handlers in progress. Any handler may be started at any time (the
  model allows more overlap than the single stream consumer) and any of them may take the next
  step; a sleeping goroutine may wake whenever it likes, so no time-out length is assumed.
\<close>

record system =
  sys_broker :: Broker
  sys_threads :: "action list"

inductive broker_step :: "system \<Rightarrow> system \<Rightarrow> bool" where
  message: "broker_step s (s\<lparr>sys_threads := sys_threads s @ [handleMessage e msg]\<rparr>)"
| llm_message: "broker_step s (s\<lparr>sys_threads := sys_threads s @ [handleLLMRequest e proxy sched msg]\<rparr>)"
| snapshot: "broker_step s (s\<lparr>sys_threads := sys_threads s @ [handleSnapshotRequest e msg]\<rparr>)"
| dead_agent: "broker_step s (s\<lparr>sys_threads := sys_threads s @ [handleDeadAgent e a]\<rparr>)"
| reclaim_wakes: "b_reclaims (sys_broker s) = us @ c # vs \<Longrightarrow>
    broker_step s (s\<lparr>sys_broker := (sys_broker s)\<lparr>b_reclaims := us @ vs\<rparr>,
                     sys_threads := sys_threads s @ [reclaim e c]\<rparr>)"
| preempt_wakes: "b_preempts (sys_broker s) = us @ p # vs \<Longrightarrow>
    broker_step s (s\<lparr>sys_broker := (sys_broker s)\<lparr>b_preempts := us @ vs\<rparr>,
                     sys_threads := sys_threads s @ [preempt_expire e p]\<rparr>)"
| registers: "broker_step s (s\<lparr>sys_broker := (sys_broker s)\<lparr>b_registry :=
    Registry_Register n info (b_registry (sys_broker s))\<rparr>\<rparr>)"
| deregisters: "broker_step s (s\<lparr>sys_broker := (sys_broker s)\<lparr>b_registry :=
    Registry_Deregister a (b_registry (sys_broker s))\<rparr>\<rparr>)"
| heartbeat: "broker_step s (s\<lparr>sys_broker := (sys_broker s)\<lparr>b_registry :=
    MarkHeartbeat n a (b_registry (sys_broker s))\<rparr>\<rparr>)"
| timeout: "broker_step s (s\<lparr>sys_broker := (sys_broker s)\<lparr>b_registry :=
    MarkDead a (b_registry (sys_broker s))\<rparr>\<rparr>)"
| runs: "sys_threads s = us @ Atomic f # vs \<Longrightarrow> f (sys_broker s) = (b', k) \<Longrightarrow>
    broker_step s (s\<lparr>sys_broker := b', sys_threads := us @ k # vs\<rparr>)"
| returns: "sys_threads s = us @ Stop # vs \<Longrightarrow> broker_step s (s\<lparr>sys_threads := us @ vs\<rparr>)"

inductive broker_reachable :: "int \<Rightarrow> int \<Rightarrow> system \<Rightarrow> bool" for a h where
  start: "broker_reachable a h \<lparr>sys_broker = NewBroker a h NewRegistry, sys_threads = []\<rparr>"
| step: "broker_reachable a h s \<Longrightarrow> broker_step s s' \<Longrightarrow> broker_reachable a h s'"

section \<open>Safety of the interleaved system\<close>

text \<open>
  The state invariant of one broker, relative to the classes of its slots; preemptions in flight
  name slots of the table.
\<close>

definition broker_inv :: "SlotClass list \<Rightarrow> Broker \<Rightarrow> bool" where
  "broker_inv cs b \<longleftrightarrow> slot_inv (b_slots b) \<and> map se_Class (b_slots b) = cs \<and>
     registry_inv (b_registry b) \<and> (\<forall>p \<in> set (b_preempts b). 0 \<le> pre_slot p)"

text \<open>
  Every provisional slot is owed a reclaim: by a sleeping goroutine, or by one of the handlers in
  progress, whose debts are \<open>D\<close>.
\<close>

definition covered :: "string multiset \<Rightarrow> Broker \<Rightarrow> bool" where
  "covered D b \<longleftrightarrow> prov_mset (b_slots b) \<subseteq># mset (b_reclaims b) + D"

text \<open>
  A handler with debts \<open>D\<close> is good if each of its steps keeps the state invariant and the
  coverage of provisional slots, whatever the other handlers owe, and it ends without debts.
\<close>

inductive good :: "SlotClass list \<Rightarrow> string multiset \<Rightarrow> action \<Rightarrow> bool" for cs where
  Stop: "good cs {#} Stop"
| Atomic: "(\<And>b. broker_inv cs b \<Longrightarrow> \<exists>D'. good cs D' (snd (f b)) \<and> broker_inv cs (fst (f b)) \<and>
      (\<forall>X. covered (D + X) b \<longrightarrow> covered (D' + X) (fst (f b)))) \<Longrightarrow> good cs D (Atomic f)"

inductive_cases good_StopE: "good cs D Stop"
inductive_cases good_CrashE: "good cs D Crash"
inductive_cases good_AtomicE: "good cs D (Atomic f)"

lemma broker_inv_simps [simp]:
  "broker_inv cs (b\<lparr>b_pendingQueue := q\<rparr>) = broker_inv cs b"
  "broker_inv cs (b\<lparr>b_reclaims := r\<rparr>) = broker_inv cs b"
  "broker_inv cs (b\<lparr>b_published := p\<rparr>) = broker_inv cs b"
  "broker_inv cs (b\<lparr>b_signals := g\<rparr>) = broker_inv cs b"
  by (simp_all add: broker_inv_def)

lemma covered_simps [simp]:
  "covered D (b\<lparr>b_pendingQueue := q\<rparr>) = covered D b"
  "covered D (b\<lparr>b_published := p\<rparr>) = covered D b"
  "covered D (b\<lparr>b_signals := g\<rparr>) = covered D b"
  "covered D (b\<lparr>b_registry := r\<rparr>) = covered D b"
  "covered D (b\<lparr>b_preempts := pr\<rparr>) = covered D b"
  by (simp_all add: covered_def)

lemma broker_inv_slots:
  "broker_inv cs b \<Longrightarrow> keeps_table (b_slots b) st \<Longrightarrow> broker_inv cs (b\<lparr>b_slots := st\<rparr>)"
  by (simp add: broker_inv_def keeps_table_def)

lemma broker_invD: "broker_inv cs b \<Longrightarrow> slot_inv (b_slots b)"
  by (simp add: broker_inv_def)

lemma broker_inv_publish: "publish e s m b = (b', ok) \<Longrightarrow> broker_inv cs b' = broker_inv cs b"
  by (auto simp: publish_def split: if_splits)

lemma covered_publish: "publish e s m b = (b', ok) \<Longrightarrow> covered D b' = covered D b"
  by (auto simp: publish_def split: if_splits)

text \<open>Steps that only take provisional slots away keep the coverage.\<close>

lemma covered_less:
  "covered D b \<Longrightarrow> prov_mset st \<subseteq># prov_mset (b_slots b) \<Longrightarrow> covered D (b\<lparr>b_slots := st\<rparr>)"
  by (auto simp: covered_def intro: subset_mset.order_trans)

text \<open>A revert settles the debt for its correlation id.\<close>

lemma covered_revert:
  assumes "covered (add_mset c D) b" "RevertProvisional c (b_slots b) = (st, r)"
  shows "covered D (b\<lparr>b_slots := st\<rparr>)"
proof (cases r)
  case None
  with Revert_None assms(2) have "st = b_slots b" "c \<notin># prov_mset (b_slots b)" by auto
  with assms(1) show ?thesis
    by (auto simp: covered_def intro: subset_add_mset_notin)
next
  case (Some i)
  with assms prov_mset_Revert [of c "b_slots b" st i] show ?thesis by (simp add: covered_def)
qed

lemma good_AtomicI:
  assumes "\<And>b. broker_inv cs b \<Longrightarrow> good cs D' (snd (f b))"
    and "\<And>b. broker_inv cs b \<Longrightarrow> broker_inv cs (fst (f b))"
    and "\<And>b X. broker_inv cs b \<Longrightarrow> covered (D + X) b \<Longrightarrow> covered (D' + X) (fst (f b))"
  shows "good cs D (Atomic f)"
  using assms by (intro good.Atomic) blast

lemma good_revert:
  assumes "good cs D k"
  shows "good cs (add_mset c D) (Atomic (\<lambda>b. (revert c b, k)))"
proof (rule good_AtomicI)
  fix b X
  assume inv: "broker_inv cs b"
  show "broker_inv cs (fst (revert c b, k))"
    using broker_inv_slots [OF inv RevertProvisional_keeps [OF broker_invD [OF inv]]]
    by (simp add: revert_def)
  assume "covered (add_mset c D + X) b"
  with covered_revert [of c "D + X" b] show "covered (D + X) (fst (revert c b, k))"
    by (simp add: revert_def) (metis prod.collapse)
qed (use assms in simp)

lemma good_scheduleReclaim:
  "good cs D k \<Longrightarrow> good cs (add_mset c D) (scheduleReclaim c k)"
  unfolding scheduleReclaim_def
  by (intro good.Atomic exI [of _ D]) (auto simp: covered_def)

lemma covered_assign:
  assumes "covered D b" "AssignProvisional i a p c n (b_slots b) = (st, True)"
  shows "covered (add_mset c D) (b\<lparr>b_slots := st\<rparr>)"
  using assms prov_mset_AssignProvisional [OF assms(2)] by (simp add: covered_def)

lemma broker_inv_assign:
  "broker_inv cs b \<Longrightarrow> AssignProvisional i a p c n (b_slots b) = (st, ok) \<Longrightarrow> broker_inv cs (b\<lparr>b_slots := st\<rparr>)"
  using AssignProvisional_keeps [of "b_slots b" i a p c n] by (auto intro: broker_inv_slots dest: broker_invD)

lemma good_publish:
  assumes "good cs D (k True)" "good cs D (k False)"
  shows "good cs D (Atomic (\<lambda>b. case publish e s m b of (b, ok) \<Rightarrow> (b, k ok)))"
proof (rule good_AtomicI [where D' = D])
  fix b X
  obtain b' ok where pb: "publish e s m b = (b', ok)" by fastforce
  show "good cs D (snd (case publish e s m b of (b, ok) \<Rightarrow> (b, k ok)))"
    using assms by (cases ok) (auto simp: pb)
  show "broker_inv cs (fst (case publish e s m b of (b, ok) \<Rightarrow> (b, k ok)))" if "broker_inv cs b"
    using that by (simp add: pb broker_inv_publish [OF pb])
  show "covered (D + X) (fst (case publish e s m b of (b, ok) \<Rightarrow> (b, k ok)))" if "covered (D + X) b"
    using that by (simp add: pb covered_publish [OF pb])
qed

text \<open>The step every assignment shares: take the slot and owe its reclaim, or leave the table.\<close>

lemma good_take:
  assumes taken: "good cs (add_mset c D) kt" and refused: "good cs D kf"
  shows "good cs D (Atomic (\<lambda>b. let (st, ok) = AssignProvisional i a p c n (b_slots b)
    in if \<not> ok then (b, kf) else (b\<lparr>b_slots := st\<rparr>, kt)))"
proof (rule good.Atomic)
  fix b
  assume inv: "broker_inv cs b"
  obtain st ok where e: "AssignProvisional i a p c n (b_slots b) = (st, ok)" by fastforce
  show "\<exists>D'. good cs D' (snd (let (st, ok) = AssignProvisional i a p c n (b_slots b)
      in if \<not> ok then (b, kf) else (b\<lparr>b_slots := st\<rparr>, kt))) \<and>
    broker_inv cs (fst (let (st, ok) = AssignProvisional i a p c n (b_slots b)
      in if \<not> ok then (b, kf) else (b\<lparr>b_slots := st\<rparr>, kt))) \<and>
    (\<forall>X. covered (D + X) b \<longrightarrow> covered (D' + X) (fst (let (st, ok) = AssignProvisional i a p c n (b_slots b)
      in if \<not> ok then (b, kf) else (b\<lparr>b_slots := st\<rparr>, kt))))"
  proof (cases ok)
    case True
    with e have "covered (D + X) b \<Longrightarrow> covered (add_mset c D + X) (b\<lparr>b_slots := st\<rparr>)" for X
      using covered_assign [of "D + X" b i a p c n st] by simp
    with True e taken broker_inv_assign [OF inv e] show ?thesis
      by (intro exI [of _ "add_mset c D"]) simp
  next
    case False
    with e refused inv show ?thesis by (intro exI [of _ D]) simp
  qed
qed

lemma good_requeue:
  "good cs D k \<Longrightarrow> good cs D (Atomic (\<lambda>b. (b\<lparr>b_pendingQueue := b_pendingQueue b @ [req]\<rparr>, k)))"
  by (rule good_AtomicI [where D' = D]) auto

lemma good_assignFromQueue:
  assumes "good cs D k"
  shows "good cs D (assignFromQueue e k)"
proof -
  have "good cs (add_mset (sq_correlationID req) D) (confirm_queued e req slotID k)" for req slotID
    using good_revert [OF assms, of "sq_correlationID req"]
      good_scheduleReclaim [OF assms, of "sq_correlationID req"]
    by (auto simp: confirm_queued_def intro!: good_publish)
  note tail = good_take [OF this good_requeue [OF assms]]
  show ?thesis
    unfolding assignFromQueue_def
    by (rule good_AtomicI [where D' = D])
      (auto simp: Let_def assms intro!: tail [unfolded Let_def] split: option.splits)
qed

text \<open>Steps that only free slots or settle them for good.\<close>

lemma good_shrink:
  assumes "\<And>b. slot_inv (b_slots b) \<Longrightarrow>
      keeps_table (b_slots b) (g b) \<and> prov_mset (g b) \<subseteq># prov_mset (b_slots b)"
    and "\<And>b. good cs D (k b)"
  shows "good cs D (Atomic (\<lambda>b. (b\<lparr>b_slots := g b\<rparr>, k b)))"
  using assms by (intro good_AtomicI [where D' = D]) (auto dest: broker_invD intro: broker_inv_slots covered_less)

lemma prov_mset_fst_Revert: "prov_mset (fst (RevertProvisional c st)) \<subseteq># prov_mset st"
  using prov_mset_Revert [of c st] Revert_None [of c st]
  by (cases "RevertProvisional c st"; cases "snd (RevertProvisional c st)") auto

lemma prov_mset_fst_Commit: "prov_mset (fst (CommitAssignment c st)) \<subseteq># prov_mset st"
  using prov_mset_Commit [of c st] Commit_None [of c st]
  by (cases "CommitAssignment c st"; cases "snd (CommitAssignment c st)") auto

lemma good_sendSlotAssigned:
  assumes "good cs D k"
  shows "good cs D (sendSlotAssigned e m i k)"
proof -
  have eq: "(case RevertProvisional c (b_slots b) of
        (slots', None) \<Rightarrow> (b, k) | (slots', Some _) \<Rightarrow> (b\<lparr>b_slots := slots'\<rparr>, assignFromQueue e k)) =
      (b\<lparr>b_slots := fst (RevertProvisional c (b_slots b))\<rparr>,
       if snd (RevertProvisional c (b_slots b)) = None then k else assignFromQueue e k)" for c b
    using Revert_None [of c "b_slots b"] by (auto split: prod.splits option.splits)
  have "good cs D (Atomic (\<lambda>b. case RevertProvisional c (b_slots b) of
        (slots', None) \<Rightarrow> (b, k) | (slots', Some _) \<Rightarrow> (b\<lparr>b_slots := slots'\<rparr>, assignFromQueue e k)))" for c
    unfolding eq
    by (rule good_shrink) (auto simp: RevertProvisional_keeps prov_mset_fst_Revert good_assignFromQueue assms)
  then show ?thesis
    using assms by (auto simp: sendSlotAssigned_def intro!: good_publish)
qed

lemma good_reclaim: "good cs {#c#} (reclaim e c)"
  unfolding reclaim_def
proof (rule good_AtomicI [where D' = "{#}"])
  fix b X
  assume inv: "broker_inv cs b"
  obtain st r where e: "RevertProvisional c (b_slots b) = (st, r)" by fastforce
  let ?r = "case RevertProvisional c (b_slots b) of (slots', None) \<Rightarrow> (b, Stop)
    | (slots', Some slotID) \<Rightarrow> (b\<lparr>b_slots := slots'\<rparr>, assignFromQueue e Stop)"
  have fst: "fst ?r = b\<lparr>b_slots := st\<rparr>"
    using e Revert_None [of c "b_slots b" st] by (auto split: option.splits)
  show "good cs {#} (snd ?r)"
    using e by (auto simp: good_assignFromQueue good.Stop split: option.splits)
  show "broker_inv cs (fst ?r)"
    using RevertProvisional_keeps [OF broker_invD [OF inv], of c] e inv
    unfolding fst by (auto intro: broker_inv_slots)
  show "covered ({#} + X) (fst ?r)" if "covered ({#c#} + X) b"
    unfolding fst using covered_revert [of c X b st r] that e by simp
qed

lemma good_preempt_force: "0 \<le> pre_slot p \<Longrightarrow> good cs {#} (preempt_force e p)"
  unfolding preempt_force_def
proof (rule good_AtomicI [where D' = "{#}"])
  fix b X
  assume p: "0 \<le> pre_slot p" and inv: "broker_inv cs b"
  obtain st where st: "ForceAssign (pre_slot p) (sr_AgentID (pre_requester p)) (sr_Priority (pre_requester p))
      (e_now e) (b_slots b) = Returns st"
    using p by (metis ForceAssign_def not_less)
  let ?r = "case ForceAssign (pre_slot p) (sr_AgentID (pre_requester p)) (sr_Priority (pre_requester p))
      (e_now e) (b_slots b) of Panics \<Rightarrow> (b, Crash)
     | Returns slots' \<Rightarrow> (b\<lparr>b_slots := slots'\<rparr>, sendSlotAssigned e (pre_msg p) (pre_slot p) Stop)"
  show "good cs {#} (snd ?r)" by (simp add: st good_sendSlotAssigned good.Stop)
  show "broker_inv cs (fst ?r)"
    using ForceAssign_keeps [OF broker_invD [OF inv] st] inv by (simp add: st broker_inv_slots)
  show "covered ({#} + X) (fst ?r)" if "covered ({#} + X) b"
    using prov_mset_ForceAssign [OF st] that by (simp add: st covered_less)
qed

lemma good_preempt_expire:
  assumes "0 \<le> pre_slot p"
  shows "good cs {#} (preempt_expire e p)"
proof -
  have "good cs {#} (Atomic (\<lambda>b. (b\<lparr>b_registry := MarkDead (pre_victim p) (b_registry b)\<rparr>, preempt_force e p)))"
    by (rule good_AtomicI [where D' = "{#}"])
      (auto simp: good_preempt_force assms broker_inv_def reg.inv_dead)
  then have "good cs {#} (Atomic (\<lambda>b. (b\<lparr>b_slots := Release (pre_slot p) (b_slots b)\<rparr>,
      Atomic (\<lambda>b. (b\<lparr>b_registry := MarkDead (pre_victim p) (b_registry b)\<rparr>, preempt_force e p)))))"
    by (intro good_shrink) (auto simp: Release_keeps prov_mset_Release)
  then show ?thesis
    unfolding preempt_expire_def
    by (intro good_AtomicI [where D' = "{#}"])
      (auto simp: good_preempt_force assms split: option.splits)
qed

lemma good_enqueue: "good cs {#} (enqueue m p c)"
  unfolding enqueue_def by (rule good_AtomicI [where D' = "{#}"]) (auto intro: good.Stop)

lemma good_preemptAgent: "0 \<le> i \<Longrightarrow> good cs {#} (preemptAgent e v i m p)"
  unfolding preemptAgent_def
  by (rule good_AtomicI [where D' = "{#}"]) (auto simp: broker_inv_def good.Stop)

lemma victim_in_range:
  assumes "slot_inv st" "FindLowestPriorityPreemptible c pr st = Some (i, a, p)"
  shows "in_range i st"
proof -
  from assms obtain s where "first_best (\<lambda>x y. - se_Priority x < - se_Priority y)
      (filter (preempt_candidate c pr) st) = Some s" "i = se_SlotID s"
    by (auto simp: FindLowestPriorityPreemptible_ref slot_triple_def)
  with first_best_least(1) slot_inv_in_set [OF assms(1), of s] show ?thesis
    by (fastforce simp: in_range_def)
qed

lemma good_handleSlotRequest: "good cs {#} (handleSlotRequest e m p)"
proof (cases "NormalizeClass (sr_SlotClass p)")
  case None
  then show ?thesis by (simp add: handleSlotRequest_def good.Stop)
next
  case (Some cl)
  have assigns: "good cs {#} (Atomic (\<lambda>b.
      let (slots', ok) = AssignProvisional i (sr_AgentID p) (sr_Priority p) (m_CorrelationID m) (e_now e) (b_slots b)
      in if \<not> ok then (b, enqueue m p cl)
         else (b\<lparr>b_slots := slots'\<rparr>, sendSlotAssigned e m i (scheduleReclaim (m_CorrelationID m) Stop))))" for i
    by (rule good_take) (auto intro: good_enqueue good_sendSlotAssigned good_scheduleReclaim good.Stop)
  have preempts: "good cs {#} (Atomic (\<lambda>b.
      case FindLowestPriorityPreemptible cl (IsPreemptible b) (b_slots b) of
        Some (victimSlot, victimAgent, victimPriority) \<Rightarrow>
          if sr_Priority p < victimPriority then (b, preemptAgent e victimAgent victimSlot m p)
          else (b, enqueue m p cl)
      | None \<Rightarrow> (b, enqueue m p cl)))"
  proof (rule good_AtomicI [where D' = "{#}"], goal_cases)
    case (1 b)
    note r = victim_in_range [OF broker_invD [OF 1], of cl "IsPreemptible b"]
    show ?case
      by (auto simp: in_range_def intro!: good_enqueue good_preemptAgent dest!: r split: option.splits)
  qed (auto split: option.splits)
  show ?thesis
    unfolding handleSlotRequest_def Some option.case
    by (rule good_AtomicI [where D' = "{#}"]) (auto simp: preempts split: option.splits intro: assigns [unfolded Let_def])
qed

lemma good_by_agent:
  "good cs {#} (Atomic (\<lambda>b. let (slots', released) = ReleaseByAgent a (b_slots b)
     in (b\<lparr>b_slots := slots'\<rparr>, if released = [] then Stop else assignFromQueue e Stop)))"
  unfolding Let_def split_def
  by (rule good_shrink) (auto simp: ReleaseByAgent_keeps prov_mset_ReleaseByAgent good_assignFromQueue good.Stop)

lemma good_handleSlotRelease: "good cs {#} (handleSlotRelease e p)"
  using good_by_agent
  by (auto simp: handleSlotRelease_def Release_keeps prov_mset_Release good_assignFromQueue good.Stop
      intro!: good_shrink)

lemma good_handleDeadAgent: "good cs {#} (handleDeadAgent e a)"
proof -
  have "handleDeadAgent e a = Atomic (\<lambda>b. let (slots', released) = ReleaseByAgent a (b_slots b)
     in (b\<lparr>b_slots := slots'\<rparr>, if released = [] then Stop else assignFromQueue e Stop))"
    by (auto simp: handleDeadAgent_def fun_eq_iff split: prod.splits)
  then show ?thesis using good_by_agent by simp
qed

lemma good_handleMessage: "good cs {#} (handleMessage e m)"
  by (auto simp: handleMessage_def handleSlotAssignedAck_def CommitAssignment_keeps prov_mset_fst_Commit
      good_handleSlotRequest good_handleSlotRelease good.Stop split: option.splits intro!: good_shrink)

lemma good_publish_seq: "good cs D k \<Longrightarrow> good cs D (publish_seq e st ms k)"
proof (induction ms)
  case (Cons m ms)
  then show ?case
    by (auto intro!: good_AtomicI [where D' = D]
        simp: broker_inv_publish [OF prod.collapse [symmetric]] covered_publish [OF prod.collapse [symmetric]])
qed simp

lemma good_read: "(\<And>b. good cs D (k b)) \<Longrightarrow> good cs D (Atomic (\<lambda>b. (b, k b)))"
  by (rule good_AtomicI [where D' = D]) auto

lemma good_branch:
  "good cs D k1 \<Longrightarrow> good cs D k2 \<Longrightarrow> good cs D (Atomic (\<lambda>b. if P b then (b, k1) else (b, k2)))"
  by (rule good_AtomicI [where D' = D]) auto

lemma good_sendDoneOnReply: "good cs {#} (sendDoneOnReply e m)"
  unfolding sendDoneOnReply_def by (auto simp del: publish_seq.simps intro: good.Stop good_publish_seq)

lemma good_handleLLMRequest: "good cs {#} (handleLLMRequest e proxy sched m)"
  unfolding handleLLMRequest_def Let_def
  by (auto simp del: publish_seq.simps split: option.splits
      intro!: good_branch good_publish_seq good.Stop good_sendDoneOnReply)

lemma good_handleSnapshotRequest: "good cs {#} (handleSnapshotRequest e m)"
  by (auto simp: handleSnapshotRequest_def Let_def simp del: publish_seq.simps
      intro!: good_read good_publish_seq good.Stop)

definition system_inv :: "SlotClass list \<Rightarrow> system \<Rightarrow> bool" where
  "system_inv cs s \<longleftrightarrow> broker_inv cs (sys_broker s) \<and>
     (\<exists>Ds. list_all2 (good cs) Ds (sys_threads s) \<and> covered (sum_list Ds) (sys_broker s))"

lemma system_inv_spawn:
  assumes "system_inv cs s" "good cs D k" "broker_inv cs b"
    and "\<And>X. covered X (sys_broker s) \<Longrightarrow> covered (D + X) b"
  shows "system_inv cs (s\<lparr>sys_broker := b, sys_threads := sys_threads s @ [k]\<rparr>)"
proof -
  from assms(1) obtain Ds where "list_all2 (good cs) Ds (sys_threads s)" "covered (sum_list Ds) (sys_broker s)"
    by (auto simp: system_inv_def)
  with assms(2,4) have "list_all2 (good cs) (Ds @ [D]) (sys_threads s @ [k])" "covered (sum_list (Ds @ [D])) b"
    by (auto intro: list_all2_appendI) (metis add.commute)
  with assms(3) show ?thesis unfolding system_inv_def by auto
qed

lemma system_inv_registry:
  "system_inv cs s \<Longrightarrow> (registry_inv (b_registry (sys_broker s)) \<Longrightarrow> registry_inv r) \<Longrightarrow>
    system_inv cs (s\<lparr>sys_broker := (sys_broker s)\<lparr>b_registry := r\<rparr>\<rparr>)"
  by (auto simp: system_inv_def broker_inv_def)

lemma system_inv_runs:
  assumes "system_inv cs s" "sys_threads s = us @ Atomic f # vs" "f (sys_broker s) = (b', k)"
  shows "system_inv cs (s\<lparr>sys_broker := b', sys_threads := us @ k # vs\<rparr>)"
proof -
  from assms obtain Ds where inv: "broker_inv cs (sys_broker s)"
    and "list_all2 (good cs) Ds (us @ Atomic f # vs)" and cov: "covered (sum_list Ds) (sys_broker s)"
    by (auto simp: system_inv_def)
  then obtain Du D Dv where Ds: "Ds = Du @ D # Dv" and g: "list_all2 (good cs) Du us"
    "good cs D (Atomic f)" "list_all2 (good cs) Dv vs"
    by (auto simp: list_all2_append2 list_all2_Cons2)
  from g(2) inv obtain D' where D': "good cs D' k" "broker_inv cs b'"
    "\<And>X. covered (D + X) (sys_broker s) \<Longrightarrow> covered (D' + X) b'"
    using assms(3) by (elim good_AtomicE) (metis fst_conv snd_conv)
  have "covered (sum_list (Du @ D' # Dv)) b'"
    using D'(3) [of "sum_list Du + sum_list Dv"] cov by (simp add: Ds ac_simps)
  moreover have "list_all2 (good cs) (Du @ D' # Dv) (us @ k # vs)"
    using g D' by (auto intro: list_all2_appendI)
  ultimately show ?thesis using D'(2) unfolding system_inv_def by auto
qed

lemma system_inv_returns:
  assumes "system_inv cs s" "sys_threads s = us @ Stop # vs"
  shows "system_inv cs (s\<lparr>sys_threads := us @ vs\<rparr>)"
proof -
  from assms obtain Ds where inv: "broker_inv cs (sys_broker s)"
    and "list_all2 (good cs) Ds (us @ Stop # vs)" and cov: "covered (sum_list Ds) (sys_broker s)"
    by (auto simp: system_inv_def)
  then obtain Du D Dv where Ds: "Ds = Du @ D # Dv" and g: "list_all2 (good cs) Du us"
    "good cs D Stop" "list_all2 (good cs) Dv vs"
    by (auto simp: list_all2_append2 list_all2_Cons2)
  from g(2) have "D = {#}" by (elim good_StopE)
  with cov Ds have "covered (sum_list (Du @ Dv)) (sys_broker s)" by simp
  with inv list_all2_appendI [OF g(1) g(3)] show ?thesis unfolding system_inv_def by auto
qed

lemma broker_step_inv: "broker_step s s' \<Longrightarrow> system_inv cs s \<Longrightarrow> system_inv cs s'"
proof (induction rule: broker_step.induct)
  case (message s e msg)
  with system_inv_spawn [OF message good_handleMessage, of "sys_broker s"] show ?case
    by (auto simp: system_inv_def)
next
  case (llm_message s e proxy sched msg)
  with system_inv_spawn [OF llm_message good_handleLLMRequest, of "sys_broker s"] show ?case
    by (auto simp: system_inv_def)
next
  case (snapshot s e msg)
  with system_inv_spawn [OF snapshot good_handleSnapshotRequest, of "sys_broker s"] show ?case
    by (auto simp: system_inv_def)
next
  case (dead_agent s e a)
  with system_inv_spawn [OF dead_agent good_handleDeadAgent, of "sys_broker s"] show ?case
    by (auto simp: system_inv_def)
next
  case (reclaim_wakes s us c vs e)
  then have "broker_inv cs ((sys_broker s)\<lparr>b_reclaims := us @ vs\<rparr>)" by (simp add: system_inv_def)
  with system_inv_spawn [OF reclaim_wakes(2) good_reclaim] reclaim_wakes(1) show ?case
    by (auto simp: covered_def)
next
  case (preempt_wakes s us p vs e)
  then have "0 \<le> pre_slot p" "broker_inv cs ((sys_broker s)\<lparr>b_preempts := us @ vs\<rparr>)"
    by (auto simp: system_inv_def broker_inv_def)
  with system_inv_spawn [OF preempt_wakes(2) good_preempt_expire] show ?case by auto
qed (auto intro: system_inv_registry system_inv_runs system_inv_returns reg.inv_register
      reg.inv_deregister reg.inv_heartbeat reg.inv_dead)

lemma broker_reachable_inv:
  "broker_reachable a h s \<Longrightarrow> system_inv (map se_Class (NewSlotTableWithClasses a h)) s"
proof (induction rule: broker_reachable.induct)
  case start
  have "prov_mset (NewSlotTableWithClasses a h) = {#}"
    by (auto simp: prov_mset_def NewSlotTableWithClasses_def Let_def filter_empty_conv)
  then show ?case
    by (auto simp: system_inv_def broker_inv_def covered_def NewBroker_def slot_inv_New NewRegistry_def
        registry_inv_def)
next
  case (step s s')
  with broker_step_inv show ?case by blast
qed

text \<open>
  C1. Whatever the interleaving of messages, timers, heartbeats and dying agents, the broker is
  safe: the slot table stays well-formed, the classes of its slots never change, the
  registry stays well-formed, no handler panics, and whenever no handler is in progress every
  provisional slot has a reclaim timer of its own, so no slot is lost to an agent that never
  acknowledges.
\<close>

theorem broker_reachable_safe:
  assumes "broker_reachable a h s"
  shows "slot_inv (b_slots (sys_broker s)) \<and>
    map se_Class (b_slots (sys_broker s)) =
      replicate (nat a) SlotClassAgent @ replicate (nat h) SlotClassHindsight \<and>
    registry_inv (b_registry (sys_broker s)) \<and>
    Crash \<notin> set (sys_threads s) \<and>
    (sys_threads s = [] \<longrightarrow> prov_mset (b_slots (sys_broker s)) \<subseteq># mset (b_reclaims (sys_broker s)))"
proof -
  have cs: "map se_Class (NewSlotTableWithClasses a h) =
      replicate (nat a) SlotClassAgent @ replicate (nat h) SlotClassHindsight"
    by (auto simp: NewSlotTableWithClasses_def Let_def map_replicate_trivial comp_def map_replicate_const)
  from broker_reachable_inv [OF assms] obtain Ds where
    "broker_inv (map se_Class (NewSlotTableWithClasses a h)) (sys_broker s)"
    and g: "list_all2 (good (map se_Class (NewSlotTableWithClasses a h))) Ds (sys_threads s)"
    and "covered (sum_list Ds) (sys_broker s)"
    by (auto simp: system_inv_def)
  moreover have "Crash \<notin> set (sys_threads s)"
    using g by (auto simp: list_all2_conv_all_nth in_set_conv_nth) (metis good_CrashE)
  ultimately show ?thesis
    using g by (auto simp: broker_inv_def covered_def cs)
qed

text \<open>A handler that runs without interference is one of the interleavings.\<close>

lemma run_action_reachable:
  "broker_reachable a h \<lparr>sys_broker = b, sys_threads = us @ [k]\<rparr> \<Longrightarrow> run_action k b = Returns b' \<Longrightarrow>
    broker_reachable a h \<lparr>sys_broker = b', sys_threads = us\<rparr>"
proof (induction k arbitrary: b)
  case Stop
  with broker_reachable.step [OF Stop(1) broker_step.returns [of _ us "[]"]] show ?case by simp
next
  case Crash
  then show ?case by simp
next
  case (Atomic f)
  obtain b1 k1 where f: "f b = (b1, k1)" by fastforce
  from broker_reachable.step [OF Atomic.prems(1) broker_step.runs [of _ us f "[]" b1 k1]] f
  have "broker_reachable a h \<lparr>sys_broker = b1, sys_threads = us @ [k1]\<rparr>" by simp
  moreover have "(b1, k1) \<in> range f" using f by (metis rangeI)
  ultimately show ?case using Atomic.IH [of "(b1, k1)" k1 b1] Atomic.prems(2) f by (simp add: snds.simps)
qed

lemma handle_reachable:
  assumes "broker_reachable a h \<lparr>sys_broker = b, sys_threads = []\<rparr>" "run_action (handleMessage e m) b = Returns b'"
  shows "broker_reachable a h \<lparr>sys_broker = b', sys_threads = []\<rparr>"
proof -
  have "broker_reachable a h \<lparr>sys_broker = b, sys_threads = [handleMessage e m]\<rparr>"
    using broker_reachable.step [OF assms(1) broker_step.message [of _ e m]] by simp
  from run_action_reachable [of a h b "[]", simplified, OF this assms(2)] show ?thesis .
qed

definition slot_request_msg :: "string \<Rightarrow> string \<Rightarrow> int \<Rightarrow> string \<Rightarrow> Message" where
  "slot_request_msg corr agent prio class =
     (NewMessage corr 0 TypeSlotRequest agent
        (enc_SlotRequestPayload \<lparr>sr_AgentID = agent, sr_Priority = prio, sr_SlotClass = class\<rparr>))
     \<lparr>m_ReplyStream := ''stream:reply:'' @ agent\<rparr>"

definition calm :: env where
  "calm = \<lparr>e_now = 7, e_fresh = ''f'', e_publish = (\<lambda>_ _. True), e_view = (\<lambda>_ t. t)\<rparr>"

lemmas broker_eval =
  handleMessage_def handleSlotRequest_def slot_request_msg_def NewMessage_def NormalizeClass_def
  slot_class_defs FindUnassigned_def AssignProvisional_def in_range_def sendSlotAssigned_def publish_def
  scheduleReclaim_def calm_def NewBroker_def NewSlotTableWithClasses_def NewReply_def

theorem broker_reachable_safe_witness:
  "let b = case run_action (handleMessage calm (slot_request_msg ''c1'' ''main'' 0 ''agent'')) (NewBroker 1 0 [])
           of Returns b \<Rightarrow> b | Panics \<Rightarrow> NewBroker 0 0 []
   in slot_inv (b_slots b) \<and> prov_mset (b_slots b) = {#''c1''#} \<and>
      prov_mset (b_slots b) \<subseteq># mset (b_reclaims b)"
proof -
  obtain b where b: "run_action (handleMessage calm (slot_request_msg ''c1'' ''main'' 0 ''agent'')) (NewBroker 1 0 []) = Returns b"
    and p: "prov_mset (b_slots b) = {#''c1''#}"
    by (simp add: broker_eval)
  have "broker_reachable 1 0 \<lparr>sys_broker = b, sys_threads = []\<rparr>"
    by (rule handle_reachable [OF broker_reachable.start [of 1 0, unfolded NewRegistry_def] b])
  from broker_reachable_safe [OF this] b p show ?thesis by (simp add: Let_def)
qed

section \<open>What one handler does\<close>

text \<open>The queue scan over one table: where the search stands after the requests \<open>seen\<close>.\<close>

definition startable :: "SlotTable \<Rightarrow> slotRequest \<Rightarrow> bool" where
  "startable t r \<longleftrightarrow> FindUnassigned (sq_class r) t \<noteq> None"

definition best_of :: "SlotTable \<Rightarrow> slotRequest list \<Rightarrow> (nat \<times> int) option \<Rightarrow> bool" where
  "best_of t seen best \<longleftrightarrow>
     (case best of
        None \<Rightarrow> \<forall>r \<in> set seen. \<not> startable t r
      | Some (j, sid) \<Rightarrow> j < length seen \<and> FindUnassigned (sq_class (seen ! j)) t = Some sid \<and>
          (\<forall>l < length seen. startable t (seen ! l) \<longrightarrow>
             (if l < j then sq_priority (seen ! j) < sq_priority (seen ! l)
              else sq_priority (seen ! j) \<le> sq_priority (seen ! l))))"

lemma best_of_snoc:
  assumes "best_of t seen best"
  shows "best_of t (seen @ [r])
     (case FindUnassigned (sq_class r) t of
        None \<Rightarrow> best
      | Some sid \<Rightarrow>
          (case best of
             None \<Rightarrow> Some (length seen, sid)
           | Some (j, _) \<Rightarrow> if sq_priority r < sq_priority (seen ! j) then Some (length seen, sid) else best))"
proof (cases "FindUnassigned (sq_class r) t")
  case None
  with assms show ?thesis
    by (auto simp: best_of_def startable_def nth_append less_Suc_eq split: option.splits prod.splits)
next
  case (Some sid)
  show ?thesis
  proof (cases best)
    case None
    with Some assms show ?thesis
      by (auto simp: best_of_def nth_append less_Suc_eq)
  next
    case (Some js)
    obtain j s where js: "js = (j, s)" by fastforce
    from assms Some js have j: "j < length seen" "FindUnassigned (sq_class (seen ! j)) t = Some s"
      and least: "\<And>l. l < length seen \<Longrightarrow> startable t (seen ! l) \<Longrightarrow>
        (if l < j then sq_priority (seen ! j) < sq_priority (seen ! l)
         else sq_priority (seen ! j) \<le> sq_priority (seen ! l))"
      by (auto simp: best_of_def)
    have le: "sq_priority (seen ! j) \<le> sq_priority (seen ! l)" if "l < length seen" "startable t (seen ! l)" for l
      using least [OF that] by (auto split: if_splits)
    show ?thesis
    proof (cases "sq_priority r < sq_priority (seen ! j)")
      case True
      with Some js j le \<open>FindUnassigned (sq_class r) t = Some sid\<close> show ?thesis
        by (fastforce simp: best_of_def nth_append less_Suc_eq)
    next
      case False
      with Some js j least \<open>FindUnassigned (sq_class r) t = Some sid\<close> show ?thesis
        by (auto simp: best_of_def nth_append less_Suc_eq)
    qed
  qed
qed

lemma queue_scan_best:
  "best_of t seen best \<Longrightarrow> q = seen @ rest \<Longrightarrow>
    best_of t q (queue_scan (\<lambda>_. t) q (length seen) rest best)"
proof (induction rest arbitrary: seen best)
  case Nil
  then show ?case by simp
next
  case (Cons r rest)
  let ?best = "case FindUnassigned (sq_class r) t of None \<Rightarrow> best | Some sid \<Rightarrow>
    (case best of None \<Rightarrow> Some (length seen, sid)
     | Some (j, _) \<Rightarrow> if sq_priority r < sq_priority (q ! j) then Some (length seen, sid) else best)"
  have "?best = (case FindUnassigned (sq_class r) t of None \<Rightarrow> best | Some sid \<Rightarrow>
    (case best of None \<Rightarrow> Some (length seen, sid)
     | Some (j, _) \<Rightarrow> if sq_priority r < sq_priority (seen ! j) then Some (length seen, sid) else best))"
    using Cons.prems by (auto simp: best_of_def nth_append split: option.splits)
  with best_of_snoc [OF Cons.prems(1), of r] have "best_of t (seen @ [r]) ?best" by simp
  moreover have "q = (seen @ [r]) @ rest" using Cons.prems(2) by simp
  ultimately have "best_of t q (queue_scan (\<lambda>_. t) q (length (seen @ [r])) rest ?best)" by (rule Cons.IH)
  then show ?case by simp
qed

text \<open>
  C16. A release serves the queue by priority: the request that gets the freed slot is the one with
  the least priority value among those whose class has a free slot, the earliest of equals; it
  gets a free slot of its own class and a reply naming that slot under its correlation id,
  a reclaim timer is started, and the other requests keep their order. Requests whose class is
  full do not block the others, and without a startable request nothing changes.
\<close>

theorem assignFromQueue_priority:
  assumes inv: "slot_inv (b_slots b)" and view: "e_view e = (\<lambda>_ t. t)"
    and net: "\<forall>r \<in> set (b_pendingQueue b). sq_replyStream r \<noteq> [] \<and> (\<forall>m. e_publish e (sq_replyStream r) m)"
  shows "if \<exists>r \<in> set (b_pendingQueue b). startable (b_slots b) r
    then \<exists>us r vs i st. b_pendingQueue b = us @ r # vs \<and>
      (\<forall>u \<in> set us. startable (b_slots b) u \<longrightarrow> sq_priority r < sq_priority u) \<and>
      (\<forall>v \<in> set vs. startable (b_slots b) v \<longrightarrow> sq_priority r \<le> sq_priority v) \<and>
      slot_holder (b_slots b) i = None \<and> ClassOf i (b_slots b) = sq_class r \<and>
      slot_holder st = (slot_holder (b_slots b))(i \<mapsto> sq_agentID r) \<and>
      run_action (assignFromQueue e Stop) b =
        Returns (b\<lparr>b_slots := st, b_pendingQueue := us @ vs,
          b_published := b_published b @ [(sq_replyStream r, assigned_reply e (sq_correlationID r) i)],
          b_reclaims := b_reclaims b @ [sq_correlationID r]\<rparr>)
    else run_action (assignFromQueue e Stop) b = Returns b"
proof -
  let ?q = "b_pendingQueue b" and ?t = "b_slots b"
  let ?best = "queue_scan (\<lambda>i. e_view e i ?t) ?q 0 ?q None"
  have best: "best_of ?t ?q ?best"
    using queue_scan_best [of ?t "[]" None ?q ?q] by (simp add: best_of_def view)
  show ?thesis
  proof (cases ?best)
    case None
    with best have "\<forall>r \<in> set ?q. \<not> startable ?t r" by (simp add: best_of_def)
    with None show ?thesis by (auto simp: assignFromQueue_def)
  next
    case (Some js)
    then obtain j i where js: "?best = Some (j, i)" by (cases js) auto
    let ?r = "?q ! j" and ?us = "take j ?q" and ?vs = "drop (Suc j) ?q"
    from best js have j: "j < length ?q" and f: "FindUnassigned (sq_class ?r) ?t = Some i"
      and least: "\<forall>l < length ?q. startable ?t (?q ! l) \<longrightarrow>
        (if l < j then sq_priority ?r < sq_priority (?q ! l) else sq_priority ?r \<le> sq_priority (?q ! l))"
      by (auto simp: best_of_def)
    from table.find_then_assign [OF inv f, of "sq_agentID ?r" "sq_priority ?r" "sq_correlationID ?r" "e_now e"]
    obtain st where st: "AssignProvisional i (sq_agentID ?r) (sq_priority ?r) (sq_correlationID ?r) (e_now e) ?t
        = (st, True)" by blast
    have free: "slot_holder ?t i = None \<and> ClassOf i ?t = sq_class ?r"
      using table.find_free_Some [OF inv f] by simp
    have holder: "slot_holder st = (slot_holder ?t)(i \<mapsto> sq_agentID ?r)"
      using table.assign_True [OF inv st] by simp
    have us: "\<forall>u \<in> set ?us. startable ?t u \<longrightarrow> sq_priority ?r < sq_priority u"
      using least j by (auto simp: in_set_conv_nth)
    have vs: "\<forall>v \<in> set ?vs. startable ?t v \<longrightarrow> sq_priority ?r \<le> sq_priority v"
      using least j by (fastforce simp: in_set_conv_nth)
    have "?r \<in> set ?q" using j by simp
    with net st js have run: "run_action (assignFromQueue e Stop) b =
        Returns (b\<lparr>b_slots := st, b_pendingQueue := ?us @ ?vs,
          b_published := b_published b @ [(sq_replyStream ?r, assigned_reply e (sq_correlationID ?r) i)],
          b_reclaims := b_reclaims b @ [sq_correlationID ?r]\<rparr>)"
      by (auto simp: assignFromQueue_def confirm_queued_def publish_def scheduleReclaim_def Let_def)
    have "startable ?t ?r" using f by (simp add: startable_def)
    then have ex: "\<exists>r \<in> set ?q. startable ?t r" using \<open>?r \<in> set ?q\<close> by blast
    show ?thesis
      unfolding if_P [OF ex]
      using id_take_nth_drop [OF j] us vs free holder run by blast
  qed
qed

definition queued :: "string \<Rightarrow> int \<Rightarrow> slotRequest" where
  "queued a p = \<lparr>sq_agentID = a, sq_priority = p, sq_correlationID = a, sq_replyStream = ''stream:reply:'' @ a,
     sq_class = SlotClassAgent\<rparr>"

theorem assignFromQueue_priority_witness:
  "let b = (NewBroker 1 0 [])\<lparr>b_pendingQueue := [queued ''retro'' 5, queued ''main'' 0, queued ''x'' 0]\<rparr>;
       r = run_action (assignFromQueue calm Stop) b
   in \<exists>b'. r = Returns b' \<and> b_pendingQueue b' = [queued ''retro'' 5, queued ''x'' 0] \<and>
       slot_holder (b_slots b') 0 = Some ''main'' \<and>
       map fst (b_published b') = [''stream:reply:main'']"
proof -
  let ?b = "(NewBroker 1 0 [])\<lparr>b_pendingQueue := [queued ''retro'' 5, queued ''main'' 0, queued ''x'' 0]\<rparr>"
  have start: "startable (b_slots ?b) (queued a p)" for a p
    by (simp add: startable_def queued_def NewBroker_def NewSlotTableWithClasses_def FindUnassigned_def)
  have inv: "slot_inv (b_slots ?b)" by (simp add: NewBroker_def slot_inv_New)
  from assignFromQueue_priority [OF inv, of calm] start
  obtain us r vs i st where q: "b_pendingQueue ?b = us @ r # vs"
    and us: "\<forall>u \<in> set us. startable (b_slots ?b) u \<longrightarrow> sq_priority r < sq_priority u"
    and vs: "\<forall>v \<in> set vs. startable (b_slots ?b) v \<longrightarrow> sq_priority r \<le> sq_priority v"
    and cl: "ClassOf i (b_slots ?b) = sq_class r"
    and st: "slot_holder st = (slot_holder (b_slots ?b))(i \<mapsto> sq_agentID r)"
    and run: "run_action (assignFromQueue calm Stop) ?b =
        Returns (?b\<lparr>b_slots := st, b_pendingQueue := us @ vs,
          b_published := b_published ?b @ [(sq_replyStream r, assigned_reply calm (sq_correlationID r) i)],
          b_reclaims := b_reclaims ?b @ [sq_correlationID r]\<rparr>)"
    by (auto simp: calm_def queued_def)
  from q us vs start have r: "us = [queued ''retro'' 5]" "r = queued ''main'' 0" "vs = [queued ''x'' 0]"
    by (auto simp: append_eq_Cons_conv Cons_eq_append_conv queued_def)
  from cl r have "i = 0"
    by (auto simp: queued_def ClassOf_def in_range_def NewBroker_def NewSlotTableWithClasses_def slot_class_defs
        split: if_splits)
  with r run st show ?thesis by (simp add: Let_def queued_def NewBroker_def)
qed

text \<open>
  C7. A slot request of a known class is never lost. If its class has a free slot, the requester
  holds one such slot when the handler ends, no other slot changes hands, the reply stream gets a
  reply naming that slot under the request's correlation id, and a reclaim timer runs. If not,
  no slot changes: either the request is strictly more urgent than the least urgent preemptible
  holder of its class, who is told to stop and whose slot is promised to the requester, or the
  request is at the end of the queue.
\<close>

theorem handleSlotRequest_outcome:
  assumes inv: "slot_inv (b_slots b)" and norm: "NormalizeClass (sr_SlotClass p) = Some c"
    and net: "m_ReplyStream m \<noteq> []" "\<forall>r. e_publish e (m_ReplyStream m) r"
  shows "\<exists>b'. run_action (handleSlotRequest e m p) b = Returns b' \<and>
    (case FindUnassigned c (b_slots b) of
       Some i \<Rightarrow>
         slot_holder (b_slots b) i = None \<and> ClassOf i (b_slots b) = c \<and>
         slot_holder (b_slots b') = (slot_holder (b_slots b))(i \<mapsto> sr_AgentID p) \<and>
         (\<exists>r. b_published b' = b_published b @ [(m_ReplyStream m, r)] \<and> m_Type r = TypeSlotAssigned \<and>
            m_CorrelationID r = m_CorrelationID m \<and>
            dec_SlotAssignedPayload (m_Payload r) = Some \<lparr>sa_SlotID = i\<rparr>) \<and>
         b_reclaims b' = b_reclaims b @ [m_CorrelationID m] \<and>
         b_pendingQueue b' = b_pendingQueue b \<and> b_preempts b' = b_preempts b
     | None \<Rightarrow>
         b_slots b' = b_slots b \<and> b_published b' = b_published b \<and>
         (if \<exists>i v vp. FindLowestPriorityPreemptible c (IsPreemptible b) (b_slots b) = Some (i, v, vp) \<and>
               sr_Priority p < vp
          then \<exists>i v vp s. FindLowestPriorityPreemptible c (IsPreemptible b) (b_slots b) = Some (i, v, vp) \<and>
             b_preempts b' = b_preempts b @ [\<lparr>pre_victim = v, pre_slot = i, pre_msg = m, pre_requester = p\<rparr>] \<and>
             b_signals b' = b_signals b @ [(''channel:agent:'' @ v @ '':preempt'', s)] \<and>
             b_pendingQueue b' = b_pendingQueue b
          else b_preempts b' = b_preempts b \<and> b_pendingQueue b' = b_pendingQueue b @
             [\<lparr>sq_agentID = sr_AgentID p, sq_priority = sr_Priority p, sq_correlationID = m_CorrelationID m,
               sq_replyStream = m_ReplyStream m, sq_class = c\<rparr>]))"
proof (cases "FindUnassigned c (b_slots b)")
  case None
  show ?thesis
  proof (cases "FindLowestPriorityPreemptible c (IsPreemptible b) (b_slots b)")
    case None
    with \<open>FindUnassigned c (b_slots b) = None\<close> norm show ?thesis
      by (auto simp: handleSlotRequest_def enqueue_def)
  next
    case (Some v)
    with \<open>FindUnassigned c (b_slots b) = None\<close> norm show ?thesis
      by (cases v) (auto simp: handleSlotRequest_def enqueue_def preemptAgent_def)
  qed
next
  case (Some i)
  from table.find_then_assign [OF inv Some, of "sr_AgentID p" "sr_Priority p" "m_CorrelationID m" "e_now e"]
  obtain st where st: "AssignProvisional i (sr_AgentID p) (sr_Priority p) (m_CorrelationID m) (e_now e) (b_slots b)
      = (st, True)" by blast
  have "slot_holder (b_slots b) i = None \<and> ClassOf i (b_slots b) = c \<and>
      slot_holder st = (slot_holder (b_slots b))(i \<mapsto> sr_AgentID p)"
    using table.find_free_Some [OF inv Some] table.assign_True [OF inv st] by simp
  with Some st norm net show ?thesis
    by (simp add: handleSlotRequest_def sendSlotAssigned_def publish_def scheduleReclaim_def NewReply_def)
qed

theorem handleSlotRequest_outcome_witness:
  "let m = slot_request_msg ''c1'' ''main'' 0 ''agent'';
       p = \<lparr>sr_AgentID = ''main'', sr_Priority = 0, sr_SlotClass = ''agent''\<rparr>
   in \<exists>b'. run_action (handleSlotRequest calm m p) (NewBroker 0 3 []) = Returns b' \<and>
        map sq_agentID (b_pendingQueue b') = [''main''] \<and> b_slots b' = b_slots (NewBroker 0 3 [])"
proof -
  let ?m = "slot_request_msg ''c1'' ''main'' 0 ''agent''"
  let ?p = "\<lparr>sr_AgentID = ''main'', sr_Priority = 0, sr_SlotClass = ''agent''\<rparr>"
  have t: "b_slots (NewBroker 0 3 []) = map (\<lambda>i. free_entry i ''hindsight'') [0, 1, 2]"
    by (simp add: NewBroker_def NewSlotTableWithClasses_def slot_class_defs upt_rec)
  have f: "FindUnassigned ''agent'' (b_slots (NewBroker 0 3 [])) = None" by (simp add: t FindUnassigned_def)
  have v: "FindLowestPriorityPreemptible ''agent'' pr (b_slots (NewBroker 0 3 [])) = None" for pr
    by (simp add: t FindLowestPriorityPreemptible_def victim_step_def)
  have "slot_inv (b_slots (NewBroker 0 3 []))" by (simp add: NewBroker_def slot_inv_New)
  from handleSlotRequest_outcome [OF this, of ?p "''agent''" ?m calm] f v show ?thesis
    by (auto simp: NormalizeClass_def slot_class_defs slot_request_msg_def calm_def NewBroker_def Let_def)
qed

text \<open>
  The preemption timer takes its slot from whoever holds it by then: if the victim has given
  the slot back in time and the broker has meanwhile assigned it to another agent, that agent
  loses the slot it holds although it was neither signalled nor chosen as a victim, and the slot
  is reported to the requester.
\<close>

theorem preempt_expire_steals:
  assumes inv: "slot_inv (b_slots b)" and gone: "GetByAgent (pre_victim p) (b_slots b) = None"
    and held: "slot_holder (b_slots b) (pre_slot p) = Some other" "other \<noteq> sr_AgentID (pre_requester p)"
    and net: "m_ReplyStream (pre_msg p) \<noteq> []" "\<forall>r. e_publish e (m_ReplyStream (pre_msg p)) r"
  shows "\<exists>b' r. run_action (preempt_expire e p) b = Returns b' \<and>
    slot_holder (b_slots b') = (slot_holder (b_slots b))(pre_slot p \<mapsto> sr_AgentID (pre_requester p)) \<and>
    \<not> IsOwnedBy (pre_slot p) other (b_slots b') \<and>
    b_published b' = b_published b @ [(m_ReplyStream (pre_msg p), r)] \<and> b_signals b' = b_signals b"
proof -
  from held have r: "in_range (pre_slot p) (b_slots b)" by (auto simp: slot_holder_def split: if_splits)
  let ?st = "(b_slots b)[nat (pre_slot p) := assigned_entry (pre_slot p) (se_Class (b_slots b ! nat (pre_slot p)))
    (sr_AgentID (pre_requester p)) (sr_Priority (pre_requester p)) (e_now e)]"
  from r have st: "ForceAssign (pre_slot p) (sr_AgentID (pre_requester p)) (sr_Priority (pre_requester p))
      (e_now e) (b_slots b) = Returns ?st"
    by (simp add: ForceAssign_def in_range_def)
  have "slot_holder ?st = (slot_holder (b_slots b))(pre_slot p \<mapsto> sr_AgentID (pre_requester p))"
    by (simp add: slot_holder_update [OF r])
  with gone st held net show ?thesis
    by (auto simp: preempt_expire_def preempt_force_def sendSlotAssigned_def publish_def IsOwnedBy_holder)
qed

theorem preempt_expire_steals_witness:
  "let b = (NewBroker 1 0 [])\<lparr>b_slots := [assigned_entry 0 ''agent'' ''third'' 3 1]\<rparr>;
       p = \<lparr>pre_victim = ''victim'', pre_slot = 0, pre_msg = slot_request_msg ''c1'' ''main'' 1 ''agent'',
            pre_requester = \<lparr>sr_AgentID = ''main'', sr_Priority = 1, sr_SlotClass = ''agent''\<rparr>\<rparr>
   in \<exists>b'. run_action (preempt_expire calm p) b = Returns b' \<and> IsOwnedBy 0 ''third'' (b_slots b) \<and>
        \<not> IsOwnedBy 0 ''third'' (b_slots b')"
proof -
  let ?b = "(NewBroker 1 0 [])\<lparr>b_slots := [assigned_entry 0 ''agent'' ''third'' 3 1]\<rparr>"
  let ?p = "\<lparr>pre_victim = ''victim'', pre_slot = 0, pre_msg = slot_request_msg ''c1'' ''main'' 1 ''agent'',
            pre_requester = \<lparr>sr_AgentID = ''main'', sr_Priority = 1, sr_SlotClass = ''agent''\<rparr>\<rparr>"
  have "slot_inv (b_slots ?b)" by (simp add: slot_inv_def slot_ok_def slot_class_defs)
  from preempt_expire_steals [OF this, of ?p "''third''" calm] show ?thesis
    by (auto simp: GetByAgent_def slot_holder_def in_range_def slot_request_msg_def calm_def Let_def IsOwnedBy_def)
qed

text \<open>
  A release by agent id (slot -1) frees exactly the slots the agent holds, assigned or
  provisional, when no request is waiting; every other holder keeps its slot.
\<close>

theorem handleSlotRelease_by_agent:
  assumes "rel_SlotID p = -1" "rel_AgentID p \<noteq> []" "b_pendingQueue b = []"
  shows "\<exists>b'. run_action (handleSlotRelease e p) b = Returns b' \<and>
    (\<forall>i. slot_holder (b_slots b') i =
       (if slot_holder (b_slots b) i = Some (rel_AgentID p) then None else slot_holder (b_slots b) i)) \<and>
    b_published b' = b_published b \<and> b_pendingQueue b' = []"
  using assms slot_holder_ReleaseByAgent [OF assms(2), of "b_slots b"]
  by (auto simp: handleSlotRelease_def assignFromQueue_def split_def Let_def)

theorem handleSlotRelease_by_agent_witness:
  "let b = (NewBroker 2 0 [])\<lparr>b_slots := [assigned_entry 0 ''agent'' ''a'' 3 1, assigned_entry 1 ''agent'' ''b'' 3 1]\<rparr>
   in \<exists>b'. run_action (handleSlotRelease calm \<lparr>rel_AgentID = ''a'', rel_SlotID = -1\<rparr>) b = Returns b' \<and>
        slot_holder (b_slots b') 0 = None \<and> slot_holder (b_slots b') 1 = Some ''b''"
proof -
  let ?b = "(NewBroker 2 0 [])\<lparr>b_slots := [assigned_entry 0 ''agent'' ''a'' 3 1, assigned_entry 1 ''agent'' ''b'' 3 1]\<rparr>"
  have h: "slot_holder (b_slots ?b) 0 = Some ''a''" "slot_holder (b_slots ?b) 1 = Some ''b''"
    by (simp_all add: slot_holder_def in_range_def)
  have "b_pendingQueue ?b = []" by (simp add: NewBroker_def)
  with handleSlotRelease_by_agent [of "\<lparr>rel_AgentID = ''a'', rel_SlotID = -1\<rparr>" ?b calm] h show ?thesis
    unfolding Let_def by auto
qed

lemma run_publish_seq:
  assumes "\<forall>m. e_publish e st m"
  shows "run_action (publish_seq e st ms Stop) b = Returns (b\<lparr>b_published := b_published b @ map (Pair st) ms\<rparr>)"
  using assms by (induction ms arbitrary: b) (auto simp: publish_def)

lemma select_merge_filter:
  assumes "\<forall>x \<in> set xs. P x" "\<forall>y \<in> set ys. \<not> P y"
  shows "filter P (select_merge sched xs ys) = xs \<and> filter (\<lambda>x. \<not> P x) (select_merge sched xs ys) = ys"
  using assms by (induction sched xs ys rule: select_merge.induct) auto

text \<open>The replies to a request that may proceed.\<close>

definition llm_replies :: "env \<Rightarrow> bool list \<Rightarrow> Message \<Rightarrow> proxy_output \<Rightarrow> Message list" where
  "llm_replies e sched m out =
     select_merge sched (map (token_msg e m) (po_tokens out)) (map (tool_call_msg e m) (po_calls out))"

lemma run_handleLLMRequest_owned:
  assumes "dec_LLMRequestPayload (m_Payload m) = Some p"
    and "m_ReplyStream m \<noteq> []" "\<forall>r. e_publish e (m_ReplyStream m) r"
    and "NormalizeClass (lr_SlotClass p) = Some (ClassOf (lr_SlotID p) (b_slots b))"
    and "slot_holder (b_slots b) (lr_SlotID p) = Some (m_Source m)"
  shows "run_action (handleLLMRequest e proxy sched m) b =
    Returns (b\<lparr>b_published := b_published b @ map (Pair (m_ReplyStream m))
      (llm_replies e sched m (proxy (lr_SlotID p) (lr_Messages p) (lr_Tools p) (lr_ToolChoice p) (lr_Stream p)) @
       [done_msg e m])\<rparr>)"
  using assms
  by (simp add: handleLLMRequest_def IsOwnedBy_holder Let_def run_publish_seq llm_replies_def del: publish_seq.simps)

lemma llm_replies_filter:
  "filter (\<lambda>r. m_Type r = TypeToken) (llm_replies e sched m out) = map (token_msg e m) (po_tokens out) \<and>
   filter (\<lambda>r. m_Type r \<noteq> TypeToken) (llm_replies e sched m out) = map (tool_call_msg e m) (po_calls out)"
  unfolding llm_replies_def
  by (rule select_merge_filter) (auto simp: token_msg_def tool_call_msg_def NewReply_def)

text \<open>
  C10. An LLM request reaches the inference server only if its sender holds the slot it names and
  the slot is of the class it asks for. Then the reply stream gets exactly the tokens and
  the assembled tool calls of the answer, each kind in the server's order, and the final done
  token after all of them; every other request (wrong class, slot not held, unknown class) gets
  the done token alone, so no client waits for ever. The slot table is not touched.
\<close>

theorem handleLLMRequest_gated:
  assumes payload: "dec_LLMRequestPayload (m_Payload m) = Some p"
    and net: "m_ReplyStream m \<noteq> []" "\<forall>r. e_publish e (m_ReplyStream m) r"
  shows "\<exists>body. run_action (handleLLMRequest e proxy sched m) b =
      Returns (b\<lparr>b_published := b_published b @ map (Pair (m_ReplyStream m)) (body @ [done_msg e m])\<rparr>) \<and>
    (if NormalizeClass (lr_SlotClass p) = Some (ClassOf (lr_SlotID p) (b_slots b)) \<and>
        slot_holder (b_slots b) (lr_SlotID p) = Some (m_Source m)
     then (let out = proxy (lr_SlotID p) (lr_Messages p) (lr_Tools p) (lr_ToolChoice p) (lr_Stream p) in
       filter (\<lambda>r. m_Type r = TypeToken) body = map (token_msg e m) (po_tokens out) \<and>
       filter (\<lambda>r. m_Type r \<noteq> TypeToken) body = map (tool_call_msg e m) (po_calls out))
     else body = [])"
proof -
  let ?out = "proxy (lr_SlotID p) (lr_Messages p) (lr_Tools p) (lr_ToolChoice p) (lr_Stream p)"
  have d: "run_action (sendDoneOnReply e m) b =
      Returns (b\<lparr>b_published := b_published b @ map (Pair (m_ReplyStream m)) ([] @ [done_msg e m])\<rparr>)" for b
    using net by (simp add: sendDoneOnReply_def run_publish_seq del: publish_seq.simps)
  show ?thesis
  proof (cases "NormalizeClass (lr_SlotClass p) = Some (ClassOf (lr_SlotID p) (b_slots b)) \<and>
        slot_holder (b_slots b) (lr_SlotID p) = Some (m_Source m)")
    case True
    with run_handleLLMRequest_owned [OF payload net] llm_replies_filter show ?thesis
      by (intro exI [of _ "llm_replies e sched m ?out"]) (simp add: Let_def)
  next
    case False
    then have "run_action (handleLLMRequest e proxy sched m) b = run_action (sendDoneOnReply e m) b"
      using payload by (auto simp: handleLLMRequest_def IsOwnedBy_holder split: option.splits)
    with False d show ?thesis by (intro exI [of _ "[]"]) auto
  qed
qed

theorem handleLLMRequest_gated_witness:
  "let m = (NewMessage ''c'' 0 ''llm_request'' ''main'' (enc_LLMRequestPayload
             \<lparr>lr_SlotID = 0, lr_SlotClass = [], lr_Messages = [], lr_Stream = True, lr_Tools = [],
              lr_ToolChoice = []\<rparr>))\<lparr>m_ReplyStream := ''r''\<rparr>;
       proxy = (\<lambda>_ _ _ _ _. \<lparr>po_tokens = [''hi''], po_calls = [], po_error = None\<rparr>);
       b = (NewBroker 1 0 [])\<lparr>b_slots := [assigned_entry 0 ''agent'' ''main'' 0 0]\<rparr>
   in \<exists>body b'. run_action (handleLLMRequest calm proxy [] m) b = Returns b' \<and>
        map snd (b_published b') = body @ [done_msg calm m] \<and>
        filter (\<lambda>r. m_Type r = TypeToken) body = [token_msg calm m ''hi'']"
proof -
  let ?p = "\<lparr>lr_SlotID = 0, lr_SlotClass = [], lr_Messages = [], lr_Stream = True, lr_Tools = [],
              lr_ToolChoice = []\<rparr>"
  let ?m = "(NewMessage ''c'' 0 ''llm_request'' ''main'' (enc_LLMRequestPayload ?p))\<lparr>m_ReplyStream := ''r''\<rparr>"
  let ?proxy = "\<lambda>_ _ _ _ _. \<lparr>po_tokens = [''hi''], po_calls = [], po_error = None\<rparr>"
  let ?b = "(NewBroker 1 0 [])\<lparr>b_slots := [assigned_entry 0 ''agent'' ''main'' 0 0]\<rparr>"
  have dec: "dec_LLMRequestPayload (m_Payload ?m) = Some ?p" by (simp add: NewMessage_def)
  have own: "NormalizeClass (lr_SlotClass ?p) = Some (ClassOf (lr_SlotID ?p) (b_slots ?b))"
    "slot_holder (b_slots ?b) (lr_SlotID ?p) = Some (m_Source ?m)"
    by (simp_all add: NormalizeClass_def slot_class_defs ClassOf_def slot_holder_def in_range_def NewMessage_def)
  have net: "m_ReplyStream ?m \<noteq> []" "\<forall>r. e_publish calm (m_ReplyStream ?m) r" by (simp_all add: calm_def)
  from handleLLMRequest_gated [OF dec net, of ?proxy "[]" ?b] own obtain body where
    "run_action (handleLLMRequest calm ?proxy [] ?m) ?b =
      Returns (?b\<lparr>b_published := b_published ?b @ map (Pair (m_ReplyStream ?m)) (body @ [done_msg calm ?m])\<rparr>)"
    "filter (\<lambda>r. m_Type r = TypeToken) body = [token_msg calm ?m ''hi'']"
    by (auto simp: Let_def)
  then show ?thesis
    unfolding Let_def
    by (intro exI [of _ body] exI [of _ "?b\<lparr>b_published := b_published ?b @
          map (Pair (m_ReplyStream ?m)) (body @ [done_msg calm ?m])\<rparr>"])
      (simp add: NewBroker_def comp_def)
qed

end
