(* ===== verification/Agent_Runtime.thy ===== *)
theory Agent_Runtime
  imports Messaging
begin

text \<open>
  The agent side of the slot protocol (\<^verbatim>\<open>internal/agent/runtime.go\<close>): acquiring a slot, acknowledging
  it, the loop that collects the tokens and tool calls of one LLM call under preemption, releasing
  the slot, and resuming from the progress log.
\<close>

section \<open>State\<close>

record Runtime =
  rt_agentID :: string
  rt_priority :: int
  rt_preemptible :: bool
  rt_progressLog :: "string list"
  rt_slotID :: int
  rt_preempted :: bool

definition NewRuntime :: "string \<Rightarrow> int \<Rightarrow> bool \<Rightarrow> Runtime" where
  "NewRuntime agentID priority preemptible =
     \<lparr>rt_agentID = agentID, rt_priority = priority, rt_preemptible = preemptible, rt_progressLog = [],
      rt_slotID = -1, rt_preempted = False\<rparr>"

text \<open>
  What the runtime takes from outside: clock, fresh correlation ids, whether a publication on the
  broker's stream is accepted, and the outcome of waiting for a reply with a correlation id.
\<close>

record rt_env =
  re_now :: int
  re_fresh :: "nat \<Rightarrow> string"
  re_publish :: "Message \<Rightarrow> bool"
  re_wait :: "string \<Rightarrow> string \<Rightarrow> wait_error + Message"
  re_group :: bool          \<comment> \<open>\<^verbatim>\<open>EnsureGroup\<close> on the reply stream works\<close>

datatype rt_error = PublishFailed | WaitFailed wait_error | DecodeFailed | GroupFailed | ErrNoSlot | ErrPreempted

section \<open>Acquiring and releasing a slot\<close>

definition release_msg :: "rt_env \<Rightarrow> nat \<Rightarrow> string \<Rightarrow> int \<Rightarrow> Message" where
  "release_msg e n agentID slotID =
     NewMessage (re_fresh e n) (re_now e) TypeSlotRelease agentID
       (enc_SlotReleasePayload \<lparr>rel_AgentID = agentID, rel_SlotID = slotID\<rparr>)"

text \<open>The messages the broker's stream accepts from one \<^verbatim>\<open>defensiveRelease\<close>.\<close>

definition defensiveRelease :: "rt_env \<Rightarrow> Runtime \<Rightarrow> Message list" where
  "defensiveRelease e r =
     (let relMsg = release_msg e 2 (rt_agentID r) (-1) in if re_publish e relMsg then [relMsg] else [])"

definition slot_request :: "rt_env \<Rightarrow> Runtime \<Rightarrow> Message" where
  "slot_request e r =
     (NewMessage (re_fresh e 0) (re_now e) TypeSlotRequest (rt_agentID r)
        (enc_SlotRequestPayload \<lparr>sr_AgentID = rt_agentID r, sr_Priority = rt_priority r, sr_SlotClass = []\<rparr>))
     \<lparr>m_ReplyStream := ''stream:reply:'' @ rt_agentID r @ '':'' @ itoa (re_now e)\<rparr>"

definition slot_ack :: "rt_env \<Rightarrow> Runtime \<Rightarrow> int \<Rightarrow> Message" where
  "slot_ack e r slotID =
     (NewMessage (re_fresh e 1) (re_now e) TypeSlotAssignedAck (rt_agentID r)
        (enc_SlotAssignedAckPayload \<lparr>ack_AgentID = rt_agentID r, ack_SlotID = slotID\<rparr>))
     \<lparr>m_CorrelationID := m_CorrelationID (slot_request e r)\<rparr>"

text \<open>\<^verbatim>\<open>RequestSlotWithCorrelation\<close>: the new state, the messages published, and the result.\<close>

definition RequestSlot :: "rt_env \<Rightarrow> Runtime \<Rightarrow> Runtime \<times> Message list \<times> (rt_error + int)" where
  "RequestSlot e r =
     (let msg = slot_request e r in
      if \<not> re_publish e msg then (r, [], Inl PublishFailed)
      else case re_wait e (m_ReplyStream msg) (m_CorrelationID msg) of
        Inl err \<Rightarrow> (r, msg # defensiveRelease e r, Inl (WaitFailed err))
      | Inr reply \<Rightarrow>
          (case dec_SlotAssignedPayload (m_Payload reply) of
             None \<Rightarrow> (r, msg # defensiveRelease e r, Inl DecodeFailed)
           | Some payload \<Rightarrow>
               let ackMsg = slot_ack e r (sa_SlotID payload) in
               if \<not> re_publish e ackMsg then (r, msg # defensiveRelease e r, Inl PublishFailed)
               else (r\<lparr>rt_slotID := sa_SlotID payload, rt_preempted := False\<rparr>, [msg, ackMsg],
                     Inr (sa_SlotID payload))))"

definition ReleaseSlot :: "rt_env \<Rightarrow> Runtime \<Rightarrow> Runtime \<times> Message list \<times> rt_error option" where
  "ReleaseSlot e r =
     (let slotID = rt_slotID r; r = r\<lparr>rt_slotID := -1\<rparr> in
      if slotID = -1 then (r, [], None)
      else let msg = release_msg e 3 (rt_agentID r) slotID in
        if re_publish e msg then (r, [msg], None) else (r, [], Some PublishFailed))"

section \<open>One LLM call\<close>

text \<open>
  One round of the loop: whether a preemption signal has arrived by then, the two readings of the
  clock, and the outcome of \<^verbatim>\<open>ReadGroup\<close>.
\<close>

record exec_round =
  er_preempted :: bool
  er_armed_at :: int
  er_checked_at :: int
  er_read :: "redis_error + (Message \<times> string) list"

record exec_state =
  ex_deadline :: "int option"        \<comment> \<open>\<^verbatim>\<open>finalizeDeadline\<close>, \<open>None\<close> if not armed\<close>
  ex_result :: string
  ex_toolCalls :: "ToolCall list"
  ex_progressLog :: "string list"
  ex_acks :: "string list"

type_synonym exec_result = "string \<times> ToolCall list \<times> rt_error option"

text \<open>The messages of one read: the state after them, or the result if the done token is among them.\<close>

fun exec_batch :: "(Message \<times> string) list \<Rightarrow> exec_state \<Rightarrow> exec_state \<times> exec_result option" where
  "exec_batch [] x = (x, None)"
| "exec_batch ((msg, eid) # ms) x =
     (let x = x\<lparr>ex_acks := ex_acks x @ [eid]\<rparr> in
      if m_Type msg = TypeToolCall then
        (case dec_ToolCallPayload (m_Payload msg) of
           None \<Rightarrow> exec_batch ms x
         | Some payload \<Rightarrow> exec_batch ms (x\<lparr>ex_toolCalls := ex_toolCalls x @ [tcp_Call payload]\<rparr>))
      else if m_Type msg = TypeToken then
        (case dec_TokenPayload (m_Payload msg) of
           None \<Rightarrow> exec_batch ms x
         | Some token \<Rightarrow>
             if tk_Done token then
               (x, Some (ex_result x, ex_toolCalls x, if ex_deadline x \<noteq> None then Some ErrPreempted else None))
             else exec_batch ms (x\<lparr>ex_result := ex_result x @ tk_Token token,
                                    ex_progressLog := ex_progressLog x @ [tk_Token token]\<rparr>))
      else exec_batch ms x)"

definition exec_round_step :: "int \<Rightarrow> exec_round \<Rightarrow> exec_state \<Rightarrow> exec_state \<times> exec_result option" where
  "exec_round_step finalizeTimeout rd x =
     (let x = (if er_preempted rd \<and> ex_deadline x = None
               then x\<lparr>ex_deadline := Some (er_armed_at rd + finalizeTimeout)\<rparr> else x) in
      if (case ex_deadline x of None \<Rightarrow> False | Some t \<Rightarrow> er_checked_at rd > t) then
        (x, Some (ex_result x, ex_toolCalls x, Some ErrPreempted))
      else case er_read rd of
        Inl err \<Rightarrow> (x, None)
      | Inr msgs \<Rightarrow> exec_batch msgs x)"

text \<open>The loop over its rounds; \<open>None\<close> if it is still running at their end.\<close>

fun exec_loop :: "int \<Rightarrow> exec_round list \<Rightarrow> exec_state \<Rightarrow> exec_state \<times> exec_result option" where
  "exec_loop finalizeTimeout [] x = (x, None)"
| "exec_loop finalizeTimeout (rd # rds) x =
     (case exec_round_step finalizeTimeout rd x of
        (x', Some result) \<Rightarrow> (x', Some result)
      | (x', None) \<Rightarrow> exec_loop finalizeTimeout rds x')"

definition exec_start :: exec_state where
  "exec_start = \<lparr>ex_deadline = None, ex_result = [], ex_toolCalls = [], ex_progressLog = [], ex_acks = []\<rparr>"

definition llm_request :: "rt_env \<Rightarrow> Runtime \<Rightarrow> ChatMsg list \<Rightarrow> json list \<Rightarrow> Message" where
  "llm_request e r messages tools =
     (NewMessage (re_fresh e 4) (re_now e) TypeChatRequest (rt_agentID r)
        (enc_LLMRequestPayload \<lparr>lr_SlotID = rt_slotID r, lr_SlotClass = [], lr_Messages = messages,
           lr_Stream = True, lr_Tools = tools, lr_ToolChoice = []\<rparr>))
     \<lparr>m_ReplyStream := ''stream:llm-reply:'' @ rt_agentID r @ '':'' @ itoa (re_now e)\<rparr>"

text \<open>
  \<^verbatim>\<open>ExecuteWithCorrelation\<close>: the request published (if any) and the result, \<open>None\<close> while the loop runs.
  A preemption signal reaches the loop only if the agent is preemptible.
\<close>

definition Execute ::
  "rt_env \<Rightarrow> int \<Rightarrow> ChatMsg list \<Rightarrow> json list \<Rightarrow> exec_round list \<Rightarrow> Runtime \<Rightarrow>
     Runtime \<times> Message list \<times> exec_result option" where
  "Execute e finalizeTimeout messages tools rounds r =
     (let r = r\<lparr>rt_progressLog := []\<rparr> in
      if rt_slotID r = -1 then (r, [], Some ([], [], Some ErrNoSlot))
      else let reqMsg = llm_request e r messages tools in
        if \<not> re_publish e reqMsg then (r, [], Some ([], [], Some PublishFailed))
        else if \<not> re_group e then (r, [reqMsg], Some ([], [], Some GroupFailed))
        else let (x, result) = exec_loop finalizeTimeout rounds exec_start
             in (r\<lparr>rt_progressLog := ex_progressLog x,
                   rt_preempted := rt_preempted r \<or> (\<exists>rd \<in> set rounds. er_preempted rd)\<rparr>, [reqMsg], result))"

section \<open>Preemption signals\<close>

text \<open>
  \<^verbatim>\<open>ListenForPreemption\<close> over what its \<^verbatim>\<open>select\<close> yields: the end of the context, or a receive on the subscription
  (\<open>None\<close> for nil). The result has the runtime and what is published on the channel.
\<close>

datatype listen_event = ListenDone | ListenGot "Message option"

definition preempt_channel :: "Runtime \<Rightarrow> string" where
  "preempt_channel r = ''channel:agent:'' @ rt_agentID r @ '':preempt''"

fun ListenForPreemption :: "rt_env \<Rightarrow> listen_event list \<Rightarrow> Runtime \<Rightarrow> Runtime \<times> (string \<times> Message) list" where
  "ListenForPreemption e [] r = (r, [])"
| "ListenForPreemption e (ListenDone # evs) r = (r, [])"
| "ListenForPreemption e (ListenGot None # evs) r = ListenForPreemption e evs r"
| "ListenForPreemption e (ListenGot (Some redisMsg) # evs) r =
     (r\<lparr>rt_preempted := True\<rparr>,
      [(preempt_channel r, NewMessage (re_fresh e 5) (re_now e) TypePreemptAck (rt_agentID r) JNull)])"

definition IsPreempted :: "Runtime \<Rightarrow> bool" where
  "IsPreempted r = rt_preempted r"

definition GetProgressLog :: "Runtime \<Rightarrow> string list" where
  "GetProgressLog r = rt_progressLog r"

definition BuildResumptionContext :: "ChatMsg list \<Rightarrow> Runtime \<Rightarrow> ChatMsg list" where
  "BuildResumptionContext originalMessages r =
     (let partialOutput = concat (GetProgressLog r) in
      if partialOutput = [] then originalMessages
      else originalMessages @
        [\<lparr>cm_Role = ''assistant'', cm_Content = partialOutput, cm_ToolCalls = [], cm_ToolCallID = []\<rparr>])"

section \<open>The loop over its stream\<close>

definition stream_of :: "exec_round list \<Rightarrow> (Message \<times> string) list" where
  "stream_of rounds = concat (map (\<lambda>rd. case er_read rd of Inl _ \<Rightarrow> [] | Inr ms \<Rightarrow> ms) rounds)"

lemma exec_batch_append:
  "exec_batch (ms @ ns) x =
     (case exec_batch ms x of (x', Some r) \<Rightarrow> (x', Some r) | (x', None) \<Rightarrow> exec_batch ns x')"
  by (induction ms x rule: exec_batch.induct) (auto simp: Let_def split: option.splits prod.splits if_splits)

lemma exec_batch_deadline: "ex_deadline (fst (exec_batch ms x)) = ex_deadline x"
  by (induction ms x rule: exec_batch.induct) (auto simp: Let_def split: option.splits)

lemma exec_loop_append:
  "exec_loop T (rs @ ss) x =
     (case exec_loop T rs x of (x', Some r) \<Rightarrow> (x', Some r) | (x', None) \<Rightarrow> exec_loop T ss x')"
  by (induction rs arbitrary: x) (auto split: prod.splits option.splits)

text \<open>Without preemption, how the stream is cut into reads, and reads that fail, make no difference.\<close>

lemma exec_loop_stream:
  assumes "ex_deadline x = None" "\<forall>rd \<in> set rounds. \<not> er_preempted rd"
  shows "exec_loop T rounds x = exec_batch (stream_of rounds) x"
  using assms
proof (induction rounds arbitrary: x)
  case Nil
  then show ?case by (simp add: stream_of_def)
next
  case (Cons rd rounds)
  let ?ms = "case er_read rd of Inl _ \<Rightarrow> [] | Inr ms \<Rightarrow> ms"
  have step: "exec_round_step T rd x = exec_batch ?ms x"
    using Cons.prems by (auto simp: exec_round_step_def Let_def split: sum.splits)
  have s: "stream_of (rd # rounds) = ?ms @ stream_of rounds" by (simp add: stream_of_def)
  have "ex_deadline (fst (exec_batch ?ms x)) = None" using Cons.prems by (simp add: exec_batch_deadline)
  with Cons show ?case
    by (auto simp: s step exec_batch_append split: prod.splits option.splits)
qed

text \<open>What a batch without the done token adds.\<close>

definition tokens_in :: "Message list \<Rightarrow> string list" where
  "tokens_in ms = List.map_filter (\<lambda>m. if m_Type m = TypeToken then map_option tk_Token (dec_TokenPayload (m_Payload m)) else None) ms"

definition calls_in :: "Message list \<Rightarrow> ToolCall list" where
  "calls_in ms = List.map_filter (\<lambda>m. if m_Type m = TypeToolCall then map_option tcp_Call (dec_ToolCallPayload (m_Payload m)) else None) ms"

definition is_done :: "Message \<Rightarrow> bool" where
  "is_done m \<longleftrightarrow> m_Type m = TypeToken \<and>
     (case dec_TokenPayload (m_Payload m) of None \<Rightarrow> False | Some t \<Rightarrow> tk_Done t)"

lemma exec_batch_body:
  assumes "\<forall>m \<in> fst ` set ms. \<not> is_done m"
  shows "exec_batch ms x = (x\<lparr>ex_result := ex_result x @ concat (tokens_in (map fst ms)),
      ex_toolCalls := ex_toolCalls x @ calls_in (map fst ms),
      ex_progressLog := ex_progressLog x @ tokens_in (map fst ms),
      ex_acks := ex_acks x @ map snd ms\<rparr>, None)"
  using assms
proof (induction ms x rule: exec_batch.induct)
  case (1 x)
  then show ?case by (simp add: tokens_in_def calls_in_def map_filter_simps)
next
  case (2 msg eid ms x)
  then show ?case
    by (auto simp: tokens_in_def calls_in_def map_filter_simps is_done_def Let_def split: option.splits)
qed

lemma exec_loop_collects:
  assumes calm: "\<forall>rd \<in> set rounds. \<not> er_preempted rd"
    and stream: "stream_of rounds = body @ (d, eid) # rest" "is_done d" "\<forall>m \<in> fst ` set body. \<not> is_done m"
  shows "exec_loop T rounds exec_start = (exec_start\<lparr>ex_result := concat (tokens_in (map fst body)),
      ex_toolCalls := calls_in (map fst body), ex_progressLog := tokens_in (map fst body),
      ex_acks := map snd body @ [eid]\<rparr>,
      Some (concat (tokens_in (map fst body)), calls_in (map fst body), None))"
proof -
  have "exec_loop T rounds exec_start = exec_batch (body @ (d, eid) # rest) exec_start"
    using exec_loop_stream [of exec_start rounds T] calm stream(1) by (simp add: exec_start_def)
  with stream(2,3) show ?thesis
    by (auto simp: exec_batch_append exec_batch_body exec_start_def is_done_def Let_def split: option.splits)
qed

lemma Execute_loop:
  "rt_slotID r \<noteq> -1 \<Longrightarrow> \<forall>m. re_publish e m \<Longrightarrow> re_group e \<Longrightarrow>
    exec_loop T rounds exec_start = (x, res) \<Longrightarrow>
    \<exists>r'. Execute e T messages tools rounds r = (r', [llm_request e r messages tools], res) \<and>
      GetProgressLog r' = ex_progressLog x"
  by (auto simp: Execute_def GetProgressLog_def llm_request_def)

text \<open>
  If no preemption signal arrives, one LLM call returns exactly what was streamed: the
  concatenation of the tokens and the tool calls that precede the first done token, in stream order
  and without error, however the stream is cut into reads and however many reads fail; every
  token is in the progress log, and every entry read up to then is acknowledged.
\<close>

theorem Execute_returns_stream:
  assumes slot: "rt_slotID r \<noteq> -1" and net: "\<forall>m. re_publish e m" "re_group e"
    and calm: "\<forall>rd \<in> set rounds. \<not> er_preempted rd"
    and stream: "stream_of rounds = body @ (d, eid) # rest" "is_done d" "\<forall>m \<in> fst ` set body. \<not> is_done m"
  shows "\<exists>r'. Execute e T messages tools rounds r =
      (r', [llm_request e r messages tools],
       Some (concat (tokens_in (map fst body)), calls_in (map fst body), None)) \<and>
    GetProgressLog r' = tokens_in (map fst body) \<and>
    ex_acks (fst (exec_loop T rounds exec_start)) = map snd body @ [eid]"
  using Execute_loop [OF slot net, of T rounds] exec_loop_collects [OF calm stream, of T] by fastforce

definition token_of :: "string \<Rightarrow> bool \<Rightarrow> Message" where
  "token_of s d = NewMessage ''c'' 0 TypeToken ''llm-broker'' (enc_TokenPayload \<lparr>tk_SessionID = [], tk_Token = s, tk_Done = d\<rparr>)"

definition reads :: "redis_error + (Message \<times> string) list \<Rightarrow> exec_round" where
  "reads r = \<lparr>er_preempted = False, er_armed_at = 0, er_checked_at = 0, er_read = r\<rparr>"

definition rt_calm :: rt_env where
  "rt_calm = \<lparr>re_now = 7, re_fresh = (\<lambda>n. ''id''), re_publish = (\<lambda>_. True), re_wait = (\<lambda>_ _. Inl ErrTimeout), re_group = True\<rparr>"

theorem Execute_returns_stream_witness:
  "\<exists>r'. Execute rt_calm 2 [] [] [reads (Inl RedisNil), reads (Inr [(token_of ''he'' False, ''1'')]),
          reads (Inr [(token_of ''y'' False, ''2''), (token_of [] True, ''3'')])]
        ((NewRuntime ''main'' 0 False)\<lparr>rt_slotID := 0\<rparr>) =
      (r', [llm_request rt_calm ((NewRuntime ''main'' 0 False)\<lparr>rt_slotID := 0\<rparr>) [] []], Some (''hey'', [], None))"
proof -
  let ?r = "(NewRuntime ''main'' 0 False)\<lparr>rt_slotID := 0\<rparr>"
  let ?rs = "[reads (Inl RedisNil), reads (Inr [(token_of ''he'' False, ''1'')]),
          reads (Inr [(token_of ''y'' False, ''2''), (token_of [] True, ''3'')])]"
  let ?body = "[(token_of ''he'' False, ''1''), (token_of ''y'' False, ''2'')]"
  have t: "tokens_in (map fst ?body) = [''he'', ''y'']" "calls_in (map fst ?body) = []"
    by (simp_all add: tokens_in_def calls_in_def token_of_def NewMessage_def map_filter_simps)
  have "\<exists>r'. Execute rt_calm 2 [] [] ?rs ?r =
      (r', [llm_request rt_calm ?r [] []], Some (concat (tokens_in (map fst ?body)), calls_in (map fst ?body), None)) \<and>
    GetProgressLog r' = tokens_in (map fst ?body) \<and>
    ex_acks (fst (exec_loop 2 ?rs exec_start)) = map snd ?body @ [''3'']"
    by (rule Execute_returns_stream [where d = "token_of [] True" and rest = "[]"])
      (auto simp: rt_calm_def reads_def stream_of_def is_done_def token_of_def NewMessage_def)
  then show ?thesis unfolding t by auto
qed

lemma exec_batch_armed:
  "ex_deadline x \<noteq> None \<Longrightarrow> exec_batch ms x = (x', Some (s, cs, err)) \<Longrightarrow> err = Some ErrPreempted"
  by (induction ms x rule: exec_batch.induct) (auto simp: Let_def split: if_splits option.splits)

lemma exec_armed_result:
  assumes "ex_deadline x = Some t"
  shows "\<exists>x' res. exec_loop T rounds x = (x', res) \<and> ex_deadline x' = Some t \<and>
    (case res of None \<Rightarrow> \<forall>rd \<in> set rounds. er_checked_at rd \<le> t | Some (s, cs, err) \<Rightarrow> err = Some ErrPreempted)"
  using assms
proof (induction rounds arbitrary: x)
  case Nil
  then show ?case by simp
next
  case (Cons rd rounds)
  have b: "case res of None \<Rightarrow> True | Some (s, cs, err) \<Rightarrow> err = Some ErrPreempted"
    if "exec_batch ms x = (x', res)" for ms x' res
    using that Cons.prems exec_batch_armed [of x ms x'] by (auto split: option.splits)
  show ?case
  proof (cases "er_checked_at rd > t")
    case True
    with Cons.prems show ?thesis by (simp add: exec_round_step_def)
  next
    case False
    obtain x' res where st: "exec_round_step T rd x = (x', res)" by fastforce
    have d: "ex_deadline x' = Some t" and r: "case res of None \<Rightarrow> True | Some (s, cs, err) \<Rightarrow> err = Some ErrPreempted"
      using st False Cons.prems exec_batch_deadline [of _ x] b
      by (auto simp: exec_round_step_def split: sum.splits) (metis fst_conv)
    show ?thesis
    proof (cases res)
      case None
      from Cons.IH [OF d] obtain x2 res2 where "exec_loop T rounds x' = (x2, res2)" "ex_deadline x2 = Some t"
        "case res2 of None \<Rightarrow> \<forall>rd \<in> set rounds. er_checked_at rd \<le> t | Some (s, cs, err) \<Rightarrow> err = Some ErrPreempted"
        by blast
      with None st False show ?thesis
        by (intro exI [of _ x2] exI [of _ res2]) (auto split: option.splits)
    next
      case (Some res')
      with st d r show ?thesis by auto
    qed
  qed
qed

text \<open>
  A preempted call ends: once a signal has armed the deadline, the first round that starts after
  the deadline returns, so the call has returned by then; and if it had not returned before the
  signal it reports \<^verbatim>\<open>ErrPreempted\<close>, with only the complete tool calls received so far.
\<close>

lemma preempted_call_ends:
  assumes "\<forall>rd0 \<in> set pre. \<not> er_preempted rd0" "er_preempted rd"
    and "er_checked_at rd' > er_armed_at rd + T"
  shows "\<exists>s cs err. snd (exec_loop T (pre @ rd # mid @ rd' # post) exec_start) = Some (s, cs, err) \<and>
    (snd (exec_loop T pre exec_start) = None \<longrightarrow> err = Some ErrPreempted)"
proof (cases "snd (exec_loop T pre exec_start)")
  case (Some res)
  then show ?thesis by (cases res) (auto simp: exec_loop_append split: prod.splits option.splits)
next
  case None
  then obtain x where x: "exec_loop T pre exec_start = (x, None)" by (metis prod.collapse)
  have nd: "ex_deadline x = None"
    using x exec_loop_stream [of exec_start pre T] assms(1) exec_batch_deadline [of "stream_of pre" exec_start]
    by (simp add: exec_start_def) (metis fst_conv)
  let ?t = "er_armed_at rd + T"
  have "exec_round_step T rd x = exec_round_step T rd (x\<lparr>ex_deadline := Some ?t\<rparr>)"
    using nd assms(2) by (simp add: exec_round_step_def)
  then have "exec_loop T (rd # mid @ rd' # post) x = exec_loop T (rd # mid @ rd' # post) (x\<lparr>ex_deadline := Some ?t\<rparr>)"
    by simp
  moreover obtain x' res where "exec_loop T (rd # mid @ rd' # post) (x\<lparr>ex_deadline := Some ?t\<rparr>) = (x', res)"
    "case res of None \<Rightarrow> \<forall>r \<in> set (rd # mid @ rd' # post). er_checked_at r \<le> ?t
      | Some (s, cs, err) \<Rightarrow> err = Some ErrPreempted"
    using exec_armed_result [of "x\<lparr>ex_deadline := Some ?t\<rparr>" ?t T "rd # mid @ rd' # post"] by auto
  ultimately show ?thesis
    using x assms(3) None by (auto simp: exec_loop_append split: option.splits)
qed

lemma preempted_call_ends_witness:
  "\<exists>s cs. snd (exec_loop 2 [reads (Inl RedisNil), (reads (Inl RedisNil))\<lparr>er_preempted := True, er_armed_at := 10\<rparr>,
      (reads (Inl RedisNil))\<lparr>er_checked_at := 13\<rparr>] exec_start) = Some (s, cs, Some ErrPreempted)"
  using preempted_call_ends [of "[reads (Inl RedisNil)]" "(reads (Inl RedisNil))\<lparr>er_preempted := True, er_armed_at := 10\<rparr>"
      2 "(reads (Inl RedisNil))\<lparr>er_checked_at := 13\<rparr>" "[]" "[]"]
  by (simp add: reads_def exec_round_step_def exec_start_def)

text \<open>
  The listener sets the flag at the first message it receives before its context ends, and at nothing else.
\<close>

lemma ListenForPreemption_flag:
  "IsPreempted (fst (ListenForPreemption e evs r)) \<longleftrightarrow>
   IsPreempted r \<or> (\<exists>m. ListenGot (Some m) \<in> set (takeWhile (\<lambda>ev. ev \<noteq> ListenDone) evs))"
  by (induction e evs r rule: ListenForPreemption.induct) (auto simp: IsPreempted_def)

text \<open>
  The loop watches neither its context nor a deadline of its own: as long as no preemption signal
  and no done token arrive, in particular when every read fails because the context is cancelled,
  it has not returned after any number of rounds.
\<close>

theorem Execute_never_gives_up:
  assumes "\<forall>rd \<in> set rounds. \<not> er_preempted rd" "\<forall>m \<in> fst ` set (stream_of rounds). \<not> is_done m"
  shows "snd (exec_loop T rounds exec_start) = None"
  using exec_loop_stream [of exec_start rounds T] exec_batch_body [OF assms(2), of exec_start] assms(1)
  by (simp add: exec_start_def)

theorem Execute_never_gives_up_witness:
  "snd (exec_loop 5 (replicate 1000 (reads (Inl (RedisError ''context canceled'')))) exec_start) = None"
  by (rule Execute_never_gives_up) (auto simp: reads_def stream_of_def)

text \<open>
  C40. Acquiring a slot leaves no loose end: on success exactly the request and an acknowledgement
  under the request's own correlation id are published, the runtime holds the slot the reply named
  and the preemption flag is cleared; on any failure after the request went out the runtime's
  state is unchanged and a release of all its slots (slot -1) follows the request on the stream.
\<close>

theorem RequestSlot_outcome:
  assumes net: "\<forall>m. m_Type m \<noteq> TypeSlotAssignedAck \<longrightarrow> re_publish e m"
  shows "case RequestSlot e r of (r', msgs, res) \<Rightarrow>
    (case res of
       Inr i \<Rightarrow> msgs = [slot_request e r, slot_ack e r i] \<and>
         m_CorrelationID (slot_ack e r i) = m_CorrelationID (slot_request e r) \<and>
         r' = r\<lparr>rt_slotID := i, rt_preempted := False\<rparr> \<and>
         (\<exists>reply. re_wait e (m_ReplyStream (slot_request e r)) (m_CorrelationID (slot_request e r)) = Inr reply \<and>
            dec_SlotAssignedPayload (m_Payload reply) = Some \<lparr>sa_SlotID = i\<rparr>)
     | Inl err \<Rightarrow> r' = r \<and> (\<exists>rel. msgs = [slot_request e r, rel] \<and> m_Type rel = TypeSlotRelease \<and>
         dec_SlotReleasePayload (m_Payload rel) = Some \<lparr>rel_AgentID = rt_agentID r, rel_SlotID = -1\<rparr>))"
proof -
  have "re_publish e (slot_request e r)" "re_publish e (release_msg e 2 (rt_agentID r) (-1))"
    using net by (auto simp: slot_request_def release_msg_def NewMessage_def)
  moreover have "m_Type (release_msg e 2 (rt_agentID r) (-1)) = TypeSlotRelease"
    "dec_SlotReleasePayload (m_Payload (release_msg e 2 (rt_agentID r) (-1))) =
       Some \<lparr>rel_AgentID = rt_agentID r, rel_SlotID = -1\<rparr>"
    by (simp_all add: release_msg_def NewMessage_def)
  moreover have "m_CorrelationID (slot_ack e r i) = m_CorrelationID (slot_request e r)" for i
    by (simp add: slot_ack_def)
  moreover have "p = \<lparr>sa_SlotID = sa_SlotID p\<rparr>" for p by simp
  ultimately show ?thesis
    by (auto simp: RequestSlot_def defensiveRelease_def Let_def split: sum.splits option.splits)
qed

theorem RequestSlot_outcome_witness:
  "let e = rt_calm\<lparr>re_wait := (\<lambda>_ _. Inr (NewMessage ''id'' 0 TypeSlotAssigned ''llm-broker''
             (enc_SlotAssignedPayload \<lparr>sa_SlotID = 2\<rparr>)))\<rparr>;
       r = NewRuntime ''main'' 0 False
   in RequestSlot e r = (r\<lparr>rt_slotID := 2\<rparr>, [slot_request e r, slot_ack e r 2], Inr 2)"
proof -
  let ?e = "rt_calm\<lparr>re_wait := (\<lambda>_ _. Inr (NewMessage ''id'' 0 TypeSlotAssigned ''llm-broker''
             (enc_SlotAssignedPayload \<lparr>sa_SlotID = 2\<rparr>)))\<rparr>"
  have res: "snd (snd (RequestSlot ?e (NewRuntime ''main'' 0 False))) = Inr 2"
    by (simp add: RequestSlot_def rt_calm_def NewMessage_def Let_def)
  from RequestSlot_outcome [of ?e "NewRuntime ''main'' 0 False"] res show ?thesis
    by (auto simp: Let_def rt_calm_def NewRuntime_def split: prod.splits)
qed

section \<open>The slot on a sound network\<close>

text \<open>A network on which the broker always grants slot 2.\<close>

definition granting :: rt_env where
  "granting = rt_calm\<lparr>re_wait := (\<lambda>_ _. Inr (NewMessage ''id'' 0 TypeSlotAssigned ''llm-broker''
             (enc_SlotAssignedPayload \<lparr>sa_SlotID = 2\<rparr>)))\<rparr>"

text \<open>Network without failures, and replies that name a slot.\<close>

definition sound_rt :: "rt_env \<Rightarrow> bool" where
  "sound_rt e \<longleftrightarrow> (\<forall>m. re_publish e m) \<and>
     (\<forall>s c m p. re_wait e s c = Inr m \<longrightarrow> dec_SlotAssignedPayload (m_Payload m) = Some p \<longrightarrow> sa_SlotID p \<noteq> -1)"

lemma sent_types [simp]:
  "m_Type (slot_request e r) = TypeSlotRequest" "m_Type (slot_ack e r i) = TypeSlotAssignedAck"
  "m_Type (llm_request e r ms ts) = TypeChatRequest" "m_Type (release_msg e n a i) = TypeSlotRelease"
  by (simp_all add: slot_request_def slot_ack_def llm_request_def release_msg_def NewMessage_def)

lemma RequestSlot_sound:
  assumes "sound_rt e" "RequestSlot e r = (r1, sent, got)"
  shows "case got of Inl err \<Rightarrow> r1 = r \<and> map m_Type sent = [TypeSlotRequest, TypeSlotRelease]
    | Inr i \<Rightarrow> rt_slotID r1 = i \<and> i \<noteq> -1 \<and> map m_Type sent = [TypeSlotRequest, TypeSlotAssignedAck]"
  using assms
  by (auto simp: RequestSlot_def sound_rt_def defensiveRelease_def Let_def split: sum.splits option.splits)

lemma Execute_sound:
  assumes "sound_rt e" "rt_slotID r \<noteq> -1" "Execute e T ms ts rounds r = (r2, sent, res)"
  shows "rt_slotID r2 = rt_slotID r \<and> map m_Type sent = [TypeChatRequest]"
  using assms by (auto simp: Execute_def sound_rt_def Let_def split: if_splits prod.splits)

lemma ReleaseSlot_sound:
  assumes "sound_rt e" "rt_slotID r \<noteq> -1" "ReleaseSlot e r = (r3, sent, err)"
  shows "rt_slotID r3 = -1 \<and> map m_Type sent = [TypeSlotRelease]"
  using assms by (auto simp: ReleaseSlot_def sound_rt_def Let_def split: if_splits)

lemma sound_granting: "sound_rt granting"
  by (simp add: sound_rt_def granting_def rt_calm_def NewMessage_def)

end
