(* ===== verification/Slot_Protocol.thy ===== *)
theory Slot_Protocol
  imports Broker Agent_Runtime
begin

text \<open>
  Broker and agent runtime together: the slot protocol from request to release, and one LLM call from
  the runtime's request through the broker's replies to the runtime's result. The messages one
  side publishes are exactly what the other side handles.
\<close>

abbreviation handles :: "env \<Rightarrow> Message \<Rightarrow> Broker \<Rightarrow> Broker \<Rightarrow> bool" where
  "handles e m b b' \<equiv> run_action (handleMessage e m) b = Returns b'"

lemma handle_request_free:
  assumes inv: "slot_inv (b_slots b)" and free: "FindUnassigned c (b_slots b) = Some i"
    and net: "\<forall>s m. e_publish e s m"
    and m: "m_Type m = TypeSlotRequest" "dec_SlotRequestPayload (m_Payload m) = Some p" "NormalizeClass (sr_SlotClass p) = Some c"
      "m_ReplyStream m \<noteq> []"
  shows "\<exists>st. AssignProvisional i (sr_AgentID p) (sr_Priority p) (m_CorrelationID m) (e_now e) (b_slots b) = (st, True) \<and>
    handles e m b
      (b\<lparr>b_slots := st,
         b_published := b_published b @ [(m_ReplyStream m,
           NewReply (e_now e) m TypeSlotAssigned ''llm-broker'' (enc_SlotAssignedPayload \<lparr>sa_SlotID = i\<rparr>))],
         b_reclaims := b_reclaims b @ [m_CorrelationID m]\<rparr>)"
proof -
  from table.find_then_assign [OF inv free, of "sr_AgentID p" "sr_Priority p" "m_CorrelationID m" "e_now e"]
  obtain st where st: "AssignProvisional i (sr_AgentID p) (sr_Priority p) (m_CorrelationID m) (e_now e) (b_slots b)
      = (st, True)" by blast
  with free net m show ?thesis
    by (simp add: handleMessage_def handleSlotRequest_def sendSlotAssigned_def publish_def scheduleReclaim_def)
qed

text \<open>A slot through the broker, from any request for a class that has a free slot to its release.\<close>

lemma slot_round_trip:
  assumes inv: "slot_inv (b_slots b)" and queue: "b_pendingQueue b = []"
    and free: "FindUnassigned c (b_slots b) = Some i"
    and fresh: "m_CorrelationID m \<notin># prov_mset (b_slots b)" and net: "\<forall>s m. e_publish e s m"
    and m: "m_Type m = TypeSlotRequest" "dec_SlotRequestPayload (m_Payload m) = Some p" "NormalizeClass (sr_SlotClass p) = Some c"
      "m_ReplyStream m \<noteq> []"
    and ack: "m_Type ack = TypeSlotAssignedAck" "dec_SlotAssignedAckPayload (m_Payload ack) = Some q"
      "m_CorrelationID ack = m_CorrelationID m"
    and rel: "m_Type rel = TypeSlotRelease" "dec_SlotReleasePayload (m_Payload rel) = Some d" "rel_SlotID d = i"
  shows "i \<noteq> -1 \<and> (\<exists>b1 b2 b3. handles e m b b1 \<and>
    snd (last (b_published b1)) = NewReply (e_now e) m TypeSlotAssigned ''llm-broker'' (enc_SlotAssignedPayload \<lparr>sa_SlotID = i\<rparr>) \<and>
    handles e ack b1 b2 \<and> slot_holder (b_slots b2) i = Some (sr_AgentID p) \<and> ClassOf i (b_slots b2) = c \<and>
    RevertProvisional (m_CorrelationID m) (b_slots b2) = (b_slots b2, None) \<and>
    handles e rel b2 b3 \<and> b_slots b3 = b_slots b)"
proof -
  from handle_request_free [OF inv free net m] obtain st where
    st: "AssignProvisional i (sr_AgentID p) (sr_Priority p) (m_CorrelationID m) (e_now e) (b_slots b) = (st, True)"
    and h1: "handles e m b
      (b\<lparr>b_slots := st,
         b_published := b_published b @ [(m_ReplyStream m,
           NewReply (e_now e) m TypeSlotAssigned ''llm-broker'' (enc_SlotAssignedPayload \<lparr>sa_SlotID = i\<rparr>))],
         b_reclaims := b_reclaims b @ [m_CorrelationID m]\<rparr>)" (is "handles e _ b ?b1")
    by blast
  from FindUnassigned_Some [OF inv free] have
    rng: "in_range i (b_slots b)" and un: "se_State (b_slots b ! nat i) = SlotUnassigned"
    and cl: "se_Class (b_slots b ! nat i) = c" .
  let ?s = "assigned_entry i c (sr_AgentID p) (sr_Priority p) (e_now e)"
  let ?b2 = "?b1\<lparr>b_slots := (b_slots b)[nat i := ?s]\<rparr>"
  have commit: "CommitAssignment (m_CorrelationID m) st = ((b_slots b)[nat i := ?s], Some i)"
    using commit_taken [OF fresh st] cl by simp
  have h2: "handles e ack ?b1 ?b2" using commit ack by (simp add: handleMessage_def handleSlotAssignedAck_def)
  have hold: "slot_holder (b_slots ?b2) i = Some (sr_AgentID p)" by (simp add: slot_holder_update [OF rng])
  have class': "ClassOf i (b_slots ?b2) = c"
    using in_range_nat [OF rng] rng by (simp add: ClassOf_def in_range_def)
  have sub: "prov_mset (b_slots ?b2) \<subseteq># prov_mset (b_slots b)"
    using in_range_nat [OF rng] by (auto intro!: prov_mset_replace_sub)
  have rev: "RevertProvisional (m_CorrelationID m) (b_slots ?b2) = (b_slots ?b2, None)"
  proof (cases "RevertProvisional (m_CorrelationID m) (b_slots ?b2)")
    case (Pair st2 res)
    with fresh sub prov_mset_Revert [of "m_CorrelationID m" "b_slots ?b2" st2] Revert_None [of "m_CorrelationID m" "b_slots ?b2" st2]
    show ?thesis by (cases res) (auto dest: mset_subset_eqD)
  qed
  have i: "i \<noteq> -1" using rng by (auto simp: in_range_def)
  have "Release i ((b_slots b)[nat i := ?s]) = b_slots b"
    using release_taken [OF inv rng un, of ?s] cl by simp
  then have h3: "handles e rel ?b2 (?b2\<lparr>b_slots := b_slots b\<rparr>)"
    using i queue rel by (simp add: handleMessage_def handleSlotRelease_def assignFromQueue_def)
  show ?thesis using i h1 h2 hold class' rev h3 by fastforce
qed

text \<open>
  C2. The slot protocol closes its loop. With a free agent slot: the broker answers the runtime's
  request with a slot; when the runtime has received that answer its acknowledgement makes the
  slot its own for good (no reclaim can take it any more); and the runtime's release brings the
  slot table back to exactly what it was before the request.
\<close>

theorem slot_lifecycle:
  assumes inv: "slot_inv (b_slots b)" and queue: "b_pendingQueue b = []"
    and free: "FindUnassigned SlotClassAgent (b_slots b) = Some i"
    and fresh: "re_fresh re 0 \<notin># prov_mset (b_slots b)"
    and net: "\<forall>s m. e_publish e s m" "\<forall>m. re_publish re m"
    and reply: "\<And>b1. handles e (slot_request re r) b b1 \<Longrightarrow>
      re_wait re (m_ReplyStream (slot_request re r)) (m_CorrelationID (slot_request re r)) = Inr (snd (last (b_published b1)))"
  shows "\<exists>b1 b2 b3 r' ack rel.
    handles e (slot_request re r) b b1 \<and>
    RequestSlot re r = (r', [slot_request re r, ack], Inr i) \<and>
    handles e ack b1 b2 \<and>
    slot_holder (b_slots b2) i = Some (rt_agentID r) \<and> ClassOf i (b_slots b2) = SlotClassAgent \<and>
    RevertProvisional (re_fresh re 0) (b_slots b2) = (b_slots b2, None) \<and>
    ReleaseSlot re r' = (r'\<lparr>rt_slotID := -1\<rparr>, [rel], None) \<and>
    handles e rel b2 b3 \<and> b_slots b3 = b_slots b"
proof -
  let ?m = "slot_request re r" and ?ack = "slot_ack re r i" and ?rel = "release_msg re 3 (rt_agentID r) i"
  let ?r' = "r\<lparr>rt_slotID := i, rt_preempted := False\<rparr>"
  have m: "m_Type ?m = TypeSlotRequest" "NormalizeClass [] = Some SlotClassAgent" "m_CorrelationID ?m = re_fresh re 0" "m_ReplyStream ?m \<noteq> []"
    "dec_SlotRequestPayload (m_Payload ?m) = Some \<lparr>sr_AgentID = rt_agentID r, sr_Priority = rt_priority r, sr_SlotClass = []\<rparr>"
    by (simp_all add: slot_request_def NewMessage_def NormalizeClass_def)
  have ack: "m_Type ?ack = TypeSlotAssignedAck" "m_CorrelationID ?ack = m_CorrelationID ?m"
    "dec_SlotAssignedAckPayload (m_Payload ?ack) = Some \<lparr>ack_AgentID = rt_agentID r, ack_SlotID = i\<rparr>"
    by (simp_all add: slot_ack_def NewMessage_def)
  have rel: "m_Type ?rel = TypeSlotRelease"
    "dec_SlotReleasePayload (m_Payload ?rel) = Some \<lparr>rel_AgentID = rt_agentID r, rel_SlotID = i\<rparr>"
    by (simp_all add: release_msg_def NewMessage_def)
  from slot_round_trip [OF inv queue free _ net(1) m(1,5) _ m(4) ack(1,3,2) rel] fresh m(2,3)
  obtain b1 b2 b3 where *: "i \<noteq> -1" "handles e ?m b b1"
    "snd (last (b_published b1)) = NewReply (e_now e) ?m TypeSlotAssigned ''llm-broker'' (enc_SlotAssignedPayload \<lparr>sa_SlotID = i\<rparr>)"
    "handles e ?ack b1 b2" "slot_holder (b_slots b2) i = Some (rt_agentID r)" "ClassOf i (b_slots b2) = SlotClassAgent"
    "RevertProvisional (re_fresh re 0) (b_slots b2) = (b_slots b2, None)"
    "handles e ?rel b2 b3" "b_slots b3 = b_slots b"
    by auto
  have "RequestSlot re r = (?r', [?m, ?ack], Inr i)"
    using reply [OF *(2)] *(3) net(2) by (simp add: RequestSlot_def NewReply_def Let_def)
  moreover have "ReleaseSlot re ?r' = (?r'\<lparr>rt_slotID := -1\<rparr>, [?rel], None)"
    using *(1) net(2) by (simp add: ReleaseSlot_def Let_def)
  ultimately show ?thesis using * by blast
qed

theorem slot_lifecycle_witness:
  "let r = NewRuntime ''main'' 0 False;
       re = rt_calm\<lparr>re_wait := (\<lambda>_ _. Inr (NewReply 7 (slot_request rt_calm r) TypeSlotAssigned ''llm-broker''
              (enc_SlotAssignedPayload \<lparr>sa_SlotID = 0\<rparr>)))\<rparr>
   in \<exists>r' ack b1 b2. RequestSlot re r = (r', [slot_request re r, ack], Inr 0) \<and>
        handles calm (slot_request re r) (NewBroker 1 0 []) b1 \<and> handles calm ack b1 b2 \<and>
        slot_holder (b_slots b2) 0 = Some ''main''"
proof -
  let ?r = "NewRuntime ''main'' 0 False"
  let ?re = "rt_calm\<lparr>re_wait := (\<lambda>_ _. Inr (NewReply 7 (slot_request rt_calm ?r) TypeSlotAssigned ''llm-broker''
              (enc_SlotAssignedPayload \<lparr>sa_SlotID = 0\<rparr>)))\<rparr>"
  let ?b = "NewBroker 1 0 []"
  have t: "b_slots ?b = [free_entry 0 ''agent'']"
    by (simp add: NewBroker_def NewSlotTableWithClasses_def slot_class_defs)
  have same: "slot_request ?re ?r = slot_request rt_calm ?r" by (simp add: slot_request_def)
  have inv: "slot_inv (b_slots ?b)" by (simp add: NewBroker_def slot_inv_New)
  have free: "FindUnassigned SlotClassAgent (b_slots ?b) = Some 0"
    by (simp add: t FindUnassigned_def slot_class_defs)
  have net: "\<forall>s m. e_publish calm s m" "\<forall>m. re_publish ?re m" by (simp_all add: calm_def rt_calm_def)
  have rep: "re_wait ?re (m_ReplyStream (slot_request ?re ?r)) (m_CorrelationID (slot_request ?re ?r)) =
      Inr (snd (last (b_published b1)))" if "handles calm (slot_request ?re ?r) ?b b1" for b1
    using handle_request_free [OF inv free net(1), of "slot_request ?re ?r"] that
    by (auto simp: same calm_def slot_request_def NewMessage_def NormalizeClass_def)
  have q: "b_pendingQueue ?b = []" "re_fresh ?re 0 \<notin># prov_mset (b_slots ?b)"
    by (simp_all add: NewBroker_def NewSlotTableWithClasses_def)
  from slot_lifecycle [OF inv q(1) free q(2) net rep] show ?thesis
    unfolding Let_def by (fastforce simp: NewRuntime_def)
qed

lemma tokens_in_filter: "tokens_in ms = tokens_in (filter (\<lambda>m. m_Type m = TypeToken) ms)"
  by (induction ms) (auto simp: tokens_in_def map_filter_simps split: option.splits)

lemma calls_in_filter: "calls_in ms = calls_in (filter (\<lambda>m. m_Type m \<noteq> TypeToken) ms)"
  by (induction ms) (auto simp: calls_in_def map_filter_simps split: option.splits)

lemma tokens_in_token_msgs: "tokens_in (map (token_msg e m) ts) = ts"
  by (induction ts) (auto simp: tokens_in_def map_filter_simps token_msg_def NewReply_def)

lemma calls_in_call_msgs: "calls_in (map (tool_call_msg e m) cs) = cs"
  by (induction cs) (auto simp: calls_in_def map_filter_simps tool_call_msg_def NewReply_def)

lemma not_done: "\<not> is_done (token_msg e m t)" "\<not> is_done (tool_call_msg e m c)" "is_done (done_msg e m)"
  by (simp_all add: is_done_def token_msg_def tool_call_msg_def done_msg_def NewReply_def)

lemma set_select_merge: "set (select_merge sched xs ys) = set xs \<union> set ys"
  by (induction sched xs ys rule: select_merge.induct) auto

lemma replies_read:
  assumes "map fst rs = llm_replies e sched m out @ [done_msg e m]"
  obtains body eid where "rs = body @ [(done_msg e m, eid)]" "\<forall>r \<in> fst ` set body. \<not> is_done r"
    "tokens_in (map fst body) = po_tokens out" "calls_in (map fst body) = po_calls out"
proof -
  from assms obtain body eid where st: "rs = body @ [(done_msg e m, eid)]"
    and body: "map fst body = llm_replies e sched m out"
    by (auto simp: map_eq_append_conv)
  have "fst ` set body = set (llm_replies e sched m out)" unfolding body [symmetric] by simp
  then have "\<forall>r \<in> fst ` set body. \<not> is_done r" by (auto simp: llm_replies_def set_select_merge not_done)
  moreover have "tokens_in (map fst body) = po_tokens out" "calls_in (map fst body) = po_calls out"
    unfolding body
    using llm_replies_filter [of e sched m out] tokens_in_filter [of "llm_replies e sched m out"]
      calls_in_filter [of "llm_replies e sched m out"] tokens_in_token_msgs calls_in_call_msgs by metis+
  ultimately show ?thesis using st that by blast
qed

text \<open>
  C3. One LLM call, end to end: if the runtime holds its slot in the broker's table, the runtime's
  result is exactly the inference server's answer. Every token in order, and every assembled tool
  call in order, pass through the broker's reply stream and the runtime's loop, whatever order
  the broker's \<^verbatim>\<open>select\<close> picks and however the runtime's reads cut the stream.
\<close>

theorem llm_call_end_to_end:
  assumes slot: "rt_slotID r \<noteq> -1" "slot_holder (b_slots b) (rt_slotID r) = Some (rt_agentID r)"
      "ClassOf (rt_slotID r) (b_slots b) = SlotClassAgent"
    and net: "\<forall>s m. e_publish e s m" "\<forall>m. re_publish re m" "re_group re"
    and broker: "run_action (handleLLMRequest e proxy sched (llm_request re r messages tools)) b = Returns b'"
    and calm: "\<forall>rd \<in> set rounds. \<not> er_preempted rd"
    and stream: "b_published b' = b_published b @
      map (Pair (m_ReplyStream (llm_request re r messages tools))) (map fst (stream_of rounds))"
  shows "let out = proxy (rt_slotID r) messages tools [] True in
    \<exists>r'. Execute re T messages tools rounds r =
      (r', [llm_request re r messages tools], Some (concat (po_tokens out), po_calls out, None))"
proof -
  let ?m = "llm_request re r messages tools" and ?out = "proxy (rt_slotID r) messages tools [] True"
  let ?p = "\<lparr>lr_SlotID = rt_slotID r, lr_SlotClass = [], lr_Messages = messages, lr_Stream = True, lr_Tools = tools,
     lr_ToolChoice = []\<rparr>"
  have dec: "dec_LLMRequestPayload (m_Payload ?m) = Some ?p" "m_ReplyStream ?m \<noteq> []" "m_Source ?m = rt_agentID r"
    by (simp_all add: llm_request_def NewMessage_def)
  have "run_action (handleLLMRequest e proxy sched ?m) b =
      Returns (b\<lparr>b_published := b_published b @ map (Pair (m_ReplyStream ?m)) (llm_replies e sched ?m ?out @ [done_msg e ?m])\<rparr>)"
    using run_handleLLMRequest_owned [OF dec(1,2), of e b proxy sched] net slot dec(3)
    by (simp add: NormalizeClass_def)
  with broker stream have "map (Pair (m_ReplyStream ?m)) (map fst (stream_of rounds)) =
      map (Pair (m_ReplyStream ?m)) (llm_replies e sched ?m ?out @ [done_msg e ?m])"
    by (auto simp del: map_append map_map)
  then have "map snd (map (Pair (m_ReplyStream ?m)) (map fst (stream_of rounds))) =
      map snd (map (Pair (m_ReplyStream ?m)) (llm_replies e sched ?m ?out @ [done_msg e ?m]))"
    by (rule arg_cong)
  then have "map fst (stream_of rounds) = llm_replies e sched ?m ?out @ [done_msg e ?m]"
    by (simp add: comp_def)
  from replies_read [OF this] obtain body eid where st: "stream_of rounds = body @ [(done_msg e ?m, eid)]"
    and nd: "\<forall>m \<in> fst ` set body. \<not> is_done m"
    and "tokens_in (map fst body) = po_tokens ?out" "calls_in (map fst body) = po_calls ?out" .
  moreover have "\<exists>x. exec_loop T rounds exec_start =
      (x, Some (concat (tokens_in (map fst body)), calls_in (map fst body), None))"
    using exec_loop_collects [OF calm st not_done(3) nd, of T] by blast
  ultimately show ?thesis
    using Execute_loop [OF slot(1) net(2,3), of T rounds] by (fastforce simp: Let_def)
qed

theorem llm_call_end_to_end_witness:
  "let r = (NewRuntime ''main'' 0 False)\<lparr>rt_slotID := 0\<rparr>; m = llm_request rt_calm r [] [];
       proxy = (\<lambda>_ _ _ _ _. \<lparr>po_tokens = [''he'', ''y''], po_calls = [], po_error = None\<rparr>);
       rounds = [reads (Inr [(token_msg calm m ''he'', ''1''), (token_msg calm m ''y'', ''2'')]),
                 reads (Inr [(done_msg calm m, ''3'')])]
   in \<exists>r'. Execute rt_calm 2 [] [] rounds r = (r', [m], Some (concat [''he'', ''y''], [], None))"
proof -
  let ?r = "(NewRuntime ''main'' 0 False)\<lparr>rt_slotID := 0\<rparr>"
  let ?m = "llm_request rt_calm ?r [] []"
  let ?proxy = "\<lambda>_ _ _ _ _. \<lparr>po_tokens = [''he'', ''y''], po_calls = [], po_error = None\<rparr>"
  let ?rounds = "[reads (Inr [(token_msg calm ?m ''he'', ''1''), (token_msg calm ?m ''y'', ''2'')]),
                 reads (Inr [(done_msg calm ?m, ''3'')])]"
  let ?b = "(NewBroker 1 0 [])\<lparr>b_slots := [assigned_entry 0 ''agent'' ''main'' 0 0]\<rparr>"
  have c: "ClassOf 0 [assigned_entry 0 ''agent'' ''main'' 0 0] = ''agent''"
    "IsOwnedBy 0 ''main'' [assigned_entry 0 ''agent'' ''main'' 0 0]"
    by (simp_all add: ClassOf_def IsOwnedBy_def in_range_def)
  have m: "dec_LLMRequestPayload (m_Payload ?m) = Some \<lparr>lr_SlotID = 0, lr_SlotClass = [], lr_Messages = [],
      lr_Stream = True, lr_Tools = [], lr_ToolChoice = []\<rparr>" "m_ReplyStream ?m \<noteq> []" "m_Source ?m = ''main''"
    by (simp_all add: llm_request_def NewMessage_def NewRuntime_def)
  let ?b' = "?b\<lparr>b_published := map (Pair (m_ReplyStream ?m))
      [token_msg calm ?m ''he'', token_msg calm ?m ''y'', done_msg calm ?m]\<rparr>"
  have run: "run_action (handleLLMRequest calm ?proxy [] ?m) ?b = Returns ?b'"
    using m c by (simp add: handleLLMRequest_def NormalizeClass_def slot_class_defs publish_def calm_def NewBroker_def)
  have "let out = ?proxy (rt_slotID ?r) [] [] [] True in
      \<exists>r'. Execute rt_calm 2 [] [] ?rounds ?r = (r', [?m], Some (concat (po_tokens out), po_calls out, None))"
    by (rule llm_call_end_to_end [OF _ _ _ _ _ _ run])
      (auto simp: calm_def rt_calm_def reads_def stream_of_def slot_holder_def in_range_def ClassOf_def
        slot_class_defs NewRuntime_def NewBroker_def)
  then show ?thesis by (simp add: Let_def)
qed

section \<open>Preemption from end to end\<close>

text \<open>When a preemption timer fires, the requester gets the slot, whether the victim has released it or not.\<close>

lemma preempt_expire_grants:
  assumes "slot_inv (b_slots b)" "in_range (pre_slot p) (b_slots b)"
    and "m_ReplyStream (pre_msg p) \<noteq> []" "\<forall>s m. e_publish e s m"
  shows "\<exists>b'. run_action (preempt_expire e p) b = Returns b' \<and>
    slot_holder (b_slots b') = (slot_holder (b_slots b))(pre_slot p \<mapsto> sr_AgentID (pre_requester p)) \<and>
    b_registry b' = (if GetByAgent (pre_victim p) (b_slots b) = None then b_registry b
       else MarkDead (pre_victim p) (b_registry b)) \<and>
    b_published b' = b_published b @ [(m_ReplyStream (pre_msg p), NewReply (e_now e) (pre_msg p) TypeSlotAssigned ''llm-broker''
       (enc_SlotAssignedPayload \<lparr>sa_SlotID = pre_slot p\<rparr>))]"
proof -
  let ?i = "pre_slot p" and ?a = "sr_AgentID (pre_requester p)"
  have force: "\<exists>st'. ForceAssign ?i ?a (sr_Priority (pre_requester p)) (e_now e) st = Returns st' \<and>
      slot_holder st' = (slot_holder st)(?i \<mapsto> ?a)" if "in_range ?i st" for st
    using that by (auto simp: ForceAssign_def in_range_def slot_holder_update)
  have rel: "in_range ?i (Release ?i (b_slots b))" "slot_holder (Release ?i (b_slots b)) = (slot_holder (b_slots b))(?i := None)"
    using assms(1,2) table.release_law [OF assms(1), of ?i] by (simp_all add: Release_def in_range_def)
  from force [OF assms(2)] force [OF rel(1)] assms(3,4) rel(2) show ?thesis
    by (cases "GetByAgent (pre_victim p) (b_slots b)")
      (auto simp: preempt_expire_def preempt_force_def sendSlotAssigned_def publish_def)
qed

abbreviation slot_wish :: "Runtime \<Rightarrow> SlotRequestPayload" where
  "slot_wish r \<equiv> \<lparr>sr_AgentID = rt_agentID r, sr_Priority = rt_priority r, sr_SlotClass = []\<rparr>"

text \<open>The timer and the signal of the preemption of \<open>v\<close> for \<open>r\<close>.\<close>

abbreviation preemption_of :: "rt_env \<Rightarrow> Runtime \<Rightarrow> Runtime \<Rightarrow> preemption" where
  "preemption_of re r v \<equiv>
     \<lparr>pre_victim = rt_agentID v, pre_slot = rt_slotID v, pre_msg = slot_request re r, pre_requester = slot_wish r\<rparr>"

abbreviation preempt_signal :: "env \<Rightarrow> Runtime \<Rightarrow> Message" where
  "preempt_signal e r \<equiv>
     NewMessage (e_fresh e) (e_now e) TypePreempt ''llm-broker'' (JObj [(''reason'', JStr (preempt_reason (slot_wish r)))])"

lemma request_preempts:
  assumes "FindUnassigned SlotClassAgent (b_slots b) = None"
    and "FindLowestPriorityPreemptible SlotClassAgent (IsPreemptible b) (b_slots b) = Some (rt_slotID v, rt_agentID v, prio)"
    and "rt_priority r < prio"
  shows "handles e (slot_request re r) b (b\<lparr>b_signals := b_signals b @ [(preempt_channel v, preempt_signal e r)],
    b_preempts := b_preempts b @ [preemption_of re r v]\<rparr>)"
  using assms
  by (simp add: slot_request_def NewMessage_def handleMessage_def handleSlotRequest_def NormalizeClass_def preemptAgent_def
      preempt_channel_def)

text \<open>A release of slot \<open>i\<close> while nothing is queued.\<close>

lemma release_frees:
  assumes "slot_inv (b_slots b)" "in_range i (b_slots b)" "b_pendingQueue b = []"
  shows "handles e (release_msg re n a i) b (b\<lparr>b_slots := Release i (b_slots b)\<rparr>)"
    and "slot_inv (Release i (b_slots b))" "in_range i (Release i (b_slots b))"
    and "slot_holder (Release i (b_slots b)) = (slot_holder (b_slots b))(i := None)"
proof -
  have "i \<noteq> -1" using assms(2) by (auto simp: in_range_def)
  then show "handles e (release_msg re n a i) b (b\<lparr>b_slots := Release i (b_slots b)\<rparr>)"
    using assms(3) by (simp add: release_msg_def NewMessage_def handleMessage_def handleSlotRelease_def assignFromQueue_def)
qed (use assms(2) table.release_law [OF assms(1), of i] in \<open>simp_all add: Release_def in_range_def\<close>)

lemma victim_holds:
  assumes "slot_inv st" "FindLowestPriorityPreemptible c pr st = Some (i, a, prio)"
  shows "GetByAgent a st \<noteq> None"
  using FindLowestPriorityPreemptible_correct [OF assms(1), of c pr] assms(2) in_range_nat [OF victim_in_range [OF assms]]
  by (auto simp: GetByAgent_def find_None_iff preempt_candidate_def)

lemma grant_received:
  assumes "\<forall>m. re_publish re m"
    and "re_wait re (m_ReplyStream (slot_request re r)) (m_CorrelationID (slot_request re r)) =
      Inr (NewReply now (slot_request re r) TypeSlotAssigned ''llm-broker'' (enc_SlotAssignedPayload \<lparr>sa_SlotID = i\<rparr>))"
  shows "snd (snd (RequestSlot re r)) = Inr i"
  using assms by (simp add: RequestSlot_def NewReply_def Let_def)



end
