(* ===== verification/Valkey.thy ===== *)
theory Valkey
  imports Go_Prelude "HOL-Library.AList"
begin

text \<open>
  The part of Valkey that the stores use: a finite key space of strings (with an expiry), lists and
  hashes. A command on a key of another type is an error (WRONGTYPE). The server is reachable:
  connection errors are not modelled.
\<close>

datatype rvalue =
    RString string "int option"              \<comment> \<open>a value and the time it expires\<close>
  | RList "string list"
  | RHash "(string \<times> string) list"

type_synonym redis = "(string \<times> rvalue) list"

text \<open>The errors of the operations on it.\<close>

datatype store_error = WrongType | BadJSON | CycleDetected string | NotFound string

definition rdb_HGetAll :: "redis \<Rightarrow> string \<Rightarrow> store_error + (string \<times> string) list" where
  "rdb_HGetAll db k =
     (case map_of db k of None \<Rightarrow> Inr [] | Some (RHash h) \<Rightarrow> Inr h | Some _ \<Rightarrow> Inl WrongType)"

definition rdb_HGet :: "redis \<Rightarrow> string \<Rightarrow> string \<Rightarrow> store_error + string option" where
  "rdb_HGet db k f = map_sum id (\<lambda>h. map_of h f) (rdb_HGetAll db k)"

definition rdb_HSet :: "string \<Rightarrow> (string \<times> string) list \<Rightarrow> redis \<Rightarrow> store_error + redis" where
  "rdb_HSet k fvs db =
     (case rdb_HGetAll db k of
        Inl e \<Rightarrow> Inl e
      | Inr h \<Rightarrow> Inr (AList.update k (RHash (fold (\<lambda>(f, v) h. AList.update f v h) fvs h)) db))"

definition rdb_LRange :: "redis \<Rightarrow> string \<Rightarrow> store_error + string list" where
  "rdb_LRange db k =
     (case map_of db k of None \<Rightarrow> Inr [] | Some (RList l) \<Rightarrow> Inr l | Some _ \<Rightarrow> Inl WrongType)"

definition rdb_RPush :: "string \<Rightarrow> string \<Rightarrow> redis \<Rightarrow> store_error + redis" where
  "rdb_RPush k v db =
     (case rdb_LRange db k of Inl e \<Rightarrow> Inl e | Inr l \<Rightarrow> Inr (AList.update k (RList (l @ [v])) db))"

text \<open>\<^verbatim>\<open>LIndex key -1\<close>, with \<^verbatim>\<open>redis.Nil\<close> as \<open>None\<close>.\<close>

definition rdb_LLast :: "redis \<Rightarrow> string \<Rightarrow> store_error + string option" where
  "rdb_LLast db k = map_sum id (\<lambda>l. if l = [] then None else Some (last l)) (rdb_LRange db k)"

definition rdb_Get :: "int \<Rightarrow> redis \<Rightarrow> string \<Rightarrow> store_error + string option" where
  "rdb_Get now db k =
     (case map_of db k of
        None \<Rightarrow> Inr None
      | Some (RString s expiry) \<Rightarrow> Inr (case expiry of None \<Rightarrow> Some s | Some t \<Rightarrow> if now < t then Some s else None)
      | Some _ \<Rightarrow> Inl WrongType)"

definition rdb_Set :: "string \<Rightarrow> string \<Rightarrow> int option \<Rightarrow> redis \<Rightarrow> redis" where
  "rdb_Set k v expiry db = AList.update k (RString v expiry) db"

definition rdb_Del :: "string \<Rightarrow> redis \<Rightarrow> redis" where
  "rdb_Del k db = AList.delete k db"

lemma rdb_Get_Set:
  "rdb_Get now (rdb_Set k v (Some t) db) k' =
     (if k' = k then Inr (if now < t then Some v else None) else rdb_Get now db k')"
  by (auto simp: rdb_Get_def rdb_Set_def update_conv')

lemma rdb_Get_Del: "rdb_Get now (rdb_Del k db) k' = (if k' = k then Inr None else rdb_Get now db k')"
  by (auto simp: rdb_Get_def rdb_Del_def delete_conv')

section \<open>Keys with a value\<close>

text \<open>
  What the stores rely on: a key that was written reads as \<open>present v\<close>, one that was deleted as \<open>absent\<close>, and no other key is
  affected. Everything a reader can see is then decided by the last write to its key.
\<close>

locale kv_store =
  fixes get :: "'d \<Rightarrow> string \<Rightarrow> 'r" and put :: "string \<Rightarrow> 'v \<Rightarrow> 'd \<Rightarrow> 'd" and del :: "string \<Rightarrow> 'd \<Rightarrow> 'd"
    and present :: "'v \<Rightarrow> 'r" and absent :: 'r
  assumes get_put: "get (put k v d) k' = (if k' = k then present v else get d k')"
    and get_del: "get (del k d) k' = (if k' = k then absent else get d k')"
begin

definition writes :: "(string \<times> 'v option) list \<Rightarrow> 'd \<Rightarrow> 'd" where
  "writes ops d = fold (\<lambda>(k, v). case v of None \<Rightarrow> del k | Some x \<Rightarrow> put k x) ops d"

lemma last_write:
  "get (writes ops d) k = (case map_of (rev ops) k of None \<Rightarrow> get d k | Some None \<Rightarrow> absent | Some (Some v) \<Rightarrow> present v)"
  by (induction ops arbitrary: d rule: rev_induct) (auto simp: writes_def get_put get_del split: option.splits)

lemma last_put: "vs \<noteq> [] \<Longrightarrow> get (fold (put k) vs d) k = present (last vs)"
  by (induction vs rule: rev_induct) (auto simp: get_put)

lemma other_key: "k \<notin> fst ` set ops \<Longrightarrow> get (writes ops d) k = get d k"
  by (simp add: last_write map_of_eq_None_iff [THEN iffD2])

end

interpretation kv: kv_store "rdb_Get now" "\<lambda>k v. rdb_Set k v None" rdb_Del "\<lambda>v. Inr (Some v)" "Inr None" for now :: int
  by unfold_locales (auto simp: rdb_Get_def rdb_Set_def rdb_Del_def update_conv' delete_conv')

interpretation kv_ttl: kv_store "rdb_Get now" "\<lambda>k (v, t). rdb_Set k v (Some t)" rdb_Del
    "\<lambda>(v, t). Inr (if now < t then Some v else None)" "Inr None" for now :: int
  by unfold_locales (auto simp: rdb_Get_Set rdb_Get_Del)

end
