(* ===== verification/Skills.thy ===== *)
theory Skills
  imports Valkey
begin

text \<open>
  Skills (\<^verbatim>\<open>internal/skills\<close>) and the session's active skill (\<^verbatim>\<open>internal/sessionskill\<close>): the parser of a
  \<^verbatim>\<open>SKILL.md\<close> file, the store built from a directory, the confined file reader, and the Valkey record.
  The YAML parser and the file system are arguments.
\<close>

section \<open>The manifest\<close>

record Manifest =
  mf_Name :: string
  mf_Description :: string
  mf_AllowedTools :: "string list"
  mf_Model :: string
  mf_body :: string
  mf_sourcePath :: string
  mf_rootDir :: string

record frontmatterFields =
  ff_Name :: string
  ff_Description :: string
  ff_AllowedTools :: "string list"
  ff_Model :: string

datatype fm_error = NoDelimiter | BadOpening | NoClosing | YamlParse string

abbreviation nl :: char where "nl \<equiv> CHR 0x0A"

text \<open>\<^verbatim>\<open>bytes.ReplaceAll(contents, "\r\n", "\n")\<close>.\<close>

fun normalize_crlf :: "string \<Rightarrow> string" where
  "normalize_crlf (c # d # s) =
     (if c = CHR 0x0D \<and> d = nl then nl # normalize_crlf s else c # normalize_crlf (d # s))"
| "normalize_crlf s = s"

text \<open>\<^verbatim>\<open>bytes.SplitN(s, "\n", 2)\<close>: the first line and the rest, if there is a newline.\<close>

definition split_line :: "string \<Rightarrow> string \<times> string option" where
  "split_line s =
     (let l = takeWhile (\<lambda>c. c \<noteq> nl) s in
      (l, if length l < length s then Some (drop (Suc (length l)) s) else None))"

definition parseFrontmatter ::
  "(string \<Rightarrow> string + frontmatterFields) \<Rightarrow> string \<Rightarrow> fm_error + frontmatterFields \<times> string" where
  "parseFrontmatter yaml contents =
     (case split_line (normalize_crlf contents) of
        (_, None) \<Rightarrow> Inl NoDelimiter
      | (first, Some rest) \<Rightarrow>
          if trim_space first \<noteq> ''---'' then Inl BadOpening
          else (case index_of rest (nl # ''---'') of
             None \<Rightarrow> Inl NoClosing
           | Some end_ \<Rightarrow>
               let fmBytes = take end_ rest;
                   afterDelim = drop (end_ + 4) rest;
                   afterDelim = (case snd (split_line afterDelim) of None \<Rightarrow> [] | Some r \<Rightarrow> r);
                   body = dropWhile (\<lambda>c. c = nl) afterDelim
               in case yaml fmBytes of
                    Inl err \<Rightarrow> Inl (YamlParse err)
                  | Inr fm \<Rightarrow> Inr (fm, body)))"

section \<open>Paths\<close>

text \<open>
  \<^verbatim>\<open>filepath.Clean\<close> (Unix): segments are resolved left to right; empty and \<^verbatim>\<open>.\<close> segments vanish, \<^verbatim>\<open>..\<close>
  removes the segment before it, stays at the front of a relative path and vanishes at the
  root of an absolute one.
\<close>

fun clean_segs :: "bool \<Rightarrow> string list \<Rightarrow> string list \<Rightarrow> string list" where
  "clean_segs rooted acc [] = rev acc"
| "clean_segs rooted acc (seg # segs) =
     (if seg = [] \<or> seg = ''.'' then clean_segs rooted acc segs
      else if seg = ''..'' then
        (case acc of
           [] \<Rightarrow> clean_segs rooted (if rooted then [] else [''..'']) segs
         | a # acc' \<Rightarrow> if a = ''..'' then clean_segs rooted (''..'' # acc) segs else clean_segs rooted acc' segs)
      else clean_segs rooted (seg # acc) segs)"

definition IsAbs :: "string \<Rightarrow> bool" where
  "IsAbs path = has_prefix path ''/''"

definition path_Clean :: "string \<Rightarrow> string" where
  "path_Clean path =
     (let p = join_with ''/'' (clean_segs (IsAbs path) [] (split_on (CHR ''/'') path)) in
      if IsAbs path then CHR ''/'' # p else if p = [] then ''.'' else p)"

definition path_Join :: "string \<Rightarrow> string \<Rightarrow> string" where
  "path_Join a b =
     (if a = [] then (if b = [] then [] else path_Clean b)
      else path_Clean (if b = [] then a else a @ ''/'' @ b))"

text \<open>\<^verbatim>\<open>filepath.Dir\<close>: all but the last element.\<close>

definition path_Dir :: "string \<Rightarrow> string" where
  "path_Dir path = path_Clean (rev (dropWhile (\<lambda>c. c \<noteq> CHR ''/'') (rev path)))"

section \<open>The store\<close>

record SkillStore =
  sk_manifests :: "(string \<times> Manifest) list"
  sk_order :: "string list"
  sk_fileMaxBytes :: int

definition defaultFileMaxBytes :: int where "defaultFileMaxBytes = 262144"

text \<open>\<open>parseInt\<close> is \<^verbatim>\<open>strconv.ParseInt(raw, 10, 64)\<close>.\<close>

definition resolveFileMaxBytes :: "(string \<Rightarrow> int option) \<Rightarrow> string \<Rightarrow> int" where
  "resolveFileMaxBytes parseInt raw =
     (if raw = [] then defaultFileMaxBytes
      else case parseInt raw of
        None \<Rightarrow> defaultFileMaxBytes
      | Some n \<Rightarrow> if n \<le> 0 then defaultFileMaxBytes else n)"

text \<open>
  A directory entry: its name, whether it is a directory, and the content of \<^verbatim>\<open>SKILL.md\<close> in it, if
  it can be read.
\<close>

type_synonym dir_entry = "string \<times> bool \<times> string option"

definition load_skill ::
  "(string \<Rightarrow> string + frontmatterFields) \<Rightarrow> string \<Rightarrow> dir_entry \<Rightarrow> (string \<times> Manifest) list \<Rightarrow>
     (string \<times> Manifest) list" where
  "load_skill yaml dir e ms =
     (case e of
        (name, True, Some data) \<Rightarrow>
          (case parseFrontmatter yaml data of
             Inl _ \<Rightarrow> ms
           | Inr (fm, body) \<Rightarrow>
               if trim_space (ff_Name fm) = [] \<or> trim_space (ff_Description fm) = [] then ms
               else let skillPath = path_Join (path_Join dir name) ''SKILL.md'';
                        m = \<lparr>mf_Name = trim_space (ff_Name fm), mf_Description = trim_space (ff_Description fm),
                             mf_AllowedTools = ff_AllowedTools fm, mf_Model = ff_Model fm, mf_body = body,
                             mf_sourcePath = skillPath, mf_rootDir = path_Dir skillPath\<rparr>
                    in if map_of ms (mf_Name m) \<noteq> None then ms else ms @ [(mf_Name m, m)])
      | _ \<Rightarrow> ms)"

text \<open>\<open>None\<close> stands for a root that cannot be read.\<close>

definition NewSkillStore ::
  "(string \<Rightarrow> string + frontmatterFields) \<Rightarrow> int \<Rightarrow> string \<Rightarrow> dir_entry list option \<Rightarrow> SkillStore" where
  "NewSkillStore yaml maxBytes dir entries =
     (case entries of
        None \<Rightarrow> \<lparr>sk_manifests = [], sk_order = [], sk_fileMaxBytes = maxBytes\<rparr>
      | Some es \<Rightarrow>
          let ms = fold (load_skill yaml dir) es []
          in \<lparr>sk_manifests = ms, sk_order = sort (map fst ms), sk_fileMaxBytes = maxBytes\<rparr>)"

definition Skill_Get :: "string \<Rightarrow> SkillStore \<Rightarrow> Manifest option" where
  "Skill_Get name s = map_of (sk_manifests s) name"

definition Skill_List :: "SkillStore \<Rightarrow> Manifest list" where
  "Skill_List s = map (\<lambda>name. the (map_of (sk_manifests s) name)) (sk_order s)"

definition Skill_Body :: "string \<Rightarrow> SkillStore \<Rightarrow> string option" where
  "Skill_Body name s = map_option mf_body (map_of (sk_manifests s) name)"

section \<open>Reading a file of a skill\<close>

datatype fs_error = NotExist | OtherError string

datatype read_error =
    PathRequired | ErrPathAbsolute | ErrPathEscapesRoot | ErrPathReservedSKILL | ErrNotRegularFile
  | ErrFileNotFound | FileTooLarge int int | IOError string

text \<open>The file system: symbolic link resolution, whether a file is regular and its size, its content.\<close>

record filesystem =
  fs_EvalSymlinks :: "string \<Rightarrow> fs_error + string"
  fs_Stat :: "string \<Rightarrow> fs_error + bool \<times> int"
  fs_ReadFile :: "string \<Rightarrow> fs_error + string"

text \<open>\<open>None\<close>: no such skill (\<^verbatim>\<open>"", false, nil\<close>).\<close>

definition Skill_ReadFile :: "filesystem \<Rightarrow> string \<Rightarrow> string \<Rightarrow> SkillStore \<Rightarrow> (read_error + string) option" where
  "Skill_ReadFile fs name relPath s =
     (case map_of (sk_manifests s) name of
        None \<Rightarrow> None
      | Some m \<Rightarrow> Some (
          if relPath = [] then Inl PathRequired
          else if IsAbs relPath then Inl ErrPathAbsolute
          else let clean = path_Clean relPath in
            if clean = ''..'' \<or> has_prefix clean ''../'' \<or> clean = ''.'' then Inl ErrPathEscapesRoot
            else if ''..'' \<in> set (split_on (CHR ''/'') clean) then Inl ErrPathEscapesRoot
            else if clean = ''SKILL.md'' then Inl ErrPathReservedSKILL
            else case fs_EvalSymlinks fs (mf_rootDir m) of
              Inl err \<Rightarrow> Inl (IOError ''resolve skill root'')
            | Inr rootResolved \<Rightarrow>
                (case fs_EvalSymlinks fs (path_Join (mf_rootDir m) clean) of
                   Inl NotExist \<Rightarrow> Inl ErrFileNotFound
                 | Inl (OtherError _) \<Rightarrow> Inl (IOError ''resolve path'')
                 | Inr resolved \<Rightarrow>
                     if resolved \<noteq> rootResolved \<and> \<not> has_prefix (resolved @ ''/'') (rootResolved @ ''/'')
                     then Inl ErrPathEscapesRoot
                     else (case fs_Stat fs resolved of
                        Inl NotExist \<Rightarrow> Inl ErrFileNotFound
                      | Inl (OtherError _) \<Rightarrow> Inl (IOError ''stat'')
                      | Inr (regular, sz) \<Rightarrow>
                          if \<not> regular then Inl ErrNotRegularFile
                          else if sz > sk_fileMaxBytes s then Inl (FileTooLarge sz (sk_fileMaxBytes s))
                          else (case fs_ReadFile fs resolved of
                             Inl _ \<Rightarrow> Inl (IOError ''read file'')
                           | Inr data \<Rightarrow> Inr data)))))"

section \<open>The session's active skill\<close>

definition sessionskill_Key :: "string \<Rightarrow> string" where
  "sessionskill_Key sessionID = ''session:'' @ sessionID @ '':active-skill''"

datatype skill_error = SessionIDRequired | SkillStoreError store_error

definition sessionskill_Get :: "int \<Rightarrow> string \<Rightarrow> redis \<Rightarrow> skill_error + string" where
  "sessionskill_Get now sessionID db =
     (if sessionID = [] then Inl SessionIDRequired
      else case rdb_Get now db (sessionskill_Key sessionID) of
        Inl e \<Rightarrow> Inl (SkillStoreError e)
      | Inr None \<Rightarrow> Inr []
      | Inr (Some v) \<Rightarrow> Inr v)"

definition sessionskill_Set :: "int \<Rightarrow> string \<Rightarrow> string \<Rightarrow> int \<Rightarrow> redis \<Rightarrow> skill_error + redis" where
  "sessionskill_Set now sessionID name ttl db =
     (if sessionID = [] then Inl SessionIDRequired
      else if name = [] then Inr (rdb_Del (sessionskill_Key sessionID) db)
      else let ttl = (if ttl \<le> 0 then 24 * 3600 * 1000000000 else ttl)
           in Inr (rdb_Set (sessionskill_Key sessionID) name (Some (now + ttl)) db))"

section \<open>The parser of SKILL.md\<close>

lemma normalize_crlf_id: "CHR 0x0D \<notin> set s \<Longrightarrow> normalize_crlf s = s"
  by (induction s rule: normalize_crlf.induct) auto

lemma split_line_Cons: "nl \<notin> set l \<Longrightarrow> split_line (l @ nl # r) = (l, Some r)"
proof -
  assume "nl \<notin> set l"
  then have "takeWhile (\<lambda>c. c \<noteq> nl) (l @ nl # r) = l" by (induction l) auto
  then show ?thesis by (simp add: split_line_def Let_def)
qed

lemma index_of_closing:
  "\<not> contains_sub f (nl # ''---'') \<Longrightarrow> index_of (f @ nl # ''---'' @ r) (nl # ''---'') = Some (length f)"
proof (induction f)
  case Nil
  then show ?case by (simp add: has_prefix_def)
next
  case (Cons c f)
  have "\<not> has_prefix (c # f @ nl # ''---'' @ r) (nl # ''---'')"
  proof
    assume "has_prefix (c # f @ nl # ''---'' @ r) (nl # ''---'')"
    then obtain t where t: "c # f @ nl # ''---'' @ r = nl # ''---'' @ t" by (auto simp: has_prefix_iff)
    then have "c = nl" "f @ nl # ''---'' @ r = ''---'' @ t" by auto
    then obtain f' where "f = ''---'' @ f'"
      by (auto simp: append_eq_Cons_conv)
    with \<open>c = nl\<close> have "c # f = [] @ (nl # ''---'') @ f'" by simp
    then have "contains_sub (c # f) (nl # ''---'')" unfolding contains_sub_iff by blast
    with Cons.prems show False by simp
  qed
  moreover have "\<not> contains_sub f (nl # ''---'')"
    using Cons.prems unfolding contains_sub_iff by (metis append_Cons)
  ultimately show ?case using Cons.IH by simp
qed

text \<open>
  A \<^verbatim>\<open>SKILL.md\<close> file made of a front matter and a body is taken apart again: the parser hands exactly
  the front matter between the delimiters to the YAML parser and returns exactly the body, less
  its leading newlines (all of them, not only one).
\<close>

theorem parseFrontmatter_roundtrip:
  assumes "CHR 0x0D \<notin> set f" "CHR 0x0D \<notin> set body" "\<not> contains_sub f (nl # ''---'')"
    and "yaml f = Inr fm"
  shows "parseFrontmatter yaml (''---'' @ [nl] @ f @ [nl] @ ''---'' @ [nl] @ body) =
    Inr (fm, dropWhile (\<lambda>c. c = nl) body)"
proof -
  let ?s = "''---'' @ [nl] @ f @ [nl] @ ''---'' @ [nl] @ body"
  have n: "normalize_crlf ?s = ?s" using assms(1,2) by (intro normalize_crlf_id) auto
  have l: "split_line ?s = (''---'', Some (f @ nl # ''---'' @ nl # body))"
    using split_line_Cons [of "''---''" "f @ nl # ''---'' @ nl # body"] by simp
  have t: "trim_space ''---'' = ''---''" by code_simp
  have i: "index_of (f @ nl # ''---'' @ nl # body) (nl # ''---'') = Some (length f)"
    using index_of_closing [OF assms(3)] by simp
  have "split_line (nl # body) = ([], Some body)" using split_line_Cons [of "[]" body] by simp
  with n l t i assms(4) show ?thesis
    unfolding parseFrontmatter_def by (simp add: Let_def)
qed

theorem parseFrontmatter_roundtrip_witness:
  "parseFrontmatter (\<lambda>s. Inr \<lparr>ff_Name = drop 6 s, ff_Description = ''d'', ff_AllowedTools = [], ff_Model = []\<rparr>)
     (''---'' @ [nl] @ ''name: x'' @ [nl] @ ''---'' @ [nl] @ [nl, nl] @ ''Body'') =
   Inr (\<lparr>ff_Name = ''x'', ff_Description = ''d'', ff_AllowedTools = [], ff_Model = []\<rparr>, ''Body'')"
proof -
  have "\<not> contains_sub ''name: x'' (nl # ''---'')" by code_simp
  from parseFrontmatter_roundtrip [OF _ _ this,
      of "[nl, nl] @ ''Body''" "\<lambda>s. Inr \<lparr>ff_Name = drop 6 s, ff_Description = ''d'', ff_AllowedTools = [], ff_Model = []\<rparr>"
         "\<lparr>ff_Name = ''x'', ff_Description = ''d'', ff_AllowedTools = [], ff_Model = []\<rparr>"]
  show ?thesis by simp
qed

section \<open>The store\<close>

definition manifests_ok :: "(string \<times> Manifest) list \<Rightarrow> bool" where
  "manifests_ok ms \<longleftrightarrow> distinct (map fst ms) \<and>
     (\<forall>(k, m) \<in> set ms. mf_Name m = k \<and> mf_Name m \<noteq> [] \<and> mf_Description m \<noteq> [])"

lemma load_skill_cases:
  obtains "load_skill yaml dir e ms = ms"
  | m where "map_of ms (mf_Name m) = None" "mf_Name m \<noteq> []" "mf_Description m \<noteq> []"
      "load_skill yaml dir e ms = ms @ [(mf_Name m, m)]"
proof -
  obtain name isdir data where e: "e = (name, isdir, data)" by (cases e) auto
  show thesis
  proof (cases "isdir \<and> data \<noteq> None")
    case False
    then have "load_skill yaml dir e ms = ms" by (cases isdir) (auto simp: load_skill_def e)
    then show thesis by (rule that(1))
  next
    case True
    then obtain d where d: "e = (name, True, Some d)" using e by auto
    show thesis
    proof (cases "parseFrontmatter yaml d")
      case (Inl err)
      then have "load_skill yaml dir e ms = ms" by (simp add: load_skill_def d)
      then show thesis by (rule that(1))
    next
      case (Inr r)
      obtain fm body where r: "r = (fm, body)" by fastforce
      let ?p = "path_Join (path_Join dir name) ''SKILL.md''"
      let ?m = "\<lparr>mf_Name = trim_space (ff_Name fm), mf_Description = trim_space (ff_Description fm),
        mf_AllowedTools = ff_AllowedTools fm, mf_Model = ff_Model fm, mf_body = body, mf_sourcePath = ?p,
        mf_rootDir = path_Dir ?p\<rparr>"
      have eq: "load_skill yaml dir e ms = (if mf_Name ?m = [] \<or> mf_Description ?m = [] then ms
          else if map_of ms (mf_Name ?m) \<noteq> None then ms else ms @ [(mf_Name ?m, ?m)])"
        using Inr r by (simp add: load_skill_def d Let_def)
      show thesis
      proof (cases "mf_Name ?m = [] \<or> mf_Description ?m = [] \<or> map_of ms (mf_Name ?m) \<noteq> None")
        case True
        with eq have "load_skill yaml dir e ms = ms" by auto
        then show thesis by (rule that(1))
      next
        case False
        with eq show thesis by (intro that(2) [of ?m]) auto
      qed
    qed
  qed
qed

lemma load_skill_ok: "manifests_ok ms \<Longrightarrow> manifests_ok (load_skill yaml dir e ms)"
  by (cases rule: load_skill_cases [of yaml dir e ms]) (auto simp: manifests_ok_def map_of_eq_None_iff)

lemma fold_load_skill_ok: "manifests_ok ms \<Longrightarrow> manifests_ok (fold (load_skill yaml dir) es ms)"
  by (induction es arbitrary: ms) (auto intro: load_skill_ok)

text \<open>
  The skill store is well-formed whatever the directory holds: the listing is in ascending order of
  names without duplicates, every listed skill has a name and a description and is what a lookup
  by its name returns, and every lookup that succeeds returns a listed skill of that name.
\<close>

theorem NewSkillStore_wf:
  "let s = NewSkillStore yaml maxBytes dir entries; names = map mf_Name (Skill_List s) in
   sorted names \<and> distinct names \<and>
   (\<forall>m. m \<in> set (Skill_List s) \<longleftrightarrow> Skill_Get (mf_Name m) s = Some m) \<and>
   (\<forall>n m. Skill_Get n s = Some m \<longrightarrow> mf_Name m = n \<and> n \<noteq> [] \<and> mf_Description m \<noteq> [] \<and>
      Skill_Body n s = Some (mf_body m))"
proof (cases entries)
  case None
  then show ?thesis by (simp add: NewSkillStore_def Skill_List_def Skill_Get_def)
next
  case (Some es)
  define ms where "ms = fold (load_skill yaml dir) es []"
  have ok: "manifests_ok ms" unfolding ms_def by (rule fold_load_skill_ok) (simp add: manifests_ok_def)
  have s: "NewSkillStore yaml maxBytes dir entries =
      \<lparr>sk_manifests = ms, sk_order = sort (map fst ms), sk_fileMaxBytes = maxBytes\<rparr>"
    by (simp add: NewSkillStore_def Some ms_def Let_def)
  have name: "mf_Name m = n \<and> n \<noteq> [] \<and> mf_Description m \<noteq> []" if "map_of ms n = Some m" for n m
    using ok map_of_SomeD [OF that] by (auto simp: manifests_ok_def)
  have dom: "\<exists>m. map_of ms n = Some m" if "n \<in> fst ` set ms" for n
    using that by (metis map_of_eq_None_iff not_Some_eq)
  have names: "map (\<lambda>n. mf_Name (the (map_of ms n))) (sort (map fst ms)) = sort (map fst ms)"
    using dom name by (intro map_idI) fastforce
  have mem: "m \<in> (\<lambda>n. the (map_of ms n)) ` fst ` set ms \<longleftrightarrow> map_of ms (mf_Name m) = Some m" for m
  proof
    assume "m \<in> (\<lambda>n. the (map_of ms n)) ` fst ` set ms"
    then obtain n where "n \<in> fst ` set ms" "m = the (map_of ms n)" by blast
    with dom [of n] name [of n m] show "map_of ms (mf_Name m) = Some m" by auto
  next
    assume a: "map_of ms (mf_Name m) = Some m"
    then have "mf_Name m \<in> fst ` set ms" by (metis map_of_eq_None_iff option.distinct(1))
    with a show "m \<in> (\<lambda>n. the (map_of ms n)) ` fst ` set ms" by (metis image_eqI option.sel)
  qed
  let ?s = "NewSkillStore yaml maxBytes dir entries"
  have "map mf_Name (Skill_List ?s) = sort (map fst ms)" using names by (simp add: s Skill_List_def comp_def)
  moreover have "distinct (map fst ms)" using ok by (simp add: manifests_ok_def)
  moreover have "m \<in> set (Skill_List ?s) \<longleftrightarrow> Skill_Get (mf_Name m) ?s = Some m" for m
    using mem [of m] by (simp add: s Skill_List_def Skill_Get_def)
  moreover have "Skill_Body n ?s = Some (mf_body m)" if "Skill_Get n ?s = Some m" for n m
    using that by (simp add: s Skill_Get_def Skill_Body_def)
  moreover have "mf_Name m = n \<and> n \<noteq> [] \<and> mf_Description m \<noteq> []" if "Skill_Get n ?s = Some m" for n m
    using that name by (simp add: s Skill_Get_def)
  ultimately show ?thesis by (simp add: Let_def)
qed

definition sample_yaml :: "string \<Rightarrow> string + frontmatterFields" where
  "sample_yaml s = Inr \<lparr>ff_Name = s, ff_Description = ''d'', ff_AllowedTools = [], ff_Model = []\<rparr>"

definition sample_skill :: "string \<Rightarrow> dir_entry" where
  "sample_skill name = (''dir'', True, Some (''---'' @ [nl] @ name @ [nl] @ ''---'' @ [nl] @ ''body''))"

theorem NewSkillStore_wf_witness:
  "let s = NewSkillStore sample_yaml 10 ''/skills'' (Some [sample_skill ''b'', sample_skill ''a'', sample_skill ''b'']) in
   map mf_Name (Skill_List s) = [''a'', ''b''] \<and> Skill_Body ''a'' s = Some ''body''"
proof -
  let ?s = "NewSkillStore sample_yaml 10 ''/skills'' (Some [sample_skill ''b'', sample_skill ''a'', sample_skill ''b''])"
  have l: "map mf_Name (Skill_List ?s) = [''a'', ''b'']" by code_simp
  have "map_option mf_body (Skill_Get ''a'' ?s) = Some ''body''" by code_simp
  then obtain m where "Skill_Get ''a'' ?s = Some m" "mf_body m = ''body''" by auto
  with l NewSkillStore_wf [of sample_yaml 10 "''/skills''" "Some [sample_skill ''b'', sample_skill ''a'', sample_skill ''b'']"]
  show ?thesis by (simp add: Let_def)
qed

section \<open>The confined reader\<close>

text \<open>
  C22. Reading a skill's file never leaves the skill's directory, whatever path the model asks for and
  whatever symbolic links the directory holds: a path that is served is relative, its cleaned form
  has no \<^verbatim>\<open>..\<close> segment and is not \<^verbatim>\<open>SKILL.md\<close>, and the file behind it, after all links are resolved, is the
  resolved root or lies below it, is a regular file within the size limit, and is what is returned.
\<close>

theorem Skill_ReadFile_confined:
  assumes "Skill_ReadFile fs name relPath s = Some (Inr body)"
  shows "\<exists>m rr resolved sz. Skill_Get name s = Some m \<and>
    \<not> IsAbs relPath \<and> ''..'' \<notin> set (split_on (CHR ''/'') (path_Clean relPath)) \<and> path_Clean relPath \<noteq> ''SKILL.md'' \<and>
    fs_EvalSymlinks fs (mf_rootDir m) = Inr rr \<and>
    fs_EvalSymlinks fs (path_Join (mf_rootDir m) (path_Clean relPath)) = Inr resolved \<and>
    (resolved = rr \<or> (\<exists>below. resolved = rr @ ''/'' @ below)) \<and>
    fs_Stat fs resolved = Inr (True, sz) \<and> sz \<le> sk_fileMaxBytes s \<and>
    fs_ReadFile fs resolved = Inr body"
proof -
  have pre: "resolved = r \<or> (\<exists>below. resolved = r @ ''/'' @ below)"
    if p: "has_prefix (resolved @ ''/'') (r @ ''/'')" for resolved r
  proof -
    from p obtain t where t: "resolved @ ''/'' = (r @ ''/'') @ t" by (auto simp: has_prefix_iff)
    show ?thesis
    proof (cases t rule: rev_cases)
      case Nil
      with t show ?thesis by simp
    next
      case (snoc t' c)
      with t have "resolved = r @ ''/'' @ t'"
        by (metis append.assoc butlast_snoc)
      then show ?thesis by blast
    qed
  qed
  show ?thesis
    using assms pre
    by (auto simp: Skill_ReadFile_def Skill_Get_def Let_def split: option.splits if_splits sum.splits fs_error.splits
        prod.splits)
qed

definition sample_fs :: filesystem where
  "sample_fs = \<lparr>fs_EvalSymlinks = (\<lambda>p. if p = ''/skills/x/leak'' then Inr ''/etc/passwd'' else Inr p),
     fs_Stat = (\<lambda>p. Inr (True, 3)), fs_ReadFile = (\<lambda>p. Inr ''abc'')\<rparr>"

definition sample_store :: SkillStore where
  "sample_store = \<lparr>sk_manifests = [(''x'', \<lparr>mf_Name = ''x'', mf_Description = ''d'', mf_AllowedTools = [],
     mf_Model = [], mf_body = [], mf_sourcePath = ''/skills/x/SKILL.md'', mf_rootDir = ''/skills/x''\<rparr>)],
     sk_order = [''x''], sk_fileMaxBytes = 10\<rparr>"

theorem Skill_ReadFile_confined_witness:
  "Skill_ReadFile sample_fs ''x'' ''ref/./a.md'' sample_store = Some (Inr ''abc'') \<and>
   ''..'' \<notin> set (split_on (CHR ''/'') (path_Clean ''ref/./a.md'')) \<and>
   Skill_ReadFile sample_fs ''x'' ''leak'' sample_store = Some (Inl ErrPathEscapesRoot) \<and>
   Skill_ReadFile sample_fs ''x'' ''a/../../y'' sample_store = Some (Inl ErrPathEscapesRoot)"
proof -
  have "Skill_ReadFile sample_fs ''x'' ''ref/./a.md'' sample_store = Some (Inr ''abc'')" by code_simp
  moreover have "Skill_ReadFile sample_fs ''x'' ''leak'' sample_store = Some (Inl ErrPathEscapesRoot)" by code_simp
  moreover have "Skill_ReadFile sample_fs ''x'' ''a/../../y'' sample_store = Some (Inl ErrPathEscapesRoot)"
    by code_simp
  ultimately show ?thesis using Skill_ReadFile_confined [of sample_fs "''x''" "''ref/./a.md''" sample_store] by blast
qed

text \<open>
  The session's active skill: what is set is read until its time is over and not after, setting
  the empty name clears it, and other sessions are not affected.
\<close>

theorem sessionskill_roundtrip:
  assumes "s \<noteq> []" "sessionskill_Set t s name ttl db = Inr db'"
  shows "sessionskill_Get now s db' =
      Inr (if name \<noteq> [] \<and> now < t + (if ttl \<le> 0 then 86400000000000 else ttl) then name else []) \<and>
    (\<forall>s'. s' \<noteq> s \<longrightarrow> sessionskill_Get now s' db' = sessionskill_Get now s' db)"
  using assms
  by (auto simp: sessionskill_Set_def sessionskill_Get_def sessionskill_Key_def rdb_Get_Set rdb_Get_Del Let_def
      split: if_splits)

theorem sessionskill_roundtrip_witness:
  "\<exists>db'. sessionskill_Set 5 ''s'' ''review'' 10 [] = Inr db' \<and> sessionskill_Get 14 ''s'' db' = Inr ''review'' \<and>
     sessionskill_Get 15 ''s'' db' = Inr []"
proof -
  obtain db' where d: "sessionskill_Set 5 ''s'' ''review'' 10 [] = Inr db'"
    by (simp add: sessionskill_Set_def)
  from sessionskill_roundtrip [OF _ d, of 14] sessionskill_roundtrip [OF _ d, of 15] d show ?thesis by simp
qed

end
