(* ===== verification/Exec_Workspace.thy ===== *)
theory Exec_Workspace
  imports Go_Json Skills "HOL-Library.AList"
begin

text \<open>
  Directories of the exec service (\<^verbatim>\<open>internal/exec/workspace.go\<close>, \<^verbatim>\<open>gc.go\<close>, \<^verbatim>\<open>sandbox.go\<close>): one workspace per
  invocation, reclaimed some time after the invocation has ended, and one sandbox per session,
  reclaimed some time after its last use. Times are nanoseconds since Go's zero time, so the zero
  time is 0.
\<close>

section \<open>Files\<close>

text \<open>
  Regular files, directories, and everything else (a symbolic link, a device) with what reading it
  gives, if anything.
\<close>

datatype fs_node = Regular string | Directory "(string \<times> fs_node) list" | Special "string option"

fun is_dir :: "fs_node \<Rightarrow> bool" where
  "is_dir (Directory _) = True"
| "is_dir _ = False"

text \<open>\<^verbatim>\<open>os.ReadFile\<close> of an entry of a directory.\<close>

definition read_entry :: "string \<Rightarrow> fs_node \<Rightarrow> string option" where
  "read_entry name d =
     (case d of
        Directory es \<Rightarrow> (case map_of es name of Some (Regular s) \<Rightarrow> Some s | Some (Special r) \<Rightarrow> r | _ \<Rightarrow> None)
      | _ \<Rightarrow> None)"

fun dirSize :: "fs_node \<Rightarrow> int" where
  "dirSize (Regular s) = int (length s)"
| "dirSize (Directory es) = sum_list (map (\<lambda>(_, n). dirSize n) es)"
| "dirSize (Special _) = 0"

text \<open>\<^verbatim>\<open>Time.Sub\<close> saturates.\<close>

definition max_duration :: int where "max_duration = 2 ^ 63 - 1"
definition min_duration :: int where "min_duration = - (2 ^ 63)"

definition time_Sub :: "int \<Rightarrow> int \<Rightarrow> int" where
  "time_Sub a b = max min_duration (min max_duration (a - b))"

lemma time_Sub_less:
  "min_duration < r \<Longrightarrow> r \<le> max_duration \<Longrightarrow> time_Sub a b < r \<longleftrightarrow> a - b < r"
  by (auto simp: time_Sub_def min_def max_def)

section \<open>Workspaces\<close>

record Workspace =
  wk_Dir :: string
  wk_SessionID :: string
  wk_InvocationID :: string
  wk_StartedAt :: int

record WorkspaceMetadata =
  wm_Skill :: string
  wm_Script :: string
  wm_Args :: "string list"
  wm_InvocationID :: string
  wm_StartedAt :: int
  wm_EndedAt :: int
  wm_ExitCode :: int
  wm_TimedOut :: bool

definition sanitize_byte :: "char \<Rightarrow> char" where
  "sanitize_byte c =
     (if c = CHR ''/'' \<or> c = CHR 0x5C \<or> c = CHR ''.'' then CHR ''_''
      else if (of_char c :: nat) < 0x20 \<or> (of_char c :: nat) \<ge> 0x7f then CHR ''_''
      else c)"

definition sanitizeSessionID :: "string \<Rightarrow> string" where
  "sanitizeSessionID s =
     (if s = [] then ''anon''
      else let out = map sanitize_byte s in if out = [] then ''anon'' else out)"

text \<open>The nested loops of \<^verbatim>\<open>containsFold\<close>, over the suffixes of \<^verbatim>\<open>s\<close>.\<close>

fun match_fold :: "string \<Rightarrow> string \<Rightarrow> bool" where
  "match_fold s [] = True"
| "match_fold [] (b # sub) = False"
| "match_fold (a # s) (b # sub) = (char_lower a = char_lower b \<and> match_fold s sub)"

fun containsFold :: "string \<Rightarrow> string \<Rightarrow> bool" where
  "containsFold [] sub = (sub = [])"
| "containsFold (a # s) sub = (match_fold (a # s) sub \<or> containsFold s sub)"

definition isNoSpace :: "string \<Rightarrow> bool" where
  "isNoSpace err \<longleftrightarrow> containsFold err ''no space left on device'' \<or> containsFold err ''disk quota exceeded''"

datatype exec_error =
    ErrSkillUnknown | ErrScriptPathEscape | ErrScriptPathAbsolute | ErrScriptNotRegular | ErrScriptMissing
  | ErrNetworkDenied | ErrWorkspaceFull | ErrInstallFailed | ErrInvalidRequest string | ExecIO string

text \<open>\<open>mkdir\<close> is \<^verbatim>\<open>os.MkdirAll\<close>, with the text of the error if it fails; \<open>invID\<close> the random invocation id, if there is one.\<close>

definition Allocate ::
  "(string \<Rightarrow> string option) \<Rightarrow> string option \<Rightarrow> int \<Rightarrow> string \<Rightarrow> string \<Rightarrow> exec_error + Workspace" where
  "Allocate mkdir invID now wsroot sessionID =
     (case invID of
        None \<Rightarrow> Inl (ExecIO ''rand'')
      | Some invID \<Rightarrow>
          let safe = sanitizeSessionID sessionID;
              dir = path_Join (path_Join wsroot safe) invID
          in case mkdir dir of
               Some err \<Rightarrow> if isNoSpace err then Inl ErrWorkspaceFull else Inl (ExecIO err)
             | None \<Rightarrow> Inr \<lparr>wk_Dir = dir, wk_SessionID = safe, wk_InvocationID = invID, wk_StartedAt = now\<rparr>)"

definition enc_WorkspaceMetadata :: "(int \<Rightarrow> string) \<Rightarrow> WorkspaceMetadata \<Rightarrow> json" where
  "enc_WorkspaceMetadata formatTime m = JObj
     ([(''skill'', JStr (wm_Skill m)), (''script'', JStr (wm_Script m))] @
      omit_empty ''args'' (enc_list JStr (wm_Args m)) @
      [(''invocation_id'', JStr (wm_InvocationID m)),
       (''started_at'', JStr (formatTime (wm_StartedAt m))),
       (''ended_at'', JStr (formatTime (wm_EndedAt m))),
       (''exit_code'', JInt (wm_ExitCode m)), (''timed_out'', JBool (wm_TimedOut m))])"

fun dec_time :: "(string \<Rightarrow> int option) \<Rightarrow> int decoder" where
  "dec_time parseTime old JNull = Some old"
| "dec_time parseTime old (JStr s) = parseTime s"
| "dec_time parseTime old _ = None"

definition dec_WorkspaceMetadata :: "(string \<Rightarrow> int option) \<Rightarrow> json \<Rightarrow> WorkspaceMetadata option" where
  "dec_WorkspaceMetadata parseTime = dec_struct
     [fld ''skill'' dec_string wm_Skill wm_Skill_update,
      fld ''script'' dec_string wm_Script wm_Script_update,
      fld ''args'' (dec_list [] dec_string) wm_Args wm_Args_update,
      fld ''invocation_id'' dec_string wm_InvocationID wm_InvocationID_update,
      fld ''started_at'' (dec_time parseTime) wm_StartedAt wm_StartedAt_update,
      fld ''ended_at'' (dec_time parseTime) wm_EndedAt wm_EndedAt_update,
      fld ''exit_code'' dec_int wm_ExitCode wm_ExitCode_update,
      fld ''timed_out'' dec_bool wm_TimedOut wm_TimedOut_update]
     \<lparr>wm_Skill = [], wm_Script = [], wm_Args = [], wm_InvocationID = [], wm_StartedAt = 0, wm_EndedAt = 0,
      wm_ExitCode = 0, wm_TimedOut = False\<rparr>"

text \<open>\<^verbatim>\<open>Finalize\<close>: the workspace's directory with the metadata file in it. \<open>marshal\<close> renders JSON as text.\<close>

definition Finalize ::
  "(json \<Rightarrow> string) \<Rightarrow> (int \<Rightarrow> string) \<Rightarrow> int \<Rightarrow> Workspace \<Rightarrow> WorkspaceMetadata \<Rightarrow> fs_node \<Rightarrow> fs_node" where
  "Finalize marshal formatTime now w meta d =
     (let meta = meta\<lparr>wm_InvocationID := wk_InvocationID w, wm_StartedAt := wk_StartedAt w\<rparr>;
          meta = (if wm_EndedAt meta = 0 then meta\<lparr>wm_EndedAt := now\<rparr> else meta)
      in case d of
           Directory es \<Rightarrow>
             Directory (AList.update ''.metadata.json'' (Regular (marshal (enc_WorkspaceMetadata formatTime meta))) es)
         | _ \<Rightarrow> d)"

section \<open>Collection of workspaces\<close>

record GCStats =
  gs_Scanned :: nat
  gs_Reclaimed :: nat
  gs_FreedBytes :: int

text \<open>
  What a sweep takes from outside: the time, the text layer, whether the context is cancelled at the
  k-th check, what \<^verbatim>\<open>RemoveAll\<close> leaves of a directory (\<open>None\<close>: nothing, the call succeeds), whether a
  session's directory can be read, and whether removing it succeeds if it is empty.
\<close>

record gc_env =
  gc_Retention :: int
  gc_now :: int
  gc_unmarshal :: "string \<Rightarrow> json option"
  gc_parseTime :: "string \<Rightarrow> int option"
  gc_cancelled :: "nat \<Rightarrow> bool"
  gc_RemoveAll :: "string \<Rightarrow> string \<Rightarrow> fs_node \<Rightarrow> fs_node option"
  gc_readable :: "string \<Rightarrow> bool"
  gc_rmdir :: "string \<Rightarrow> bool"

definition metadata_of :: "gc_env \<Rightarrow> fs_node \<Rightarrow> WorkspaceMetadata option" where
  "metadata_of g d =
     (case read_entry ''.metadata.json'' d of
        None \<Rightarrow> None
      | Some s \<Rightarrow> (case gc_unmarshal g s of None \<Rightarrow> None | Some j \<Rightarrow> dec_WorkspaceMetadata (gc_parseTime g) j))"

text \<open>The conditions on an invocation's directory under which the sweep removes it.\<close>

definition reclaimable :: "gc_env \<Rightarrow> fs_node \<Rightarrow> bool" where
  "reclaimable g d =
     (case metadata_of g d of
        None \<Rightarrow> False
      | Some meta \<Rightarrow> wm_EndedAt meta \<noteq> 0 \<and> \<not> time_Sub (gc_now g) (wm_EndedAt meta) < gc_Retention g)"

fun sweep_invs ::
  "gc_env \<Rightarrow> string \<Rightarrow> (string \<times> fs_node) list \<Rightarrow> nat \<Rightarrow> GCStats \<Rightarrow> (string \<times> fs_node) list \<times> nat \<times> GCStats" where
  "sweep_invs g sess [] k st = ([], k, st)"
| "sweep_invs g sess ((ivn, d) # es) k st =
     (if gc_cancelled g k then ((ivn, d) # es, Suc k, st)
      else if \<not> is_dir d then (let (es', r) = sweep_invs g sess es (Suc k) st in ((ivn, d) # es', r))
      else
        let st = st\<lparr>gs_Scanned := Suc (gs_Scanned st)\<rparr> in
        if \<not> reclaimable g d then (let (es', r) = sweep_invs g sess es (Suc k) st in ((ivn, d) # es', r))
        else case gc_RemoveAll g sess ivn d of
          Some left \<Rightarrow> (let (es', r) = sweep_invs g sess es (Suc k) st in ((ivn, left) # es', r))
        | None \<Rightarrow> sweep_invs g sess es (Suc k)
            (st\<lparr>gs_Reclaimed := Suc (gs_Reclaimed st), gs_FreedBytes := gs_FreedBytes st + dirSize d\<rparr>))"

fun sweep_sessions ::
  "gc_env \<Rightarrow> (string \<times> fs_node) list \<Rightarrow> nat \<Rightarrow> GCStats \<Rightarrow> (string \<times> fs_node) list \<times> GCStats" where
  "sweep_sessions g [] k st = ([], st)"
| "sweep_sessions g ((sess, d) # ss) k st =
     (if gc_cancelled g k then ((sess, d) # ss, st)
      else case d of
        Directory es \<Rightarrow>
          if \<not> gc_readable g sess then (let (ss', r) = sweep_sessions g ss (Suc k) st in ((sess, d) # ss', r))
          else
            let (es', k', st') = sweep_invs g sess es (Suc k) st;
                (ss', r) = sweep_sessions g ss k' st'
            in (if es' = [] \<and> gc_rmdir g sess then ss' else (sess, Directory es') # ss', r)
      | _ \<Rightarrow> (let (ss', r) = sweep_sessions g ss (Suc k) st in ((sess, d) # ss', r)))"

text \<open>\<open>None\<close>: the workspace root cannot be read.\<close>

definition GC_RunOnce :: "gc_env \<Rightarrow> (string \<times> fs_node) list option \<Rightarrow> (string \<times> fs_node) list option \<times> GCStats" where
  "GC_RunOnce g wsroot =
     (let st = \<lparr>gs_Scanned = 0, gs_Reclaimed = 0, gs_FreedBytes = 0\<rparr> in
      case wsroot of None \<Rightarrow> (None, st)
      | Some ss \<Rightarrow> let (ss', st') = sweep_sessions g ss 0 st in (Some ss', st'))"

section \<open>Sandboxes\<close>

text \<open>A sandbox: its files, the modification time of the marker \<^verbatim>\<open>.last_access\<close> if it is there, and its own.\<close>

record sandbox_dir =
  sb_files :: fs_node
  sb_marker :: "int option"
  sb_mtime :: int

text \<open>The sandbox root; \<open>None\<close> is an entry that is no directory.\<close>

type_synonym sandbox_root = "(string \<times> sandbox_dir option) list"

text \<open>
  \<^verbatim>\<open>SandboxFor\<close> with \<^verbatim>\<open>touchLastAccess\<close>. \<open>mkdir\<close> is the error of \<^verbatim>\<open>os.MkdirAll\<close> if there is one, \<open>create\<close> that of creating the
  marker. A directory \<^verbatim>\<open>MkdirAll\<close> makes is empty and new.
\<close>

definition touchLastAccess :: "string option \<Rightarrow> int \<Rightarrow> sandbox_dir \<Rightarrow> exec_error + sandbox_dir" where
  "touchLastAccess create now d =
     (if sb_marker d \<noteq> None then Inr (d\<lparr>sb_marker := Some now\<rparr>)
      else case create of
        Some err \<Rightarrow> Inl (ExecIO (''touch last_access: '' @ err))
      | None \<Rightarrow> Inr (d\<lparr>sb_marker := Some now, sb_mtime := now\<rparr>))"

definition SandboxFor ::
  "string option \<Rightarrow> string option \<Rightarrow> int \<Rightarrow> string \<Rightarrow> string \<Rightarrow> sandbox_root \<Rightarrow> sandbox_root \<times> (exec_error + string)" where
  "SandboxFor mkdir create now sbroot sessionID r =
     (if sbroot = [] then (r, Inl (ExecIO ''sandbox root is empty''))
      else
        let safe = sanitizeSessionID sessionID; dir = path_Join sbroot safe in
        case mkdir of
          Some err \<Rightarrow> (r, Inl (if isNoSpace err then ErrWorkspaceFull else ExecIO err))
        | None \<Rightarrow>
            let d = (case map_of r safe of Some (Some d) \<Rightarrow> d
                     | _ \<Rightarrow> \<lparr>sb_files = Directory [], sb_marker = None, sb_mtime = now\<rparr>)
            in case touchLastAccess create now d of
                 Inl err \<Rightarrow> (AList.update safe (Some d) r, Inl err)
               | Inr d' \<Rightarrow> (AList.update safe (Some d') r, Inr dir))"

definition sessionAge :: "sandbox_dir \<Rightarrow> int \<Rightarrow> int" where
  "sessionAge d now = time_Sub now (case sb_marker d of Some t \<Rightarrow> t | None \<Rightarrow> sb_mtime d)"

record sandbox_gc_env =
  sg_Retention :: int
  sg_now :: int
  sg_cancelled :: "nat \<Rightarrow> bool"
  sg_RemoveAll :: "string \<Rightarrow> sandbox_dir \<Rightarrow> sandbox_dir option"

fun sweep_sandboxes :: "sandbox_gc_env \<Rightarrow> sandbox_root \<Rightarrow> nat \<Rightarrow> GCStats \<Rightarrow> sandbox_root \<times> GCStats" where
  "sweep_sandboxes g [] k st = ([], st)"
| "sweep_sandboxes g ((name, d) # es) k st =
     (if sg_cancelled g k then ((name, d) # es, st)
      else case d of
        None \<Rightarrow> (let (es', r) = sweep_sandboxes g es (Suc k) st in ((name, d) # es', r))
      | Some sb \<Rightarrow>
          let st = st\<lparr>gs_Scanned := Suc (gs_Scanned st)\<rparr> in
          if sessionAge sb (sg_now g) < sg_Retention g
          then (let (es', r) = sweep_sandboxes g es (Suc k) st in ((name, d) # es', r))
          else case sg_RemoveAll g name sb of
            Some left \<Rightarrow> (let (es', r) = sweep_sandboxes g es (Suc k) st in ((name, Some left) # es', r))
          | None \<Rightarrow> sweep_sandboxes g es (Suc k)
              (st\<lparr>gs_Reclaimed := Suc (gs_Reclaimed st), gs_FreedBytes := gs_FreedBytes st + dirSize (sb_files sb)\<rparr>))"

definition SandboxGC_RunOnce :: "sandbox_gc_env \<Rightarrow> sandbox_root option \<Rightarrow> sandbox_root option \<times> GCStats" where
  "SandboxGC_RunOnce g r =
     (let st = \<lparr>gs_Scanned = 0, gs_Reclaimed = 0, gs_FreedBytes = 0\<rparr> in
      case r of None \<Rightarrow> (None, st)
      | Some es \<Rightarrow> let (es', st') = sweep_sandboxes g es 0 st in (Some es', st'))"

text \<open>
  \<^verbatim>\<open>Run\<close> of the two collectors over the ticks that come before its context ends. A tick has the environment of its sweep and whether the
  root can be read by then; with an interval that is not positive \<^verbatim>\<open>Run\<close> returns at once.
\<close>

definition GC_Run :: "int \<Rightarrow> (gc_env \<times> bool) list \<Rightarrow> (string \<times> fs_node) list \<Rightarrow> (string \<times> fs_node) list" where
  "GC_Run interval ticks ss =
     (if interval \<le> 0 then ss
      else foldl (\<lambda>ss (g, ok). case fst (GC_RunOnce g (if ok then Some ss else None)) of None \<Rightarrow> ss | Some ss' \<Rightarrow> ss') ss ticks)"

definition SandboxGC_Run :: "int \<Rightarrow> (sandbox_gc_env \<times> bool) list \<Rightarrow> sandbox_root \<Rightarrow> sandbox_root" where
  "SandboxGC_Run interval ticks es =
     (if interval \<le> 0 then es
      else foldl (\<lambda>es (g, ok). case fst (SandboxGC_RunOnce g (if ok then Some es else None)) of None \<Rightarrow> es | Some es' \<Rightarrow> es') es ticks)"

section \<open>Session names\<close>

lemma sanitize_byte_safe:
  "sanitize_byte c \<notin> {CHR ''/'', CHR ''.'', CHR 0x5C} \<and> 32 \<le> (of_char (sanitize_byte c) :: nat) \<and>
   (of_char (sanitize_byte c) :: nat) < 127"
  by (auto simp: sanitize_byte_def)

lemma sanitize_byte_idem [simp]: "sanitize_byte (sanitize_byte c) = sanitize_byte c"
  by (simp add: sanitize_byte_def)

lemma match_fold_iff: "match_fold s sub \<longleftrightarrow> has_prefix (to_lower s) (to_lower sub)"
  by (induction s sub rule: match_fold.induct) (auto simp: has_prefix_def to_lower_def)

lemma containsFold_iff: "containsFold s sub \<longleftrightarrow> contains_sub (to_lower s) (to_lower sub)"
  by (induction s) (auto simp: match_fold_iff contains_sub_def to_lower_def)

text \<open>
  A session's directory is one component below the root whatever the session id: the name is not empty,
  has no separator, no dot and no byte outside printable ASCII.
\<close>

lemma sanitizeSessionID_component:
  "sanitizeSessionID s \<noteq> [] \<and> (\<forall>c \<in> set (sanitizeSessionID s).
     c \<notin> {CHR ''/'', CHR ''.'', CHR 0x5C} \<and> 32 \<le> (of_char c :: nat) \<and> (of_char c :: nat) < 127) \<and>
   sanitizeSessionID (sanitizeSessionID s) = sanitizeSessionID s"
proof -
  have anon: "map sanitize_byte ''anon'' = ''anon''" by code_simp
  have "sanitizeSessionID s = map sanitize_byte (if s = [] then ''anon'' else s)"
    by (simp add: sanitizeSessionID_def Let_def anon [unfolded list.map])
  moreover have "map sanitize_byte xs \<noteq> [] \<Longrightarrow> sanitizeSessionID (map sanitize_byte xs) = map sanitize_byte xs" for xs
    by (simp add: sanitizeSessionID_def Let_def)
  ultimately show ?thesis using sanitize_byte_safe by auto
qed

lemma clean_segs_plain:
  "\<forall>x \<in> set segs. x \<noteq> [] \<and> x \<noteq> ''.'' \<and> x \<noteq> ''..'' \<Longrightarrow> clean_segs rooted acc segs = rev acc @ segs"
  by (induction segs arbitrary: acc) auto

section \<open>What a sweep removes\<close>

text \<open>What may be collected: a directory whose invocation has ended, by its metadata, at least the retention ago.\<close>

definition expired :: "gc_env \<Rightarrow> fs_node \<Rightarrow> bool" where
  "expired g d \<longleftrightarrow> is_dir d \<and> metadata_of g d \<noteq> None \<and> wm_EndedAt (the (metadata_of g d)) \<noteq> 0 \<and>
     gc_Retention g \<le> time_Sub (gc_now g) (wm_EndedAt (the (metadata_of g d)))"

abbreviation doomed :: "gc_env \<Rightarrow> string \<times> fs_node \<Rightarrow> bool" where
  "doomed g e \<equiv> is_dir (snd e) \<and> reclaimable g (snd e)"

lemma doomed_expired: "doomed g e \<longleftrightarrow> expired g (snd e)"
  by (auto simp: expired_def reclaimable_def split: option.splits)

text \<open>A sweep that nothing disturbs.\<close>

definition undisturbed :: "gc_env \<Rightarrow> bool" where
  "undisturbed g \<longleftrightarrow> (\<forall>k. \<not> gc_cancelled g k) \<and> (\<forall>s i d. gc_RemoveAll g s i d = None) \<and>
     (\<forall>s. gc_readable g s \<and> gc_rmdir g s)"

text \<open>The specification: drop the doomed invocations, then the sessions left empty.\<close>

definition swept :: "gc_env \<Rightarrow> (string \<times> fs_node) list \<Rightarrow> (string \<times> fs_node) list" where
  "swept g ss = concat (map (\<lambda>(s, d). case d of
       Directory es \<Rightarrow> (let es' = filter (\<lambda>e. \<not> expired g (snd e)) es in if es' = [] then [] else [(s, Directory es')])
     | _ \<Rightarrow> [(s, d)]) ss)"

lemma sweep_invs_keeps: "e \<in> set es \<Longrightarrow> \<not> doomed g e \<Longrightarrow> e \<in> set (fst (sweep_invs g s es k st))"
  by (induction g s es k st rule: sweep_invs.induct) (auto simp: Let_def split_def split: option.splits)

lemma sweep_sessions_keeps:
  "(s, d) \<in> set ss \<Longrightarrow> \<not> is_dir d \<Longrightarrow> (s, d) \<in> set (fst (sweep_sessions g ss k st))"
proof (induction ss arbitrary: k st)
  case (Cons x ss)
  then show ?case by (cases x; cases "snd x") (auto simp: Let_def split_def)
qed simp

lemma sweep_sessions_keeps_invs:
  "(s, Directory es) \<in> set ss \<Longrightarrow> e \<in> set es \<Longrightarrow> \<not> doomed g e \<Longrightarrow>
   \<exists>es'. (s, Directory es') \<in> set (fst (sweep_sessions g ss k st)) \<and> e \<in> set es'"
proof (induction ss arbitrary: k st)
  case (Cons x ss)
  obtain s' d where x: "x = (s', d)" by fastforce
  show ?case
  proof (cases "gc_cancelled g k")
    case True
    with Cons.prems show ?thesis by (auto simp: x)
  next
    case nc: False
    show ?thesis
    proof (cases "x = (s, Directory es) \<and> gc_readable g s")
      case True
      then have "e \<in> set (fst (sweep_invs g s es (Suc k) st))" using Cons.prems sweep_invs_keeps by blast
      with True nc show ?thesis
        by (auto simp: Let_def split_def intro!: exI [of _ "fst (sweep_invs g s es (Suc k) st)"])
    next
      case False
      from Cons.prems(1) consider "x = (s, Directory es)" "\<not> gc_readable g s" | "(s, Directory es) \<in> set ss"
        using False by auto
      then show ?thesis
      proof cases
        case 1
        with nc Cons.prems show ?thesis by (auto simp: Let_def split_def)
      next
        case 2
        note IH = Cons.IH [OF 2 Cons.prems(2,3)]
        show ?thesis
        proof (cases d)
          case (Directory ds)
          obtain es' k' st' where sw: "sweep_invs g s' ds (Suc k) st = (es', k', st')" by (metis prod_cases3)
          show ?thesis using nc Directory IH [of "Suc k" st] IH [of k' st'] x sw by (auto simp: Let_def split_def)
        qed (use nc IH [of "Suc k" st] x in \<open>auto simp: Let_def split_def\<close>)
      qed
    qed
  qed
qed simp

lemma sweep_invs_exact:
  assumes "undisturbed g"
  shows "\<exists>k' st'. sweep_invs g s es k st = (filter (\<lambda>e. \<not> doomed g e) es, k', st') \<and>
    gs_Reclaimed st' = gs_Reclaimed st + length (filter (doomed g) es) \<and>
    gs_FreedBytes st' = gs_FreedBytes st + sum_list (map (\<lambda>e. dirSize (snd e)) (filter (doomed g) es))"
proof (induction es arbitrary: k st)
  case (Cons e es)
  obtain i d where e: "e = (i, d)" by fastforce
  note u = assms [unfolded undisturbed_def]
  let ?st = "st\<lparr>gs_Scanned := Suc (gs_Scanned st)\<rparr>"
  let ?st' = "?st\<lparr>gs_Reclaimed := Suc (gs_Reclaimed st), gs_FreedBytes := gs_FreedBytes st + dirSize d\<rparr>"
  show ?case
    using Cons.IH [of "Suc k" st] Cons.IH [of "Suc k" ?st] Cons.IH [of "Suc k" ?st'] u
    by (cases "is_dir d"; cases "reclaimable g d") (auto simp: e Let_def)
qed simp

lemma sweep_sessions_exact: "undisturbed g \<Longrightarrow> fst (sweep_sessions g ss k st) = swept g ss"
proof (induction ss arbitrary: k st)
  case Nil
  then show ?case by (simp add: swept_def)
next
  case (Cons x ss)
  obtain s d where x: "x = (s, d)" by fastforce
  note u = Cons.prems [unfolded undisturbed_def]
  show ?case
  proof (cases d)
    case (Directory es)
    obtain k' st' where "sweep_invs g s es (Suc k) st = (filter (\<lambda>e. \<not> doomed g e) es, k', st')"
      using sweep_invs_exact [OF Cons.prems] by blast
    with Cons.IH [OF Cons.prems, of k' st'] u Directory show ?thesis
      by (simp add: x swept_def Let_def split_def doomed_expired)
  qed (use Cons.IH [OF Cons.prems] u in \<open>simp_all add: x swept_def Let_def split_def\<close>)
qed

text \<open>
  C21. Collection of workspaces is safe and complete. Whatever fails or is cancelled on the way, a sweep keeps
  every file outside the sessions' directories and every invocation that is still running, unreadable or not
  yet past its retention, unchanged and in its place; an undisturbed sweep removes exactly the finished
  invocations past their retention and the sessions' directories left empty.
\<close>

theorem GC_RunOnce_safe_complete:
  assumes "GC_RunOnce g (Some ss) = (Some ss', st)"
  shows "(\<forall>s d. (s, d) \<in> set ss \<longrightarrow> \<not> is_dir d \<longrightarrow> (s, d) \<in> set ss') \<and>
    (\<forall>s es e. (s, Directory es) \<in> set ss \<longrightarrow> e \<in> set es \<longrightarrow> \<not> expired g (snd e) \<longrightarrow>
       (\<exists>es'. (s, Directory es') \<in> set ss' \<and> e \<in> set es')) \<and>
    (undisturbed g \<longrightarrow> ss' = swept g ss)"
proof -
  let ?st = "\<lparr>gs_Scanned = 0, gs_Reclaimed = 0, gs_FreedBytes = 0\<rparr>"
  from assms have ss': "ss' = fst (sweep_sessions g ss 0 ?st)"
    by (auto simp: GC_RunOnce_def Let_def split: prod.splits)
  show ?thesis unfolding ss'
    using sweep_sessions_keeps sweep_sessions_keeps_invs [unfolded doomed_expired] sweep_sessions_exact by metis
qed

definition sample_gc :: gc_env where
  "sample_gc = \<lparr>gc_Retention = 60, gc_now = 1000,
     gc_unmarshal = (\<lambda>s. if s = ''old'' then Some (JObj [(''ended_at'', JStr ''o'')])
       else if s = ''new'' then Some (JObj [(''ended_at'', JStr ''n'')]) else None),
     gc_parseTime = (\<lambda>s. Some (if s = ''o'' then 940 else 941)), gc_cancelled = (\<lambda>_. False),
     gc_RemoveAll = (\<lambda>_ _ _. None), gc_readable = (\<lambda>_. True), gc_rmdir = (\<lambda>_. True)\<rparr>"

definition sample_tree :: "(string \<times> fs_node) list" where
  "sample_tree =
     [(''s1'', Directory [(''a'', Directory [(''.metadata.json'', Regular ''old''), (''out.txt'', Regular ''xyz'')]),
                        (''b'', Directory [(''.metadata.json'', Regular ''new'')]), (''c'', Directory [])]),
      (''s2'', Directory [(''d'', Directory [(''.metadata.json'', Regular ''old'')])]), (''note'', Regular ''n'')]"

theorem GC_RunOnce_safe_complete_witness:
  "fst (GC_RunOnce sample_gc (Some sample_tree)) = Some (swept sample_gc sample_tree) \<and>
   swept sample_gc sample_tree =
     [(''s1'', Directory [(''b'', Directory [(''.metadata.json'', Regular ''new'')]), (''c'', Directory [])]),
      (''note'', Regular ''n'')]"
proof -
  have "\<exists>ss' st. GC_RunOnce sample_gc (Some sample_tree) = (Some ss', st)"
    by (simp add: GC_RunOnce_def Let_def split: prod.split)
  then obtain ss' st where r: "GC_RunOnce sample_gc (Some sample_tree) = (Some ss', st)" by blast
  have "undisturbed sample_gc" by (simp add: undisturbed_def sample_gc_def)
  with GC_RunOnce_safe_complete [OF r] have "ss' = swept sample_gc sample_tree" by blast
  moreover have "swept sample_gc sample_tree =
     [(''s1'', Directory [(''b'', Directory [(''.metadata.json'', Regular ''new'')]), (''c'', Directory [])]),
      (''note'', Regular ''n'')]"
    by code_simp
  ultimately show ?thesis using r by simp
qed

section \<open>Retention\<close>

lemma dec_enc_WorkspaceMetadata:
  assumes "parseTime (formatTime (wm_StartedAt m)) = Some (wm_StartedAt m)"
    and "parseTime (formatTime (wm_EndedAt m)) = Some (wm_EndedAt m)"
  shows "dec_WorkspaceMetadata parseTime (enc_WorkspaceMetadata formatTime m) = Some m"
proof -
  have l: "dec_list [] dec_string old (enc_list JStr xs) = Some xs" for old xs by simp
  show ?thesis using assms
    by (cases "wm_Args m") (auto simp: dec_WorkspaceMetadata_def enc_WorkspaceMetadata_def key_simps l dec_omit_list
        omit_empty_def)
qed

lemma read_finalized:
  "read_entry ''.metadata.json'' (Finalize marshal formatTime now w meta (Directory es)) =
     Some (marshal (enc_WorkspaceMetadata formatTime (meta\<lparr>wm_InvocationID := wk_InvocationID w,
       wm_StartedAt := wk_StartedAt w, wm_EndedAt := (if wm_EndedAt meta = 0 then now else wm_EndedAt meta)\<rparr>)))"
  by (simp add: read_entry_def Finalize_def Let_def update_conv')

lemma sweep_sandboxes_keeps:
  "(s, Some d) \<in> set es \<Longrightarrow> sessionAge d (sg_now g) < sg_Retention g \<Longrightarrow>
   (s, Some d) \<in> set (fst (sweep_sandboxes g es k st))"
proof (induction es arbitrary: k st)
  case (Cons x es)
  then show ?case by (cases x; cases "snd x") (auto simp: Let_def split_def split: option.splits)
qed simp

text \<open>
  Retention is respected. A workspace without metadata (its invocation is still running) is never
  reclaimed; a finalized one is reclaimed exactly from the moment its retention has passed since the end
  of the invocation. A sandbox that a call has just opened is kept by every sweep until the retention has
  passed since that call, whatever else the sandbox root holds.
\<close>

theorem retention_respected:
  assumes "min_duration < gc_Retention g" "gc_Retention g \<le> max_duration"
    and "wm_EndedAt meta \<noteq> 0" "\<forall>t \<in> {wk_StartedAt w, wm_EndedAt meta}. gc_parseTime g (formatTime t) = Some t"
    and "let j = enc_WorkspaceMetadata formatTime
           (meta\<lparr>wm_InvocationID := wk_InvocationID w, wm_StartedAt := wk_StartedAt w\<rparr>)
         in gc_unmarshal g (marshal j) = Some j"
    and "min_duration < sg_Retention h" "sg_Retention h \<le> max_duration"
    and "SandboxFor mkdir create opened sbroot sessionID r = (r', Inr dir)" "sg_now h - opened < sg_Retention h"
  shows "(map_of es ''.metadata.json'' = None \<longrightarrow> \<not> reclaimable g (Directory es)) \<and>
    (reclaimable g (Finalize marshal formatTime now w meta (Directory es)) \<longleftrightarrow>
       gc_Retention g \<le> gc_now g - wm_EndedAt meta) \<and>
    (\<exists>d. (sanitizeSessionID sessionID, Some d) \<in> set (fst (sweep_sandboxes h r' k st)))"
proof (intro conjI impI)
  assume "map_of es ''.metadata.json'' = None"
  then show "\<not> reclaimable g (Directory es)" by (simp add: reclaimable_def metadata_of_def read_entry_def)
next
  show "reclaimable g (Finalize marshal formatTime now w meta (Directory es)) \<longleftrightarrow>
       gc_Retention g \<le> gc_now g - wm_EndedAt meta"
    using assms(1-5) by (simp add: reclaimable_def metadata_of_def read_finalized dec_enc_WorkspaceMetadata
        time_Sub_less not_less Let_def)
next
  let ?s = "sanitizeSessionID sessionID"
  from assms(8) obtain d where d: "r' = AList.update ?s (Some d) r" "sb_marker d = Some opened"
    by (auto simp: SandboxFor_def touchLastAccess_def Let_def split: if_splits option.splits sum.splits)
  then have "map_of r' ?s = Some (Some d)" by (simp add: update_conv')
  then have "(?s, Some d) \<in> set r'" by (rule map_of_SomeD)
  moreover have "sessionAge d (sg_now h) < sg_Retention h"
    using assms(6,7,9) d by (simp add: sessionAge_def time_Sub_less)
  ultimately show "\<exists>d. (?s, Some d) \<in> set (fst (sweep_sandboxes h r' k st))"
    using sweep_sandboxes_keeps by blast
qed

definition sample_ws :: Workspace where
  "sample_ws = \<lparr>wk_Dir = ''/w/s/i'', wk_SessionID = ''s'', wk_InvocationID = ''i'', wk_StartedAt = 900\<rparr>"

definition sample_meta :: WorkspaceMetadata where
  "sample_meta = \<lparr>wm_Skill = ''k'', wm_Script = ''x.py'', wm_Args = [], wm_InvocationID = [], wm_StartedAt = 0,
     wm_EndedAt = 940, wm_ExitCode = 0, wm_TimedOut = False\<rparr>"

definition sample_sandbox_gc :: sandbox_gc_env where
  "sample_sandbox_gc = \<lparr>sg_Retention = 60, sg_now = 1000, sg_cancelled = (\<lambda>_. False), sg_RemoveAll = (\<lambda>_ _. None)\<rparr>"

definition text_gc :: gc_env where
  "text_gc = sample_gc\<lparr>gc_parseTime := (\<lambda>s. Some (if s = ''a'' then 900 else 940)),
     gc_unmarshal := (\<lambda>_. Some (enc_WorkspaceMetadata (\<lambda>t. if t = 900 then ''a'' else ''b'')
       (sample_meta\<lparr>wm_InvocationID := ''i'', wm_StartedAt := 900\<rparr>)))\<rparr>"

theorem retention_respected_witness:
  "reclaimable text_gc (Finalize (\<lambda>_. ''m'') (\<lambda>t. if t = 900 then ''a'' else ''b'') 940 sample_ws sample_meta (Directory [])) \<and>
   (\<exists>d. (''s_1'', Some d) \<in> set (fst (sweep_sandboxes sample_sandbox_gc
      (fst (SandboxFor None None 941 ''/sandbox'' ''s.1'' [])) 0 \<lparr>gs_Scanned = 0, gs_Reclaimed = 0, gs_FreedBytes = 0\<rparr>)))"
proof -
  have s: "sanitizeSessionID ''s.1'' = ''s_1''" by code_simp
  have "SandboxFor None None 941 ''/sandbox'' ''s.1'' [] =
     (fst (SandboxFor None None 941 ''/sandbox'' ''s.1'' []), Inr (path_Join ''/sandbox'' ''s_1''))"
    unfolding SandboxFor_def s by (simp add: touchLastAccess_def Let_def)
  from retention_respected [OF _ _ _ _ _ _ _ this, where g = text_gc and h = sample_sandbox_gc and meta = sample_meta
      and w = sample_ws and formatTime = "\<lambda>t. if t = 900 then ''a'' else ''b''" and marshal = "\<lambda>_. ''m''"]
  show ?thesis
    by (simp add: s text_gc_def sample_gc_def sample_sandbox_gc_def sample_meta_def sample_ws_def min_duration_def max_duration_def)
qed

text \<open>
  Session ids that differ only in replaced bytes share a directory, although the runner of shell commands
  locks by the id itself.
\<close>

lemma sanitizeSessionID_collides: "sanitizeSessionID ''a.b'' = sanitizeSessionID ''a/b''"
  by code_simp

section \<open>The collectors over time\<close>

text \<open>
  However often the collectors tick and whatever happens during their sweeps: an invocation that is not reclaimable at any tick is still there
  at the end, and so is a sandbox that is younger than its retention at every tick.
\<close>

lemma GC_Run_keeps:
  assumes "(s, Directory es) \<in> set ss" "e \<in> set es" "\<forall>(g, ok) \<in> set ticks. \<not> doomed g e"
  shows "\<exists>es'. (s, Directory es') \<in> set (GC_Run interval ticks ss) \<and> e \<in> set es'"
proof -
  have "\<exists>es'. (s, Directory es') \<in> set (foldl (\<lambda>ss (g, ok). case fst (GC_RunOnce g (if ok then Some ss else None)) of
      None \<Rightarrow> ss | Some ss' \<Rightarrow> ss') ss ticks) \<and> e \<in> set es'"
    using assms
  proof (induction ticks arbitrary: ss es)
    case (Cons t ticks)
    obtain g ok where t: "t = (g, ok)" by fastforce
    let ?ss = "case fst (GC_RunOnce g (if ok then Some ss else None)) of None \<Rightarrow> ss | Some ss' \<Rightarrow> ss'"
    have "\<exists>es'. (s, Directory es') \<in> set ?ss \<and> e \<in> set es'"
      using Cons.prems sweep_sessions_keeps_invs [of s es ss e g 0 "\<lparr>gs_Scanned = 0, gs_Reclaimed = 0, gs_FreedBytes = 0\<rparr>"]
      by (auto simp: t GC_RunOnce_def Let_def split_def)
    with Cons.IH [of _ ?ss] Cons.prems(3) show ?case by (auto simp: t)
  qed auto
  then show ?thesis using assms(1,2) by (auto simp: GC_Run_def)
qed

lemma SandboxGC_Run_keeps:
  assumes "(s, Some d) \<in> set es" "\<forall>(g, ok) \<in> set ticks. sessionAge d (sg_now g) < sg_Retention g"
  shows "(s, Some d) \<in> set (SandboxGC_Run interval ticks es)"
proof -
  have "(s, Some d) \<in> set (foldl (\<lambda>es (g, ok). case fst (SandboxGC_RunOnce g (if ok then Some es else None)) of
      None \<Rightarrow> es | Some es' \<Rightarrow> es') es ticks)"
    using assms
  proof (induction ticks arbitrary: es)
    case (Cons t ticks)
    obtain g ok where t: "t = (g, ok)" by fastforce
    let ?es = "case fst (SandboxGC_RunOnce g (if ok then Some es else None)) of None \<Rightarrow> es | Some es' \<Rightarrow> es'"
    have "(s, Some d) \<in> set ?es"
      using Cons.prems sweep_sandboxes_keeps [of s d es g 0 "\<lparr>gs_Scanned = 0, gs_Reclaimed = 0, gs_FreedBytes = 0\<rparr>"]
      by (auto simp: t SandboxGC_RunOnce_def Let_def split_def)
    with Cons.IH [of ?es] Cons.prems(2) show ?case by (simp add: t)
  qed simp
  then show ?thesis using assms(1) by (simp add: SandboxGC_Run_def)
qed

end
