(* ===== verification/Go_Strconv.thy ===== *)
theory Go_Strconv
  imports Go_Prelude
begin

text \<open>
  Numbers as Go has them: 64-bit wrap-around, durations, and \<^verbatim>\<open>strconv.Atoi\<close>, which inverts the
  decimal printer of the prelude on every 64-bit integer.
\<close>

definition wrap64 :: "int \<Rightarrow> int" where
  "wrap64 x = (x + 2 ^ 63) mod 2 ^ 64 - 2 ^ 63"

definition second :: int where "second = 1000000000"
definition minute :: int where "minute = 60 * second"

lemma wrap64_id: "- (2 ^ 63) \<le> x \<Longrightarrow> x < 2 ^ 63 \<Longrightarrow> wrap64 x = x"
  by (simp add: wrap64_def)

lemma wrap64_range: "- (2 ^ 63) \<le> wrap64 x \<and> wrap64 x < 2 ^ 63"
proof -
  have "0 \<le> (x + 2 ^ 63) mod 2 ^ 64" "(x + 2 ^ 63) mod 2 ^ 64 < (2::int) ^ 64" by simp_all
  then show ?thesis by (simp add: wrap64_def)
qed

text \<open>\<^verbatim>\<open>strconv.Atoi\<close>: an optional sign and decimal digits, within 64 bits.\<close>

definition is_digit :: "char \<Rightarrow> bool" where
  "is_digit c \<longleftrightarrow> 48 \<le> (of_char c :: nat) \<and> (of_char c :: nat) \<le> 57"

definition digits_value :: "string \<Rightarrow> int" where
  "digits_value s = foldl (\<lambda>n c. 10 * n + (int (of_char c) - 48)) 0 s"

definition atoi :: "string \<Rightarrow> int option" where
  "atoi s =
     (let (neg, ds) = (case s of c # r \<Rightarrow> if c = CHR ''-'' then (True, r) else if c = CHR ''+'' then (False, r) else (False, s)
                       | [] \<Rightarrow> (False, s));
          n = (if neg then - digits_value ds else digits_value ds)
      in if ds \<noteq> [] \<and> list_all is_digit ds \<and> - (2 ^ 63) \<le> n \<and> n < 2 ^ 63 then Some n else None)"

lemma digits_value_snoc: "digits_value (s @ [c]) = 10 * digits_value s + (int (of_char c) - 48)"
  by (simp add: digits_value_def)

lemma nat_digits_value:
  "nat_digits n \<noteq> [] \<and> list_all is_digit (nat_digits n) \<and> digits_value (nat_digits n) = int n"
proof (induction n rule: nat_digits.induct)
  case (1 n)
  have d: "is_digit (digit_char m)" "int (of_char (digit_char m)) = 48 + int m" if "m < 10" for m
    using that by (simp_all add: is_digit_def digit_char_def)
  show ?case
  proof (cases "n < 10")
    case True
    then show ?thesis using d [of n] by (simp add: nat_digits.simps [of n] digits_value_def)
  next
    case False
    have "10 * int (n div 10) + int (n mod 10) = int n" by presburger
    with False 1 d [of "n mod 10"] show ?thesis
      by (simp add: nat_digits.simps [of n] digits_value_snoc list_all_iff)
  qed
qed

lemma digit_char_not_sign: "list_all is_digit (c # s) \<Longrightarrow> c \<noteq> CHR ''-'' \<and> c \<noteq> CHR ''+''"
  by (auto simp: is_digit_def)

lemma atoi_itoa: "- (2 ^ 63) \<le> n \<Longrightarrow> n < 2 ^ 63 \<Longrightarrow> atoi (itoa n) = Some n"
proof (cases "n < 0")
  case True
  assume "- (2 ^ 63) \<le> n" "n < 2 ^ 63"
  with True nat_digits_value [of "nat (- n)"] show ?thesis by (simp add: atoi_def itoa_def)
next
  case False
  assume "- (2 ^ 63) \<le> n" "n < 2 ^ 63"
  moreover obtain c s where "nat_digits (nat n) = c # s" using nat_digits_value [of "nat n"] by (cases "nat_digits (nat n)") auto
  ultimately show ?thesis
    using False nat_digits_value [of "nat n"] digit_char_not_sign [of c s] by (simp add: atoi_def itoa_def)
qed

end
