(* ===== verification/Exec_Config.thy ===== *)
theory Exec_Config
  imports Exec_Workspace Go_Strconv
begin

text \<open>
  Settings and bookkeeping of the exec service (\<^verbatim>\<open>internal/exec/config.go\<close>, \<^verbatim>\<open>netpolicy.go\<close>, \<^verbatim>\<open>health.go\<close>,
  \<^verbatim>\<open>skillsmount.go\<close>). Durations are 64-bit: a product that does not fit wraps around.
\<close>

section \<open>Configuration\<close>

datatype NetMode = NetAllow | NetDeny

record Config =
  cf_Port :: int
  cf_MaxTimeout :: int
  cf_StdoutCapBytes :: int
  cf_StderrCapBytes :: int
  cf_WorkspaceRetention :: int
  cf_GCInterval :: int
  cf_PrewarmConcurrency :: int
  cf_InstallTimeout :: int
  cf_ShutdownGrace :: int
  cf_NetworkDefault :: NetMode
  cf_NetworkDenySkills :: "string list"
  cf_SkillsDir :: string
  cf_CacheDir :: string
  cf_WorkspaceDir :: string
  cf_SandboxDir :: string
  cf_SandboxRetention :: int
  cf_SandboxGCInterval :: int
  cf_PythonVersion :: string
  cf_UVBin :: string

definition exec_envOr :: "(string \<Rightarrow> string) \<Rightarrow> string \<Rightarrow> string \<Rightarrow> string" where
  "exec_envOr getenv key fallback = (if getenv key \<noteq> [] then getenv key else fallback)"

definition exec_envInt :: "(string \<Rightarrow> string) \<Rightarrow> string \<Rightarrow> int \<Rightarrow> int" where
  "exec_envInt getenv key fallback =
     (if getenv key = [] then fallback
      else case atoi (trim_space (getenv key)) of None \<Rightarrow> fallback | Some n \<Rightarrow> if n \<le> 0 then fallback else n)"

definition envNetMode :: "(string \<Rightarrow> string) \<Rightarrow> string \<Rightarrow> NetMode \<Rightarrow> NetMode" where
  "envNetMode getenv key fallback =
     (let raw = to_lower (trim_space (getenv key)) in
      if raw = ''allow'' then NetAllow else if raw = ''deny'' then NetDeny else fallback)"

definition envSkillSet :: "(string \<Rightarrow> string) \<Rightarrow> string \<Rightarrow> string list" where
  "envSkillSet getenv key =
     (if getenv key = [] then []
      else remdups (filter (\<lambda>n. n \<noteq> []) (map trim_space (split_on (CHR '','') (getenv key)))))"

definition Load :: "(string \<Rightarrow> string) \<Rightarrow> Config" where
  "Load getenv =
     (let ev = exec_envInt getenv; maxTimeout = wrap64 (ev ''EXEC_MAX_TIMEOUT_S'' 120 * second)
      in \<lparr>cf_Port = ev ''EXEC_PORT'' 8085,
          cf_MaxTimeout = maxTimeout,
          cf_StdoutCapBytes = ev ''EXEC_STDOUT_CAP_BYTES'' 16384,
          cf_StderrCapBytes = ev ''EXEC_STDERR_CAP_BYTES'' 8192,
          cf_WorkspaceRetention = wrap64 (ev ''EXEC_WORKSPACE_RETENTION_MINUTES'' 60 * minute),
          cf_GCInterval = wrap64 (ev ''EXEC_GC_INTERVAL_MINUTES'' 5 * minute),
          cf_PrewarmConcurrency = ev ''EXEC_PREWARM_CONCURRENCY'' 4,
          cf_InstallTimeout = wrap64 (ev ''EXEC_INSTALL_TIMEOUT_S'' 600 * second),
          cf_ShutdownGrace = (if getenv ''EXEC_SHUTDOWN_GRACE_S'' \<noteq> []
             then wrap64 (ev ''EXEC_SHUTDOWN_GRACE_S'' ((if maxTimeout < 0 then - (- maxTimeout div second) else maxTimeout div second) + 5) * second)
             else wrap64 (maxTimeout + 5 * second)),
          cf_NetworkDefault = envNetMode getenv ''EXEC_NETWORK_DEFAULT'' NetAllow,
          cf_NetworkDenySkills = envSkillSet getenv ''EXEC_NETWORK_DENY_SKILLS'',
          cf_SkillsDir = exec_envOr getenv ''SKILLS_DIR'' ''/skills'',
          cf_CacheDir = exec_envOr getenv ''CACHE_DIR'' ''/cache'',
          cf_WorkspaceDir = exec_envOr getenv ''WORKSPACE_DIR'' ''/workspace'',
          cf_SandboxDir = exec_envOr getenv ''SANDBOX_DIR'' ''/sandbox'',
          cf_SandboxRetention = wrap64 (ev ''EXEC_SANDBOX_RETENTION_MINUTES'' 60 * minute),
          cf_SandboxGCInterval = wrap64 (ev ''EXEC_SANDBOX_GC_INTERVAL_MINUTES'' 5 * minute),
          cf_PythonVersion = exec_envOr getenv ''PYTHON_VERSION'' ''3.12'',
          cf_UVBin = exec_envOr getenv ''UV_BIN'' ''uv''\<rparr>)"

section \<open>Network policy\<close>

record PolicyDecision =
  pd_Allow :: bool
  pd_Reason :: string

definition Policy :: "string \<Rightarrow> Config \<Rightarrow> PolicyDecision" where
  "Policy skill cfg =
     (if skill \<in> set (cf_NetworkDenySkills cfg)
      then \<lparr>pd_Allow = False, pd_Reason = ''network policy denies this skill: '' @ skill\<rparr>
      else if cf_NetworkDefault cfg = NetAllow then \<lparr>pd_Allow = True, pd_Reason = []\<rparr>
      else \<lparr>pd_Allow = False, pd_Reason = ''network policy default denies all skills''\<rparr>)"

section \<open>Health\<close>

record Health =
  hl_ready :: bool
  hl_prewarmed :: "string list"
  hl_failed :: "(string \<times> string \<times> int) list"

definition NewHealth :: Health where
  "NewHealth = \<lparr>hl_ready = False, hl_prewarmed = [], hl_failed = []\<rparr>"

definition Ready :: "Health \<Rightarrow> Health" where
  "Ready h = h\<lparr>hl_ready := True\<rparr>"

definition Installed :: "string \<Rightarrow> Health \<Rightarrow> Health" where
  "Installed skill h = h\<lparr>hl_prewarmed := List.insert skill (hl_prewarmed h), hl_failed := AList.delete skill (hl_failed h)\<rparr>"

definition InstallFailed :: "int \<Rightarrow> string \<Rightarrow> string \<Rightarrow> Health \<Rightarrow> Health" where
  "InstallFailed now skill err h =
     h\<lparr>hl_failed := AList.update skill (err, now) (hl_failed h), hl_prewarmed := removeAll skill (hl_prewarmed h)\<rparr>"

record FailedInstall =
  fi_Skill :: string
  fi_Error :: string
  fi_At :: string

record HealthResponse =
  hr_Status :: string
  hr_Ready :: bool
  hr_PrewarmedSkills :: "string list"
  hr_FailedInstalls :: "FailedInstall list"

text \<open>\<open>format\<close> renders a time as RFC 3339.\<close>

definition Health_Snapshot :: "(int \<Rightarrow> string) \<Rightarrow> Health \<Rightarrow> HealthResponse" where
  "Health_Snapshot format h =
     \<lparr>hr_Status = (if hl_ready h then ''ok'' else ''starting''), hr_Ready = hl_ready h,
      hr_PrewarmedSkills = sort (hl_prewarmed h),
      hr_FailedInstalls = sort_key fi_Skill
        (map (\<lambda>(skill, err, tm). \<lparr>fi_Skill = skill, fi_Error = err, fi_At = format tm\<rparr>) (hl_failed h))\<rparr>"

section \<open>Skills on the mount\<close>

record SkillInfo =
  si_Name :: string
  si_Root :: string
  si_Prewarm :: bool

text \<open>What the YAML parser gives: the name and the prewarm flag, or an error.\<close>

definition parseExecFrontmatter ::
  "(string \<Rightarrow> string + string \<times> bool) \<Rightarrow> string \<Rightarrow> fm_error + string \<times> bool" where
  "parseExecFrontmatter yaml contents =
     (let n = normalize_crlf contents;
          rest = (if has_prefix n (''---'' @ [nl]) \<or> has_prefix n (''---'' @ [CHR 0x0D, nl]) then Some (drop 4 n)
                  else if has_prefix n ''---'' then Some (drop 3 n)
                  else None)
      in case rest of
           None \<Rightarrow> Inl BadOpening
         | Some rest \<Rightarrow>
             (case index_of rest (nl # ''---'') of
                None \<Rightarrow> Inl NoClosing
              | Some e \<Rightarrow> (case yaml (take e rest) of Inl err \<Rightarrow> Inl (YamlParse err) | Inr fm \<Rightarrow> Inr fm)))"

text \<open>
  Entries of the skills directory as in the agent's store; \<open>None\<close>: the directory cannot be read. The code sorts
  with \<^verbatim>\<open>sort.Slice\<close>; the order of skills that declare the same name is the only thing it leaves open.
\<close>

definition scan_entry :: "(string \<Rightarrow> string + string \<times> bool) \<Rightarrow> string \<Rightarrow> dir_entry \<Rightarrow> SkillInfo option" where
  "scan_entry yaml skillsDir e =
     (case e of
        (name, True, Some data) \<Rightarrow>
          (case parseExecFrontmatter yaml data of
             Inl _ \<Rightarrow> None
           | Inr (n, prewarm) \<Rightarrow>
               if trim_space n = [] then None
               else Some \<lparr>si_Name = trim_space n, si_Root = path_Join skillsDir name, si_Prewarm = prewarm\<rparr>)
      | _ \<Rightarrow> None)"

definition ScanSkills ::
  "(string \<Rightarrow> string + string \<times> bool) \<Rightarrow> string \<Rightarrow> dir_entry list option \<Rightarrow> SkillInfo list" where
  "ScanSkills yaml skillsDir entries =
     (case entries of None \<Rightarrow> []
      | Some es \<Rightarrow> sort_key si_Name (List.map_filter (scan_entry yaml skillsDir) es))"

definition LookupSkill :: "SkillInfo list \<Rightarrow> string \<Rightarrow> SkillInfo option" where
  "LookupSkill skills name = find (\<lambda>s. si_Name s = name) skills"
end
