(* ===== verification/Exec_Output.thy ===== *)
theory Exec_Output
  imports Go_Prelude
begin

text \<open>
  Captured output of a subprocess (\<^verbatim>\<open>internal/exec/runner.go\<close>): the capped buffer behind standard output and
  standard error, its cut at a UTF-8 boundary, and the choice of a MIME type by extension.
\<close>

section \<open>UTF-8\<close>

text \<open>
  Go's table of first bytes: the length of the encoding and the range of its second byte (the bytes
  after it range over 0x80 to 0xBF).
\<close>

definition byte_in :: "nat \<Rightarrow> nat \<Rightarrow> char \<Rightarrow> bool" where
  "byte_in lo hi c \<longleftrightarrow> lo \<le> of_char c \<and> of_char c \<le> hi"

definition lead_byte :: "char \<Rightarrow> (nat \<times> nat \<times> nat) option" where
  "lead_byte a =
     (let x = of_char a :: nat in
      if x < 128 then Some (1, 128, 191)
      else if x < 194 then None
      else if x \<le> 223 then Some (2, 128, 191)
      else if x = 224 then Some (3, 160, 191)
      else if x = 237 then Some (3, 128, 159)
      else if x \<le> 239 then Some (3, 128, 191)
      else if x = 240 then Some (4, 144, 191)
      else if x \<le> 243 then Some (4, 128, 191)
      else if x = 244 then Some (4, 128, 143)
      else None)"

text \<open>The length of the rune a byte string starts with, if it starts with a valid encoding.\<close>

fun rune_len :: "string \<Rightarrow> nat option" where
  "rune_len [] = None"
| "rune_len (a # s) =
     (case lead_byte a of
        None \<Rightarrow> None
      | Some (n, lo, hi) \<Rightarrow>
          (case take (n - 1) s of
             [] \<Rightarrow> if n = 1 then Some n else None
           | b # t \<Rightarrow> if Suc (length t) = n - 1 \<and> byte_in lo hi b \<and> list_all (byte_in 128 191) t
                      then Some n else None))"

lemma lead_byte_len: "lead_byte a = Some (n, lo, hi) \<Longrightarrow> 1 \<le> n \<and> n \<le> 4"
  by (auto simp: lead_byte_def Let_def split: if_splits)

lemma rune_len_bounds: "rune_len s = Some n \<Longrightarrow> 1 \<le> n \<and> n \<le> 4 \<and> n \<le> length s"
proof (cases s)
  case (Cons a t)
  assume r: "rune_len s = Some n"
  with Cons obtain lo hi where l: "lead_byte a = Some (n, lo, hi)"
    and c: "(case take (n - 1) t of [] \<Rightarrow> n = 1 | b # u \<Rightarrow> Suc (length u) = n - 1)"
    by (auto split: option.splits list.splits if_splits)
  from c have "length (take (n - 1) t) = n - 1" by (cases "take (n - 1) t") auto
  with lead_byte_len [OF l] Cons show ?thesis by auto
qed simp

text \<open>\<^verbatim>\<open>utf8.Valid\<close>.\<close>

function utf8_valid :: "string \<Rightarrow> bool" where
  "utf8_valid s = (s = [] \<or> (case rune_len s of None \<Rightarrow> False | Some n \<Rightarrow> utf8_valid (drop n s)))"
  by pat_completeness auto

termination
  by (relation "measure length") (auto dest!: rune_len_bounds)

declare utf8_valid.simps [simp del]

lemma utf8_valid_Nil [simp]: "utf8_valid []"
  by (simp add: utf8_valid.simps)

section \<open>The buffer\<close>

record cappedBuffer =
  cb_cap :: nat
  cb_buf :: string
  cb_truncated :: bool

definition newCappedBuffer :: "int \<Rightarrow> cappedBuffer" where
  "newCappedBuffer n = \<lparr>cb_cap = (if n < 0 then 0 else nat n), cb_buf = [], cb_truncated = False\<rparr>"

text \<open>\<^verbatim>\<open>Write\<close> reports every byte as written and no error.\<close>

definition cappedBuffer_Write :: "string \<Rightarrow> cappedBuffer \<Rightarrow> cappedBuffer \<times> nat" where
  "cappedBuffer_Write p c =
     (if length (cb_buf c) \<ge> cb_cap c then (c\<lparr>cb_truncated := True\<rparr>, length p)
      else let room = cb_cap c - length (cb_buf c) in
        if length p \<le> room then (c\<lparr>cb_buf := cb_buf c @ p\<rparr>, length p)
        else (c\<lparr>cb_buf := cb_buf c @ take room p, cb_truncated := True\<rparr>, length p))"

text \<open>The loop \<^verbatim>\<open>for i := len(data); i > 0; i--\<close> of \<^verbatim>\<open>String\<close>; without a valid prefix the data stays as it is.\<close>

fun trim_tail :: "string \<Rightarrow> nat \<Rightarrow> string" where
  "trim_tail dat 0 = dat"
| "trim_tail dat (Suc i) = (if utf8_valid (take (Suc i) dat) then take (Suc i) dat else trim_tail dat i)"

definition cappedBuffer_String :: "cappedBuffer \<Rightarrow> string \<times> bool" where
  "cappedBuffer_String c =
     (let dat = cb_buf c in
      (if utf8_valid dat then dat else trim_tail dat (length dat), cb_truncated c))"

definition write_all :: "string list \<Rightarrow> cappedBuffer \<Rightarrow> cappedBuffer" where
  "write_all ws c = fold (\<lambda>p c. fst (cappedBuffer_Write p c)) ws c"

definition appendWithCap :: "string \<Rightarrow> string \<Rightarrow> int \<Rightarrow> string" where
  "appendWithCap dst s n =
     (let combined = dst @ s in
      if n \<le> 0 \<or> int (length combined) \<le> n then combined else take (nat n) combined)"

definition mimeByExt :: "string \<Rightarrow> string" where
  "mimeByExt ext =
     (if ext = ''.txt'' then ''text/plain''
      else if ext = ''.md'' then ''text/markdown''
      else if ext = ''.json'' then ''application/json''
      else if ext = ''.xml'' then ''application/xml''
      else if ext = ''.yaml'' \<or> ext = ''.yml'' then ''application/yaml''
      else if ext = ''.html'' then ''text/html''
      else if ext = ''.png'' then ''image/png''
      else if ext = ''.jpg'' \<or> ext = ''.jpeg'' then ''image/jpeg''
      else if ext = ''.gif'' then ''image/gif''
      else if ext = ''.webp'' then ''image/webp''
      else if ext = ''.pdf'' then ''application/pdf''
      else if ext = ''.csv'' then ''text/csv''
      else [])"

section \<open>What the buffer keeps\<close>

lemma write_all_buf:
  assumes "\<forall>p \<in> set ws. p \<noteq> []"
  shows "cb_buf (write_all ws (newCappedBuffer n)) = take (nat n) (concat ws) \<and>
    cb_truncated (write_all ws (newCappedBuffer n)) = (nat n < length (concat ws)) \<and>
    cb_cap (write_all ws (newCappedBuffer n)) = nat n"
  using assms
proof (induction ws rule: rev_induct)
  case Nil
  then show ?case by (simp add: write_all_def newCappedBuffer_def)
next
  case (snoc p ws)
  let ?c = "write_all ws (newCappedBuffer n)"
  have c: "cb_buf ?c = take (nat n) (concat ws)" "cb_truncated ?c = (nat n < length (concat ws))" "cb_cap ?c = nat n"
    using snoc by auto
  have "p \<noteq> []" using snoc.prems by simp
  then have "0 < length p" by simp
  have step: "write_all (ws @ [p]) (newCappedBuffer n) = fst (cappedBuffer_Write p ?c)" by (simp add: write_all_def)
  show ?case
  proof (cases "nat n \<le> length (concat ws)")
    case True
    with \<open>0 < length p\<close> have "nat n < length (concat ws) + length p" by linarith
    with c True show ?thesis unfolding step by (simp add: cappedBuffer_Write_def)
  next
    case False
    with c have "cb_buf ?c = concat ws" by simp
    with c False \<open>0 < length p\<close> show ?thesis unfolding step
      by (auto simp: cappedBuffer_Write_def Let_def min_def)
  qed
qed

section \<open>The cut at a rune boundary\<close>

lemma rune_len_take: "n \<le> m \<Longrightarrow> rune_len s = Some n \<Longrightarrow> rune_len (take m s) = Some n"
proof (cases s)
  case (Cons a t)
  assume nm: "n \<le> m" and r: "rune_len s = Some n"
  then have "1 \<le> n" using rune_len_bounds by blast
  with nm obtain m' where m: "m = Suc m'" "n - 1 \<le> m'" by (cases m) auto
  from r Cons obtain lo hi where l: "lead_byte a = Some (n, lo, hi)"
    by (auto split: option.splits list.splits if_splits)
  have "take (n - 1) (take m' t) = take (n - 1) t" using m by (simp add: min_def)
  with r Cons m l show ?thesis by simp
qed simp

lemma utf8_valid_prefix:
  "utf8_valid s \<Longrightarrow> m \<le> length s \<Longrightarrow> \<exists>k \<le> m. m < k + 4 \<and> utf8_valid (take k s)"
proof (induction s arbitrary: m rule: utf8_valid.induct)
  case (1 s)
  show ?case
  proof (cases "m < 4")
    case True
    then show ?thesis by (intro exI [of _ 0]) simp
  next
    case False
    with "1.prems" have "s \<noteq> []" by auto
    with "1.prems"(1) obtain n where n: "rune_len s = Some n" "utf8_valid (drop n s)"
      by (subst (asm) utf8_valid.simps) (auto split: option.splits)
    note b = rune_len_bounds [OF n(1)]
    with False "1.prems" have "m - n \<le> length (drop n s)" "n \<le> m" by auto
    from "1.IH" [OF n this(1)] obtain k where
      k: "k \<le> m - n" "m - n < k + 4" "utf8_valid (take k (drop n s))" by blast
    have "utf8_valid (take (n + k) s)"
      unfolding utf8_valid.simps [of "take (n + k) s"] rune_len_take [OF le_add1 n(1)]
      using k(3) by (simp add: take_drop add.commute)
    with k \<open>n \<le> m\<close> show ?thesis by (intro exI [of _ "n + k"]) auto
  qed
qed

lemma trim_tail_best:
  assumes "k \<le> i" "i \<le> length dat" "0 < k" "utf8_valid (take k dat)"
  shows "\<exists>j. k \<le> j \<and> j \<le> i \<and> trim_tail dat i = take j dat \<and> utf8_valid (take j dat)"
  using assms
proof (induction i)
  case (Suc i)
  then show ?case
    by (cases "k = Suc i") (auto intro: le_SucI exI [of _ "Suc i"])
qed simp

lemma trim_tail_prefix: "i \<le> length dat \<Longrightarrow> \<exists>k. trim_tail dat i = take k dat"
  by (induction i) (auto intro: exI [of _ "length dat"])

lemma cappedBuffer_String_valid:
  assumes "utf8_valid s" "4 \<le> m" "cb_buf c = take m s"
  shows "utf8_valid (fst (cappedBuffer_String c)) \<and> min m (length s) < length (fst (cappedBuffer_String c)) + 4"
proof (cases "utf8_valid (cb_buf c)")
  case True
  then show ?thesis using assms(3) by (simp add: cappedBuffer_String_def Let_def)
next
  case False
  with assms have "m < length s" by (metis not_le take_all)
  with utf8_valid_prefix [OF assms(1), of m] obtain k where k: "k \<le> m" "m < k + 4" "utf8_valid (take k s)" by auto
  with assms have "0 < k" "take k (take m s) = take k s" by (auto simp: min_def)
  with trim_tail_best [of k "length (take m s)" "take m s"] k \<open>m < length s\<close> obtain j where
    "k \<le> j" "j \<le> m" "trim_tail (take m s) (length (take m s)) = take j (take m s)" "utf8_valid (take j (take m s))" by auto
  with False k \<open>m < length s\<close> show ?thesis
    using assms(3) by (simp add: cappedBuffer_String_def Let_def min_def)
qed

text \<open>
  C39. Captured output stays within its cap and is honest: whatever the pieces in which a process writes, the
  text reported is a prefix of what was written, of at most the configured number of bytes, and the
  flag says whether the cap was exceeded. For a process that writes valid UTF-8 nothing is lost below the
  cap, and above it (for a cap of at least 4) the text is valid UTF-8 and at most three bytes short of the cap.
\<close>

theorem capped_output_bounds:
  assumes "\<forall>p \<in> set ws. p \<noteq> []"
  shows "case cappedBuffer_String (write_all ws (newCappedBuffer n)) of (out, truncated) \<Rightarrow>
    length out \<le> nat n \<and> (\<exists>k. out = take k (concat ws)) \<and> truncated = (nat n < length (concat ws)) \<and>
    (utf8_valid (concat ws) \<longrightarrow> (\<not> truncated \<longrightarrow> out = concat ws) \<and>
       (4 \<le> n \<longrightarrow> utf8_valid out \<and> min (nat n) (length (concat ws)) < length out + 4))"
proof -
  define c where "c = write_all ws (newCappedBuffer n)"
  note w = write_all_buf [OF assms, of n, folded c_def]
  have "\<exists>k. fst (cappedBuffer_String c) = take k (cb_buf c)"
    using trim_tail_prefix [of "length (cb_buf c)" "cb_buf c"]
    by (cases "utf8_valid (cb_buf c)") (auto simp: cappedBuffer_String_def Let_def intro: exI [of _ "length (cb_buf c)"])
  then obtain k where k: "fst (cappedBuffer_String c) = take k (cb_buf c)" by blast
  have flag: "snd (cappedBuffer_String c) = (nat n < length (concat ws))"
    using w by (simp add: cappedBuffer_String_def Let_def)
  have "fst (cappedBuffer_String c) = concat ws" if "utf8_valid (concat ws)" "\<not> nat n < length (concat ws)"
    using w that by (simp add: cappedBuffer_String_def Let_def)
  moreover have "length (fst (cappedBuffer_String c)) \<le> nat n" "fst (cappedBuffer_String c) = take (min k (nat n)) (concat ws)"
    using k w by simp_all
  ultimately show ?thesis
    using cappedBuffer_String_valid [of "concat ws" "nat n" c] w flag
    unfolding c_def [symmetric] by (auto simp: split_def)
qed

theorem capped_output_bounds_witness:
  "cappedBuffer_String (write_all [''abc'', [CHR 0xC3, CHR 0xA9, CHR 0xC3, CHR 0xA9]] (newCappedBuffer 6)) =
     (''abc'' @ [CHR 0xC3, CHR 0xA9], True) \<and>
   length (fst (cappedBuffer_String (write_all [''abc'', [CHR 0xC3, CHR 0xA9, CHR 0xC3, CHR 0xA9]] (newCappedBuffer 6)))) \<le> nat 6"
proof -
  let ?ws = "[''abc'', [CHR 0xC3, CHR 0xA9, CHR 0xC3, CHR 0xA9]]"
  have "cappedBuffer_String (write_all ?ws (newCappedBuffer 6)) = (''abc'' @ [CHR 0xC3, CHR 0xA9], True)" by code_simp
  with capped_output_bounds [of ?ws 6] show ?thesis by (auto simp: split_def)
qed

text \<open>A byte that is no UTF-8 makes everything after it disappear although the flag says that nothing was cut.\<close>

lemma invalid_byte_drops_silently:
  "cappedBuffer_String (write_all [''a'' @ [CHR 0xFF] @ ''bcd''] (newCappedBuffer 100)) = (''a'', False)"
  by code_simp

end
