(* ===== verification/Tools.thy ===== *)
theory Tools
  imports Messaging Skills
begin

text \<open>
  The tools of the main agent (\<^verbatim>\<open>internal/tools\<close>): the registry with its two name spaces, invocation with
  recovery from panics, and the built-in tools. A tool acts on a world \<open>'w\<close> (what it reaches outside
  the process); the exec service, the clock and the JSON text layer are arguments.
\<close>

section \<open>Data\<close>

record json_text =
  jt_Marshal :: "json \<Rightarrow> string"
  jt_Unmarshal :: "string \<Rightarrow> json option"
  jt_Error :: "string \<Rightarrow> string"       \<comment> \<open>the message of a failed \<^verbatim>\<open>Unmarshal\<close>\<close>

record ToolSchema =
  ts_Type :: string
  ts_Name :: string
  ts_Description :: string
  ts_Parameters :: "json option"

datatype tool_result = ToolOk string | ToolErr string | ToolPanic

record 'w Tool =
  tl_Name :: string
  tl_Schema :: ToolSchema
  tl_Invoke :: "string \<Rightarrow> 'w \<Rightarrow> 'w \<times> tool_result"

record ManifestEntry =
  me_Name :: string
  me_Description :: string

record InvocationResult =
  ir_Output :: string
  ir_Outcome :: string
  ir_ResultSize :: nat

record 'w ToolRegistry =
  tg_tools :: "(string \<times> 'w Tool) list"
  tg_order :: "string list"

definition NewToolRegistry :: "'w ToolRegistry" where
  "NewToolRegistry = \<lparr>tg_tools = [], tg_order = []\<rparr>"

section \<open>The registry\<close>

definition mcpPrefix :: string where "mcpPrefix = ''mcp__''"

datatype register_error = ReservedPrefix string | MissingPrefix string | AlreadyRegistered string

definition register_tool :: "'w Tool \<Rightarrow> 'w ToolRegistry \<Rightarrow> register_error + 'w ToolRegistry" where
  "register_tool t r =
     (let name = tl_Name t in
      if map_of (tg_tools r) name \<noteq> None then Inl (AlreadyRegistered name)
      else Inr \<lparr>tg_tools = AList.update name t (tg_tools r), tg_order = tg_order r @ [name]\<rparr>)"

definition Tool_Register :: "'w Tool \<Rightarrow> 'w ToolRegistry \<Rightarrow> register_error + 'w ToolRegistry" where
  "Tool_Register t r =
     (if has_prefix (tl_Name t) mcpPrefix then Inl (ReservedPrefix (tl_Name t)) else register_tool t r)"

definition RegisterMCP :: "'w Tool \<Rightarrow> 'w ToolRegistry \<Rightarrow> register_error + 'w ToolRegistry" where
  "RegisterMCP t r =
     (if \<not> has_prefix (tl_Name t) mcpPrefix then Inl (MissingPrefix (tl_Name t)) else register_tool t r)"

text \<open>The tool registered under a name; the code only asks for names in \<^verbatim>\<open>order\<close>.\<close>

definition tool_at :: "'w ToolRegistry \<Rightarrow> string \<Rightarrow> 'w Tool" where
  "tool_at r name = the (map_of (tg_tools r) name)"

definition Schemas :: "'w ToolRegistry \<Rightarrow> ToolSchema list" where
  "Schemas r = map (\<lambda>name. tl_Schema (tool_at r name)) (tg_order r)"

definition SchemasFor :: "string list \<Rightarrow> string list \<Rightarrow> 'w ToolRegistry \<Rightarrow> ToolSchema list" where
  "SchemasFor base allowed r =
     (let visible = set base \<union> set allowed in
      map (\<lambda>name. tl_Schema (tool_at r name)) (filter (\<lambda>name. name \<in> visible) (tg_order r)))"

definition Has :: "string \<Rightarrow> 'w ToolRegistry \<Rightarrow> bool" where
  "Has name r = (map_of (tg_tools r) name \<noteq> None)"

definition Registry_Manifest :: "'w ToolRegistry \<Rightarrow> ManifestEntry list" where
  "Registry_Manifest r =
     map (\<lambda>name. let s = tl_Schema (tool_at r name) in
            \<lparr>me_Name = ts_Name s, me_Description = ts_Description s\<rparr>) (tg_order r)"

definition jsonError :: "json_text \<Rightarrow> string \<Rightarrow> string" where
  "jsonError jt msg = jt_Marshal jt (JObj [(''error'', JStr msg)])"

definition Tool_Invoke :: "json_text \<Rightarrow> 'w ToolRegistry \<Rightarrow> string \<Rightarrow> string \<Rightarrow> 'w \<Rightarrow> 'w \<times> InvocationResult" where
  "Tool_Invoke jt r name argsJSON w =
     (case map_of (tg_tools r) name of
        None \<Rightarrow> (w, \<lparr>ir_Output = jsonError jt (''unknown tool: '' @ name), ir_Outcome = ''error'', ir_ResultSize = 0\<rparr>)
      | Some t \<Rightarrow>
          let (w', res) = tl_Invoke t argsJSON w;
              (out, outcome) = (case res of
                 ToolOk s \<Rightarrow> (s, ''ok'')
               | ToolErr err \<Rightarrow> (jsonError jt err, ''error'')
               | ToolPanic \<Rightarrow> (jsonError jt ''tool panicked'', ''panic''))
          in (w', \<lparr>ir_Output = out, ir_Outcome = outcome, ir_ResultSize = length out\<rparr>))"

section \<open>Built-in tools\<close>

definition unmarshal :: "json_text \<Rightarrow> (json \<Rightarrow> 'a option) \<Rightarrow> string \<Rightarrow> 'a option" where
  "unmarshal jt dec s = (case jt_Unmarshal jt s of None \<Rightarrow> None | Some j \<Rightarrow> dec j)"

definition invalid_args :: "json_text \<Rightarrow> string \<Rightarrow> string" where
  "invalid_args jt s = jsonError jt (''invalid arguments: '' @ jt_Error jt s)"

definition enc_ManifestEntry :: "ManifestEntry \<Rightarrow> json" where
  "enc_ManifestEntry e = JObj [(''name'', JStr (me_Name e)), (''description'', JStr (me_Description e))]"

definition list_skills_Invoke :: "json_text \<Rightarrow> SkillStore \<Rightarrow> string \<Rightarrow> string" where
  "list_skills_Invoke jt store argsJSON =
     jt_Marshal jt (enc_list enc_ManifestEntry
       (map (\<lambda>m. \<lparr>me_Name = mf_Name m, me_Description = mf_Description m\<rparr>) (Skill_List store)))"

definition dec_name_arg :: "json \<Rightarrow> string option" where
  "dec_name_arg = dec_struct [fld ''name'' dec_string (\<lambda>s. s) (\<lambda>f s. f s)] []"

definition read_skill_Invoke :: "json_text \<Rightarrow> SkillStore \<Rightarrow> string \<Rightarrow> string" where
  "read_skill_Invoke jt store argsJSON =
     (case unmarshal jt dec_name_arg argsJSON of
        None \<Rightarrow> invalid_args jt argsJSON
      | Some n \<Rightarrow>
          let name = trim_space n in
          if name = [] then jsonError jt ''name argument is required''
          else (case Skill_Body name store of
             None \<Rightarrow> jsonError jt (''skill not found: '' @ name)
           | Some body \<Rightarrow> body))"

definition dec_skill_path :: "json \<Rightarrow> (string \<times> string) option" where
  "dec_skill_path = dec_struct
     [fld ''skill'' dec_string fst (\<lambda>f p. (f (fst p), snd p)),
      fld ''path'' dec_string snd (\<lambda>f p. (fst p, f (snd p)))] ([], [])"

text \<open>The text of each error of \<^verbatim>\<open>ReadFile\<close>.\<close>

fun read_error_text :: "read_error \<Rightarrow> string" where
  "read_error_text PathRequired = ''path is required''"
| "read_error_text ErrPathAbsolute = ''path must be relative''"
| "read_error_text ErrPathEscapesRoot = ''path escapes the skill root''"
| "read_error_text ErrPathReservedSKILL = ''SKILL.md is served by read_skill, not read_skill_file''"
| "read_error_text ErrNotRegularFile = ''target is not a regular file''"
| "read_error_text ErrFileNotFound = ''file not found within skill''"
| "read_error_text (FileTooLarge n m) = ''file too large: '' @ itoa n @ '' bytes, max '' @ itoa m"
| "read_error_text (IOError s) = s"

definition read_skill_file_Invoke :: "json_text \<Rightarrow> filesystem \<Rightarrow> SkillStore \<Rightarrow> string \<Rightarrow> string" where
  "read_skill_file_Invoke jt fs store argsJSON =
     (case unmarshal jt dec_skill_path argsJSON of
        None \<Rightarrow> invalid_args jt argsJSON
      | Some (sk, p) \<Rightarrow>
          let skill = trim_space sk; path = trim_space p in
          if skill = [] \<or> path = [] then jsonError jt ''skill and path arguments are required''
          else (case Skill_ReadFile fs skill path store of
             None \<Rightarrow> jsonError jt (''skill not found: '' @ skill)
           | Some (Inl err) \<Rightarrow> jsonError jt (read_error_text err)
           | Some (Inr body) \<Rightarrow> body))"

definition dec_format_arg :: "json \<Rightarrow> string option" where
  "dec_format_arg = dec_struct [fld ''format'' dec_string (\<lambda>s. s) (\<lambda>f s. f s)] []"

text \<open>\<open>format\<close> is \<^verbatim>\<open>t.now().UTC().Format\<close>.\<close>

definition current_time_Invoke :: "json_text \<Rightarrow> (string \<Rightarrow> string) \<Rightarrow> string \<Rightarrow> string" where
  "current_time_Invoke jt format argsJSON =
     (let trimmed = trim_space argsJSON in
      case (if trimmed \<noteq> [] \<and> trimmed \<noteq> ''{}'' then unmarshal jt dec_format_arg argsJSON else Some []) of
        None \<Rightarrow> invalid_args jt argsJSON
      | Some f \<Rightarrow> let layout = trim_space f in
          format (if layout = [] then ''2006-01-02T15:04:05Z07:00'' else layout))"

record BashRequest =
  br_Command :: string
  br_SessionID :: string
  br_TimeoutS :: int

definition dec_BashRequest :: "json \<Rightarrow> BashRequest option" where
  "dec_BashRequest = dec_struct
     [fld ''command'' dec_string br_Command br_Command_update,
      fld ''session_id'' dec_string br_SessionID br_SessionID_update,
      fld ''timeout_s'' dec_int br_TimeoutS br_TimeoutS_update]
     \<lparr>br_Command = [], br_SessionID = [], br_TimeoutS = 0\<rparr>"

record RunRequest =
  rr_Skill :: string
  rr_Script :: string
  rr_Args :: "string list"
  rr_Stdin :: string
  rr_TimeoutS :: int
  rr_SessionID :: string

definition dec_RunRequest :: "json \<Rightarrow> RunRequest option" where
  "dec_RunRequest = dec_struct
     [fld ''skill'' dec_string rr_Skill rr_Skill_update,
      fld ''script'' dec_string rr_Script rr_Script_update,
      fld ''args'' (dec_list [] dec_string) rr_Args rr_Args_update,
      fld ''stdin'' dec_string rr_Stdin rr_Stdin_update,
      fld ''timeout_s'' dec_int rr_TimeoutS rr_TimeoutS_update,
      fld ''session_id'' dec_string rr_SessionID rr_SessionID_update]
     \<lparr>rr_Skill = [], rr_Script = [], rr_Args = [], rr_Stdin = [], rr_TimeoutS = 0, rr_SessionID = []\<rparr>"

datatype client_error = ExecError int string | DeadlineExceeded | Canceled | Unavailable string

fun classifyClientError :: "client_error \<Rightarrow> string" where
  "classifyClientError (ExecError status body) = ''exec returned '' @ itoa status @ '': '' @ body"
| "classifyClientError DeadlineExceeded = ''exec request failed: deadline exceeded''"
| "classifyClientError Canceled = ''exec request failed: canceled''"
| "classifyClientError (Unavailable err) = ''exec unavailable: '' @ err"

text \<open>\<open>client\<close> is the exec client, which answers with the response envelope.\<close>

definition bash_Invoke ::
  "json_text \<Rightarrow> (BashRequest \<Rightarrow> 'w \<Rightarrow> 'w \<times> (client_error + json)) \<Rightarrow> string \<Rightarrow> 'w \<Rightarrow> 'w \<times> string" where
  "bash_Invoke jt client argsJSON w =
     (case unmarshal jt dec_BashRequest argsJSON of
        None \<Rightarrow> (w, invalid_args jt argsJSON)
      | Some args \<Rightarrow>
          let args = args\<lparr>br_Command := trim_space (br_Command args)\<rparr> in
          if br_Command args = [] then (w, jsonError jt ''command argument is required'')
          else (case client args w of
             (w', Inl err) \<Rightarrow> (w', jsonError jt (classifyClientError err))
           | (w', Inr resp) \<Rightarrow> (w', jt_Marshal jt resp)))"

definition run_skill_script_Invoke ::
  "json_text \<Rightarrow> (RunRequest \<Rightarrow> 'w \<Rightarrow> 'w \<times> (client_error + json)) \<Rightarrow> string \<Rightarrow> 'w \<Rightarrow> 'w \<times> string" where
  "run_skill_script_Invoke jt client argsJSON w =
     (case unmarshal jt dec_RunRequest argsJSON of
        None \<Rightarrow> (w, invalid_args jt argsJSON)
      | Some args \<Rightarrow>
          let args = args\<lparr>rr_Skill := trim_space (rr_Skill args), rr_Script := trim_space (rr_Script args)\<rparr> in
          if rr_Skill args = [] \<or> rr_Script args = []
          then (w, jsonError jt ''skill and script arguments are required'')
          else (case client args w of
             (w', Inl err) \<Rightarrow> (w', jsonError jt (classifyClientError err))
           | (w', Inr resp) \<Rightarrow> (w', jt_Marshal jt resp)))"

section \<open>The registry invariant\<close>

definition tool_registry_inv :: "'w ToolRegistry \<Rightarrow> bool" where
  "tool_registry_inv r \<longleftrightarrow> distinct (tg_order r) \<and> set (tg_order r) = fst ` set (tg_tools r) \<and>
     (\<forall>n t. map_of (tg_tools r) n = Some t \<longrightarrow> tl_Name t = n)"

lemma tool_registry_inv_register:
  assumes "tool_registry_inv r" "register_tool t r = Inr r'"
  shows "tool_registry_inv r'"
proof -
  from assms(2) have n: "map_of (tg_tools r) (tl_Name t) = None" and
    r': "r' = \<lparr>tg_tools = AList.update (tl_Name t) t (tg_tools r), tg_order = tg_order r @ [tl_Name t]\<rparr>"
    by (auto simp: register_tool_def Let_def split: if_splits)
  then have "tl_Name t \<notin> set (tg_order r)" using assms(1) by (simp add: tool_registry_inv_def map_of_eq_None_iff)
  moreover have "fst ` set (AList.update (tl_Name t) t (tg_tools r)) = insert (tl_Name t) (fst ` set (tg_tools r))"
    by (metis dom_map_of_conv_image_fst dom_update insert_def singleton_conv2 update_conv' dom_fun_upd option.distinct(1))
  ultimately show ?thesis
    using assms(1) unfolding r' tool_registry_inv_def by (auto simp: update_conv')
qed

inductive tools_reachable :: "'w ToolRegistry \<Rightarrow> bool" where
  new: "tools_reachable NewToolRegistry"
| builtin: "tools_reachable r \<Longrightarrow> Tool_Register t r = Inr r' \<Longrightarrow> tools_reachable r'"
| mcp: "tools_reachable r \<Longrightarrow> RegisterMCP t r = Inr r' \<Longrightarrow> tools_reachable r'"

lemma tools_reachable_inv: "tools_reachable r \<Longrightarrow> tool_registry_inv r"
proof (induction rule: tools_reachable.induct)
  case new
  then show ?case by (simp add: tool_registry_inv_def NewToolRegistry_def)
next
  case (builtin r t r')
  then show ?case by (auto simp: Tool_Register_def split: if_splits intro: tool_registry_inv_register)
next
  case (mcp r t r')
  then show ?case by (auto simp: RegisterMCP_def split: if_splits intro: tool_registry_inv_register)
qed

end
