(* ===== verification/Exec_Service.thy ===== *)
theory Exec_Service
  imports Exec_Config Exec_Output Tools
begin

text \<open>
  The exec service (\<^verbatim>\<open>internal/exec/runner.go\<close>, \<^verbatim>\<open>install.go\<close>, \<^verbatim>\<open>bash.go\<close>, \<^verbatim>\<open>server.go\<close>): installation of a skill's
  requirements, runs of a skill's script and of shell commands, and the HTTP handlers. The operating
  system is a record of operations on a world \<open>'w\<close>.
\<close>

section \<open>The operating system\<close>

record command =
  cm_Path :: string
  cm_Args :: "string list"
  cm_Dir :: string
  cm_Env :: "string list"
  cm_Stdin :: string
  cm_Timeout :: int          \<comment> \<open>the deadline of the context, from the start\<close>

text \<open>
  How a subprocess went: errors of creating the two output files, the start error, what it wrote piece by
  piece, whether the deadline had passed when \<^verbatim>\<open>Wait\<close> returned, the exit code (if there is a process
  state), the error of \<^verbatim>\<open>Wait\<close>, and the duration in milliseconds.
\<close>

record process =
  pc_outFile :: "string option"
  pc_errFile :: "string option"
  pc_startErr :: "string option"
  pc_stdout :: "string list"
  pc_stderr :: "string list"
  pc_deadline :: bool
  pc_exit :: "int option"
  pc_waitErr :: "string option"
  pc_duration :: int

record 'w os =
  os_fs :: "'w \<Rightarrow> filesystem"
  os_now :: "'w \<Rightarrow> int"
  os_MkdirAll :: "string \<Rightarrow> 'w \<Rightarrow> 'w \<times> string option"
  os_WriteFile :: "string \<Rightarrow> string \<Rightarrow> 'w \<Rightarrow> 'w"
  os_uv :: "string list \<Rightarrow> 'w \<Rightarrow> 'w \<times> string \<times> string option"
  os_exec :: "command \<Rightarrow> 'w \<Rightarrow> 'w \<times> process"
  os_random :: "'w \<Rightarrow> 'w \<times> string option"
  os_ReadDir :: "'w \<Rightarrow> string \<Rightarrow> (string \<times> bool) list option"   \<comment> \<open>name and whether the entry is a regular file\<close>
  os_sniff :: "'w \<Rightarrow> string \<Rightarrow> string"                          \<comment> \<open>content type by the first bytes\<close>
  os_sandboxes :: "'w \<Rightarrow> sandbox_root"
  os_set_sandboxes :: "sandbox_root \<Rightarrow> 'w \<Rightarrow> 'w"
  os_marker :: "'w \<Rightarrow> string option"                           \<comment> \<open>error of creating the marker file\<close>
  os_marshal :: "json \<Rightarrow> string"
  os_formatTime :: "int \<Rightarrow> string"

definition exists :: "'w os \<Rightarrow> string \<Rightarrow> 'w \<Rightarrow> bool" where
  "exists os path w = (case fs_Stat (os_fs os w) path of Inr _ \<Rightarrow> True | Inl _ \<Rightarrow> False)"

definition not_exist :: "'w os \<Rightarrow> string \<Rightarrow> 'w \<Rightarrow> bool" where
  "not_exist os path w = (fs_Stat (os_fs os w) path = Inl NotExist)"

section \<open>Installation\<close>

record InstallResult =
  in_Status :: string
  in_DurationMS :: int
  in_Error :: string

definition VenvDir :: "Config \<Rightarrow> string \<Rightarrow> string" where
  "VenvDir cfg skill = path_Join (path_Join (cf_CacheDir cfg) skill) ''venv''"

definition venv_python_path :: "Config \<Rightarrow> string \<Rightarrow> string" where
  "venv_python_path cfg skill = path_Join (path_Join (VenvDir cfg skill) ''bin'') ''python''"

definition VenvPython :: "'w os \<Rightarrow> Config \<Rightarrow> string \<Rightarrow> 'w \<Rightarrow> string" where
  "VenvPython os cfg skill w = (if exists os (venv_python_path cfg skill) w then venv_python_path cfg skill else [])"

definition requirements_path :: "SkillInfo \<Rightarrow> string" where
  "requirements_path skill = path_Join (path_Join (si_Root skill) ''scripts'') ''requirements.txt''"

definition elapsed_ms :: "int \<Rightarrow> int \<Rightarrow> int" where
  "elapsed_ms start stop = (stop - start) div 1000000"

definition finishFailed :: "'w os \<Rightarrow> int \<Rightarrow> string \<Rightarrow> string \<Rightarrow> Health \<Rightarrow> 'w \<Rightarrow> Health \<times> InstallResult" where
  "finishFailed os start skill msg h w =
     (InstallFailed (os_now os w) skill msg h,
      \<lparr>in_Status = ''error'', in_DurationMS = elapsed_ms start (os_now os w), in_Error = msg\<rparr>)"

definition finish_ok :: "'w os \<Rightarrow> int \<Rightarrow> string \<Rightarrow> Health \<Rightarrow> 'w \<Rightarrow> Health \<times> InstallResult" where
  "finish_ok os start skill h w =
     (Installed skill h, \<lparr>in_Status = ''ok'', in_DurationMS = elapsed_ms start (os_now os w), in_Error = []\<rparr>)"

definition Install :: "'w os \<Rightarrow> Config \<Rightarrow> SkillInfo \<Rightarrow> Health \<Rightarrow> 'w \<Rightarrow> 'w \<times> Health \<times> InstallResult" where
  "Install os cfg skill h w =
     (let start = os_now os w; name = si_Name skill; reqPath = requirements_path skill; venvDir = VenvDir cfg name in
      if not_exist os reqPath w then (w, finish_ok os start name h w)
      else case os_MkdirAll os (path_Dir venvDir) w of
        (w, Some err) \<Rightarrow> (w, finishFailed os start name (''mkdir cache: '' @ err) h w)
      | (w, None) \<Rightarrow>
          (case (if not_exist os (venv_python_path cfg name) w
                 then os_uv os [''venv'', ''--python'', cf_PythonVersion cfg, venvDir] w else (w, [], None)) of
             (w, out, Some err) \<Rightarrow> (w, finishFailed os start name (''uv venv: '' @ err @ '': '' @ out) h w)
           | (w, _, None) \<Rightarrow>
               (case os_uv os [''pip'', ''install'', ''-r'', reqPath, ''--python'', venv_python_path cfg name] w of
                  (w, out, Some err) \<Rightarrow> (w, finishFailed os start name (''uv pip install: '' @ err @ '': '' @ out) h w)
                | (w, _, None) \<Rightarrow> (w, finish_ok os start name h w))))"

text \<open>\<^verbatim>\<open>Prewarm\<close>, with the installations in the order given (they run on skills of their own).\<close>

definition Prewarm :: "'w os \<Rightarrow> Config \<Rightarrow> SkillInfo list \<Rightarrow> Health \<Rightarrow> 'w \<Rightarrow> 'w \<times> Health" where
  "Prewarm os cfg skills h w =
     fold (\<lambda>s (w, h). let (w', h', _) = Install os cfg s h w in (w', h')) (filter si_Prewarm skills) (w, h)"

section \<open>Running a script\<close>

definition resolveScriptPath :: "filesystem \<Rightarrow> string \<Rightarrow> string \<Rightarrow> exec_error + string" where
  "resolveScriptPath fs skillRoot rel =
     (if rel = [] then Inl (ErrInvalidRequest ''script is required'')
      else if IsAbs rel then Inl ErrScriptPathAbsolute
      else let clean = path_Clean rel in
        if ''..'' \<in> set (split_on (CHR ''/'') clean) then Inl ErrScriptPathEscape
        else case fs_EvalSymlinks fs skillRoot of
          Inl _ \<Rightarrow> Inl (ExecIO ''resolve skill root'')
        | Inr rootResolved \<Rightarrow>
            (case fs_EvalSymlinks fs (path_Join skillRoot clean) of
               Inl NotExist \<Rightarrow> Inl ErrScriptMissing
             | Inl (OtherError e) \<Rightarrow> Inl (ExecIO (''resolve script: '' @ e))
             | Inr resolved \<Rightarrow>
                 if resolved \<noteq> rootResolved \<and> \<not> has_prefix (resolved @ ''/'') (rootResolved @ ''/'')
                 then Inl ErrScriptPathEscape
                 else (case fs_Stat fs resolved of
                    Inl _ \<Rightarrow> Inl (ExecIO ''stat'')
                  | Inr (regular, _) \<Rightarrow> if regular then Inr resolved else Inl ErrScriptNotRegular)))"

text \<open>\<^verbatim>\<open>filepath.Ext\<close>: from the last dot of the last element.\<close>

definition path_Ext :: "string \<Rightarrow> string" where
  "path_Ext path =
     (let r = takeWhile (\<lambda>c. c \<noteq> CHR ''/'') (rev path) in
      if CHR ''.'' \<in> set r then CHR ''.'' # rev (takeWhile (\<lambda>c. c \<noteq> CHR ''.'') r) else [])"

definition pickInterpreter :: "string \<Rightarrow> string \<Rightarrow> string" where
  "pickInterpreter scriptPath venvPython =
     (let ext = to_lower (path_Ext scriptPath) in
      if ext = ''.py'' then (if venvPython \<noteq> [] then venvPython else ''python3'')
      else if ext = ''.sh'' then ''sh'' else scriptPath)"

definition buildSubprocessEnv :: "'w os \<Rightarrow> string \<Rightarrow> string \<Rightarrow> 'w \<Rightarrow> string list" where
  "buildSubprocessEnv os venvDir workspace w =
     (let path = ''/usr/local/bin:/usr/bin:/bin'';
          path = (if venvDir \<noteq> [] \<and> exists os (path_Join venvDir ''bin'') w
                  then path_Join venvDir ''bin'' @ '':'' @ path else path)
      in [''PATH='' @ path, ''HOME='' @ workspace, ''WORKSPACE_DIR='' @ workspace, ''LANG=C.UTF-8'', ''PYTHONUNBUFFERED=1''] @
         (if venvDir \<noteq> [] \<and> exists os venvDir w then [''VIRTUAL_ENV='' @ venvDir] else []))"

record spawn_result =
  sp_exitCode :: int
  sp_stdout :: string
  sp_stdoutTrunc :: bool
  sp_stderr :: string
  sp_stderrTrunc :: bool
  sp_timedOut :: bool
  sp_err :: "string option"

definition spawn_failed :: "string \<Rightarrow> spawn_result" where
  "spawn_failed err = \<lparr>sp_exitCode = -1, sp_stdout = [], sp_stdoutTrunc = False, sp_stderr = err,
     sp_stderrTrunc = False, sp_timedOut = False, sp_err = Some err\<rparr>"

text \<open>The part of \<^verbatim>\<open>spawn\<close> after the command is set up.\<close>

definition spawn_outcome :: "Config \<Rightarrow> process \<Rightarrow> spawn_result" where
  "spawn_outcome cfg p =
     (case (pc_outFile p, pc_errFile p, pc_startErr p) of
        (Some err, _, _) \<Rightarrow> spawn_failed err
      | (None, Some err, _) \<Rightarrow> spawn_failed err
      | (None, None, Some err) \<Rightarrow> spawn_failed err
      | (None, None, None) \<Rightarrow>
          let (out, outTrunc) = cappedBuffer_String (write_all (pc_stdout p) (newCappedBuffer (cf_StdoutCapBytes cfg)));
              (err, errTrunc) = cappedBuffer_String (write_all (pc_stderr p) (newCappedBuffer (cf_StderrCapBytes cfg)));
              (exitCode, runErr) =
                (if pc_deadline p then (-1, None)
                 else case pc_exit p of
                   Some c \<Rightarrow> (c, None)
                 | None \<Rightarrow> (case pc_waitErr p of Some e \<Rightarrow> (-1, Some e) | None \<Rightarrow> (0, None)))
          in \<lparr>sp_exitCode = exitCode, sp_stdout = out, sp_stdoutTrunc = outTrunc, sp_stderr = err,
              sp_stderrTrunc = errTrunc, sp_timedOut = pc_deadline p, sp_err = runErr\<rparr>)"

text \<open>The deadline a request gets: its own if it is set and below the service's limit.\<close>

definition effective_timeout :: "Config \<Rightarrow> int \<Rightarrow> int" where
  "effective_timeout cfg timeoutS =
     (if timeoutS > 0 \<and> wrap64 (timeoutS * second) < cf_MaxTimeout cfg then wrap64 (timeoutS * second) else cf_MaxTimeout cfg)"

record OutputFile =
  of_Path :: string
  of_MIME :: string
  of_Bytes :: int

definition detectMIME :: "'w os \<Rightarrow> string \<Rightarrow> 'w \<Rightarrow> string" where
  "detectMIME os path w =
     (let m = mimeByExt (to_lower (path_Ext path)) in if m \<noteq> [] then m else os_sniff os w path)"

definition detectOutputs :: "'w os \<Rightarrow> string \<Rightarrow> 'w \<Rightarrow> OutputFile list" where
  "detectOutputs os workspace w =
     (case os_ReadDir os w workspace of
        None \<Rightarrow> []
      | Some es \<Rightarrow> List.map_filter (\<lambda>(name, regular).
          if has_prefix name ''.'' \<or> \<not> regular then None
          else let full = path_Join workspace name in
            case fs_Stat (os_fs os w) full of
              Inl _ \<Rightarrow> None
            | Inr (_, sz) \<Rightarrow> Some \<lparr>of_Path = full, of_MIME = detectMIME os full w, of_Bytes = sz\<rparr>) es)"

record RunResponse =
  rn_ExitCode :: int
  rn_Stdout :: string
  rn_StdoutTruncated :: bool
  rn_Stderr :: string
  rn_StderrTruncated :: bool
  rn_WorkspaceDir :: string
  rn_Outputs :: "OutputFile list"
  rn_DurationMS :: int
  rn_TimedOut :: bool
  rn_InstallDurationMS :: int

text \<open>The lazy installation of \<^verbatim>\<open>Run\<close>: the world, the health record and the result of an installation if one ran.\<close>

definition lazy_install :: "'w os \<Rightarrow> Config \<Rightarrow> SkillInfo \<Rightarrow> Health \<Rightarrow> 'w \<Rightarrow> 'w \<times> Health \<times> InstallResult option" where
  "lazy_install os cfg skill h w =
     (if exists os (requirements_path skill) w \<and> VenvPython os cfg (si_Name skill) w = []
      then let (w, h, res) = Install os cfg skill h w in (w, h, Some res)
      else (w, h, None))"

definition run_command :: "'w os \<Rightarrow> Config \<Rightarrow> RunRequest \<Rightarrow> string \<Rightarrow> SkillInfo \<Rightarrow> Workspace \<Rightarrow> 'w \<Rightarrow> command" where
  "run_command os cfg req scriptPath skill ws w =
     \<lparr>cm_Path = pickInterpreter scriptPath (VenvPython os cfg (si_Name skill) w),
      cm_Args = scriptPath # rr_Args req, cm_Dir = si_Root skill,
      cm_Env = buildSubprocessEnv os (VenvDir cfg (si_Name skill)) (wk_Dir ws) w,
      cm_Stdin = rr_Stdin req, cm_Timeout = effective_timeout cfg (rr_TimeoutS req)\<rparr>"

definition run_response :: "Config \<Rightarrow> process \<Rightarrow> Workspace \<Rightarrow> OutputFile list \<Rightarrow> int \<Rightarrow> RunResponse" where
  "run_response cfg p ws outputs installMS =
     (let s = spawn_outcome cfg p;
          hard = (sp_err s \<noteq> None \<and> \<not> sp_timedOut s)
      in \<lparr>rn_ExitCode = (if hard \<and> sp_exitCode s = 0 then -1 else sp_exitCode s),
          rn_Stdout = sp_stdout s, rn_StdoutTruncated = sp_stdoutTrunc s,
          rn_Stderr = (if hard then appendWithCap (sp_stderr s) (nl # the (sp_err s)) (cf_StderrCapBytes cfg) else sp_stderr s),
          rn_StderrTruncated = sp_stderrTrunc s, rn_WorkspaceDir = wk_Dir ws, rn_Outputs = outputs,
          rn_DurationMS = pc_duration p, rn_TimedOut = sp_timedOut s, rn_InstallDurationMS = installMS\<rparr>)"

definition finalize_workspace :: "'w os \<Rightarrow> SkillInfo \<Rightarrow> RunRequest \<Rightarrow> spawn_result \<Rightarrow> Workspace \<Rightarrow> 'w \<Rightarrow> 'w" where
  "finalize_workspace os skill req s ws w =
     os_WriteFile os (path_Join (wk_Dir ws) ''.metadata.json'')
       (os_marshal os (enc_WorkspaceMetadata (os_formatTime os)
          \<lparr>wm_Skill = si_Name skill, wm_Script = rr_Script req, wm_Args = rr_Args req,
           wm_InvocationID = wk_InvocationID ws, wm_StartedAt = wk_StartedAt ws, wm_EndedAt = os_now os w,
           wm_ExitCode = sp_exitCode s, wm_TimedOut = sp_timedOut s\<rparr>)) w"

definition Runner_Run ::
  "'w os \<Rightarrow> Config \<Rightarrow> RunRequest \<Rightarrow> SkillInfo \<Rightarrow> Health \<Rightarrow> 'w \<Rightarrow> 'w \<times> Health \<times> (exec_error + RunResponse)" where
  "Runner_Run os cfg req skill h w =
     (case resolveScriptPath (os_fs os w) (si_Root skill) (rr_Script req) of
        Inl err \<Rightarrow> (w, h, Inl err)
      | Inr scriptPath \<Rightarrow>
          (case lazy_install os cfg skill h w of (w, h, inst) \<Rightarrow>
             let installMS = (case inst of None \<Rightarrow> 0 | Some res \<Rightarrow> in_DurationMS res) in
             if (case inst of None \<Rightarrow> False | Some res \<Rightarrow> in_Status res \<noteq> ''ok'') then
               (w, h, Inr \<lparr>rn_ExitCode = -1, rn_Stdout = [], rn_StdoutTruncated = False, rn_Stderr = in_Error (the inst),
                  rn_StderrTruncated = False, rn_WorkspaceDir = [], rn_Outputs = [], rn_DurationMS = 0,
                  rn_TimedOut = False, rn_InstallDurationMS = installMS\<rparr>)
             else
               (case os_random os w of (w, invID) \<Rightarrow>
                let dir = path_Join (path_Join (cf_WorkspaceDir cfg) (sanitizeSessionID (rr_SessionID req))) (the invID);
                    (w, mkErr) = (if invID = None then (w, None) else os_MkdirAll os dir w)
                in case Allocate (\<lambda>_. mkErr) invID (os_now os w) (cf_WorkspaceDir cfg) (rr_SessionID req) of
                     Inl err \<Rightarrow> (w, h, Inl err)
                   | Inr ws \<Rightarrow>
                       (case os_exec os (run_command os cfg req scriptPath skill ws w) w of (w, p) \<Rightarrow>
                          let w = finalize_workspace os skill req (spawn_outcome cfg p) ws w
                          in (w, h, Inr (run_response cfg p ws (detectOutputs os (wk_Dir ws) w) installMS))))))"

section \<open>Shell commands\<close>

record BashResponse =
  bs_ExitCode :: int
  bs_Stdout :: string
  bs_StdoutTruncated :: bool
  bs_Stderr :: string
  bs_StderrTruncated :: bool
  bs_SandboxDir :: string
  bs_DurationMS :: int
  bs_TimedOut :: bool

definition buildBashEnv :: "string \<Rightarrow> string list" where
  "buildBashEnv sandboxDir =
     [''PATH=/usr/local/bin:/usr/bin:/bin'', ''HOME='' @ sandboxDir, ''LANG=C.UTF-8'', ''PYTHONUNBUFFERED=1'']"

definition bash_command :: "Config \<Rightarrow> BashRequest \<Rightarrow> string \<Rightarrow> command" where
  "bash_command cfg req dir =
     \<lparr>cm_Path = ''sh'', cm_Args = [''-c'', br_Command req], cm_Dir = dir, cm_Env = buildBashEnv dir, cm_Stdin = [],
      cm_Timeout = effective_timeout cfg (br_TimeoutS req)\<rparr>"

text \<open>The marker is touched again after the run, whatever that gives.\<close>

definition touch_again :: "'w os \<Rightarrow> string \<Rightarrow> 'w \<Rightarrow> 'w" where
  "touch_again os sessionID w =
     (let safe = sanitizeSessionID sessionID; r = os_sandboxes os w in
      case map_of r safe of
        Some (Some d) \<Rightarrow> (case touchLastAccess (os_marker os w) (os_now os w) d of
           Inl _ \<Rightarrow> w | Inr d' \<Rightarrow> os_set_sandboxes os (AList.update safe (Some d') r) w)
      | _ \<Rightarrow> w)"

text \<open>The other \<^verbatim>\<open>spawn\<close> differs in one branch: without a process state the exit code is 0 whatever \<^verbatim>\<open>Wait\<close> says.\<close>

definition bash_outcome :: "Config \<Rightarrow> process \<Rightarrow> spawn_result" where
  "bash_outcome cfg p =
     (let s = spawn_outcome cfg p in
      if pc_outFile p = None \<and> pc_errFile p = None \<and> pc_startErr p = None \<and> \<not> pc_deadline p \<and> pc_exit p = None
      then s\<lparr>sp_exitCode := 0\<rparr> else s)"

definition BashRunner_Run :: "'w os \<Rightarrow> Config \<Rightarrow> BashRequest \<Rightarrow> 'w \<Rightarrow> 'w \<times> (exec_error + BashResponse)" where
  "BashRunner_Run os cfg req w =
     (if br_Command req = [] then (w, Inl (ExecIO ''command is required''))
      else if br_SessionID req = [] then (w, Inl (ExecIO ''session_id is required''))
      else
        let (w, mkErr) = (if cf_SandboxDir cfg = [] then (w, None)
              else os_MkdirAll os (path_Join (cf_SandboxDir cfg) (sanitizeSessionID (br_SessionID req))) w);
            (r, res) = SandboxFor mkErr (os_marker os w) (os_now os w) (cf_SandboxDir cfg) (br_SessionID req) (os_sandboxes os w);
            w = os_set_sandboxes os r w
        in case res of
             Inl err \<Rightarrow> (w, Inl err)
           | Inr dir \<Rightarrow>
               (case os_exec os (bash_command cfg req dir) w of (w, p) \<Rightarrow>
                  let s = bash_outcome cfg p; w = touch_again os (br_SessionID req) w
                  in (w, Inr \<lparr>bs_ExitCode = sp_exitCode s, bs_Stdout = sp_stdout s, bs_StdoutTruncated = sp_stdoutTrunc s,
                       bs_Stderr = sp_stderr s, bs_StderrTruncated = sp_stderrTrunc s, bs_SandboxDir = dir,
                       bs_DurationMS = pc_duration p, bs_TimedOut = sp_timedOut s\<rparr>)))"

section \<open>The HTTP handlers\<close>

text \<open>
  \<open>first_value\<close> takes the first JSON value off a text and gives the rest, or nothing. The decoder's own message, which
  follows the prefix of a decoding error, is left out.
\<close>

definition maxRequestBodyBytes :: nat where "maxRequestBodyBytes = 1048576"

definition json_space :: "char \<Rightarrow> bool" where
  "json_space c \<longleftrightarrow> c \<in> {CHR 0x20, CHR 0x09, CHR 0x0A, CHR 0x0D}"

definition more_data :: "string \<Rightarrow> bool" where
  "more_data rest =
     (case dropWhile json_space rest of [] \<Rightarrow> False | c # _ \<Rightarrow> c \<noteq> CHR '']'' \<and> c \<noteq> CHR ''}'')"

definition known_fields :: "string list \<Rightarrow> json \<Rightarrow> bool" where
  "known_fields names j =
     (case j of JObj kvs \<Rightarrow> \<forall>k \<in> set (map fst kvs). \<exists>n \<in> set names. fold_key k = fold_key n | _ \<Rightarrow> True)"

definition decodeJSONBody ::
  "(string \<Rightarrow> (json \<times> string) option) \<Rightarrow> string list \<Rightarrow> (json \<Rightarrow> 'a option) \<Rightarrow> string \<Rightarrow> string + 'a" where
  "decodeJSONBody first_value names dec body =
     (case first_value (take maxRequestBodyBytes body) of
        None \<Rightarrow> Inl ''invalid request body: ''
      | Some (j, rest) \<Rightarrow>
          if \<not> known_fields names j then Inl ''invalid request body: ''
          else case dec j of
            None \<Rightarrow> Inl ''invalid request body: ''
          | Some x \<Rightarrow> if more_data rest then Inl ''invalid request body: trailing data after JSON object'' else Inr x)"

datatype exec_reply =
    ReplyError string
  | ReplyRun RunResponse
  | ReplyBash BashResponse
  | ReplyInstall string int string
  | ReplyHealth HealthResponse

fun exec_error_text :: "exec_error \<Rightarrow> string" where
  "exec_error_text ErrSkillUnknown = ''skill not found''"
| "exec_error_text ErrScriptPathEscape = ''script path escapes the skill root''"
| "exec_error_text ErrScriptPathAbsolute = ''script path must be relative''"
| "exec_error_text ErrScriptNotRegular = ''script must be a regular file''"
| "exec_error_text ErrScriptMissing = ''script does not exist''"
| "exec_error_text ErrNetworkDenied = ''network policy denies this skill''"
| "exec_error_text ErrWorkspaceFull = ''workspace tmpfs is full''"
| "exec_error_text ErrInstallFailed = ''dependency install failed''"
| "exec_error_text (ErrInvalidRequest s) = ''invalid request: '' @ s"
| "exec_error_text (ExecIO s) = s"

fun run_error_status :: "exec_error \<Rightarrow> int \<times> string" where
  "run_error_status ErrWorkspaceFull = (409, exec_error_text ErrWorkspaceFull)"
| "run_error_status (ExecIO _) = (500, ''internal error'')"
| "run_error_status ErrSkillUnknown = (500, ''internal error'')"
| "run_error_status ErrNetworkDenied = (500, ''internal error'')"
| "run_error_status ErrInstallFailed = (500, ''internal error'')"
| "run_error_status err = (400, exec_error_text err)"

definition run_fields :: "string list" where
  "run_fields = [''skill'', ''script'', ''args'', ''stdin'', ''timeout_s'', ''session_id'']"

definition bash_fields :: "string list" where
  "bash_fields = [''command'', ''session_id'', ''timeout_s'']"

definition exec_handleRun ::
  "'w os \<Rightarrow> Config \<Rightarrow> (string \<Rightarrow> (json \<times> string) option) \<Rightarrow> SkillInfo list \<Rightarrow> string \<Rightarrow> string \<Rightarrow> Health \<Rightarrow> 'w \<Rightarrow>
     'w \<times> Health \<times> int \<times> exec_reply" where
  "exec_handleRun os cfg first_value skills meth body h w =
     (if meth \<noteq> ''POST'' then (w, h, 405, ReplyError ''method not allowed'')
      else case decodeJSONBody first_value run_fields dec_RunRequest body of
        Inl err \<Rightarrow> (w, h, 400, ReplyError err)
      | Inr req \<Rightarrow>
          if rr_Skill req = [] \<or> rr_Script req = [] then (w, h, 400, ReplyError ''skill and script are required'')
          else (case LookupSkill skills (rr_Skill req) of
             None \<Rightarrow> (w, h, 400, ReplyError (''skill not found: '' @ rr_Skill req))
           | Some skill \<Rightarrow>
               if \<not> pd_Allow (Policy (si_Name skill) cfg) then (w, h, 400, ReplyError (pd_Reason (Policy (si_Name skill) cfg)))
               else (case Runner_Run os cfg req skill h w of
                  (w, h, Inl err) \<Rightarrow> (w, h, fst (run_error_status err), ReplyError (snd (run_error_status err)))
                | (w, h, Inr resp) \<Rightarrow> (w, h, 200, ReplyRun resp))))"

definition dec_InstallRequest :: "json \<Rightarrow> string option" where
  "dec_InstallRequest = dec_struct [fld ''skill'' dec_string (\<lambda>s. s) (\<lambda>f s. f s)] []"

definition exec_handleInstall ::
  "'w os \<Rightarrow> Config \<Rightarrow> (string \<Rightarrow> (json \<times> string) option) \<Rightarrow> SkillInfo list \<Rightarrow> string \<Rightarrow> string \<Rightarrow> Health \<Rightarrow> 'w \<Rightarrow>
     'w \<times> Health \<times> int \<times> exec_reply" where
  "exec_handleInstall os cfg first_value skills meth body h w =
     (if meth \<noteq> ''POST'' then (w, h, 405, ReplyError ''method not allowed'')
      else case decodeJSONBody first_value [''skill''] dec_InstallRequest body of
        Inl err \<Rightarrow> (w, h, 400, ReplyError err)
      | Inr name \<Rightarrow>
          if name = [] then (w, h, 400, ReplyError ''skill is required'')
          else (case LookupSkill skills name of
             None \<Rightarrow> (w, h, 400, ReplyError (''skill not found: '' @ name))
           | Some skill \<Rightarrow>
               (case Install os cfg skill h w of
                  (w, h, res) \<Rightarrow> (w, h, 200, ReplyInstall (in_Status res) (in_DurationMS res) (in_Error res)))))"

definition exec_handleBash ::
  "'w os \<Rightarrow> Config \<Rightarrow> (string \<Rightarrow> (json \<times> string) option) \<Rightarrow> string \<Rightarrow> string \<Rightarrow> 'w \<Rightarrow> 'w \<times> int \<times> exec_reply" where
  "exec_handleBash os cfg first_value meth body w =
     (if meth \<noteq> ''POST'' then (w, 405, ReplyError ''method not allowed'')
      else case decodeJSONBody first_value bash_fields dec_BashRequest body of
        Inl err \<Rightarrow> (w, 400, ReplyError err)
      | Inr req \<Rightarrow>
          if br_Command req = [] then (w, 400, ReplyError ''command is required'')
          else if br_SessionID req = [] then (w, 400, ReplyError ''session_id is required'')
          else if cf_NetworkDefault cfg = NetDeny then (w, 400, ReplyError ''network policy denies bash'')
          else (case BashRunner_Run os cfg req w of
             (w, Inl err) \<Rightarrow> if err = ErrWorkspaceFull then (w, 409, ReplyError (exec_error_text err))
                            else (w, 500, ReplyError ''internal error'')
           | (w, Inr resp) \<Rightarrow> (w, 200, ReplyBash resp)))"

definition exec_handleHealth :: "(int \<Rightarrow> string) \<Rightarrow> string \<Rightarrow> Health \<Rightarrow> int \<times> exec_reply" where
  "exec_handleHealth format meth h =
     (if meth \<noteq> ''GET'' then (405, ReplyError ''method not allowed'')
      else let snap = Health_Snapshot format h in
        (200, ReplyHealth (snap\<lparr>hr_PrewarmedSkills := sort (hr_PrewarmedSkills snap)\<rparr>)))"

definition exec_Handler ::
  "'w os \<Rightarrow> Config \<Rightarrow> (string \<Rightarrow> (json \<times> string) option) \<Rightarrow> SkillInfo list \<Rightarrow> string \<Rightarrow> string \<Rightarrow> string \<Rightarrow> Health \<Rightarrow> 'w \<Rightarrow>
     'w \<times> Health \<times> int \<times> exec_reply" where
  "exec_Handler os cfg first_value skills path meth body h w =
     (if path = ''/v1/run'' then exec_handleRun os cfg first_value skills meth body h w
      else if path = ''/v1/install'' then exec_handleInstall os cfg first_value skills meth body h w
      else if path = ''/v1/health'' then (w, h, exec_handleHealth (os_formatTime os) meth h)
      else if path = ''/v1/bash'' then (case exec_handleBash os cfg first_value meth body w of (w, r) \<Rightarrow> (w, h, r))
      else (w, h, 404, ReplyError ''not found''))"

section \<open>What the service starts\<close>

text \<open>The file behind a script path that resolves, shared with the reader of skill files in form.\<close>

lemma resolveScriptPath_confined:
  assumes "resolveScriptPath fs base rel = Inr script"
  shows "\<exists>rr sz. fs_EvalSymlinks fs base = Inr rr \<and> (script = rr \<or> (\<exists>below. script = rr @ ''/'' @ below)) \<and>
    fs_Stat fs script = Inr (True, sz)"
proof -
  have pre: "x = r \<or> (\<exists>below. x = r @ ''/'' @ below)" if "has_prefix (x @ ''/'') (r @ ''/'')" for x r :: string
  proof -
    from that obtain t where t: "x @ ''/'' = (r @ ''/'') @ t" by (auto simp: has_prefix_iff)
    show ?thesis by (cases t rule: rev_cases) (use t in auto)
  qed
  from assms show ?thesis
    by (auto simp: resolveScriptPath_def Let_def split: if_splits sum.splits fs_error.splits prod.splits dest: pre)
qed

lemma effective_timeout_le: "effective_timeout cfg t \<le> cf_MaxTimeout cfg"
  by (simp add: effective_timeout_def)

definition env_names :: "string list" where
  "env_names = [''PATH='', ''HOME='', ''WORKSPACE_DIR='', ''LANG='', ''PYTHONUNBUFFERED='', ''VIRTUAL_ENV='']"

lemma buildSubprocessEnv_names:
  "v \<in> set (buildSubprocessEnv os venv ws w) \<Longrightarrow> \<exists>n \<in> set env_names. has_prefix v n"
  by (auto simp: buildSubprocessEnv_def env_names_def has_prefix_def Let_def split: if_splits)

lemma buildSubprocessEnv_home: "(''HOME='' @ ws) \<in> set (buildSubprocessEnv os venv ws w)"
  by (simp add: buildSubprocessEnv_def Let_def)

text \<open>
  A command of a run: in the root of a known skill the policy allows, on a regular file inside that root,
  with only the variables listed and a home of its own in the workspace root.
\<close>

definition run_ok :: "'w os \<Rightarrow> Config \<Rightarrow> SkillInfo list \<Rightarrow> 'w \<Rightarrow> command \<Rightarrow> bool" where
  "run_ok os cfg skills w c \<longleftrightarrow>
     (\<exists>skill \<in> set skills. pd_Allow (Policy (si_Name skill) cfg) \<and> cm_Dir c = si_Root skill \<and>
        (\<exists>script args rr sz. cm_Args c = script # args \<and> fs_EvalSymlinks (os_fs os w) (si_Root skill) = Inr rr \<and>
           (script = rr \<or> (\<exists>below. script = rr @ ''/'' @ below)) \<and> fs_Stat (os_fs os w) script = Inr (True, sz))) \<and>
     (\<forall>v \<in> set (cm_Env c). \<exists>n \<in> set env_names. has_prefix v n) \<and>
     (\<exists>session inv. (''HOME='' @ path_Join (path_Join (cf_WorkspaceDir cfg) (sanitizeSessionID session)) inv) \<in> set (cm_Env c))"

definition bash_ok :: "Config \<Rightarrow> command \<Rightarrow> bool" where
  "bash_ok cfg c \<longleftrightarrow> cf_NetworkDefault cfg = NetAllow \<and>
     (\<exists>session line. session \<noteq> [] \<and> cm_Path c = ''sh'' \<and> cm_Args c = [''-c'', line] \<and>
        cm_Dir c = path_Join (cf_SandboxDir cfg) (sanitizeSessionID session) \<and> cm_Env c = buildBashEnv (cm_Dir c))"

definition command_ok :: "'w os \<Rightarrow> Config \<Rightarrow> SkillInfo list \<Rightarrow> 'w \<Rightarrow> command \<Rightarrow> bool" where
  "command_ok os cfg skills w c \<longleftrightarrow> cm_Timeout c \<le> cf_MaxTimeout cfg \<and> (run_ok os cfg skills w c \<or> bash_ok cfg c)"

lemma os_exec_select:
  "os_fs (os\<lparr>os_exec := e\<rparr>) = os_fs os" "os_now (os\<lparr>os_exec := e\<rparr>) = os_now os"
  "os_MkdirAll (os\<lparr>os_exec := e\<rparr>) = os_MkdirAll os" "os_WriteFile (os\<lparr>os_exec := e\<rparr>) = os_WriteFile os"
  "os_uv (os\<lparr>os_exec := e\<rparr>) = os_uv os" "os_ReadDir (os\<lparr>os_exec := e\<rparr>) = os_ReadDir os"
  "os_sniff (os\<lparr>os_exec := e\<rparr>) = os_sniff os" "os_sandboxes (os\<lparr>os_exec := e\<rparr>) = os_sandboxes os"
  "os_set_sandboxes (os\<lparr>os_exec := e\<rparr>) = os_set_sandboxes os" "os_marker (os\<lparr>os_exec := e\<rparr>) = os_marker os"
  "os_marshal (os\<lparr>os_exec := e\<rparr>) = os_marshal os" "os_formatTime (os\<lparr>os_exec := e\<rparr>) = os_formatTime os"
  by simp_all

lemma os_exec_stat:
  "exists (os\<lparr>os_exec := e\<rparr>) = exists os" "not_exist (os\<lparr>os_exec := e\<rparr>) = not_exist os"
  by (unfold exists_def not_exist_def os_exec_select, (rule refl)+)

lemma os_exec_venv: "VenvPython (os\<lparr>os_exec := e\<rparr>) = VenvPython os"
  by (unfold VenvPython_def os_exec_stat, (rule refl)+)

lemma os_exec_install:
  "Install (os\<lparr>os_exec := e\<rparr>) = Install os" "lazy_install (os\<lparr>os_exec := e\<rparr>) = lazy_install os"
  by (unfold lazy_install_def Install_def finish_ok_def finishFailed_def os_exec_select os_exec_stat os_exec_venv, (rule refl)+)

lemma os_exec_run:
  "run_command (os\<lparr>os_exec := e\<rparr>) = run_command os" "finalize_workspace (os\<lparr>os_exec := e\<rparr>) = finalize_workspace os"
  "detectOutputs (os\<lparr>os_exec := e\<rparr>) = detectOutputs os" "touch_again (os\<lparr>os_exec := e\<rparr>) = touch_again os"
  by (unfold run_command_def buildSubprocessEnv_def finalize_workspace_def detectOutputs_def detectMIME_def
      touch_again_def os_exec_select os_exec_stat os_exec_venv, (rule refl)+)

lemmas os_exec_irrelevant = os_exec_select os_exec_stat os_exec_venv os_exec_install os_exec_run

lemma run_command_ok:
  assumes "LookupSkill skills name = Some skill" "pd_Allow (Policy (si_Name skill) cfg)"
    and "resolveScriptPath (os_fs os w) (si_Root skill) (rr_Script req) = Inr script"
    and "Allocate mkdir invID now (cf_WorkspaceDir cfg) (rr_SessionID req) = Inr ws"
  shows "command_ok os cfg skills w (run_command os cfg req script skill ws w')"
proof -
  let ?c = "run_command os cfg req script skill ws w'"
  from assms(1) have skill: "skill \<in> set skills" by (auto simp: LookupSkill_def dest: find_Some_in)
  from assms(4) obtain i where i: "wk_Dir ws = path_Join (path_Join (cf_WorkspaceDir cfg) (sanitizeSessionID (rr_SessionID req))) i"
    by (auto simp: Allocate_def Let_def split: option.splits if_splits)
  have "\<forall>v \<in> set (cm_Env ?c). \<exists>n \<in> set env_names. has_prefix v n"
    using buildSubprocessEnv_names by (auto simp: run_command_def)
  moreover have "(''HOME='' @ path_Join (path_Join (cf_WorkspaceDir cfg) (sanitizeSessionID (rr_SessionID req))) i) \<in> set (cm_Env ?c)"
    using buildSubprocessEnv_home [of "wk_Dir ws"] by (simp add: run_command_def i)
  moreover have "cm_Dir ?c = si_Root skill" "cm_Args ?c = script # rr_Args req" by (simp_all add: run_command_def)
  ultimately have "run_ok os cfg skills w ?c"
    using resolveScriptPath_confined [OF assms(3)] skill assms(2) unfolding run_ok_def by blast
  then show ?thesis by (simp add: command_ok_def run_command_def effective_timeout_le)
qed

lemma bash_command_ok:
  assumes "SandboxFor mk cr now (cf_SandboxDir cfg) (br_SessionID req) r = (r', Inr dir)"
    and "br_SessionID req \<noteq> []" "cf_NetworkDefault cfg = NetAllow"
  shows "command_ok os cfg skills w (bash_command cfg req dir)"
proof -
  from assms(1) have "dir = path_Join (cf_SandboxDir cfg) (sanitizeSessionID (br_SessionID req))"
    by (auto simp: SandboxFor_def Let_def split: if_splits option.splits sum.splits)
  then show ?thesis using assms(2,3)
    by (auto simp: command_ok_def bash_ok_def bash_command_def effective_timeout_le)
qed

lemma Runner_Run_commands:
  assumes "\<And>c w'. command_ok os cfg skills w c \<Longrightarrow> e c w' = os_exec os c w'"
    and "LookupSkill skills name = Some skill" "pd_Allow (Policy (si_Name skill) cfg)"
  shows "Runner_Run (os\<lparr>os_exec := e\<rparr>) cfg req skill h w = Runner_Run os cfg req skill h w"
proof (cases "resolveScriptPath (os_fs os w) (si_Root skill) (rr_Script req)")
  case (Inl err)
  then show ?thesis by (simp add: Runner_Run_def)
next
  case (Inr script)
  note ok = assms(1) [OF run_command_ok [OF assms(2,3) Inr]]
  show ?thesis unfolding Runner_Run_def os_exec_irrelevant
    by (auto simp: Inr ok Let_def split: prod.splits sum.splits option.splits)
qed

lemma BashRunner_Run_commands:
  assumes "\<And>c w'. command_ok os cfg skills w c \<Longrightarrow> e c w' = os_exec os c w'"
    and "cf_NetworkDefault cfg = NetAllow"
  shows "BashRunner_Run (os\<lparr>os_exec := e\<rparr>) cfg req w = BashRunner_Run os cfg req w"
proof (cases "br_SessionID req = []")
  case False
  note ok = assms(1) [OF bash_command_ok [OF _ False assms(2)]]
  show ?thesis unfolding BashRunner_Run_def os_exec_irrelevant
    by (auto simp: ok Let_def split: prod.splits sum.splits)
qed (simp add: BashRunner_Run_def)


text \<open>A world that counts the commands started.\<close>

definition sample_process :: process where
  "sample_process = \<lparr>pc_outFile = None, pc_errFile = None, pc_startErr = None, pc_stdout = [''hi''], pc_stderr = [],
     pc_deadline = False, pc_exit = Some 0, pc_waitErr = None, pc_duration = 5\<rparr>"

definition sample_os :: "nat os" where
  "sample_os = \<lparr>os_fs = (\<lambda>_. \<lparr>fs_EvalSymlinks = (\<lambda>_. Inl NotExist), fs_Stat = (\<lambda>_. Inl NotExist), fs_ReadFile = (\<lambda>_. Inl NotExist)\<rparr>),
     os_now = (\<lambda>_. 0), os_MkdirAll = (\<lambda>_ w. (w, None)), os_WriteFile = (\<lambda>_ _ w. w), os_uv = (\<lambda>_ w. (w, [], None)),
     os_exec = (\<lambda>_ w. (Suc w, sample_process)), os_random = (\<lambda>w. (w, None)), os_ReadDir = (\<lambda>_ _. None),
     os_sniff = (\<lambda>_ _. []), os_sandboxes = (\<lambda>_. []), os_set_sandboxes = (\<lambda>_ w. w), os_marker = (\<lambda>_. None),
     os_marshal = (\<lambda>_. []), os_formatTime = (\<lambda>_. [])\<rparr>"

definition sample_body :: "string \<Rightarrow> (json \<times> string) option" where
  "sample_body s = Some (JObj [(''command'', JStr ''ls''), (''session_id'', JStr ''a.b''), (''timeout_s'', JInt 500)], [])"


end
