(* ===== verification/Go_Http.thy ===== *)
theory Go_Http
  imports Go_Json
begin

text \<open>
  The exchange both HTTP clients of the program make: marshal a body, send a request, read the answer, turn a
  status outside 2xx into an error that carries the body, and decode what there is. What is behind the
  transport is a state that a request may change.
\<close>

record wire_request =
  hq_Method :: string
  hq_URL :: string
  hq_Body :: "json option"
  hq_Headers :: "(string \<times> string) list"

datatype wire_reply =
    HttpError string            \<comment> \<open>no answer\<close>
  | HttpReply int string        \<comment> \<open>status and body\<close>

type_synonym 'w transport = "wire_request \<Rightarrow> 'w \<Rightarrow> 'w \<times> wire_reply"

datatype rest_error =
    RestStatus int string string string     \<comment> \<open>\<^verbatim>\<open>Error{StatusCode, Method, Path, Body}\<close>\<close>
  | RestTransport string string string
  | RestDecode string string
  | RestArgument string

text \<open>\<^verbatim>\<open>strings.TrimRight(s, "/")\<close>.\<close>

definition trim_right_slash :: "string \<Rightarrow> string" where
  "trim_right_slash s = rev (dropWhile (\<lambda>c. c = CHR ''/'') (rev s))"

text \<open>
  \<open>dec\<close> is \<open>None\<close> for a nil \<^verbatim>\<open>out\<close>. An answer with no body leaves the zero value.
\<close>

definition rest_call ::
  "'w transport \<Rightarrow> (string \<Rightarrow> json option) \<Rightarrow> string \<Rightarrow> (string \<times> string) list \<Rightarrow> string \<Rightarrow> string \<Rightarrow> json option \<Rightarrow>
     'a \<Rightarrow> (json \<Rightarrow> 'a option) option \<Rightarrow> 'w \<Rightarrow> 'w \<times> (rest_error + 'a)" where
  "rest_call http parse baseURL headers method path body zero dec w =
     (let req = \<lparr>hq_Method = method, hq_URL = baseURL @ path, hq_Body = body,
                 hq_Headers = (if body = None then [] else [(''Content-Type'', ''application/json'')]) @
                   [(''Accept'', ''application/json'')] @ headers\<rparr>
      in case http req w of
           (w', HttpError err) \<Rightarrow> (w', Inl (RestTransport method path err))
         | (w', HttpReply code respBody) \<Rightarrow>
             if code < 200 \<or> code \<ge> 300 then (w', Inl (RestStatus code method path respBody))
             else (case dec of
                     None \<Rightarrow> (w', Inr zero)
                   | Some d \<Rightarrow>
                       if respBody = [] then (w', Inr zero)
                       else (case Option.bind (parse respBody) d of
                               None \<Rightarrow> (w', Inl (RestDecode method path))
                             | Some v \<Rightarrow> (w', Inr v))))"

lemma trim_right_slash_no_slash: "trim_right_slash s = [] \<or> last (trim_right_slash s) \<noteq> CHR ''/''"
proof -
  have "dropWhile (\<lambda>c. c = CHR ''/'') (rev s) = [] \<or> hd (dropWhile (\<lambda>c. c = CHR ''/'') (rev s)) \<noteq> CHR ''/''"
    using hd_dropWhile [of "\<lambda>c. c = CHR ''/''" "rev s"] by blast
  then show ?thesis by (auto simp: trim_right_slash_def last_rev)
qed

lemma rest_call_ok:
  assumes "\<And>req. http req w = (w', HttpReply code reply)" "200 \<le> code" "code < 300" "reply \<noteq> []" "parse reply = Some j" "d j = Some v"
  shows "rest_call http parse base hs method path body zero (Some d) w = (w', Inr v)"
  using assms by (simp add: rest_call_def Let_def)

end
