(* ===== verification/Exec_Client.thy ===== *)
theory Exec_Client
  imports Exec_Service Go_Http
begin

text \<open>
  The client of the exec service (\<^verbatim>\<open>internal/execclient/execclient.go\<close>), the JSON forms of the envelopes (\<^verbatim>\<open>internal/exec/types.go\<close>), and the way of a call
  through the client to the service and back.
\<close>

section \<open>Envelopes\<close>

definition enc_RunRequest :: "RunRequest \<Rightarrow> json" where
  "enc_RunRequest r = JObj
     ([(''skill'', JStr (rr_Skill r)), (''script'', JStr (rr_Script r))] @
      omit_empty ''args'' (enc_list JStr (rr_Args r)) @
      omit_empty ''stdin'' (JStr (rr_Stdin r)) @
      omit_empty ''timeout_s'' (JInt (rr_TimeoutS r)) @
      omit_empty ''session_id'' (JStr (rr_SessionID r)))"

definition enc_BashRequest :: "BashRequest \<Rightarrow> json" where
  "enc_BashRequest r = JObj
     ([(''command'', JStr (br_Command r)), (''session_id'', JStr (br_SessionID r))] @ omit_empty ''timeout_s'' (JInt (br_TimeoutS r)))"

definition enc_OutputFile :: "OutputFile \<Rightarrow> json" where
  "enc_OutputFile f = JObj [(''path'', JStr (of_Path f)), (''mime'', JStr (of_MIME f)), (''bytes'', JInt (of_Bytes f))]"

definition dec_OutputFile :: "OutputFile decoder" where
  "dec_OutputFile = dec_struct
     [fld ''path'' dec_string of_Path of_Path_update, fld ''mime'' dec_string of_MIME of_MIME_update,
      fld ''bytes'' dec_int of_Bytes of_Bytes_update]"

definition enc_RunResponse :: "RunResponse \<Rightarrow> json" where
  "enc_RunResponse r = JObj
     [(''exit_code'', JInt (rn_ExitCode r)), (''stdout'', JStr (rn_Stdout r)), (''stdout_truncated'', JBool (rn_StdoutTruncated r)),
      (''stderr'', JStr (rn_Stderr r)), (''stderr_truncated'', JBool (rn_StderrTruncated r)), (''workspace_dir'', JStr (rn_WorkspaceDir r)),
      (''outputs'', enc_list enc_OutputFile (rn_Outputs r)), (''duration_ms'', JInt (rn_DurationMS r)), (''timed_out'', JBool (rn_TimedOut r)),
      (''install_duration_ms'', JInt (rn_InstallDurationMS r))]"

definition dec_RunResponse :: "json \<Rightarrow> RunResponse option" where
  "dec_RunResponse = dec_struct
     [fld ''exit_code'' dec_int rn_ExitCode rn_ExitCode_update,
      fld ''stdout'' dec_string rn_Stdout rn_Stdout_update,
      fld ''stdout_truncated'' dec_bool rn_StdoutTruncated rn_StdoutTruncated_update,
      fld ''stderr'' dec_string rn_Stderr rn_Stderr_update,
      fld ''stderr_truncated'' dec_bool rn_StderrTruncated rn_StderrTruncated_update,
      fld ''workspace_dir'' dec_string rn_WorkspaceDir rn_WorkspaceDir_update,
      fld ''outputs'' (dec_list \<lparr>of_Path = [], of_MIME = [], of_Bytes = 0\<rparr> dec_OutputFile) rn_Outputs rn_Outputs_update,
      fld ''duration_ms'' dec_int rn_DurationMS rn_DurationMS_update,
      fld ''timed_out'' dec_bool rn_TimedOut rn_TimedOut_update,
      fld ''install_duration_ms'' dec_int rn_InstallDurationMS rn_InstallDurationMS_update]
     \<lparr>rn_ExitCode = 0, rn_Stdout = [], rn_StdoutTruncated = False, rn_Stderr = [], rn_StderrTruncated = False, rn_WorkspaceDir = [],
      rn_Outputs = [], rn_DurationMS = 0, rn_TimedOut = False, rn_InstallDurationMS = 0\<rparr>"

definition enc_BashResponse :: "BashResponse \<Rightarrow> json" where
  "enc_BashResponse r = JObj
     [(''exit_code'', JInt (bs_ExitCode r)), (''stdout'', JStr (bs_Stdout r)), (''stdout_truncated'', JBool (bs_StdoutTruncated r)),
      (''stderr'', JStr (bs_Stderr r)), (''stderr_truncated'', JBool (bs_StderrTruncated r)), (''sandbox_dir'', JStr (bs_SandboxDir r)),
      (''duration_ms'', JInt (bs_DurationMS r)), (''timed_out'', JBool (bs_TimedOut r))]"

definition dec_BashResponse :: "json \<Rightarrow> BashResponse option" where
  "dec_BashResponse = dec_struct
     [fld ''exit_code'' dec_int bs_ExitCode bs_ExitCode_update,
      fld ''stdout'' dec_string bs_Stdout bs_Stdout_update,
      fld ''stdout_truncated'' dec_bool bs_StdoutTruncated bs_StdoutTruncated_update,
      fld ''stderr'' dec_string bs_Stderr bs_Stderr_update,
      fld ''stderr_truncated'' dec_bool bs_StderrTruncated bs_StderrTruncated_update,
      fld ''sandbox_dir'' dec_string bs_SandboxDir bs_SandboxDir_update,
      fld ''duration_ms'' dec_int bs_DurationMS bs_DurationMS_update,
      fld ''timed_out'' dec_bool bs_TimedOut bs_TimedOut_update]
     \<lparr>bs_ExitCode = 0, bs_Stdout = [], bs_StdoutTruncated = False, bs_Stderr = [], bs_StderrTruncated = False, bs_SandboxDir = [],
      bs_DurationMS = 0, bs_TimedOut = False\<rparr>"

definition enc_HealthResponse :: "HealthResponse \<Rightarrow> json" where
  "enc_HealthResponse h = JObj
     [(''status'', JStr (hr_Status h)), (''ready'', JBool (hr_Ready h)), (''prewarmed_skills'', enc_list JStr (hr_PrewarmedSkills h)),
      (''failed_installs'', enc_list (\<lambda>f. JObj [(''skill'', JStr (fi_Skill f)), (''error'', JStr (fi_Error f)), (''at'', JStr (fi_At f))])
         (hr_FailedInstalls h))]"

fun enc_exec_reply :: "exec_reply \<Rightarrow> json" where
  "enc_exec_reply (ReplyError msg) = JObj [(''error'', JStr msg)]"
| "enc_exec_reply (ReplyRun r) = enc_RunResponse r"
| "enc_exec_reply (ReplyBash r) = enc_BashResponse r"
| "enc_exec_reply (ReplyInstall status ms err) =
     JObj ([(''status'', JStr status), (''duration_ms'', JInt ms)] @ omit_empty ''error'' (JStr err))"
| "enc_exec_reply (ReplyHealth h) = enc_HealthResponse h"

section \<open>The client\<close>

record exec_client =
  ec_baseURL :: string
  ec_parse :: "string \<Rightarrow> json option"
  ec_failure :: "string \<Rightarrow> client_error"    \<comment> \<open>which kind of failure an error of the transport is\<close>

definition ExecClient_New :: "string \<Rightarrow> (string \<Rightarrow> json option) \<Rightarrow> (string \<Rightarrow> client_error) \<Rightarrow> exec_client" where
  "ExecClient_New baseURL parse failure = \<lparr>ec_baseURL = trim_right_slash baseURL, ec_parse = parse, ec_failure = failure\<rparr>"

definition exec_truncate :: "string \<Rightarrow> nat \<Rightarrow> string" where
  "exec_truncate s n = (if length s \<le> n then s else take n s @ ''...'')"

definition maxResponseBytes :: nat where "maxResponseBytes = 1048576"

definition exec_do ::
  "exec_client \<Rightarrow> 'w transport \<Rightarrow> string \<Rightarrow> string \<Rightarrow> json option \<Rightarrow> (json \<Rightarrow> 'a option) \<Rightarrow> 'w \<Rightarrow> 'w \<times> (client_error + 'a)" where
  "exec_do c http meth path body dec w =
     (case http \<lparr>hq_Method = meth, hq_URL = ec_baseURL c @ path, hq_Body = body,
                 hq_Headers = (if body = None then [] else [(''Content-Type'', ''application/json'')])\<rparr> w of
        (w', HttpError err) \<Rightarrow> (w', Inl (ec_failure c err))
      | (w', HttpReply code respBody) \<Rightarrow>
          let buf = take maxResponseBytes respBody in
          if code < 200 \<or> code \<ge> 300 then (w', Inl (ExecError code (exec_truncate buf 200)))
          else (case Option.bind (ec_parse c buf) dec of
                  None \<Rightarrow> (w', Inl (Unavailable (''execclient decode '' @ path)))
                | Some v \<Rightarrow> (w', Inr v)))"

definition ExecClient_Run :: "exec_client \<Rightarrow> 'w transport \<Rightarrow> RunRequest \<Rightarrow> 'w \<Rightarrow> 'w \<times> (client_error + RunResponse)" where
  "ExecClient_Run c http req = exec_do c http ''POST'' ''/v1/run'' (Some (enc_RunRequest req)) dec_RunResponse"

definition ExecClient_Bash :: "exec_client \<Rightarrow> 'w transport \<Rightarrow> BashRequest \<Rightarrow> 'w \<Rightarrow> 'w \<times> (client_error + BashResponse)" where
  "ExecClient_Bash c http req = exec_do c http ''POST'' ''/v1/bash'' (Some (enc_BashRequest req)) dec_BashResponse"

definition dec_InstallResponse :: "json \<Rightarrow> (string \<times> int \<times> string) option" where
  "dec_InstallResponse = dec_struct
     [fld ''status'' dec_string fst apfst, fld ''duration_ms'' dec_int (fst \<circ> snd) (apsnd \<circ> apfst),
      fld ''error'' dec_string (snd \<circ> snd) (apsnd \<circ> apsnd)] ([], 0, [])"

definition ExecClient_Install :: "exec_client \<Rightarrow> 'w transport \<Rightarrow> string \<Rightarrow> 'w \<Rightarrow> 'w \<times> (client_error + (string \<times> int \<times> string))" where
  "ExecClient_Install c http skill = exec_do c http ''POST'' ''/v1/install'' (Some (JObj [(''skill'', JStr skill)])) dec_InstallResponse"

definition dec_HealthResponse :: "json \<Rightarrow> HealthResponse option" where
  "dec_HealthResponse = dec_struct
     [fld ''status'' dec_string hr_Status hr_Status_update,
      fld ''ready'' dec_bool hr_Ready hr_Ready_update,
      fld ''prewarmed_skills'' (dec_list [] dec_string) hr_PrewarmedSkills hr_PrewarmedSkills_update,
      fld ''failed_installs'' (dec_list \<lparr>fi_Skill = [], fi_Error = [], fi_At = []\<rparr> (dec_struct
         [fld ''skill'' dec_string fi_Skill fi_Skill_update, fld ''error'' dec_string fi_Error fi_Error_update,
          fld ''at'' dec_string fi_At fi_At_update])) hr_FailedInstalls hr_FailedInstalls_update]
     \<lparr>hr_Status = [], hr_Ready = False, hr_PrewarmedSkills = [], hr_FailedInstalls = []\<rparr>"

definition ExecClient_Health :: "exec_client \<Rightarrow> 'w transport \<Rightarrow> 'w \<Rightarrow> 'w \<times> (client_error + HealthResponse)" where
  "ExecClient_Health c http = exec_do c http ''GET'' ''/v1/health'' None dec_HealthResponse"

text \<open>The service as the client reaches it.\<close>

definition exec_http ::
  "'w os \<Rightarrow> Config \<Rightarrow> (string \<Rightarrow> (json \<times> string) option) \<Rightarrow> SkillInfo list \<Rightarrow> (json \<Rightarrow> string) \<Rightarrow> string \<Rightarrow> ('w \<times> Health) transport" where
  "exec_http os cfg first_value skills render base req s =
     (let body = (case hq_Body req of None \<Rightarrow> [] | Some j \<Rightarrow> render j) in
      case exec_Handler os cfg first_value skills (drop (length base) (hq_URL req)) (hq_Method req) body (snd s) (fst s) of
        (w', h', code, reply) \<Rightarrow> ((w', h'), HttpReply code (render (enc_exec_reply reply))))"

section \<open>A shell command from tool to service\<close>

lemma dec_enc_BashRequest: "dec_BashRequest (enc_BashRequest r) = Some r"
  unfolding dec_BashRequest_def enc_BashRequest_def by (cases r) (simp add: key_simps dec_omits)

lemma dec_enc_RunRequest: "dec_RunRequest (enc_RunRequest r) = Some r"
  unfolding dec_RunRequest_def enc_RunRequest_def by (cases r) (simp add: key_simps dec_omits)

lemma dec_enc_BashResponse: "dec_BashResponse (enc_BashResponse r) = Some r"
  unfolding dec_BashResponse_def enc_BashResponse_def by (cases r) (simp add: key_simps)

lemma known_bash_fields: "known_fields bash_fields (enc_BashRequest r)"
  by (auto simp: known_fields_def bash_fields_def enc_BashRequest_def omit_empty_def)

lemma decode_bash_body:
  assumes "length (render (enc_BashRequest req)) \<le> maxRequestBodyBytes"
    "first_value (render (enc_BashRequest req)) = Some (enc_BashRequest req, [])"
  shows "decodeJSONBody first_value bash_fields dec_BashRequest (render (enc_BashRequest req)) = Inr req"
  using assms by (simp add: decodeJSONBody_def known_bash_fields dec_enc_BashRequest more_data_def)

lemma exec_truncate_take: "exec_truncate (take maxResponseBytes s) 200 = exec_truncate s 200"
  by (simp add: exec_truncate_def maxResponseBytes_def min_def)

text \<open>
  C19. A shell command through client and service. For a request with a command and a session that fits the body limit, where the policy
  lets commands run, the client returns exactly what the service's runner returns for that very request, as long as the answer fits
  in the megabyte the client reads; a full set of workspaces is reported as 409, any other failure as 500.
\<close>

theorem exec_bash_end_to_end:
  assumes req: "br_Command req \<noteq> []" "br_SessionID req \<noteq> []" "cf_NetworkDefault cfg \<noteq> NetDeny"
    and sent: "length (render (enc_BashRequest req)) \<le> maxRequestBodyBytes"
      "first_value (render (enc_BashRequest req)) = Some (enc_BashRequest req, [])"
    and fits: "\<And>w' resp. BashRunner_Run os cfg req w = (w', Inr resp) \<Longrightarrow>
      length (render (enc_BashResponse resp)) \<le> maxResponseBytes \<and> ec_parse c (render (enc_BashResponse resp)) = Some (enc_BashResponse resp)"
  shows "ExecClient_Bash c (exec_http os cfg first_value skills render (ec_baseURL c)) req (w, h) =
    (case BashRunner_Run os cfg req w of
       (w', Inr resp) \<Rightarrow> ((w', h), Inr resp)
     | (w', Inl err) \<Rightarrow>
         let (code, msg) = (if err = ErrWorkspaceFull then (409, exec_error_text err) else (500, ''internal error''))
         in ((w', h), Inl (ExecError code (exec_truncate (render (JObj [(''error'', JStr msg)])) 200))))"
proof -
  have h: "exec_Handler os cfg first_value skills ''/v1/bash'' ''POST'' (render (enc_BashRequest req)) h w =
      (case BashRunner_Run os cfg req w of
         (w', Inl err) \<Rightarrow> (w', h, if err = ErrWorkspaceFull then (409, ReplyError (exec_error_text err)) else (500, ReplyError ''internal error''))
       | (w', Inr resp) \<Rightarrow> (w', h, 200, ReplyBash resp))"
    using req decode_bash_body [of render req first_value, OF sent]
    by (auto simp: exec_Handler_def exec_handleBash_def split: prod.splits sum.splits)
  show ?thesis
  proof (cases "BashRunner_Run os cfg req w")
    case (Pair w' res)
    show ?thesis
    proof (cases res)
      case (Inl err)
      with Pair show ?thesis
        by (simp add: ExecClient_Bash_def exec_do_def exec_http_def h exec_truncate_take Let_def)
    next
      case (Inr resp)
      with Pair fits show ?thesis
        by (simp add: ExecClient_Bash_def exec_do_def exec_http_def h dec_enc_BashResponse Let_def)
    qed
  qed
qed

theorem exec_bash_end_to_end_witness:
  "\<exists>first_value render c resp. ExecClient_Bash c (exec_http sample_os (Load (\<lambda>_. [])) first_value [] render (ec_baseURL c))
      \<lparr>br_Command = ''ls'', br_SessionID = ''s'', br_TimeoutS = 0\<rparr> (7, NewHealth) = ((8, NewHealth), Inr resp)"
proof -
  let ?cfg = "Load (\<lambda>_. [])"
  let ?req = "\<lparr>br_Command = ''ls'', br_SessionID = ''s'', br_TimeoutS = 0\<rparr>"
  have cfg: "cf_NetworkDefault ?cfg = envNetMode (\<lambda>_. []) ''EXEC_NETWORK_DEFAULT'' NetAllow" "cf_SandboxDir ?cfg = ''/sandbox''"
    by (simp_all add: Load_def Let_def exec_envOr_def)
  have net: "envNetMode (\<lambda>_. []) ''EXEC_NETWORK_DEFAULT'' NetAllow = NetAllow" by code_simp
  from cfg obtain resp where run: "BashRunner_Run sample_os ?cfg ?req 7 = (8, Inr resp)"
    by (simp add: BashRunner_Run_def sample_os_def SandboxFor_def touchLastAccess_def touch_again_def Let_def)
  let ?c = "\<lparr>ec_baseURL = [], ec_parse = (\<lambda>_. Some (enc_BashResponse resp)), ec_failure = Unavailable\<rparr>"
  have "ExecClient_Bash ?c (exec_http sample_os ?cfg (\<lambda>_. Some (enc_BashRequest ?req, [])) [] (\<lambda>_. ''x'') (ec_baseURL ?c)) ?req (7, NewHealth) =
      ((8, NewHealth), Inr resp)"
    using run by (subst exec_bash_end_to_end) (simp_all add: cfg net maxRequestBodyBytes_def maxResponseBytes_def)
  then show ?thesis by blast
qed

end
