(* ===== verification/Response_Store.thy ===== *)
theory Response_Store
  imports Messaging Valkey
begin

text \<open>
  The response store (\<^verbatim>\<open>internal/response\<close>): responses kept as hashes in Valkey, the list of responses
  of each session, the backward walk over \<^verbatim>\<open>previous_response_id\<close>, and the conversation hash by which
  a replayed conversation finds its session again.

  The JSON text layer and SHA-256 are arguments.
\<close>

section \<open>Data\<close>

record ContentPart =
  cp_Type :: string
  cp_Text :: string

text \<open>\<^verbatim>\<open>any\<close>: nil, a decoded JSON value, or the structured parts of an output item.\<close>

datatype content = CNil | CJson json | CParts "ContentPart list"

record InputItem =
  ii_Type :: string
  ii_Role :: string
  ii_Content :: content
  ii_CallID :: string
  ii_Name :: string
  ii_Args :: string
  ii_Output :: string

record OutputItem =
  oi_Type :: string
  oi_Role :: string
  oi_Content :: "ContentPart list"
  oi_CallID :: string
  oi_Name :: string
  oi_Args :: string
  oi_Output :: string

record Response =
  rs_ID :: string
  rs_Input :: "InputItem list"
  rs_Output :: "OutputItem list"
  rs_PreviousResponseID :: string
  rs_SessionID :: string
  rs_SpeakerID :: string
  rs_Model :: string
  rs_CreatedAt :: string
  rs_Status :: string

record SessionSummary =
  sm_SessionID :: string
  sm_TurnCount :: nat
  sm_LastActive :: string
  sm_LastSpeakerID :: string

subsection \<open>JSON\<close>

definition enc_ContentPart :: "ContentPart \<Rightarrow> json" where
  "enc_ContentPart p = JObj [(''type'', JStr (cp_Type p)), (''text'', JStr (cp_Text p))]"

definition zero_ContentPart :: ContentPart where
  "zero_ContentPart = \<lparr>cp_Type = [], cp_Text = []\<rparr>"

definition dec_ContentPart :: "ContentPart decoder" where
  "dec_ContentPart = dec_struct
     [fld ''type'' dec_string cp_Type cp_Type_update,
      fld ''text'' dec_string cp_Text cp_Text_update]"

definition enc_content :: "content \<Rightarrow> (string \<times> json) list" where
  "enc_content c =
     (case c of CNil \<Rightarrow> [] | CJson j \<Rightarrow> [(''content'', j)]
      | CParts ps \<Rightarrow> [(''content'', enc_list enc_ContentPart ps)])"

definition dec_content :: "content decoder" where
  "dec_content old j = Some (if j = JNull then CNil else CJson j)"

definition enc_InputItem :: "InputItem \<Rightarrow> json" where
  "enc_InputItem it = JObj
     ([(''type'', JStr (ii_Type it))] @ omit_empty ''role'' (JStr (ii_Role it)) @ enc_content (ii_Content it) @
      omit_empty ''call_id'' (JStr (ii_CallID it)) @ omit_empty ''name'' (JStr (ii_Name it)) @
      omit_empty ''arguments'' (JStr (ii_Args it)) @ omit_empty ''output'' (JStr (ii_Output it)))"

definition zero_InputItem :: InputItem where
  "zero_InputItem = \<lparr>ii_Type = [], ii_Role = [], ii_Content = CNil, ii_CallID = [], ii_Name = [],
     ii_Args = [], ii_Output = []\<rparr>"

definition dec_InputItem :: "InputItem decoder" where
  "dec_InputItem = dec_struct
     [fld ''type'' dec_string ii_Type ii_Type_update,
      fld ''role'' dec_string ii_Role ii_Role_update,
      fld ''content'' dec_content ii_Content ii_Content_update,
      fld ''call_id'' dec_string ii_CallID ii_CallID_update,
      fld ''name'' dec_string ii_Name ii_Name_update,
      fld ''arguments'' dec_string ii_Args ii_Args_update,
      fld ''output'' dec_string ii_Output ii_Output_update]"

definition enc_OutputItem :: "OutputItem \<Rightarrow> json" where
  "enc_OutputItem it = JObj
     ([(''type'', JStr (oi_Type it))] @ omit_empty ''role'' (JStr (oi_Role it)) @
      omit_empty ''content'' (enc_list enc_ContentPart (oi_Content it)) @
      omit_empty ''call_id'' (JStr (oi_CallID it)) @ omit_empty ''name'' (JStr (oi_Name it)) @
      omit_empty ''arguments'' (JStr (oi_Args it)) @ omit_empty ''output'' (JStr (oi_Output it)))"

definition zero_OutputItem :: OutputItem where
  "zero_OutputItem = \<lparr>oi_Type = [], oi_Role = [], oi_Content = [], oi_CallID = [], oi_Name = [],
     oi_Args = [], oi_Output = []\<rparr>"

definition dec_OutputItem :: "OutputItem decoder" where
  "dec_OutputItem = dec_struct
     [fld ''type'' dec_string oi_Type oi_Type_update,
      fld ''role'' dec_string oi_Role oi_Role_update,
      fld ''content'' (dec_list zero_ContentPart dec_ContentPart) oi_Content oi_Content_update,
      fld ''call_id'' dec_string oi_CallID oi_CallID_update,
      fld ''name'' dec_string oi_Name oi_Name_update,
      fld ''arguments'' dec_string oi_Args oi_Args_update,
      fld ''output'' dec_string oi_Output oi_Output_update]"

section \<open>Keys\<close>

definition sessionHashKey :: "string \<Rightarrow> string" where
  "sessionHashKey hashHex = ''session_hash:'' @ hashHex"

definition responseKey :: "string \<Rightarrow> string" where
  "responseKey rid = ''response:'' @ rid"

definition sessionResponsesKey :: "string \<Rightarrow> string" where
  "sessionResponsesKey sessionID = ''session:'' @ sessionID @ '':responses''"

definition splitSessionKey :: "string \<Rightarrow> string" where
  "splitSessionKey key =
     (if length key < length ''session::responses'' then []
      else let prefix = ''session:''; suffix = '':responses'' in
        if take (length prefix) key \<noteq> prefix \<or> drop (length key - length suffix) key \<noteq> suffix then []
        else take (length key - length suffix - length prefix) (drop (length prefix) key))"

section \<open>Operations\<close>

definition StoreSessionPrefixHash :: "int \<Rightarrow> int \<Rightarrow> string \<Rightarrow> string \<Rightarrow> redis \<Rightarrow> redis" where
  "StoreSessionPrefixHash sessionHashTTL now hashHex sessionID db =
     AList.update (sessionHashKey hashHex) (RString sessionID (Some (now + sessionHashTTL))) db"

definition LookupSessionByPrefixHash :: "int \<Rightarrow> string \<Rightarrow> redis \<Rightarrow> store_error + string option" where
  "LookupSessionByPrefixHash now hashHex db = rdb_Get now db (sessionHashKey hashHex)"

definition GetLastResponseID :: "string \<Rightarrow> redis \<Rightarrow> store_error + string" where
  "GetLastResponseID sessionID db =
     map_sum id (\<lambda>r. case r of None \<Rightarrow> [] | Some s \<Rightarrow> s) (rdb_LLast db (sessionResponsesKey sessionID))"

definition response_fields :: "(json \<Rightarrow> string) \<Rightarrow> Response \<Rightarrow> (string \<times> string) list" where
  "response_fields render resp =
     [(''id'', rs_ID resp),
      (''input'', render (enc_list enc_InputItem (rs_Input resp))),
      (''output'', render (enc_list enc_OutputItem (rs_Output resp))),
      (''previous_response_id'', rs_PreviousResponseID resp),
      (''session_id'', rs_SessionID resp),
      (''speaker_id'', rs_SpeakerID resp),
      (''model'', rs_Model resp),
      (''created_at'', rs_CreatedAt resp),
      (''status'', rs_Status resp)]"

text \<open>The pipeline sends both commands; each takes effect on its own.\<close>

definition Save :: "(json \<Rightarrow> string) \<Rightarrow> Response \<Rightarrow> redis \<Rightarrow> redis \<times> store_error option" where
  "Save render resp db =
     (let (db1, e1) = (case rdb_HSet (responseKey (rs_ID resp)) (response_fields render resp) db of
                         Inl e \<Rightarrow> (db, Some e) | Inr db' \<Rightarrow> (db', None));
          (db2, e2) = (case rdb_RPush (sessionResponsesKey (rs_SessionID resp)) (rs_ID resp) db1 of
                         Inl e \<Rightarrow> (db1, Some e) | Inr db' \<Rightarrow> (db', None))
      in (db2, case e1 of Some e \<Rightarrow> Some e | None \<Rightarrow> e2))"

definition hash_field :: "(string \<times> string) list \<Rightarrow> string \<Rightarrow> string" where
  "hash_field vals f = (case map_of vals f of None \<Rightarrow> [] | Some v \<Rightarrow> v)"

definition decode_field ::
  "(string \<Rightarrow> json option) \<Rightarrow> 'a list decoder \<Rightarrow> string \<Rightarrow> 'a list option" where
  "decode_field parse dec v =
     (if v = [] then Some [] else (case parse v of None \<Rightarrow> None | Some j \<Rightarrow> dec [] j))"

definition decodeResponse :: "(string \<Rightarrow> json option) \<Rightarrow> (string \<times> string) list \<Rightarrow> store_error + Response" where
  "decodeResponse parse vals =
     (case decode_field parse (dec_list zero_InputItem dec_InputItem) (hash_field vals ''input'') of
        None \<Rightarrow> Inl BadJSON
      | Some input \<Rightarrow>
          (case decode_field parse (dec_list zero_OutputItem dec_OutputItem) (hash_field vals ''output'') of
             None \<Rightarrow> Inl BadJSON
           | Some output \<Rightarrow> Inr
               \<lparr>rs_ID = hash_field vals ''id'', rs_Input = input, rs_Output = output,
                rs_PreviousResponseID = hash_field vals ''previous_response_id'',
                rs_SessionID = hash_field vals ''session_id'',
                rs_SpeakerID = hash_field vals ''speaker_id'',
                rs_Model = hash_field vals ''model'',
                rs_CreatedAt = hash_field vals ''created_at'',
                rs_Status = hash_field vals ''status''\<rparr>))"

text \<open>\<open>Inr None\<close> is \<^verbatim>\<open>nil, nil\<close>.\<close>

definition Store_Get :: "(string \<Rightarrow> json option) \<Rightarrow> string \<Rightarrow> redis \<Rightarrow> store_error + Response option" where
  "Store_Get parse rid db =
     (case rdb_HGetAll db (responseKey rid) of
        Inl e \<Rightarrow> Inl e
      | Inr vals \<Rightarrow> if vals = [] then Inr None else map_sum id Some (decodeResponse parse vals))"

subsection \<open>Walking the chain\<close>

lemma responseKey_inj [simp]: "responseKey a = responseKey b \<longleftrightarrow> a = b"
  by (simp add: responseKey_def)

lemma key_kinds [simp]:
  "responseKey a \<noteq> sessionResponsesKey b" "sessionResponsesKey b \<noteq> responseKey a"
  "sessionHashKey a \<noteq> responseKey b" "sessionHashKey a \<noteq> sessionResponsesKey b"
  "responseKey b \<noteq> sessionHashKey a" "sessionResponsesKey b \<noteq> sessionHashKey a"
  by (simp_all add: responseKey_def sessionResponsesKey_def sessionHashKey_def)

lemma Store_Get_key: "Store_Get parse rid db = Inr (Some r) \<Longrightarrow> responseKey rid \<in> fst ` set db"
proof (rule ccontr)
  assume "Store_Get parse rid db = Inr (Some r)" "responseKey rid \<notin> fst ` set db"
  moreover from this(2) have "map_of db (responseKey rid) = None" by (simp add: map_of_eq_None_iff)
  ultimately show False by (simp add: Store_Get_def rdb_HGetAll_def)
qed

text \<open>The ids of stored responses the walk has not seen.\<close>

definition unseen :: "redis \<Rightarrow> string list \<Rightarrow> string set" where
  "unseen db seen = {rid. responseKey rid \<in> fst ` set db \<and> rid \<notin> set seen}"

lemma finite_unseen: "finite (unseen db seen)"
proof -
  have "unseen db seen \<subseteq> responseKey -` (fst ` set db)" by (auto simp: unseen_def)
  moreover have "finite (responseKey -` (fst ` set db))"
    by (rule finite_vimageI) (auto simp: inj_on_def)
  ultimately show ?thesis by (rule finite_subset)
qed

text \<open>
  The loop of \<^verbatim>\<open>WalkChain\<close>. It ends: every round puts one more stored id into \<open>seen\<close>.
\<close>

function walk_loop ::
  "(string \<Rightarrow> json option) \<Rightarrow> redis \<Rightarrow> string \<Rightarrow> string list \<Rightarrow> Response list \<Rightarrow> store_error + Response list" where
  "walk_loop parse db current seen chain =
     (if current = [] then Inr chain
      else if current \<in> set seen then Inl (CycleDetected current)
      else case Store_Get parse current db of
        Inl e \<Rightarrow> Inl e
      | Inr None \<Rightarrow> Inl (NotFound current)
      | Inr (Some resp) \<Rightarrow>
          walk_loop parse db (rs_PreviousResponseID resp) (current # seen) (chain @ [resp]))"
  by pat_completeness auto

termination
proof (relation "measure (\<lambda>(parse, db, current, seen, chain). card (unseen db seen))", goal_cases)
  case (2 parse db current seen chain r resp)
  then have "current \<in> unseen db seen" by (auto simp: unseen_def dest: Store_Get_key)
  moreover have "unseen db (current # seen) = unseen db seen - {current}" by (auto simp: unseen_def)
  ultimately have "card (unseen db (current # seen)) < card (unseen db seen)"
    by (simp add: card_Diff1_less finite_unseen del: card_Diff_insert)
  then show ?case by simp
qed simp

declare walk_loop.simps [simp del]

definition WalkChain :: "(string \<Rightarrow> json option) \<Rightarrow> string \<Rightarrow> redis \<Rightarrow> store_error + Response list" where
  "WalkChain parse rid db = map_sum id rev (walk_loop parse db rid [] [])"

definition ResolveChainMessages ::
  "(string \<Rightarrow> json option) \<Rightarrow> string \<Rightarrow> redis \<Rightarrow> store_error + InputItem list \<times> OutputItem list" where
  "ResolveChainMessages parse rid db =
     map_sum id (\<lambda>chain. (concat (map rs_Input chain), concat (map rs_Output chain))) (WalkChain parse rid db)"

subsection \<open>Sessions\<close>

fun get_all :: "(string \<Rightarrow> json option) \<Rightarrow> redis \<Rightarrow> string list \<Rightarrow> store_error + Response list" where
  "get_all parse db [] = Inr []"
| "get_all parse db (rid # ids) =
     (case Store_Get parse rid db of
        Inl e \<Rightarrow> Inl e
      | Inr r \<Rightarrow> (case get_all parse db ids of
           Inl e \<Rightarrow> Inl e
         | Inr rs \<Rightarrow> Inr (case r of None \<Rightarrow> rs | Some resp \<Rightarrow> resp # rs)))"

definition GetSessionHistory :: "(string \<Rightarrow> json option) \<Rightarrow> string \<Rightarrow> redis \<Rightarrow> store_error + Response list" where
  "GetSessionHistory parse sessionID db =
     (case rdb_LRange db (sessionResponsesKey sessionID) of
        Inl e \<Rightarrow> Inl e
      | Inr ids \<Rightarrow> get_all parse db ids)"

text \<open>
  \<^verbatim>\<open>FlattenContent\<close>. A Go map holds the last of several equal keys.
\<close>

definition text_types :: "string list" where
  "text_types = [[], ''input_text'', ''output_text'', ''text'']"

definition json_str :: "(string \<times> json) list \<Rightarrow> string \<Rightarrow> string" where
  "json_str m k = (case map_of (rev m) k of Some (JStr s) \<Rightarrow> s | _ \<Rightarrow> [])"

definition append_text :: "string \<Rightarrow> string \<Rightarrow> string" where
  "append_text b s = (if b \<noteq> [] then b @ '' '' @ s else s)"

fun flatten_json_parts :: "json list \<Rightarrow> string \<Rightarrow> string" where
  "flatten_json_parts [] b = b"
| "flatten_json_parts (JObj m # ps) b =
     (if json_str m ''type'' \<notin> set text_types then flatten_json_parts ps b
      else if json_str m ''text'' = [] then flatten_json_parts ps b
      else flatten_json_parts ps (append_text b (json_str m ''text'')))"
| "flatten_json_parts (_ # ps) b = flatten_json_parts ps b"

fun flatten_parts :: "ContentPart list \<Rightarrow> string \<Rightarrow> string" where
  "flatten_parts [] b = b"
| "flatten_parts (p # ps) b =
     (if cp_Text p = [] then flatten_parts ps b
      else if cp_Type p \<notin> set text_types then flatten_parts ps b
      else flatten_parts ps (append_text b (cp_Text p)))"

fun FlattenContent :: "content \<Rightarrow> string" where
  "FlattenContent (CJson (JStr s)) = s"
| "FlattenContent (CJson (JArr ps)) = flatten_json_parts ps []"
| "FlattenContent (CParts ps) = flatten_parts ps []"
| "FlattenContent _ = []"

definition input_msgs :: "InputItem \<Rightarrow> ChatMsg list" where
  "input_msgs item =
     (if ii_Type item = ''function_call_output'' then
        [\<lparr>cm_Role = ''tool'', cm_Content = ii_Output item, cm_ToolCalls = [], cm_ToolCallID = ii_CallID item\<rparr>]
      else let role = (if ii_Role item = [] then ''user'' else ii_Role item);
               text = FlattenContent (ii_Content item)
           in if text = [] then []
              else [\<lparr>cm_Role = role, cm_Content = text, cm_ToolCalls = [], cm_ToolCallID = []\<rparr>])"

definition output_msgs :: "OutputItem \<Rightarrow> ChatMsg list" where
  "output_msgs out =
     (if oi_Type out = ''function_call'' then
        [\<lparr>cm_Role = ''assistant'', cm_Content = [],
          cm_ToolCalls = [\<lparr>tc_ID = oi_CallID out, tc_Type = ''function'', tc_Name = oi_Name out,
                           tc_Arguments = oi_Args out\<rparr>], cm_ToolCallID = []\<rparr>]
      else if oi_Type out = ''function_call_output'' then
        [\<lparr>cm_Role = ''tool'', cm_Content = oi_Output out, cm_ToolCalls = [], cm_ToolCallID = oi_CallID out\<rparr>]
      else if oi_Type out = ''message'' \<and> oi_Role out = ''assistant'' then
        (let text = FlattenContent (CParts (oi_Content out))
         in if text \<noteq> [] then [\<lparr>cm_Role = ''assistant'', cm_Content = text, cm_ToolCalls = [], cm_ToolCallID = []\<rparr>]
            else [])
      else [])"

definition GetSessionMessages :: "(string \<Rightarrow> json option) \<Rightarrow> string \<Rightarrow> redis \<Rightarrow> store_error + ChatMsg list" where
  "GetSessionMessages parse sessionID db =
     map_sum id (\<lambda>responses. concat (map (\<lambda>resp.
         concat (map input_msgs (rs_Input resp)) @ concat (map output_msgs (rs_Output resp))) responses))
       (GetSessionHistory parse sessionID db)"

definition InheritSessionID :: "string \<Rightarrow> redis \<Rightarrow> store_error + string" where
  "InheritSessionID previousResponseID db =
     (case rdb_HGet db (responseKey previousResponseID) ''session_id'' of
        Inl e \<Rightarrow> Inl e
      | Inr None \<Rightarrow> Inl (NotFound previousResponseID)
      | Inr (Some sid) \<Rightarrow> Inr sid)"

definition InheritSpeakerID :: "string \<Rightarrow> redis \<Rightarrow> store_error + string" where
  "InheritSpeakerID previousResponseID db =
     (case rdb_HGet db (responseKey previousResponseID) ''speaker_id'' of
        Inl e \<Rightarrow> Inl e
      | Inr None \<Rightarrow> Inr []
      | Inr (Some sid) \<Rightarrow> Inr sid)"

definition GetSessionSpeakerID :: "string \<Rightarrow> redis \<Rightarrow> string" where
  "GetSessionSpeakerID sessionID db =
     (case rdb_LLast db (sessionResponsesKey sessionID) of
        Inr (Some lastID) \<Rightarrow>
          if lastID = [] then []
          else (case rdb_HGet db (responseKey lastID) ''speaker_id'' of Inr (Some sid) \<Rightarrow> sid | _ \<Rightarrow> [])
      | _ \<Rightarrow> [])"

definition DeleteSession :: "string \<Rightarrow> redis \<Rightarrow> redis \<times> store_error option" where
  "DeleteSession sessionID db =
     (let listKey = sessionResponsesKey sessionID in
      case rdb_LRange db listKey of
        Inl e \<Rightarrow> (db, Some e)
      | Inr ids \<Rightarrow> (AList.delete listKey (fold (\<lambda>rid. AList.delete (responseKey rid)) ids db), None))"

definition SessionExists :: "string \<Rightarrow> redis \<Rightarrow> bool" where
  "SessionExists sessionID db = (map_of db (sessionResponsesKey sessionID) \<noteq> None)"

text \<open>One key that \<^verbatim>\<open>SCAN\<close> returned for the pattern \<^verbatim>\<open>session:*:responses\<close>.\<close>

definition session_summary :: "redis \<Rightarrow> string \<Rightarrow> SessionSummary option" where
  "session_summary db key =
     (let parts = splitSessionKey key in
      if parts = [] then None
      else
        let turns = (case rdb_LRange db key of Inl _ \<Rightarrow> 0 | Inr l \<Rightarrow> length l);
            (lastActive, lastSpeaker) =
              (case rdb_LLast db key of
                 Inr (Some lastID) \<Rightarrow>
                   if lastID = [] then ([], [])
                   else (case rdb_HGetAll db (responseKey lastID) of
                           Inl _ \<Rightarrow> ([], [])
                         | Inr vals \<Rightarrow> (hash_field vals ''created_at'', hash_field vals ''speaker_id''))
               | _ \<Rightarrow> ([], []))
        in Some \<lparr>sm_SessionID = parts, sm_TurnCount = turns, sm_LastActive = lastActive,
                 sm_LastSpeakerID = lastSpeaker\<rparr>)"

definition ListSessions :: "string list \<Rightarrow> redis \<Rightarrow> SessionSummary list" where
  "ListSessions scanned db = List.map_filter (session_summary db) scanned"

subsection \<open>The conversation hash\<close>

text \<open>What one item contributes to the hash.\<close>

definition stitch_item :: "InputItem \<Rightarrow> string" where
  "stitch_item it =
     (let text = FlattenContent (ii_Content it) in
      if text = [] then []
      else let role = to_lower (ii_Role it); role = (if role = [] then ''user'' else role)
           in role @ [CHR 0x00] @ text @ [CHR 0x1E])"

definition StitchHash :: "(string \<Rightarrow> 'h) \<Rightarrow> InputItem list \<Rightarrow> 'h" where
  "StitchHash sha256hex items = sha256hex (concat (map stitch_item items))"

definition OutputItemToInputItem :: "OutputItem \<Rightarrow> InputItem" where
  "OutputItemToInputItem out =
     \<lparr>ii_Type = oi_Type out, ii_Role = oi_Role out, ii_Content = CParts (oi_Content out), ii_CallID = [],
      ii_Name = [], ii_Args = [], ii_Output = []\<rparr>"

section \<open>What is saved is what is read\<close>

text \<open>
  The items the gateway stores: their content is absent or a JSON value (structured parts occur
  only in the items that are hashed).
\<close>

definition storable_content :: "content \<Rightarrow> bool" where
  "storable_content c \<longleftrightarrow> (case c of CNil \<Rightarrow> True | CJson j \<Rightarrow> j \<noteq> JNull | CParts _ \<Rightarrow> False)"

lemma dec_enc_ContentPart [simp]: "dec_ContentPart z (enc_ContentPart p) = Some p"
  by (simp add: dec_ContentPart_def enc_ContentPart_def key_simps)

lemma dec_enc_InputItem:
  "storable_content (ii_Content it) \<Longrightarrow> dec_InputItem zero_InputItem (enc_InputItem it) = Some it"
  by (cases it, cases "ii_Content it")
    (auto simp: dec_InputItem_def enc_InputItem_def zero_InputItem_def storable_content_def enc_content_def
      dec_omit_str dec_content_def key_simps)

lemma dec_enc_OutputItem: "dec_OutputItem zero_OutputItem (enc_OutputItem it) = Some it"
  by (cases it)
    (auto simp: dec_OutputItem_def enc_OutputItem_def zero_OutputItem_def dec_omit_str dec_omit_list key_simps)

text \<open>What the code relies on of \<^verbatim>\<open>encoding/json\<close>: a marshalled value is non-empty text that parses back.\<close>

definition text_layer_ok :: "(json \<Rightarrow> string) \<Rightarrow> (string \<Rightarrow> json option) \<Rightarrow> json \<Rightarrow> bool" where
  "text_layer_ok render parse j \<longleftrightarrow> parse (render j) = Some j \<and> render j \<noteq> []"

lemma decode_field_render:
  "text_layer_ok render parse (enc_list e xs) \<Longrightarrow> (\<And>x. x \<in> set xs \<Longrightarrow> d z (e x) = Some x) \<Longrightarrow>
    decode_field parse (dec_list z d) (render (enc_list e xs)) = Some xs"
  by (simp add: decode_field_def text_layer_ok_def)

text \<open>The hash fields a response is stored in determine every field it is read from.\<close>

lemma hash_field_fold_update:
  "distinct (map fst fvs) \<Longrightarrow>
    hash_field (fold (\<lambda>(f, v) h. AList.update f v h) fvs h) k =
      (case map_of fvs k of None \<Rightarrow> hash_field h k | Some v \<Rightarrow> v)"
proof (induction fvs arbitrary: h)
  case Nil
  then show ?case by simp
next
  case (Cons fv fvs)
  then have "map_of fvs (fst fv) = None" by (simp add: map_of_eq_None_iff)
  with Cons show ?case
    by (auto simp: hash_field_def update_conv' split: option.splits prod.splits)
qed

lemma fold_update_ne:
  "fvs \<noteq> [] \<Longrightarrow> fold (\<lambda>(f, v) h. AList.update f v h) fvs h \<noteq> []"
proof (induction fvs arbitrary: h)
  case (Cons fv fvs)
  obtain f v where fv: "fv = (f, v)" by fastforce
  show ?case
  proof (cases fvs)
    case Nil
    then show ?thesis by (cases h) (auto simp: fv)
  next
    case (Cons _ _)
    with Cons.IH show ?thesis by (simp add: fv)
  qed
qed simp

lemma decodeResponse_fields:
  assumes "\<forall>it \<in> set (rs_Input resp). storable_content (ii_Content it)"
    and "text_layer_ok render parse (enc_list enc_InputItem (rs_Input resp))"
    and "text_layer_ok render parse (enc_list enc_OutputItem (rs_Output resp))"
  shows "decodeResponse parse (fold (\<lambda>(f, v) h. AList.update f v h) (response_fields render resp) h) = Inr resp"
proof -
  have "distinct (map fst (response_fields render resp))" by (simp add: response_fields_def)
  note hf = hash_field_fold_update [OF this]
  show ?thesis
    unfolding decodeResponse_def hf
    using assms by (simp add: response_fields_def decode_field_render dec_enc_InputItem dec_enc_OutputItem)
qed

lemma Save_effect:
  assumes "\<forall>it \<in> set (rs_Input resp). storable_content (ii_Content it)"
    and "text_layer_ok render parse (enc_list enc_InputItem (rs_Input resp))"
    and "text_layer_ok render parse (enc_list enc_OutputItem (rs_Output resp))"
    and "rdb_HGetAll db (responseKey (rs_ID resp)) = Inr h"
    and "rdb_LRange db (sessionResponsesKey (rs_SessionID resp)) = Inr l"
  shows "\<exists>db'. Save render resp db = (db', None) \<and>
    Store_Get parse (rs_ID resp) db' = Inr (Some resp) \<and>
    rdb_LRange db' (sessionResponsesKey (rs_SessionID resp)) = Inr (l @ [rs_ID resp]) \<and>
    GetLastResponseID (rs_SessionID resp) db' = Inr (rs_ID resp) \<and>
    (\<forall>rid. rid \<noteq> rs_ID resp \<longrightarrow> Store_Get parse rid db' = Store_Get parse rid db)"
proof -
  let ?h = "fold (\<lambda>(f, v) h. AList.update f v h) (response_fields render resp) h"
  have ne: "?h \<noteq> []" by (rule fold_update_ne) (simp add: response_fields_def)
  have dec: "decodeResponse parse ?h = Inr resp" using assms(1-3) by (rule decodeResponse_fields)
  have save: "Save render resp db = (AList.update (sessionResponsesKey (rs_SessionID resp)) (RList (l @ [rs_ID resp]))
      (AList.update (responseKey (rs_ID resp)) (RHash ?h) db), None)"
    using assms(4,5) by (simp add: Save_def rdb_HSet_def rdb_RPush_def rdb_LRange_def update_conv')
  show ?thesis
    unfolding save using ne dec
    by (auto simp: Store_Get_def rdb_HGetAll_def rdb_LRange_def GetLastResponseID_def rdb_LLast_def update_conv')
qed

text \<open>
  A saved response is read back exactly as it was, whatever was stored under its id before, and
  it is the last entry of its session's list; responses of other ids are untouched.
\<close>

theorem save_get_roundtrip:
  assumes "\<forall>it \<in> set (rs_Input resp). storable_content (ii_Content it)"
    and "text_layer_ok render parse (enc_list enc_InputItem (rs_Input resp))"
    and "text_layer_ok render parse (enc_list enc_OutputItem (rs_Output resp))"
    and "rdb_HGetAll db (responseKey (rs_ID resp)) = Inr h"
    and "rdb_LRange db (sessionResponsesKey (rs_SessionID resp)) = Inr l"
  shows "\<exists>db'. Save render resp db = (db', None) \<and>
    Store_Get parse (rs_ID resp) db' = Inr (Some resp) \<and>
    rdb_LRange db' (sessionResponsesKey (rs_SessionID resp)) = Inr (l @ [rs_ID resp]) \<and>
    GetLastResponseID (rs_SessionID resp) db' = Inr (rs_ID resp) \<and>
    (\<forall>rid. rid \<noteq> rs_ID resp \<longrightarrow> Store_Get parse rid db' = Store_Get parse rid db)"
  using assms by (rule Save_effect)

definition sample_response :: "string \<Rightarrow> string \<Rightarrow> Response" where
  "sample_response rid prev =
     \<lparr>rs_ID = rid, rs_Input = [zero_InputItem\<lparr>ii_Type := ''message'', ii_Content := CJson (JStr ''hi'')\<rparr>],
      rs_Output = [], rs_PreviousResponseID = prev, rs_SessionID = ''s'', rs_SpeakerID = [], rs_Model = ''m'',
      rs_CreatedAt = ''t'', rs_Status = ''completed''\<rparr>"

text \<open>A text layer for the samples: the two marshalled lists of the sample response.\<close>

definition sample_render :: "json \<Rightarrow> string" where
  "sample_render j = (if j = JArr [] then ''[]'' else ''[1]'')"

definition sample_parse :: "string \<Rightarrow> json option" where
  "sample_parse s = Some (if s = ''[]'' then JArr []
     else enc_list enc_InputItem (rs_Input (sample_response ''a'' [])))"

theorem save_get_roundtrip_witness:
  "\<exists>db. Save sample_render (sample_response ''a'' []) [] = (db, None) \<and>
     Store_Get sample_parse ''a'' db = Inr (Some (sample_response ''a'' []))"
  using save_get_roundtrip [of "sample_response ''a'' []" sample_render sample_parse "[]" "[]" "[]"]
  by (simp add: sample_response_def sample_render_def sample_parse_def text_layer_ok_def storable_content_def
      rdb_HGetAll_def rdb_LRange_def) blast

section \<open>The chain walk\<close>

text \<open>The specification: \<open>rs\<close> is the chain from \<open>rid\<close> back to a response without predecessor.\<close>

fun follows :: "(string \<Rightarrow> json option) \<Rightarrow> redis \<Rightarrow> string \<Rightarrow> Response list \<Rightarrow> bool" where
  "follows parse db rid [] \<longleftrightarrow> rid = []"
| "follows parse db rid (r # rs) \<longleftrightarrow>
     rid \<noteq> [] \<and> Store_Get parse rid db = Inr (Some r) \<and> follows parse db (rs_PreviousResponseID r) rs"

lemma follows_unique: "follows parse db rid rs \<Longrightarrow> follows parse db rid rs' \<Longrightarrow> rs = rs'"
proof (induction rs arbitrary: rid rs')
  case Nil
  then show ?case by (cases rs') auto
next
  case (Cons r rs)
  then show ?case by (cases rs') auto
qed

lemma walk_loop_sound:
  "walk_loop parse db current seen chain = Inr result \<Longrightarrow>
    \<exists>rs. result = chain @ rs \<and> follows parse db current rs"
proof (induction parse db current seen chain rule: walk_loop.induct)
  case (1 parse db current seen chain)
  show ?case
  proof (cases "current = []")
    case True
    with "1.prems" show ?thesis by (simp add: walk_loop.simps)
  next
    case False
    with "1.prems" have ns: "current \<notin> set seen" by (auto simp: walk_loop.simps)
    from False ns "1.prems" obtain resp where g: "Store_Get parse current db = Inr (Some resp)"
      and w: "walk_loop parse db (rs_PreviousResponseID resp) (current # seen) (chain @ [resp]) = Inr result"
      by (subst (asm) walk_loop.simps) (auto split: sum.splits option.splits)
    from "1.IH" [OF False ns g refl w] obtain rs where
      "result = (chain @ [resp]) @ rs" "follows parse db (rs_PreviousResponseID resp) rs" by blast
    with False g show ?thesis by (intro exI [of _ "resp # rs"]) simp
  qed
qed

text \<open>Ids met earlier on a chain that ends lie strictly further from its end.\<close>

lemma walk_loop_complete:
  assumes "follows parse db current rs"
    and "\<And>s. s \<in> set seen \<Longrightarrow> \<exists>rs'. follows parse db s rs' \<and> length rs < length rs'"
  shows "walk_loop parse db current seen chain = Inr (chain @ rs)"
  using assms
proof (induction rs arbitrary: current seen chain)
  case Nil
  then show ?case by (simp add: walk_loop.simps)
next
  case (Cons r rs)
  have "current \<notin> set seen"
    using Cons.prems follows_unique by (metis less_irrefl)
  moreover have "walk_loop parse db (rs_PreviousResponseID r) (current # seen) (chain @ [r]) = Inr ((chain @ [r]) @ rs)"
  proof (rule Cons.IH)
    show "follows parse db (rs_PreviousResponseID r) rs" using Cons.prems(1) by simp
    fix s
    assume "s \<in> set (current # seen)"
    then show "\<exists>rs'. follows parse db s rs' \<and> length rs < length rs'"
      using Cons.prems by (metis Suc_lessD length_Cons lessI set_ConsD)
  qed
  ultimately show ?case using Cons.prems(1) by (subst walk_loop.simps) simp
qed

text \<open>
  C18. \<^verbatim>\<open>WalkChain\<close> is correct on every store, cyclic ones included: it always returns, and it returns a
  list exactly if following \<^verbatim>\<open>previous_response_id\<close> from the given id reaches a root, in which case the
  list is that chain with the root first. A cycle, a missing response or an undecodable one
  gives an error.
\<close>

theorem WalkChain_correct:
  "WalkChain parse rid db = Inr chain \<longleftrightarrow> follows parse db rid (rev chain)"
proof
  assume "WalkChain parse rid db = Inr chain"
  then have "walk_loop parse db rid [] [] = Inr (rev chain)"
    by (cases "walk_loop parse db rid [] []") (auto simp: WalkChain_def)
  from walk_loop_sound [OF this] show "follows parse db rid (rev chain)" by auto
next
  assume "follows parse db rid (rev chain)"
  from walk_loop_complete [OF this, of "[]" "[]"] show "WalkChain parse rid db = Inr chain"
    by (simp add: WalkChain_def)
qed

lemma follows_cong:
  "(\<And>r rid. r \<in> set rs \<Longrightarrow> Store_Get parse rid db = Inr (Some r) \<Longrightarrow> Store_Get parse rid db' = Inr (Some r)) \<Longrightarrow>
    follows parse db rid rs \<Longrightarrow> follows parse db' rid rs"
  by (induction rs arbitrary: rid) auto

section \<open>Sessions\<close>

lemma sessionResponsesKey_inj [simp]: "sessionResponsesKey a = sessionResponsesKey b \<longleftrightarrow> a = b"
  by (simp add: sessionResponsesKey_def)

lemma splitSessionKey_roundtrip: "splitSessionKey (sessionResponsesKey s) = s"
  by (simp add: splitSessionKey_def sessionResponsesKey_def)

lemma map_of_fold_delete:
  "map_of (fold (\<lambda>rid. AList.delete (responseKey rid)) ids db) k =
     (if k \<in> responseKey ` set ids then None else map_of db k)"
  by (induction ids arbitrary: db) (auto simp: delete_conv')

text \<open>
  Deleting a session removes its response list and every response the list names, and nothing
  else: the responses of other ids and the lists of other sessions are as before.
\<close>

theorem DeleteSession_exact:
  assumes "rdb_LRange db (sessionResponsesKey s) = Inr ids"
  shows "\<exists>db'. DeleteSession s db = (db', None) \<and> \<not> SessionExists s db' \<and>
    (\<forall>rid. Store_Get parse rid db' = (if rid \<in> set ids then Inr None else Store_Get parse rid db)) \<and>
    (\<forall>s'. s' \<noteq> s \<longrightarrow> rdb_LRange db' (sessionResponsesKey s') = rdb_LRange db (sessionResponsesKey s'))"
proof -
  let ?db = "AList.delete (sessionResponsesKey s) (fold (\<lambda>rid. AList.delete (responseKey rid)) ids db)"
  have lookup: "map_of ?db k = (if k = sessionResponsesKey s \<or> k \<in> responseKey ` set ids then None else map_of db k)" for k
    by (auto simp: delete_conv' map_of_fold_delete)
  have "DeleteSession s db = (?db, None)" using assms by (simp add: DeleteSession_def Let_def)
  moreover have "\<not> SessionExists s ?db" by (simp add: SessionExists_def lookup)
  moreover have "Store_Get parse rid ?db = (if rid \<in> set ids then Inr None else Store_Get parse rid db)" for rid
    by (auto simp: Store_Get_def rdb_HGetAll_def lookup image_iff)
  moreover have "rdb_LRange ?db (sessionResponsesKey s') = rdb_LRange db (sessionResponsesKey s')" if "s' \<noteq> s" for s'
    using that by (auto simp: rdb_LRange_def lookup)
  ultimately show ?thesis by blast
qed

theorem DeleteSession_exact_witness:
  "let db = [(sessionResponsesKey ''s'', RList [''a'']), (responseKey ''a'', RHash [(''id'', ''a'')]),
             (responseKey ''b'', RHash [(''id'', ''b'')])]
   in \<exists>db'. DeleteSession ''s'' db = (db', None) \<and> \<not> SessionExists ''s'' db' \<and>
        Store_Get sample_parse ''a'' db' = Inr None \<and>
        Store_Get sample_parse ''b'' db' = Store_Get sample_parse ''b'' db"
proof -
  let ?db = "[(sessionResponsesKey ''s'', RList [''a'']), (responseKey ''a'', RHash [(''id'', ''a'')]),
             (responseKey ''b'', RHash [(''id'', ''b'')])]"
  have "rdb_LRange ?db (sessionResponsesKey ''s'') = Inr [''a'']" by (simp add: rdb_LRange_def)
  from DeleteSession_exact [OF this, of sample_parse] obtain db' where
    d: "DeleteSession ''s'' ?db = (db', None)" "\<not> SessionExists ''s'' db'"
    and g: "\<And>rid. Store_Get sample_parse rid db' = (if rid \<in> set [''a''] then Inr None else Store_Get sample_parse rid ?db)"
    by blast
  from g [of "''a''"] g [of "''b''"] d show ?thesis unfolding Let_def by auto
qed

section \<open>The conversation hash\<close>

text \<open>What the hash is meant to see of a conversation: its non-empty turns.\<close>

definition stitch_view :: "InputItem list \<Rightarrow> (string \<times> string) list" where
  "stitch_view items =
     map (\<lambda>it. (if ii_Role it = [] then ''user'' else to_lower (ii_Role it), FlattenContent (ii_Content it)))
       (filter (\<lambda>it. FlattenContent (ii_Content it) \<noteq> []) items)"

definition stitch_bytes :: "(string \<times> string) list \<Rightarrow> string" where
  "stitch_bytes turns = concat (map (\<lambda>(role, text). role @ [CHR 0x00] @ text @ [CHR 0x1E]) turns)"

lemma StitchHash_view: "StitchHash sha items = sha (stitch_bytes (stitch_view items))"
proof -
  have "concat (map stitch_item items) = stitch_bytes (stitch_view items)"
    by (induction items) (auto simp: stitch_item_def stitch_view_def stitch_bytes_def to_lower_def Let_def)
  then show ?thesis by (simp add: StitchHash_def)
qed

lemma cut_at:
  "x \<notin> set xs \<Longrightarrow> x \<notin> set xs' \<Longrightarrow> xs @ x # ys = xs' @ x # ys' \<longleftrightarrow> xs = xs' \<and> ys = ys'"
proof (induction xs arbitrary: xs')
  case Nil
  then show ?case by (cases xs') auto
next
  case (Cons a xs)
  then show ?case by (cases xs') auto
qed

definition clean_turn :: "string \<times> string \<Rightarrow> bool" where
  "clean_turn t \<longleftrightarrow> CHR 0x00 \<notin> set (fst t) \<and> CHR 0x1E \<notin> set (snd t)"

lemma stitch_bytes_inj:
  "\<forall>t \<in> set ts. clean_turn t \<Longrightarrow> \<forall>t \<in> set us. clean_turn t \<Longrightarrow> stitch_bytes ts = stitch_bytes us \<Longrightarrow> ts = us"
proof (induction ts arbitrary: us)
  case Nil
  then show ?case by (cases us) (auto simp: stitch_bytes_def)
next
  case (Cons t ts)
  obtain r c where t: "t = (r, c)" by fastforce
  from Cons.prems(3) obtain u us' where us: "us = u # us'"
    by (cases us) (auto simp: stitch_bytes_def t)
  obtain r' c' where u: "u = (r', c')" by fastforce
  have e: "r @ CHR 0x00 # c @ CHR 0x1E # stitch_bytes ts = r' @ CHR 0x00 # c' @ CHR 0x1E # stitch_bytes us'"
    using Cons.prems(3) by (simp add: stitch_bytes_def t us u)
  have "r = r'" "c = c'" "stitch_bytes ts = stitch_bytes us'"
    using e Cons.prems(1,2) by (auto simp: cut_at clean_turn_def t us u)
  with Cons.IH [of us'] Cons.prems us t u show ?case by auto
qed

lemma flatten_parts_json: "flatten_json_parts (map enc_ContentPart ps) b = flatten_parts ps b"
  by (induction ps arbitrary: b) (auto simp: enc_ContentPart_def json_str_def)

text \<open>
  Two conversations get the same hash exactly if they have the same non-empty turns (role without
  case, \<^verbatim>\<open>user\<close> by default, and text), provided SHA-256 tells their canonical forms apart and no role
  contains a NUL nor a text the separator byte 0x1E.
\<close>

theorem StitchHash_faithful:
  assumes "\<forall>t \<in> set (stitch_view xs) \<union> set (stitch_view ys). clean_turn t"
    and "sha (stitch_bytes (stitch_view xs)) = sha (stitch_bytes (stitch_view ys)) \<Longrightarrow>
      stitch_bytes (stitch_view xs) = stitch_bytes (stitch_view ys)"
  shows "StitchHash sha xs = StitchHash sha ys \<longleftrightarrow> stitch_view xs = stitch_view ys"
  unfolding StitchHash_view using stitch_bytes_inj [of "stitch_view xs" "stitch_view ys"] assms by auto

theorem StitchHash_faithful_witness:
  "let user = zero_InputItem\<lparr>ii_Role := ''User'', ii_Content := CJson (JStr ''hi'')\<rparr>;
       bare = zero_InputItem\<lparr>ii_Content := CJson (JStr ''hi'')\<rparr>;
       reply = zero_InputItem\<lparr>ii_Role := ''assistant'', ii_Content := CJson (JStr ''hi'')\<rparr>
   in StitchHash id [user] = StitchHash id [bare] \<and> StitchHash id [user] \<noteq> StitchHash id [reply]"
proof -
  let ?i = "\<lambda>r. zero_InputItem\<lparr>ii_Role := r, ii_Content := CJson (JStr ''hi'')\<rparr>"
  have v: "stitch_view [?i ''User''] = [(''user'', ''hi'')]" "stitch_view [?i []] = [(''user'', ''hi'')]"
    "stitch_view [?i ''assistant''] = [(''assistant'', ''hi'')]"
    by code_simp+
  have "StitchHash id [?i ''User''] = StitchHash id [?i []] \<longleftrightarrow> stitch_view [?i ''User''] = stitch_view [?i []]"
    by (rule StitchHash_faithful) (auto simp: v clean_turn_def)
  moreover have "StitchHash id [?i ''User''] = StitchHash id [?i ''assistant''] \<longleftrightarrow>
      stitch_view [?i ''User''] = stitch_view [?i ''assistant'']"
    by (rule StitchHash_faithful) (auto simp: v clean_turn_def)
  moreover have "zero_InputItem\<lparr>ii_Content := CJson (JStr ''hi'')\<rparr> = ?i []" by (simp add: zero_InputItem_def)
  ultimately show ?thesis by (simp add: Let_def v)
qed

text \<open>
  A stored assistant turn hashes like its replay by a client, whether the client sends the content
  parts back or (for a single text part) the bare text.
\<close>

theorem replay_hashes_like_output:
  "StitchHash sha (xs @ OutputItemToInputItem out # ys) =
     StitchHash sha (xs @ zero_InputItem\<lparr>ii_Role := oi_Role out,
        ii_Content := CJson (JArr (map enc_ContentPart (oi_Content out)))\<rparr> # ys) \<and>
   StitchHash sha (xs @ OutputItemToInputItem (out\<lparr>oi_Content := [\<lparr>cp_Type = ''output_text'', cp_Text = t\<rparr>]\<rparr>) # ys) =
     StitchHash sha (xs @ zero_InputItem\<lparr>ii_Role := oi_Role out, ii_Content := CJson (JStr t)\<rparr> # ys)"
  by (simp add: StitchHash_def stitch_item_def OutputItemToInputItem_def flatten_parts_json text_types_def
      append_text_def Let_def)

end
