(* ===== verification/Memory_Client.thy ===== *)
theory Memory_Client
  imports Go_Http
begin

text \<open>
  The client of the memory service (\<^verbatim>\<open>internal/memoryclient/memoryclient.go\<close>): the requests and answers as its consumers see
  them, their JSON forms, and the four calls. A Go map is the list of its entries in ascending order.
\<close>

section \<open>Requests and answers\<close>

record RetainRequest =
  rq_Content :: string
  rq_Tags :: "string list"
  rq_Metadata :: "(string \<times> string) list"
  rq_Context :: string
  rq_Timestamp :: string
  rq_ObservationScopes :: string
  rq_DocumentID :: string
  rq_Entities :: "string list"

definition zero_RetainRequest :: RetainRequest where
  "zero_RetainRequest = \<lparr>rq_Content = [], rq_Tags = [], rq_Metadata = [], rq_Context = [], rq_Timestamp = [],
     rq_ObservationScopes = [], rq_DocumentID = [], rq_Entities = []\<rparr>"

record RetainResponse =
  rs_Success :: bool
  rs_BankID :: string
  rs_ItemsCount :: int
  rs_Async :: bool

record RecallRequest =
  rc_Query :: string
  rc_Limit :: int
  rc_Tags :: "string list"
  rc_Types :: "string list"
  rc_SpeakerID :: string
  rc_Entities :: "string list"
  rc_FactTypes :: "string list"

definition zero_RecallRequest :: RecallRequest where
  "zero_RecallRequest = \<lparr>rc_Query = [], rc_Limit = 0, rc_Tags = [], rc_Types = [], rc_SpeakerID = [],
     rc_Entities = [], rc_FactTypes = []\<rparr>"

record MemorySummary =
  ms_ID :: string
  ms_Content :: string
  ms_Tags :: "string list"
  ms_Score :: rat
  ms_Type :: string
  ms_Metadata :: "(string \<times> string) list"

definition zero_MemorySummary :: MemorySummary where
  "zero_MemorySummary = \<lparr>ms_ID = [], ms_Content = [], ms_Tags = [], ms_Score = 0, ms_Type = [], ms_Metadata = []\<rparr>"

record RecallResponse =
  rr_Memories :: "MemorySummary list"
  rr_SourceFacts :: "(string \<times> MemorySummary) list"

section \<open>JSON\<close>

definition enc_RetainRequest :: "RetainRequest \<Rightarrow> json" where
  "enc_RetainRequest r = JObj
     ([(''content'', JStr (rq_Content r))] @
      omit_empty ''tags'' (enc_list JStr (rq_Tags r)) @
      omit_empty ''metadata'' (enc_str_map (rq_Metadata r)) @
      omit_empty ''context'' (JStr (rq_Context r)) @
      omit_empty ''timestamp'' (JStr (rq_Timestamp r)) @
      omit_empty ''observation_scopes'' (JStr (rq_ObservationScopes r)) @
      omit_empty ''document_id'' (JStr (rq_DocumentID r)) @
      omit_empty ''entities'' (enc_list JStr (rq_Entities r)))"

definition dec_RetainRequest :: "json \<Rightarrow> RetainRequest option" where
  "dec_RetainRequest = dec_struct
     [fld ''content'' dec_string rq_Content rq_Content_update,
      fld ''tags'' (dec_list [] dec_string) rq_Tags rq_Tags_update,
      fld ''metadata'' dec_str_map rq_Metadata rq_Metadata_update,
      fld ''context'' dec_string rq_Context rq_Context_update,
      fld ''timestamp'' dec_string rq_Timestamp rq_Timestamp_update,
      fld ''observation_scopes'' dec_string rq_ObservationScopes rq_ObservationScopes_update,
      fld ''document_id'' dec_string rq_DocumentID rq_DocumentID_update,
      fld ''entities'' (dec_list [] dec_string) rq_Entities rq_Entities_update]
     zero_RetainRequest"

definition enc_RetainResponse :: "RetainResponse \<Rightarrow> json" where
  "enc_RetainResponse r = JObj
     [(''success'', JBool (rs_Success r)), (''bank_id'', JStr (rs_BankID r)), (''items_count'', JInt (rs_ItemsCount r)),
      (''async'', JBool (rs_Async r))]"

definition zero_RetainResponse :: RetainResponse where
  "zero_RetainResponse = \<lparr>rs_Success = False, rs_BankID = [], rs_ItemsCount = 0, rs_Async = False\<rparr>"

definition dec_RetainResponse :: "json \<Rightarrow> RetainResponse option" where
  "dec_RetainResponse = dec_struct
     [fld ''success'' dec_bool rs_Success rs_Success_update,
      fld ''bank_id'' dec_string rs_BankID rs_BankID_update,
      fld ''items_count'' dec_int rs_ItemsCount rs_ItemsCount_update,
      fld ''async'' dec_bool rs_Async rs_Async_update]
     zero_RetainResponse"

definition enc_RecallRequest :: "RecallRequest \<Rightarrow> json" where
  "enc_RecallRequest r = JObj
     ([(''query'', JStr (rc_Query r))] @
      omit_empty ''limit'' (JInt (rc_Limit r)) @
      omit_empty ''tags'' (enc_list JStr (rc_Tags r)) @
      omit_empty ''types'' (enc_list JStr (rc_Types r)) @
      omit_empty ''speaker_id'' (JStr (rc_SpeakerID r)) @
      omit_empty ''entities'' (enc_list JStr (rc_Entities r)) @
      omit_empty ''fact_types'' (enc_list JStr (rc_FactTypes r)))"

definition dec_RecallRequest :: "json \<Rightarrow> RecallRequest option" where
  "dec_RecallRequest = dec_struct
     [fld ''query'' dec_string rc_Query rc_Query_update,
      fld ''limit'' dec_int rc_Limit rc_Limit_update,
      fld ''tags'' (dec_list [] dec_string) rc_Tags rc_Tags_update,
      fld ''types'' (dec_list [] dec_string) rc_Types rc_Types_update,
      fld ''speaker_id'' dec_string rc_SpeakerID rc_SpeakerID_update,
      fld ''entities'' (dec_list [] dec_string) rc_Entities rc_Entities_update,
      fld ''fact_types'' (dec_list [] dec_string) rc_FactTypes rc_FactTypes_update]
     zero_RecallRequest"

definition omit_real :: "string \<Rightarrow> rat \<Rightarrow> (string \<times> json) list" where
  "omit_real k q = (if q = 0 then [] else [(k, JReal q)])"

definition enc_MemorySummary :: "MemorySummary \<Rightarrow> json" where
  "enc_MemorySummary m = JObj
     ([(''id'', JStr (ms_ID m)), (''content'', JStr (ms_Content m))] @
      omit_empty ''tags'' (enc_list JStr (ms_Tags m)) @
      omit_real ''score'' (ms_Score m) @
      omit_empty ''type'' (JStr (ms_Type m)) @
      omit_empty ''metadata'' (enc_str_map (ms_Metadata m)))"

definition dec_MemorySummary :: "MemorySummary decoder" where
  "dec_MemorySummary = dec_struct
     [fld ''id'' dec_string ms_ID ms_ID_update,
      fld ''content'' dec_string ms_Content ms_Content_update,
      fld ''tags'' (dec_list [] dec_string) ms_Tags ms_Tags_update,
      fld ''score'' dec_float ms_Score ms_Score_update,
      fld ''type'' dec_string ms_Type ms_Type_update,
      fld ''metadata'' dec_str_map ms_Metadata ms_Metadata_update]"

text \<open>A map of structs: an object whose members are decoded one by one, the last of equal keys kept.\<close>

fun dec_struct_map :: "'a \<Rightarrow> 'a decoder \<Rightarrow> (string \<times> 'a) list decoder" where
  "dec_struct_map z d old JNull = Some []"
| "dec_struct_map z d old (JObj kvs) =
     map_option (\<lambda>new. map_entries (old @ new)) (those_map (\<lambda>kv. map_option (Pair (fst kv)) (d z (snd kv))) kvs)"
| "dec_struct_map z d old _ = None"

definition enc_struct_map :: "('a \<Rightarrow> json) \<Rightarrow> (string \<times> 'a) list \<Rightarrow> json" where
  "enc_struct_map e m = JObj (map (\<lambda>(k, v). (k, e v)) m)"

definition enc_RecallResponse :: "RecallResponse \<Rightarrow> json" where
  "enc_RecallResponse r = JObj
     ([(''memories'', enc_list enc_MemorySummary (rr_Memories r))] @
      omit_empty ''source_facts'' (enc_struct_map enc_MemorySummary (rr_SourceFacts r)))"

definition dec_RecallResponse :: "json \<Rightarrow> RecallResponse option" where
  "dec_RecallResponse = dec_struct
     [fld ''memories'' (dec_list zero_MemorySummary dec_MemorySummary) rr_Memories rr_Memories_update,
      fld ''source_facts'' (dec_struct_map zero_MemorySummary dec_MemorySummary) rr_SourceFacts rr_SourceFacts_update]
     \<lparr>rr_Memories = [], rr_SourceFacts = []\<rparr>"

section \<open>The client\<close>

text \<open>\<^verbatim>\<open>WithCorrelationID\<close> leaves the context as it is for an empty id, so a context carries a non-empty id or none.\<close>

definition WithCorrelationID :: "string \<Rightarrow> string option \<Rightarrow> string option" where
  "WithCorrelationID cid ctx = (if cid = [] then ctx else Some cid)"

record mem_client =
  mc_baseURL :: string
  mc_parse :: "string \<Rightarrow> json option"

definition MemoryClient_New :: "string \<Rightarrow> (string \<Rightarrow> json option) \<Rightarrow> mem_client" where
  "MemoryClient_New baseURL parse = \<lparr>mc_baseURL = trim_right_slash baseURL, mc_parse = parse\<rparr>"

definition memory_do ::
  "mem_client \<Rightarrow> 'w transport \<Rightarrow> string option \<Rightarrow> string \<Rightarrow> json \<Rightarrow> 'a \<Rightarrow> (json \<Rightarrow> 'a option) \<Rightarrow> 'w \<Rightarrow> 'w \<times> (rest_error + 'a)" where
  "memory_do c http cid path body zero dec w =
     rest_call http (mc_parse c) (mc_baseURL c) (case cid of None \<Rightarrow> [] | Some i \<Rightarrow> [(''X-Correlation-ID'', i)])
       ''POST'' path (Some body) zero (Some dec) w"

definition MemoryClient_Retain ::
  "mem_client \<Rightarrow> 'w transport \<Rightarrow> string option \<Rightarrow> RetainRequest \<Rightarrow> 'w \<Rightarrow> 'w \<times> (rest_error + RetainResponse)" where
  "MemoryClient_Retain c http cid req = memory_do c http cid ''/retain'' (enc_RetainRequest req) zero_RetainResponse dec_RetainResponse"

definition MemoryClient_Recall ::
  "mem_client \<Rightarrow> 'w transport \<Rightarrow> string option \<Rightarrow> RecallRequest \<Rightarrow> 'w \<Rightarrow> 'w \<times> (rest_error + RecallResponse)" where
  "MemoryClient_Recall c http cid req =
     memory_do c http cid ''/recall'' (enc_RecallRequest req) \<lparr>rr_Memories = [], rr_SourceFacts = []\<rparr> dec_RecallResponse"

text \<open>\<^verbatim>\<open>ReflectRequest{Query, Tags}\<close> and the text of the answer.\<close>

definition enc_ReflectRequest :: "string \<Rightarrow> string list \<Rightarrow> json" where
  "enc_ReflectRequest query tags = JObj ([(''query'', JStr query)] @ omit_empty ''tags'' (enc_list JStr tags))"

definition dec_ReflectRequest :: "json \<Rightarrow> (string \<times> string list) option" where
  "dec_ReflectRequest = dec_struct
     [fld ''query'' dec_string fst apfst, fld ''tags'' (dec_list [] dec_string) snd apsnd] ([], [])"

definition MemoryClient_Reflect ::
  "mem_client \<Rightarrow> 'w transport \<Rightarrow> string option \<Rightarrow> string \<Rightarrow> string list \<Rightarrow> 'w \<Rightarrow> 'w \<times> (rest_error + string)" where
  "MemoryClient_Reflect c http cid query tags =
     memory_do c http cid ''/reflect'' (enc_ReflectRequest query tags) []
       (dec_struct [fld ''text'' dec_string id id] [])"

text \<open>\<^verbatim>\<open>ForgetRequest{MemoryID, Query}\<close> and the id of what was deleted.\<close>

definition enc_ForgetRequest :: "string \<Rightarrow> string \<Rightarrow> json" where
  "enc_ForgetRequest memoryID query = JObj (omit_empty ''memory_id'' (JStr memoryID) @ omit_empty ''query'' (JStr query))"

definition dec_ForgetRequest :: "json \<Rightarrow> (string \<times> string) option" where
  "dec_ForgetRequest = dec_struct [fld ''memory_id'' dec_string fst apfst, fld ''query'' dec_string snd apsnd] ([], [])"

definition MemoryClient_Forget ::
  "mem_client \<Rightarrow> 'w transport \<Rightarrow> string option \<Rightarrow> string \<Rightarrow> string \<Rightarrow> 'w \<Rightarrow> 'w \<times> (rest_error + string)" where
  "MemoryClient_Forget c http cid memoryID query =
     memory_do c http cid ''/forget'' (enc_ForgetRequest memoryID query) []
       (dec_struct [fld ''deleted_id'' dec_string id id] [])"

section \<open>Round trips\<close>

lemma dec_enc_RetainRequest:
  assumes "map_entries (rq_Metadata r) = rq_Metadata r"
  shows "dec_RetainRequest (enc_RetainRequest r) = Some r"
  using assms unfolding dec_RetainRequest_def enc_RetainRequest_def zero_RetainRequest_def
  by (cases r) (simp add: key_simps dec_omits)

lemma dec_enc_RecallRequest: "dec_RecallRequest (enc_RecallRequest r) = Some r"
  unfolding dec_RecallRequest_def enc_RecallRequest_def zero_RecallRequest_def
  by (cases r) (simp add: key_simps dec_omits)

lemma dec_RetainRequest_normal: "dec_RetainRequest j = Some r \<Longrightarrow> map_entries (rq_Metadata r) = rq_Metadata r"
  unfolding dec_RetainRequest_def
  by (erule dec_struct_keeps) (auto simp: zero_RetainRequest_def fld_def map_entries_def dest: dec_str_map_normal)

lemma dec_enc_MemorySummary:
  assumes "map_entries (ms_Metadata m) = ms_Metadata m"
  shows "dec_MemorySummary zero_MemorySummary (enc_MemorySummary m) = Some m"
  using assms unfolding dec_MemorySummary_def enc_MemorySummary_def zero_MemorySummary_def omit_real_def
  by (cases m) (simp add: key_simps dec_omits)

definition normal_summaries :: "(string \<times> MemorySummary) list \<Rightarrow> bool" where
  "normal_summaries fs \<longleftrightarrow> map_entries fs = fs \<and> list_all (\<lambda>(k, m). map_entries (ms_Metadata m) = ms_Metadata m) fs"

lemma dec_enc_summary_map:
  assumes "normal_summaries fs"
  shows "dec_struct_map zero_MemorySummary dec_MemorySummary [] (enc_struct_map enc_MemorySummary fs) = Some fs"
proof -
  have "those_map (\<lambda>kv. map_option (Pair (fst kv)) (dec_MemorySummary zero_MemorySummary (snd kv)))
      (map (\<lambda>(k, v). (k, enc_MemorySummary v)) fs) = Some fs"
    using assms by (intro those_map_Some) (auto simp: normal_summaries_def list_all_iff dec_enc_MemorySummary)
  with assms show ?thesis by (simp add: enc_struct_map_def normal_summaries_def)
qed

lemma dec_enc_RecallResponse:
  assumes "\<forall>m \<in> set (rr_Memories r). map_entries (ms_Metadata m) = ms_Metadata m" "normal_summaries (rr_SourceFacts r)"
  shows "dec_RecallResponse (enc_RecallResponse r) = Some r"
proof -
  have "dec_list zero_MemorySummary dec_MemorySummary [] (enc_list enc_MemorySummary (rr_Memories r)) = Some (rr_Memories r)"
    using assms(1) by (simp add: dec_enc_MemorySummary)
  moreover have "rr_SourceFacts r \<noteq> [] \<Longrightarrow> enc_struct_map enc_MemorySummary (rr_SourceFacts r) \<notin>
      {JStr [], JInt 0, JBool False, JArr [], JNull, JObj []}"
    by (simp add: enc_struct_map_def)
  ultimately show ?thesis
    using dec_enc_summary_map [OF assms(2)] unfolding dec_RecallResponse_def enc_RecallResponse_def
    by (cases r; cases "rr_SourceFacts r = []") (auto simp: key_simps omit_empty_def enc_struct_map_def)
qed

end
