(* ===== verification/Retro_Jobs.thy ===== *)
theory Retro_Jobs
  imports Agent_Runtime Response_Store Memory_Client
begin

text \<open>
  The retro agent's jobs (\<^verbatim>\<open>internal/retro/job.go\<close>), its locks (\<^verbatim>\<open>lock.go\<close>) and checkpoints (\<^verbatim>\<open>checkpoint.go\<close>): what a job
  extracts from a session, what it asks the memory service to keep, and where it goes on after
  a preemption. The memory service acts on a world \<open>'w\<close>. A \<^verbatim>\<open>float64\<close> is a rational number; rounding
  is not modelled.
\<close>

section \<open>Data\<close>

datatype JobType = JobMemoryExtraction | JobSkillCreation | JobCuration

fun job_name :: "JobType \<Rightarrow> string" where
  "job_name JobMemoryExtraction = ''memory_extraction''"
| "job_name JobSkillCreation = ''skill_creation''"
| "job_name JobCuration = ''curation''"

record ExtractedMemory =
  xm_Concept :: string
  xm_Content :: string
  xm_Summary :: string
  xm_Tags :: "string list"
  xm_MemoryType :: string
  xm_Confidence :: rat
  xm_IsCorrection :: bool
  xm_SpeakerID :: string
  xm_FactType :: string
  xm_Entities :: "string list"

record ExtractedSkill =
  xs_Concept :: string
  xs_ProblemClass :: string
  xs_Approach :: string
  xs_Outcome :: string
  xs_Summary :: string
  xs_Tags :: "string list"
  xs_Confidence :: rat

definition zero_ExtractedMemory :: ExtractedMemory where
  "zero_ExtractedMemory = \<lparr>xm_Concept = [], xm_Content = [], xm_Summary = [], xm_Tags = [], xm_MemoryType = [],
     xm_Confidence = 0, xm_IsCorrection = False, xm_SpeakerID = [], xm_FactType = [], xm_Entities = []\<rparr>"

definition dec_ExtractedMemory :: "ExtractedMemory decoder" where
  "dec_ExtractedMemory = dec_struct
     [fld ''concept'' dec_string xm_Concept xm_Concept_update,
      fld ''content'' dec_string xm_Content xm_Content_update,
      fld ''summary'' dec_string xm_Summary xm_Summary_update,
      fld ''tags'' (dec_list [] dec_string) xm_Tags xm_Tags_update,
      fld ''memory_type'' dec_string xm_MemoryType xm_MemoryType_update,
      fld ''confidence'' dec_float xm_Confidence xm_Confidence_update,
      fld ''is_correction'' dec_bool xm_IsCorrection xm_IsCorrection_update,
      fld ''speaker_id'' dec_string xm_SpeakerID xm_SpeakerID_update,
      fld ''fact_type'' dec_string xm_FactType xm_FactType_update,
      fld ''entities'' (dec_list [] dec_string) xm_Entities xm_Entities_update]"

definition zero_ExtractedSkill :: ExtractedSkill where
  "zero_ExtractedSkill = \<lparr>xs_Concept = [], xs_ProblemClass = [], xs_Approach = [], xs_Outcome = [], xs_Summary = [],
     xs_Tags = [], xs_Confidence = 0\<rparr>"

definition dec_ExtractedSkill :: "ExtractedSkill decoder" where
  "dec_ExtractedSkill = dec_struct
     [fld ''concept'' dec_string xs_Concept xs_Concept_update,
      fld ''problem_class'' dec_string xs_ProblemClass xs_ProblemClass_update,
      fld ''approach'' dec_string xs_Approach xs_Approach_update,
      fld ''outcome'' dec_string xs_Outcome xs_Outcome_update,
      fld ''summary'' dec_string xs_Summary xs_Summary_update,
      fld ''tags'' (dec_list [] dec_string) xs_Tags xs_Tags_update,
      fld ''confidence'' dec_float xs_Confidence xs_Confidence_update]"

section \<open>Locks and checkpoints\<close>

definition lockTTL :: int where "lockTTL = 300 * 1000000000"

definition lockKey :: "string \<Rightarrow> JobType \<Rightarrow> string" where
  "lockKey sessionID jobType = ''retro:lock:'' @ sessionID @ '':'' @ job_name jobType"

text \<open>\<^verbatim>\<open>SET key value NX PX ttl\<close>: any live value under the key, of whatever type, is in the way.\<close>

definition rdb_SetNX :: "int \<Rightarrow> string \<Rightarrow> string \<Rightarrow> int \<Rightarrow> redis \<Rightarrow> redis \<times> bool" where
  "rdb_SetNX now k v ttl db =
     (if rdb_Get now db k = Inr None then (rdb_Set k v (Some (now + ttl)) db, True) else (db, False))"

definition AcquireLock :: "int \<Rightarrow> string \<Rightarrow> JobType \<Rightarrow> redis \<Rightarrow> redis \<times> bool" where
  "AcquireLock now sessionID jobType db = rdb_SetNX now (lockKey sessionID jobType) ''locked'' lockTTL db"

definition ReleaseLock :: "string \<Rightarrow> JobType \<Rightarrow> redis \<Rightarrow> redis" where
  "ReleaseLock sessionID jobType db = rdb_Del (lockKey sessionID jobType) db"

definition checkpointKey :: "string \<Rightarrow> JobType \<Rightarrow> string" where
  "checkpointKey sessionID jobType = ''retro:checkpoint:'' @ sessionID @ '':'' @ job_name jobType"

definition enc_Checkpoint :: "int \<Rightarrow> json" where
  "enc_Checkpoint n = JObj [(''processed_turns'', JInt n)]"

definition dec_Checkpoint :: "json \<Rightarrow> int option" where
  "dec_Checkpoint = dec_struct [fld ''processed_turns'' dec_int (\<lambda>n. n) (\<lambda>f n. f n)] 0"

definition Checkpoint_Save :: "(json \<Rightarrow> string) \<Rightarrow> string \<Rightarrow> JobType \<Rightarrow> int \<Rightarrow> redis \<Rightarrow> redis" where
  "Checkpoint_Save marshal sessionID jobType n db =
     rdb_Set (checkpointKey sessionID jobType) (marshal (enc_Checkpoint n)) None db"

definition Checkpoint_Load :: "(string \<Rightarrow> json option) \<Rightarrow> int \<Rightarrow> string \<Rightarrow> JobType \<Rightarrow> redis \<Rightarrow> int option" where
  "Checkpoint_Load unmarshal now sessionID jobType db =
     (case rdb_Get now db (checkpointKey sessionID jobType) of
        Inr (Some v) \<Rightarrow> (case unmarshal v of None \<Rightarrow> None | Some j \<Rightarrow> dec_Checkpoint j)
      | _ \<Rightarrow> None)"

definition Checkpoint_Clear :: "string \<Rightarrow> JobType \<Rightarrow> redis \<Rightarrow> redis" where
  "Checkpoint_Clear sessionID jobType db = rdb_Del (checkpointKey sessionID jobType) db"

section \<open>Tags and words\<close>

fun unique_tags_loop :: "string list \<Rightarrow> string list \<Rightarrow> string list \<Rightarrow> string list" where
  "unique_tags_loop seen out [] = out"
| "unique_tags_loop seen out (t # ts) =
     (let t = trim_space t in
      if t = [] \<or> t \<in> set seen then unique_tags_loop seen out ts
      else unique_tags_loop (t # seen) (out @ [t]) ts)"

definition uniqueTags :: "string list \<Rightarrow> string list" where
  "uniqueTags tags = unique_tags_loop [] [] tags"

definition stripCorrectionsTag :: "string list \<Rightarrow> string list" where
  "stripCorrectionsTag tags =
     filter (\<lambda>t. \<not> (equal_fold t ''corrections'' \<or> equal_fold t ''correction'')) tags"

definition isAlphaNum :: "char \<Rightarrow> bool" where
  "isAlphaNum c \<longleftrightarrow> (let n = of_char c :: nat in
     (97 \<le> n \<and> n \<le> 122) \<or> (65 \<le> n \<and> n \<le> 90) \<or> (48 \<le> n \<and> n \<le> 57))"

fun take_word :: "string \<Rightarrow> string" where
  "take_word [] = []"
| "take_word (c # s) = (if \<exists>p \<in> set space_encodings. has_prefix (c # s) p then [] else c # take_word s)"

text \<open>\<^verbatim>\<open>strings.Fields\<close>.\<close>

lemma take_word_le: "length (take_word s) \<le> length s"
  by (induction s) auto

function go_fields :: "string \<Rightarrow> string list" where
  "go_fields s =
     (let s' = trim_space_left s in
      if s' = [] then [] else take_word s' # go_fields (drop (length (take_word s')) s'))"
  by pat_completeness auto

termination
proof (relation "measure length")
  fix s s' :: string
  assume s': "s' = trim_space_left s" "s' \<noteq> []"
  from trim_space_left_suffix [of s] s'(1) have len: "length s' \<le> length s" by (metis length_append le_add2)
  from s'(2) obtain c t where c: "s' = c # t" by (cases s') auto
  have "\<not> (\<exists>p \<in> set space_encodings. has_prefix (c # t) p)"
    using trim_space_left_no_space [of _ s] s'(1) c by metis
  then have "take_word s' \<noteq> []" by (simp add: c)
  with s'(2) len have "length (drop (length (take_word s')) s') < length s" by (cases s'; cases "take_word s'") auto
  then show "(drop (length (take_word s')) s', s) \<in> measure length" by simp
qed simp

declare go_fields.simps [simp del]

definition trim_non_alnum :: "string \<Rightarrow> string" where
  "trim_non_alnum w =
     rev (dropWhile (\<lambda>c. \<not> isAlphaNum c) (rev (dropWhile (\<lambda>c. \<not> isAlphaNum c) w)))"

definition toWordSet :: "string \<Rightarrow> string list" where
  "toWordSet s = remdups (filter (\<lambda>w. w \<noteq> []) (map trim_non_alnum (go_fields (to_lower s))))"

definition jaccard :: "string \<Rightarrow> string \<Rightarrow> rat" where
  "jaccard a b =
     (let aWords = toWordSet a; bWords = toWordSet b in
      if aWords = [] \<or> bWords = [] then 0
      else let inter = length (filter (\<lambda>w. w \<in> set bWords) aWords);
               union = length aWords + length bWords - inter
           in if union = 0 then 0 else of_nat inter / of_nat union)"

definition isDuplicateSkill :: "ExtractedSkill \<Rightarrow> MemorySummary list \<Rightarrow> rat \<Rightarrow> bool" where
  "isDuplicateSkill skill existing threshold =
     (let threshold = (if threshold \<le> 0 \<or> threshold > 1 then 85 / 100 else threshold)
      in \<exists>m \<in> set existing. jaccard (xs_ProblemClass skill) (ms_Content m) \<ge> threshold)"

section \<open>Requests to the memory service\<close>

text \<open>\<open>fmt2\<close> renders a number with two decimals. Fields of the requests that the program leaves empty are omitted.\<close>

definition confidence_meta :: "(rat \<Rightarrow> string) \<Rightarrow> rat \<Rightarrow> (string \<times> string) list" where
  "confidence_meta fmt2 c = (if c > 0 \<and> c \<le> 1 then [(''confidence'', fmt2 c)] else [])"

definition buildExtractRetainRequest :: "(rat \<Rightarrow> string) \<Rightarrow> ExtractedMemory \<Rightarrow> RetainRequest" where
  "buildExtractRetainRequest fmt2 mem =
     zero_RetainRequest\<lparr>rq_Content := trim_space (xm_Content mem),
      rq_Tags := stripCorrectionsTag (uniqueTags (xm_Tags mem)),
      rq_Metadata := [(''provenance'', ''explicit'')] @ confidence_meta fmt2 (xm_Confidence mem) @
        (if xm_MemoryType mem \<noteq> [] then [(''memory_type_hint'', xm_MemoryType mem)] else []) @
        (if xm_IsCorrection mem then [(''is_correction'', ''true'')] else []) @
        (if xm_SpeakerID mem \<noteq> [] then [(''speaker_id'', xm_SpeakerID mem)] else []) @
        (if xm_FactType mem \<noteq> [] then [(''fact_type'', xm_FactType mem)] else []),
      rq_Entities := xm_Entities mem\<rparr>"

definition buildSkillRetainRequest :: "(rat \<Rightarrow> string) \<Rightarrow> ExtractedSkill \<Rightarrow> string \<Rightarrow> RetainRequest" where
  "buildSkillRetainRequest fmt2 skill speakerID =
     (let concept = trim_space (xs_Concept skill);
          concept = (if concept = [] then trim_space (xs_ProblemClass skill) else concept);
          content = trim_space concept;
          part = (\<lambda>label s. let s = trim_space s in if s \<noteq> [] then [label @ s] else [])
      in if content = [] then zero_RetainRequest
         else zero_RetainRequest\<lparr>rq_Content := join_with [CHR 0x0A]
                 ([content] @ part ''Problem: '' (xs_ProblemClass skill) @ part ''Approach: '' (xs_Approach skill) @
                  part ''Outcome: '' (xs_Outcome skill)),
               rq_Tags := uniqueTags (''skill'' # xs_Tags skill),
               rq_Metadata := [(''provenance'', ''implicit'')] @ confidence_meta fmt2 (xs_Confidence skill) @
                 (if speakerID \<noteq> [] then [(''speaker_id'', speakerID)] else [])\<rparr>)"

section \<open>Prompts and answers\<close>

definition chat_msg :: "string \<Rightarrow> string \<Rightarrow> ChatMsg" where
  "chat_msg role txt = \<lparr>cm_Role = role, cm_Content = txt, cm_ToolCalls = [], cm_ToolCallID = []\<rparr>"

definition transcript :: "ChatMsg list \<Rightarrow> string" where
  "transcript history = concat (map (\<lambda>m. ''['' @ cm_Role m @ '']: '' @ cm_Content m @ [CHR 0x0A]) history)"

text \<open>\<open>sys\<close> is the constant system prompt.\<close>

definition buildMemoryExtractionPrompt :: "string \<Rightarrow> ChatMsg list \<Rightarrow> string \<Rightarrow> ChatMsg list" where
  "buildMemoryExtractionPrompt sys history speakerID =
     [chat_msg ''system'' sys,
      chat_msg ''user'' (''Analyze this conversation for memorable information:'' @ [CHR 0x0A, CHR 0x0A] @
        (if speakerID \<noteq> [] then ''Speaker ID for this conversation: '' @ speakerID @ [CHR 0x0A, CHR 0x0A] else []) @
        transcript history)]"

definition buildSkillCreationPrompt :: "string \<Rightarrow> ChatMsg list \<Rightarrow> ChatMsg list" where
  "buildSkillCreationPrompt sys history =
     [chat_msg ''system'' sys,
      chat_msg ''user'' (''Analyze this conversation for reusable problem-solving patterns:'' @ [CHR 0x0A, CHR 0x0A] @
        transcript history)]"

definition trimJSONFences :: "string \<Rightarrow> string" where
  "trimJSONFences s =
     trim_space (trim_suffix (trim_prefix (trim_prefix (trim_space s) (replicate 3 (CHR 0x60) @ ''json'')) (replicate 3 (CHR 0x60)))
       (replicate 3 (CHR 0x60)))"

definition parseMemories :: "(string \<Rightarrow> json option) \<Rightarrow> string \<Rightarrow> ExtractedMemory list option" where
  "parseMemories unmarshal llmOutput =
     (case unmarshal (trimJSONFences llmOutput) of
        None \<Rightarrow> None | Some j \<Rightarrow> dec_list zero_ExtractedMemory dec_ExtractedMemory [] j)"

definition parseSkills :: "(string \<Rightarrow> json option) \<Rightarrow> string \<Rightarrow> ExtractedSkill list option" where
  "parseSkills unmarshal llmOutput =
     (case unmarshal (trimJSONFences llmOutput) of
        None \<Rightarrow> None | Some j \<Rightarrow> dec_list zero_ExtractedSkill dec_ExtractedSkill [] j)"

definition countProcessedFromProgress :: "string list \<Rightarrow> ChatMsg list \<Rightarrow> int" where
  "countProcessedFromProgress progressLog history =
     (if progressLog = [] then 0
      else let markers = length (filter (\<lambda>tok. contains_sub tok ''[user]:'' \<or> contains_sub tok ''[assistant]:'') progressLog)
           in if markers > length history then int (length history) else int markers)"

section \<open>Jobs\<close>

record 'w job_env =
  jb_rt :: rt_env
  jb_rounds :: "exec_round list"
  jb_finalizeTimeout :: int
  jb_now :: int
  jb_parse :: "string \<Rightarrow> json option"          \<comment> \<open>\<^verbatim>\<open>json.Unmarshal\<close>\<close>
  jb_marshal :: "json \<Rightarrow> string"
  jb_fmt2 :: "rat \<Rightarrow> string"
  jb_Retain :: "RetainRequest \<Rightarrow> 'w \<Rightarrow> 'w \<times> bool"
  jb_Recall :: "RecallRequest \<Rightarrow> 'w \<Rightarrow> 'w \<times> MemorySummary list option"
  jb_Reflect :: "string \<Rightarrow> 'w \<Rightarrow> 'w \<times> bool"

record 'w job_state =
  js_runtime :: Runtime
  js_sent :: "Message list"
  js_db :: redis
  js_world :: 'w

datatype job_error = HistoryError store_error | SlotError rt_error | ExecFailed rt_error | JobPreempted | JobPanic

text \<open>
  What both extraction jobs do up to the model's answer: \<open>Inl\<close> an early return, \<open>Inr\<close> the answer and the length
  of the history, with the slot still held. No value while the LLM call has not returned.
\<close>

definition release_slot :: "'w job_env \<Rightarrow> 'w job_state \<Rightarrow> 'w job_state" where
  "release_slot e st =
     (case ReleaseSlot (jb_rt e) (js_runtime st) of
        (r, sent, _) \<Rightarrow> st\<lparr>js_runtime := r, js_sent := js_sent st @ sent\<rparr>)"

definition llm_phase ::
  "'w job_env \<Rightarrow> JobType \<Rightarrow> string \<Rightarrow> int option \<Rightarrow> int \<Rightarrow> (ChatMsg list \<Rightarrow> ChatMsg list) \<Rightarrow> 'w job_state \<Rightarrow>
     ('w job_state \<times> (job_error option + string \<times> nat)) option" where
  "llm_phase e typ sessionID cp minTurns mkPrompt st =
     (case GetSessionMessages (jb_parse e) sessionID (js_db st) of
        Inl err \<Rightarrow> Some (st, Inl (Some (HistoryError err)))
      | Inr history \<Rightarrow>
          let startIdx = (case cp of None \<Rightarrow> 0 | Some n \<Rightarrow> n) in
          if int (length history) < minTurns \<or> startIdx \<ge> int (length history) then Some (st, Inl None)
          else if startIdx < 0 then Some (st, Inl (Some JobPanic))
          else
            let unprocessed = drop (nat startIdx) history in
            case RequestSlot (jb_rt e) (js_runtime st) of
              (r, sent, Inl err) \<Rightarrow> Some (st\<lparr>js_runtime := r, js_sent := js_sent st @ sent\<rparr>, Inl (Some (SlotError err)))
            | (r, sent, Inr slotID) \<Rightarrow>
                (case Execute (jb_rt e) (jb_finalizeTimeout e) (mkPrompt unprocessed) [] (jb_rounds e) r of
                   (_, _, None) \<Rightarrow> None
                 | (r, sent2, Some (result, _, err)) \<Rightarrow>
                     let st = st\<lparr>js_runtime := r, js_sent := js_sent st @ sent @ sent2\<rparr> in
                     (case err of
                        None \<Rightarrow> Some (st, Inr (result, length history))
                      | Some err \<Rightarrow>
                          if err = ErrPreempted then
                            Some (release_slot e (st\<lparr>js_db := Checkpoint_Save (jb_marshal e) sessionID typ
                               (startIdx + countProcessedFromProgress (GetProgressLog r) unprocessed) (js_db st)\<rparr>),
                              Inl (Some JobPreempted))
                          else Some (release_slot e st, Inl (Some (ExecFailed err))))))"

text \<open>The retain loop of the extraction job, with the number of memories stored.\<close>

fun retain_memories :: "'w job_env \<Rightarrow> ExtractedMemory list \<Rightarrow> 'w \<Rightarrow> nat \<Rightarrow> 'w \<times> nat" where
  "retain_memories e [] w stored = (w, stored)"
| "retain_memories e (mem # mems) w stored =
     (if trim_space (xm_Content mem) = [] then retain_memories e mems w stored
      else case jb_Retain e (buildExtractRetainRequest (jb_fmt2 e) mem) w of
        (w, ok) \<Rightarrow> retain_memories e mems w (if ok then Suc stored else stored))"

definition MemoryExtractionJob_Run ::
  "'w job_env \<Rightarrow> string \<Rightarrow> string \<Rightarrow> int option \<Rightarrow> 'w job_state \<Rightarrow> ('w job_state \<times> job_error option) option" where
  "MemoryExtractionJob_Run e sys sessionID cp st =
     (case llm_phase e JobMemoryExtraction sessionID cp 1
             (\<lambda>unprocessed. buildMemoryExtractionPrompt sys unprocessed (GetSessionSpeakerID sessionID (js_db st))) st of
        None \<Rightarrow> None
      | Some (st, Inl err) \<Rightarrow> Some (st, err)
      | Some (st, Inr (result, n)) \<Rightarrow>
          (case parseMemories (jb_parse e) result of
             None \<Rightarrow> Some (release_slot e st, None)
           | Some memories \<Rightarrow>
               let w = fst (retain_memories e memories (js_world st) 0)
               in Some (release_slot e (st\<lparr>js_world := w,
                    js_db := Checkpoint_Save (jb_marshal e) sessionID JobMemoryExtraction (int n) (js_db st)\<rparr>), None)))"

fun retain_skills :: "'w job_env \<Rightarrow> rat \<Rightarrow> string \<Rightarrow> ExtractedSkill list \<Rightarrow> 'w \<Rightarrow> nat \<Rightarrow> 'w \<times> nat" where
  "retain_skills e threshold speakerID [] w stored = (w, stored)"
| "retain_skills e threshold speakerID (skill # skills) w stored =
     (case jb_Recall e (zero_RecallRequest\<lparr>rc_Query := xs_ProblemClass skill, rc_Limit := 3, rc_Tags := [''skill'']\<rparr>) w of
        (w, existing) \<Rightarrow>
          if (case existing of None \<Rightarrow> False | Some ms \<Rightarrow> isDuplicateSkill skill ms threshold)
          then retain_skills e threshold speakerID skills w stored
          else
            let req = buildSkillRetainRequest (jb_fmt2 e) skill speakerID in
            if rq_Content req = [] then retain_skills e threshold speakerID skills w stored
            else case jb_Retain e req w of
              (w, ok) \<Rightarrow> retain_skills e threshold speakerID skills w (if ok then Suc stored else stored))"

definition SkillCreationJob_Run ::
  "'w job_env \<Rightarrow> string \<Rightarrow> int \<Rightarrow> rat \<Rightarrow> string \<Rightarrow> int option \<Rightarrow> 'w job_state \<Rightarrow> ('w job_state \<times> job_error option) option" where
  "SkillCreationJob_Run e sys minHistoryTurns threshold sessionID cp st =
     (let speakerID = GetSessionSpeakerID sessionID (js_db st) in
      case llm_phase e JobSkillCreation sessionID cp minHistoryTurns (buildSkillCreationPrompt sys) st of
        None \<Rightarrow> None
      | Some (st, Inl err) \<Rightarrow> Some (st, err)
      | Some (st, Inr (result, n)) \<Rightarrow>
          (case parseSkills (jb_parse e) result of
             None \<Rightarrow> Some (release_slot e st, None)
           | Some skills \<Rightarrow>
               let w = fst (retain_skills e threshold speakerID skills (js_world st) 0)
               in Some (release_slot e (st\<lparr>js_world := w,
                    js_db := Checkpoint_Save (jb_marshal e) sessionID JobSkillCreation (int n) (js_db st)\<rparr>), None)))"

fun categoryCounts :: "'w job_env \<Rightarrow> int \<Rightarrow> string list \<Rightarrow> 'w \<Rightarrow> 'w \<times> (string \<times> int) list" where
  "categoryCounts e recallLimit [] w = (w, [])"
| "categoryCounts e recallLimit (cat # cats) w =
     (let limit = (if recallLimit \<le> 0 then 15 else recallLimit);
          (w, resp) = jb_Recall e (zero_RecallRequest\<lparr>rc_Query := cat, rc_Limit := limit, rc_Tags := [cat]\<rparr>) w;
          (w', counts) = categoryCounts e recallLimit cats w
      in (w', (if cat \<in> fst ` set counts then counts
               else (cat, case resp of None \<Rightarrow> -1 | Some ms \<Rightarrow> int (length ms)) # counts)))"

definition CurationJob_Run ::
  "'w job_env \<Rightarrow> string list \<Rightarrow> int \<Rightarrow> 'w job_state \<Rightarrow> ('w job_state \<times> job_error option) option" where
  "CurationJob_Run e categories recallLimit st =
     (let (w, pre) = categoryCounts e recallLimit categories (js_world st);
          (w, _) = jb_Reflect e ''Summarize recent developments across observations.'' w;
          (w, post) = categoryCounts e recallLimit categories w
      in Some (st\<lparr>js_world := w\<rparr>, None))"

section \<open>Checkpoints and the session's history\<close>

lemma checkpointKey_other [simp]:
  "checkpointKey s t \<noteq> responseKey r" "checkpointKey s t \<noteq> sessionResponsesKey s'"
  "responseKey r \<noteq> checkpointKey s t" "sessionResponsesKey s' \<noteq> checkpointKey s t"
  by (simp_all add: checkpointKey_def responseKey_def sessionResponsesKey_def)

lemma get_all_cong: "(\<And>rid. Store_Get parse rid db' = Store_Get parse rid db) \<Longrightarrow> get_all parse db' ids = get_all parse db ids"
  by (induction ids) (auto split: sum.split)

lemma history_after_checkpoint [simp]:
  "GetSessionMessages parse s (Checkpoint_Save marshal s' t n db) = GetSessionMessages parse s db"
proof -
  have k: "map_of (Checkpoint_Save marshal s' t n db) (responseKey r) = map_of db (responseKey r)"
    "map_of (Checkpoint_Save marshal s' t n db) (sessionResponsesKey s) = map_of db (sessionResponsesKey s)" for r
    by (simp_all add: Checkpoint_Save_def rdb_Set_def update_conv')
  then have "get_all parse (Checkpoint_Save marshal s' t n db) ids = get_all parse db ids" for ids
    by (intro get_all_cong) (simp add: Store_Get_def rdb_HGetAll_def)
  then show ?thesis by (simp add: GetSessionMessages_def GetSessionHistory_def rdb_LRange_def k split: option.split rvalue.split)
qed

lemma checkpoint_roundtrip:
  assumes "unmarshal (marshal (enc_Checkpoint n)) = Some (enc_Checkpoint n)"
  shows "Checkpoint_Load unmarshal now s t (Checkpoint_Save marshal s t n db) = Some n"
  using assms by (simp add: Checkpoint_Load_def Checkpoint_Save_def rdb_Get_def rdb_Set_def update_conv'
      enc_Checkpoint_def dec_Checkpoint_def key_simps)

lemma countProcessed_bounds:
  "0 \<le> countProcessedFromProgress prog history \<and> countProcessedFromProgress prog history \<le> int (length history)"
  by (simp add: countProcessedFromProgress_def Let_def)

section \<open>What a job does\<close>

lemma release_slot_same [simp]:
  "js_db (release_slot e st) = js_db st" "js_world (release_slot e st) = js_world st"
  by (simp_all add: release_slot_def split: prod.split)

lemma release_slot_free: "sound_rt (jb_rt e) \<Longrightarrow> rt_slotID (js_runtime (release_slot e st)) = -1"
proof (cases "rt_slotID (js_runtime st) = -1")
  case True
  then show ?thesis by (simp add: release_slot_def ReleaseSlot_def)
next
  case False
  assume "sound_rt (jb_rt e)"
  obtain r sent err where r: "ReleaseSlot (jb_rt e) (js_runtime st) = (r, sent, err)" by (metis prod_cases3)
  from ReleaseSlot_sound [OF \<open>sound_rt (jb_rt e)\<close> False r] show ?thesis by (simp add: release_slot_def r)
qed

text \<open>
  The two ways the common phase ends. The checkpoint a preempted phase leaves is between the old one
  and the end of the history.
\<close>

lemma llm_phase_result:
  assumes "llm_phase e typ s cp minTurns mk st = Some (st1, res)"
    and "GetSessionMessages (jb_parse e) s (js_db st) = Inr history"
    and "cp = None \<or> (\<exists>k. cp = Some k \<and> 0 \<le> k)"
  shows "js_world st1 = js_world st \<and>
    (case res of
       Inr (out, n) \<Rightarrow> js_db st1 = js_db st \<and> n = length history
     | Inl err \<Rightarrow> js_db st1 = js_db st \<and> err \<noteq> Some JobPreempted \<or>
         err = Some JobPreempted \<and> (\<exists>k. (case cp of None \<Rightarrow> 0 | Some c \<Rightarrow> c) \<le> k \<and> k \<le> int (length history) \<and>
           js_db st1 = Checkpoint_Save (jb_marshal e) s typ k (js_db st)))"
proof -
  let ?start = "case cp of None \<Rightarrow> 0 | Some c \<Rightarrow> c"
  have start: "0 \<le> ?start" using assms(3) by auto
  show ?thesis
  proof (cases "int (length history) < minTurns \<or> ?start \<ge> int (length history)")
    case True
    with assms(1,2) show ?thesis by (auto simp: llm_phase_def Let_def)
  next
    case False
    obtain r sent got where rq: "RequestSlot (jb_rt e) (js_runtime st) = (r, sent, got)" by (metis prod_cases3)
    show ?thesis
    proof (cases got)
      case (Inl err)
      with assms(1,2) False start rq show ?thesis by (auto simp: llm_phase_def Let_def)
    next
      case (Inr i)
      let ?un = "drop (nat ?start) history"
      obtain r2 sent2 ex where ex: "Execute (jb_rt e) (jb_finalizeTimeout e) (mk ?un) [] (jb_rounds e) r = (r2, sent2, ex)"
        by (metis prod_cases3)
      have b: "?start \<le> ?start + countProcessedFromProgress (GetProgressLog r2) ?un \<and>
          ?start + countProcessedFromProgress (GetProgressLog r2) ?un \<le> int (length history)"
        using countProcessed_bounds [of "GetProgressLog r2" ?un] start False by auto
      from assms(1,2) False start rq Inr ex obtain out calls err where res: "ex = Some (out, calls, err)"
        by (cases ex) (auto simp: llm_phase_def Let_def)
      show ?thesis
      proof (cases "err = Some ErrPreempted")
        case True
        with assms(1,2) False start rq Inr ex res b show ?thesis
          by (auto simp: llm_phase_def Let_def intro!: exI [of _ "?start + countProcessedFromProgress (GetProgressLog r2) ?un"])
      next
        case False
        with assms(1,2) \<open>\<not> (int (length history) < minTurns \<or> ?start \<ge> int (length history))\<close> start rq Inr ex res
        show ?thesis by (auto simp: llm_phase_def Let_def split: option.splits if_splits)
      qed
    qed
  qed
qed

lemma llm_phase_done:
  assumes "GetSessionMessages (jb_parse e) s (js_db st) = Inr history" "cp = Some (int (length history))"
  shows "llm_phase e typ s cp minTurns mk st = Some (st, Inl None)"
  using assms by (simp add: llm_phase_def)

lemma llm_phase_slot:
  assumes "sound_rt (jb_rt e)" "rt_slotID (js_runtime st) = -1" "llm_phase e typ s cp minTurns mk st = Some (st1, Inl err)"
  shows "rt_slotID (js_runtime st1) = -1"
proof (cases "RequestSlot (jb_rt e) (js_runtime st)")
  case (fields r sent got)
  with RequestSlot_sound [OF assms(1) fields] assms show ?thesis
    by (auto simp: llm_phase_def Let_def release_slot_free split: sum.splits option.splits if_splits prod.splits)
qed

text \<open>The memories of an answer that are worth a request, in order.\<close>

lemma retain_memories_fold:
  "fst (retain_memories e mems w n) =
    fold (\<lambda>mem w. fst (jb_Retain e (buildExtractRetainRequest (jb_fmt2 e) mem) w))
      (filter (\<lambda>mem. trim_space (xm_Content mem) \<noteq> []) mems) w"
  by (induction mems arbitrary: w n) (auto split: prod.split)


definition sample_job_env :: "RetainRequest list job_env" where
  "sample_job_env = \<lparr>jb_rt = granting,
     jb_rounds = [reads (Inr [(token_of ''out'' False, ''1''), (token_of [] True, ''2'')])], jb_finalizeTimeout = 5, jb_now = 0,
     jb_parse = (\<lambda>s. if s = ''in'' then Some (JArr [JObj [(''type'', JStr ''message''), (''content'', JStr ''hi'')]])
       else if s = ''out'' then Some (JArr [JObj [(''content'', JStr ''likes tea'')], JObj [(''content'', JStr '' '')]])
       else if s = ''0'' then Some (enc_Checkpoint 0) else if s = ''1'' then Some (enc_Checkpoint 1) else None),
     jb_marshal = (\<lambda>j. if j = enc_Checkpoint 0 then ''0'' else ''1''), jb_fmt2 = (\<lambda>_. []),
     jb_Retain = (\<lambda>r w. (w @ [r], True)), jb_Recall = (\<lambda>_ w. (w, None)), jb_Reflect = (\<lambda>_ w. (w, True))\<rparr>"

definition sample_job_state :: "RetainRequest list job_state" where
  "sample_job_state = \<lparr>js_runtime = NewRuntime ''retro'' 1 True, js_sent = [],
     js_db = [(sessionResponsesKey ''s'', RList [''a'']), (responseKey ''a'', RHash [(''id'', ''a''), (''input'', ''in'')])],
     js_world = []\<rparr>"


text \<open>
  A preempted job marks turns as processed although nothing was stored for them: the count is the number of
  role markers the model has echoed.
\<close>

lemma preempted_progress_counts_markers:
  "countProcessedFromProgress [''[user]: hi''] [chat_msg ''user'' ''hi'', chat_msg ''assistant'' ''ho''] = 1"
  by code_simp

end
