(* ===== verification/Retro_Dispatch.thy ===== *)
theory Retro_Dispatch
  imports Retro_Jobs
begin

text \<open>
  When the retro agent's jobs run (\<^verbatim>\<open>cmd/retro-agent/main.go\<close>, \<^verbatim>\<open>internal/retro/trigger.go\<close>): the lease that keeps two
  runs of a job on a session apart, the dispatchers, and the inactivity trigger as a state machine.
\<close>

section \<open>Leases\<close>

text \<open>
  What a client of the lock may rely on: a lease is granted exactly if nobody holds it, lasts for \<open>ttl\<close>, and is
  gone after a release; other keys are not affected.
\<close>

locale lease =
  fixes acquire :: "int \<Rightarrow> 'k \<Rightarrow> 'd \<Rightarrow> 'd \<times> bool"
    and release :: "'k \<Rightarrow> 'd \<Rightarrow> 'd"
    and held :: "int \<Rightarrow> 'k \<Rightarrow> 'd \<Rightarrow> bool"
    and ttl :: int
  assumes acquire_granted: "snd (acquire t k d) \<longleftrightarrow> \<not> held t k d"
    and acquire_refused: "held t k d \<Longrightarrow> fst (acquire t k d) = d"
    and held_acquire: "\<not> held t k d \<Longrightarrow> held t' k' (fst (acquire t k d)) \<longleftrightarrow> (if k' = k then t' < t + ttl else held t' k' d)"
    and held_release: "held t k' (release k d) \<longleftrightarrow> k' \<noteq> k \<and> held t k' d"
begin

text \<open>Attempts to get leases, one after the other: the state and the answers.\<close>

fun attempts :: "(int \<times> 'k) list \<Rightarrow> 'd \<Rightarrow> 'd \<times> bool list" where
  "attempts [] d = (d, [])"
| "attempts ((t, k) # as) d =
     (let (d1, ok) = acquire t k d; (d2, oks) = attempts as d1 in (d2, ok # oks))"

lemma attempts_keep:
  assumes "\<forall>t < until. held t k d" "\<forall>(t, k') \<in> set as. k' = k \<longrightarrow> t < until"
  shows "(\<forall>t < until. held t k (fst (attempts as d))) \<and>
    (\<forall>((t, k'), ok) \<in> set (zip as (snd (attempts as d))). k' = k \<longrightarrow> \<not> ok)"
  using assms
proof (induction as arbitrary: d)
  case (Cons a as)
  obtain t k' where a: "a = (t, k')" by fastforce
  let ?d = "fst (acquire t k' d)"
  have keep: "\<forall>t < until. held t k ?d"
  proof (cases "k' = k")
    case True
    with Cons.prems a have "held t k' d" by auto
    then show ?thesis using acquire_refused Cons.prems(1) by simp
  next
    case False
    then show ?thesis
      using Cons.prems(1) held_acquire [of t k' d] acquire_refused [of t k' d] by (cases "held t k' d") auto
  qed
  have "k' = k \<Longrightarrow> \<not> snd (acquire t k' d)" using Cons.prems a acquire_granted by auto
  with Cons.IH [OF keep] Cons.prems(2) show ?case by (auto simp: a Let_def split_def)
qed simp

text \<open>Mutual exclusion while the lease lasts: between a grant and its end nobody else is granted the same key.\<close>

lemma exclusive:
  assumes "snd (acquire t k d)" "\<forall>(t', k') \<in> set as. k' = k \<longrightarrow> t' < t + ttl"
  shows "\<forall>((t', k'), ok) \<in> set (zip as (snd (attempts as (fst (acquire t k d))))). k' = k \<longrightarrow> \<not> ok"
proof -
  from assms(1) have "\<not> held t k d" by (simp add: acquire_granted)
  then have "\<forall>t' < t + ttl. held t' k (fst (acquire t k d))" by (simp add: held_acquire)
  from attempts_keep [OF this assms(2)] show ?thesis by blast
qed

lemma granted_after_release: "snd (acquire t k (release k d))"
  by (simp add: acquire_granted held_release)

lemma granted_after_expiry: "snd (acquire t k d) \<Longrightarrow> t + ttl \<le> t' \<Longrightarrow> snd (acquire t' k (fst (acquire t k d)))"
  by (simp add: acquire_granted held_acquire)

end

section \<open>The lock of the jobs is a lease\<close>

definition lock_acquire :: "int \<Rightarrow> string \<times> JobType \<Rightarrow> redis \<Rightarrow> redis \<times> bool" where
  "lock_acquire t k db = AcquireLock t (fst k) (snd k) db"

definition lock_release :: "string \<times> JobType \<Rightarrow> redis \<Rightarrow> redis" where
  "lock_release k db = ReleaseLock (fst k) (snd k) db"

definition lock_held :: "int \<Rightarrow> string \<times> JobType \<Rightarrow> redis \<Rightarrow> bool" where
  "lock_held t k db \<longleftrightarrow> rdb_Get t db (lockKey (fst k) (snd k)) \<noteq> Inr None"

lemma job_name_no_colon: "CHR '':'' \<notin> set (job_name t)"
  by (cases t) auto

lemma job_name_inj: "job_name t = job_name u \<Longrightarrow> t = u"
  by (cases t; cases u) auto

lemma last_cut: "x \<notin> set ys \<Longrightarrow> x \<notin> set ys' \<Longrightarrow> xs @ x # ys = xs' @ x # ys' \<longleftrightarrow> xs = xs' \<and> ys = ys'"
  using cut_at [of x "rev ys" "rev ys'" "rev xs" "rev xs'"]
  by (metis append.assoc append_Cons append_Nil rev.simps(2) rev_append rev_rev_ident set_rev)

lemma lockKey_inj: "lockKey s t = lockKey s' t' \<longleftrightarrow> s = s' \<and> t = t'"
  unfolding lockKey_def using last_cut [OF job_name_no_colon job_name_no_colon, of s t s' t'] job_name_inj by auto

interpretation job_lock: lease lock_acquire lock_release lock_held lockTTL
proof unfold_locales
  show "snd (lock_acquire t k d) \<longleftrightarrow> \<not> lock_held t k d" for t k d
    by (simp add: lock_acquire_def AcquireLock_def rdb_SetNX_def lock_held_def)
  show "lock_held t k d \<Longrightarrow> fst (lock_acquire t k d) = d" for t k d
    by (simp add: lock_acquire_def AcquireLock_def rdb_SetNX_def lock_held_def)
  show "\<not> lock_held t k d \<Longrightarrow> lock_held t' k' (fst (lock_acquire t k d)) \<longleftrightarrow>
      (if k' = k then t' < t + lockTTL else lock_held t' k' d)" for t k d t' k'
    by (auto simp: lock_acquire_def AcquireLock_def rdb_SetNX_def lock_held_def rdb_Get_Set lockKey_inj prod_eq_iff)
  show "lock_held t k' (lock_release k d) \<longleftrightarrow> k' \<noteq> k \<and> lock_held t k' d" for t k' k d
    by (auto simp: lock_release_def ReleaseLock_def lock_held_def rdb_Get_Del lockKey_inj prod_eq_iff)
qed

section \<open>Dispatch\<close>

text \<open>The configured jobs and the times at which their locks are tried.\<close>

record retro_cfg =
  rg_extraction_sys :: string
  rg_skill_sys :: string
  rg_MinHistoryTurns :: int
  rg_SkillDupThreshold :: rat
  rg_CurationCategories :: "string list"
  rg_CurationRecallLimit :: int

fun job_Run :: "retro_cfg \<Rightarrow> 'w job_env \<Rightarrow> JobType \<Rightarrow> string \<Rightarrow> int option \<Rightarrow> 'w job_state \<Rightarrow> ('w job_state \<times> job_error option) option" where
  "job_Run c e JobMemoryExtraction s cp st = MemoryExtractionJob_Run e (rg_extraction_sys c) s cp st"
| "job_Run c e JobSkillCreation s cp st =
     SkillCreationJob_Run e (rg_skill_sys c) (rg_MinHistoryTurns c) (rg_SkillDupThreshold c) s cp st"
| "job_Run c e JobCuration s cp st = CurationJob_Run e (rg_CurationCategories c) (rg_CurationRecallLimit c) st"

definition runJob :: "retro_cfg \<Rightarrow> 'w job_env \<Rightarrow> string \<Rightarrow> JobType \<Rightarrow> int option \<Rightarrow> 'w job_state \<Rightarrow> 'w job_state option" where
  "runJob c e sessionID job cp st =
     (case AcquireLock (jb_now e) sessionID job (js_db st) of
        (db, False) \<Rightarrow> Some (st\<lparr>js_db := db\<rparr>)
      | (db, True) \<Rightarrow>
          (case job_Run c e job sessionID cp (st\<lparr>js_db := db\<rparr>) of
             None \<Rightarrow> None
           | Some (st', _) \<Rightarrow> Some (st'\<lparr>js_db := ReleaseLock sessionID job (js_db st')\<rparr>)))"

text \<open>\<^verbatim>\<open>dispatch\<close>: the three jobs, each in an environment of its own.\<close>

definition dispatch ::
  "retro_cfg \<Rightarrow> 'w job_env \<Rightarrow> 'w job_env \<Rightarrow> 'w job_env \<Rightarrow> string \<Rightarrow> 'w job_state \<Rightarrow> 'w job_state option" where
  "dispatch c e1 e2 e3 sessionID st =
     Option.bind (runJob c e1 sessionID JobMemoryExtraction
         (Checkpoint_Load (jb_parse e1) (jb_now e1) sessionID JobMemoryExtraction (js_db st)) st) (\<lambda>st.
     Option.bind (runJob c e2 sessionID JobSkillCreation
         (Checkpoint_Load (jb_parse e2) (jb_now e2) sessionID JobSkillCreation (js_db st)) st)
       (runJob c e3 sessionID JobCuration None))"

definition job_of_name :: "string \<Rightarrow> JobType option" where
  "job_of_name s = find (\<lambda>t. job_name t = s) [JobMemoryExtraction, JobSkillCreation, JobCuration]"

definition dispatchSingle ::
  "retro_cfg \<Rightarrow> 'w job_env \<Rightarrow> string \<Rightarrow> string \<Rightarrow> 'w job_state \<Rightarrow> 'w job_state option" where
  "dispatchSingle c e sessionID jobType st =
     (case job_of_name jobType of
        None \<Rightarrow> Some st
      | Some job \<Rightarrow>
          let cp = (if jobType \<noteq> ''curation'' then Checkpoint_Load (jb_parse e) (jb_now e) sessionID job (js_db st) else None)
          in case job_Run c e job sessionID cp st of
               None \<Rightarrow> None
             | Some (st', _) \<Rightarrow> Some (st'\<lparr>js_db := ReleaseLock sessionID job (js_db st')\<rparr>))"

section \<open>The inactivity trigger\<close>

text \<open>
  Timers are numbered in the order of their creation. \<open>tr_timers\<close> is the map of the loop, \<open>tr_live\<close> the timers that are
  neither stopped nor fired (with session and deadline), \<open>tr_running\<close> the sessions whose callback is at work.
\<close>

record trigger =
  tr_timers :: "(string \<times> nat) list"
  tr_live :: "(nat \<times> string \<times> int) list"
  tr_next :: nat
  tr_running :: "string list"
  tr_activated :: "(string \<times> int) list"

definition NewTrigger :: trigger where
  "NewTrigger = \<lparr>tr_timers = [], tr_live = [], tr_next = 0, tr_running = [], tr_activated = []\<rparr>"

datatype trigger_event = Activity string int | Fires nat int | Finishes string

text \<open>A session event arrives: stop the session's timer and start a new one.\<close>

definition on_activity :: "int \<Rightarrow> string \<Rightarrow> int \<Rightarrow> trigger \<Rightarrow> trigger" where
  "on_activity timeout s t r =
     (let live = (case map_of (tr_timers r) s of None \<Rightarrow> tr_live r | Some i \<Rightarrow> filter (\<lambda>x. fst x \<noteq> i) (tr_live r)); n = tr_next r
      in r\<lparr>tr_live := live @ [(n, s, t + timeout)], tr_timers := AList.update s n (tr_timers r), tr_next := Suc n\<rparr>)"

text \<open>The callback: activation, and afterwards the removal of whatever timer the map holds for the session.\<close>

definition on_fire :: "nat \<Rightarrow> int \<Rightarrow> trigger \<Rightarrow> trigger option" where
  "on_fire i t r =
     (case map_of (tr_live r) i of
        None \<Rightarrow> None
      | Some (s, deadline) \<Rightarrow>
          if t < deadline then None
          else Some (r\<lparr>tr_live := filter (\<lambda>x. fst x \<noteq> i) (tr_live r), tr_running := s # tr_running r,
                       tr_activated := tr_activated r @ [(s, t)]\<rparr>))"

definition on_finish :: "string \<Rightarrow> trigger \<Rightarrow> trigger option" where
  "on_finish s r =
     (if s \<in> set (tr_running r)
      then Some (r\<lparr>tr_running := remove1 s (tr_running r), tr_timers := AList.delete s (tr_timers r)\<rparr>) else None)"

fun trigger_step :: "int \<Rightarrow> trigger_event \<Rightarrow> trigger \<Rightarrow> trigger option" where
  "trigger_step timeout (Activity s t) r = Some (on_activity timeout s t r)"
| "trigger_step timeout (Fires i t) r = on_fire i t r"
| "trigger_step timeout (Finishes s) r = on_finish s r"

text \<open>\<^verbatim>\<open>RunSessionEndTrigger\<close>: the sessions it activates for the events it gets.\<close>

definition session_end_activations :: "SessionEventPayload list \<Rightarrow> string list" where
  "session_end_activations evs = map ev_SessionID (filter (\<lambda>ev. ev_Event ev = ''session_ended'') evs)"

text \<open>Runs in which no event of a session arrives while the session's callback is at work.\<close>

fun quiet_run :: "int \<Rightarrow> trigger_event list \<Rightarrow> trigger \<Rightarrow> trigger option" where
  "quiet_run timeout [] r = Some r"
| "quiet_run timeout (ev # evs) r =
     (case ev of
        Activity s t \<Rightarrow> if s \<in> set (tr_running r) then None else quiet_run timeout evs (on_activity timeout s t r)
      | _ \<Rightarrow> (case trigger_step timeout ev r of None \<Rightarrow> None | Some r' \<Rightarrow> quiet_run timeout evs r'))"

text \<open>The time of a session's last event.\<close>

fun last_activity :: "trigger_event list \<Rightarrow> string \<Rightarrow> int option" where
  "last_activity [] s = None"
| "last_activity (ev # evs) s =
     (case last_activity evs s of
        Some t \<Rightarrow> Some t
      | None \<Rightarrow> (case ev of Activity s' t \<Rightarrow> if s' = s then Some t else None | _ \<Rightarrow> None))"

definition trigger_inv :: "int \<Rightarrow> (string \<Rightarrow> int option) \<Rightarrow> trigger \<Rightarrow> bool" where
  "trigger_inv timeout lastf r \<longleftrightarrow>
     distinct (map fst (tr_live r)) \<and> (\<forall>s i. map_of (tr_timers r) s = Some i \<longrightarrow> i < tr_next r) \<and>
     (\<forall>i s d. (i, s, d) \<in> set (tr_live r) \<longrightarrow> i < tr_next r \<and> map_of (tr_timers r) s = Some i \<and>
        s \<notin> set (tr_running r) \<and> (\<exists>t. lastf s = Some t \<and> d = t + timeout))"

lemma trigger_inv_activity:
  assumes "trigger_inv timeout lastf r" "s \<notin> set (tr_running r)"
  shows "trigger_inv timeout (lastf(s \<mapsto> t)) (on_activity timeout s t r)"
proof -
  let ?live = "case map_of (tr_timers r) s of None \<Rightarrow> tr_live r | Some i \<Rightarrow> filter (\<lambda>x. fst x \<noteq> i) (tr_live r)"
  have sub: "set ?live \<subseteq> set (tr_live r)" and dist: "distinct (map fst ?live)"
    using assms(1) by (auto simp: trigger_inv_def distinct_map_filter split: option.splits)
  have other: "s' \<noteq> s" if "(i, s', d) \<in> set ?live" for i s' d
    using that assms(1) unfolding trigger_inv_def by (auto split: option.splits)
  have "fst ` set ?live \<subseteq> {..<tr_next r}" using sub assms(1) by (fastforce simp: trigger_inv_def)
  then have "tr_next r \<notin> fst ` set ?live" by auto
  with dist have d: "distinct (map fst (?live @ [(tr_next r, s, t + timeout)]))" by simp
  have "trigger_inv timeout (lastf(s \<mapsto> t)) (r\<lparr>tr_live := ?live @ [(tr_next r, s, t + timeout)],
      tr_timers := AList.update s (tr_next r) (tr_timers r), tr_next := Suc (tr_next r)\<rparr>)"
    unfolding trigger_inv_def
  proof (intro conjI allI impI)
    fix i s' x
    assume "(i, s', x) \<in> set (tr_live (r\<lparr>tr_live := ?live @ [(tr_next r, s, t + timeout)],
      tr_timers := AList.update s (tr_next r) (tr_timers r), tr_next := Suc (tr_next r)\<rparr>))"
    then consider "(i, s', x) \<in> set ?live" | "i = tr_next r" "s' = s" "x = t + timeout" by auto
    then have "i < Suc (tr_next r) \<and> map_of (AList.update s (tr_next r) (tr_timers r)) s' = Some i \<and>
        s' \<notin> set (tr_running r) \<and> (\<exists>t'. (lastf(s \<mapsto> t)) s' = Some t' \<and> x = t' + timeout)"
    proof cases
      case 1
      with sub other assms(1) show ?thesis unfolding trigger_inv_def by (fastforce simp: update_conv')
    qed (use assms(2) in \<open>simp add: update_conv'\<close>)
    then show "i < tr_next (r\<lparr>tr_live := ?live @ [(tr_next r, s, t + timeout)],
        tr_timers := AList.update s (tr_next r) (tr_timers r), tr_next := Suc (tr_next r)\<rparr>)"
      "map_of (tr_timers (r\<lparr>tr_live := ?live @ [(tr_next r, s, t + timeout)],
        tr_timers := AList.update s (tr_next r) (tr_timers r), tr_next := Suc (tr_next r)\<rparr>)) s' = Some i"
      "s' \<notin> set (tr_running (r\<lparr>tr_live := ?live @ [(tr_next r, s, t + timeout)],
        tr_timers := AList.update s (tr_next r) (tr_timers r), tr_next := Suc (tr_next r)\<rparr>))"
      "\<exists>t'. (lastf(s \<mapsto> t)) s' = Some t' \<and> x = t' + timeout"
      by auto
  qed (use d assms(1) in \<open>auto simp: trigger_inv_def update_conv' less_Suc_eq split: if_splits\<close>)
  then show ?thesis by (simp add: on_activity_def Let_def)
qed

lemma on_fire_SomeD:
  assumes "on_fire i t r = Some r'"
  obtains s d where "map_of (tr_live r) i = Some (s, d)" "d \<le> t"
    "r' = r\<lparr>tr_live := filter (\<lambda>x. fst x \<noteq> i) (tr_live r), tr_running := s # tr_running r,
       tr_activated := tr_activated r @ [(s, t)]\<rparr>"
  using assms by (auto simp: on_fire_def split: option.splits if_splits)

lemma trigger_inv_fire:
  assumes inv: "trigger_inv timeout lastf r" and fire: "on_fire i t r = Some r'"
  shows "trigger_inv timeout lastf r'"
proof -
  from fire obtain s d where i: "map_of (tr_live r) i = Some (s, d)" and
    r': "r' = r\<lparr>tr_live := filter (\<lambda>x. fst x \<noteq> i) (tr_live r), tr_running := s # tr_running r,
       tr_activated := tr_activated r @ [(s, t)]\<rparr>" by (rule on_fire_SomeD)
  from i have "(i, s, d) \<in> set (tr_live r)" by (rule map_of_SomeD)
  with inv have s: "map_of (tr_timers r) s = Some i" unfolding trigger_inv_def by blast
  have "s' \<noteq> s" if "(j, s', d') \<in> set (tr_live r)" "j \<noteq> i" for j s' d'
    using that inv s unfolding trigger_inv_def by (metis option.inject)
  with inv show ?thesis unfolding r' trigger_inv_def by (simp add: distinct_map_filter) blast
qed

lemma trigger_inv_finish:
  assumes "trigger_inv timeout lastf r" "on_finish s r = Some r'"
  shows "trigger_inv timeout lastf r'"
proof -
  from assms(2) have s: "s \<in> set (tr_running r)"
    and r': "r' = r\<lparr>tr_running := remove1 s (tr_running r), tr_timers := AList.delete s (tr_timers r)\<rparr>"
    by (auto simp: on_finish_def split: if_splits)
  have "set (remove1 s (tr_running r)) \<subseteq> set (tr_running r)" by (rule set_remove1_subset)
  with assms(1) s show ?thesis unfolding r' trigger_inv_def by (auto simp: delete_conv')
qed

lemma quiet_run_inv:
  assumes "quiet_run timeout evs r = Some r'" "trigger_inv timeout lastf r"
  shows "trigger_inv timeout (\<lambda>s. case last_activity evs s of Some t \<Rightarrow> Some t | None \<Rightarrow> lastf s) r'"
  using assms
proof (induction evs arbitrary: r lastf)
  case (Cons ev evs)
  show ?case
  proof (cases ev)
    case (Activity s t)
    with Cons.prems have "s \<notin> set (tr_running r)" "quiet_run timeout evs (on_activity timeout s t r) = Some r'"
      by (auto split: if_splits)
    note IH = Cons.IH [OF this(2) trigger_inv_activity [OF Cons.prems(2) this(1), of t]]
    have "(\<lambda>s'. case last_activity evs s' of Some t \<Rightarrow> Some t | None \<Rightarrow> (lastf(s \<mapsto> t)) s') =
        (\<lambda>s'. case last_activity (ev # evs) s' of Some t \<Rightarrow> Some t | None \<Rightarrow> lastf s')"
      by (rule ext) (auto simp: Activity split: option.split)
    with IH show ?thesis by simp
  next
    case (Fires i t)
    with Cons.prems obtain r1 where "on_fire i t r = Some r1" "quiet_run timeout evs r1 = Some r'"
      by (auto split: option.splits)
    with Cons.IH trigger_inv_fire [OF Cons.prems(2)] have
      "trigger_inv timeout (\<lambda>s. case last_activity evs s of Some t \<Rightarrow> Some t | None \<Rightarrow> lastf s) r'" by blast
    moreover have "last_activity (ev # evs) = last_activity evs" by (rule ext) (simp add: Fires split: option.split)
    ultimately show ?thesis by simp
  next
    case (Finishes s)
    with Cons.prems obtain r1 where "on_finish s r = Some r1" "quiet_run timeout evs r1 = Some r'"
      by (auto split: option.splits)
    with Cons.IH trigger_inv_finish [OF Cons.prems(2)] have
      "trigger_inv timeout (\<lambda>s. case last_activity evs s of Some t \<Rightarrow> Some t | None \<Rightarrow> lastf s) r'" by blast
    moreover have "last_activity (ev # evs) = last_activity evs" by (rule ext) (simp add: Finishes split: option.split)
    ultimately show ?thesis by simp
  qed
qed simp

text \<open>
  The inactivity trigger debounces: as long as no event of a session arrives while the session's jobs are being
  run, a session is activated only after a full quiet period since its last event, and then there is no other
  timer for it, so it is activated once per quiet period.
\<close>

theorem inactivity_debounced:
  assumes "quiet_run timeout evs NewTrigger = Some r" "on_fire i t r = Some r'"
  shows "\<exists>s t0. last_activity evs s = Some t0 \<and> t0 + timeout \<le> t \<and> tr_activated r' = tr_activated r @ [(s, t)] \<and>
    (\<forall>j d. (j, s, d) \<notin> set (tr_live r'))"
proof -
  have "trigger_inv timeout (\<lambda>_. None) NewTrigger" by (simp add: trigger_inv_def NewTrigger_def)
  from quiet_run_inv [OF assms(1) this] have inv: "trigger_inv timeout (last_activity evs) r"
    by (rule subst [rotated]) (auto intro!: arg_cong [where f = "\<lambda>f. trigger_inv timeout f r"] ext split: option.split)
  from assms(2) obtain s d where i: "map_of (tr_live r) i = Some (s, d)" "d \<le> t" and
    r': "r' = r\<lparr>tr_live := filter (\<lambda>x. fst x \<noteq> i) (tr_live r), tr_running := s # tr_running r,
       tr_activated := tr_activated r @ [(s, t)]\<rparr>" by (rule on_fire_SomeD)
  from i have mem: "(i, s, d) \<in> set (tr_live r)" by (simp add: map_of_SomeD)
  with inv obtain t0 where t0: "last_activity evs s = Some t0" "d = t0 + timeout" and tm: "map_of (tr_timers r) s = Some i"
    unfolding trigger_inv_def by blast
  have "(j, s, d') \<notin> set (tr_live r')" for j d'
    using inv tm unfolding r' trigger_inv_def by auto
  with t0 i r' show ?thesis by (intro exI [of _ s] exI [of _ t0]) simp
qed

theorem inactivity_debounced_witness:
  "\<exists>r r'. quiet_run 10 [Activity ''s'' 0, Activity ''u'' 3, Activity ''s'' 7] NewTrigger = Some r \<and>
     on_fire 2 17 r = Some r' \<and> tr_activated r' = [(''s'', 17)] \<and> (\<forall>j d. (j, ''s'', d) \<notin> set (tr_live r'))"
proof -
  let ?evs = "[Activity ''s'' 0, Activity ''u'' 3, Activity ''s'' 7]"
  obtain r where q: "quiet_run 10 ?evs NewTrigger = Some r"
    and r: "r = \<lparr>tr_timers = [(''s'', 2), (''u'', 1)], tr_live = [(1, ''u'', 13), (2, ''s'', 17)], tr_next = 3, tr_running = [], tr_activated = []\<rparr>"
    by (simp add: NewTrigger_def on_activity_def)
  obtain r' where f: "on_fire 2 17 r = Some r'" by (simp add: on_fire_def r)
  from inactivity_debounced [OF q f] obtain s t0 where
    s: "tr_activated r' = tr_activated r @ [(s, 17)]" "\<forall>j d. (j, s, d) \<notin> set (tr_live r')" by blast
  from f have "tr_activated r' = [(''s'', 17)]" by (auto simp: on_fire_def r)
  with s r have "s = ''s''" by simp
  with q f s r show ?thesis by auto
qed

text \<open>
  An event that arrives during the run breaks this: the callback's end removes the new timer from the map
  without stopping it, so a later event cannot stop it either, and the session is activated although it was
  active a moment ago.
\<close>

lemma event_during_run_fires_early:
  "\<exists>r r'. trigger_step 10 (Activity ''s'' 0) NewTrigger = Some r \<and>
     fold (\<lambda>ev r. Option.bind r (trigger_step 10 ev)) [Fires 0 10, Activity ''s'' 12, Finishes ''s'', Activity ''s'' 21] (Some r) = Some r' \<and>
     on_fire 1 22 r' \<noteq> None"
  by (simp add: NewTrigger_def on_activity_def on_fire_def on_finish_def)

text \<open>
  Two runs of a job on one session exclude each other while the lock lasts: a run that holds the lock keeps every
  other run that starts within the lock's lifetime of 300 s from starting (it does nothing at all), whatever locks of
  other sessions and jobs are tried in between; and when a run is over the next one can start.
\<close>

theorem runs_exclude_each_other:
  assumes "AcquireLock t s job db = (db', True)" "\<forall>(t', s', job') \<in> set tries. s' = s \<longrightarrow> job' = job \<longrightarrow> t' < t + lockTTL"
    and "js_db st = fold (\<lambda>(t', s', job') db. fst (AcquireLock t' s' job' db)) tries db'" "jb_now e < t + lockTTL"
  shows "runJob c e s job cp st = Some st \<and> snd (AcquireLock t' s job (ReleaseLock s job (js_db st)))"
proof -
  let ?as = "map (\<lambda>(t', s', job'). (t', (s', job'))) tries"
  have fold: "fst (job_lock.attempts (map (\<lambda>(t', s', job'). (t', (s', job'))) ts) d) =
      fold (\<lambda>(t', s', job') db. fst (AcquireLock t' s' job' db)) ts d" for ts d
    by (induction ts arbitrary: d) (auto simp: Let_def split_def lock_acquire_def)
  have "\<not> lock_held t (s, job) db" "fst (lock_acquire t (s, job) db) = db'"
    using assms(1) job_lock.acquire_granted [of t "(s, job)" db] by (auto simp: lock_acquire_def)
  then have "\<forall>t' < t + lockTTL. lock_held t' (s, job) db'" using job_lock.held_acquire by metis
  moreover have "\<forall>(t', k') \<in> set ?as. k' = (s, job) \<longrightarrow> t' < t + lockTTL" using assms(2) by auto
  ultimately have "lock_held (jb_now e) (s, job) (js_db st)"
    using job_lock.attempts_keep [of "t + lockTTL" "(s, job)" db' ?as] assms(3,4) fold [of tries db'] by simp
  then have "AcquireLock (jb_now e) s job (js_db st) = (js_db st, False)"
    using job_lock.acquire_refused [of "jb_now e" "(s, job)" "js_db st"] job_lock.acquire_granted [of "jb_now e" "(s, job)" "js_db st"]
    by (simp add: lock_acquire_def prod_eq_iff)
  then have "runJob c e s job cp st = Some st" by (simp add: runJob_def)
  moreover have "snd (AcquireLock t' s job (ReleaseLock s job (js_db st)))"
    using job_lock.granted_after_release [of t' "(s, job)" "js_db st"] by (simp add: lock_acquire_def lock_release_def)
  ultimately show ?thesis ..
qed

theorem runs_exclude_each_other_witness:
  "let db = fst (AcquireLock 0 ''s'' JobCuration []); st = sample_job_state\<lparr>js_db := fst (AcquireLock 5 ''u'' JobCuration db)\<rparr>
   in runJob undefined (sample_job_env\<lparr>jb_now := 7\<rparr>) ''s'' JobCuration None st = Some st"
proof -
  let ?db = "fst (AcquireLock 0 ''s'' JobCuration [])"
  let ?st = "sample_job_state\<lparr>js_db := fst (AcquireLock 5 ''u'' JobCuration ?db)\<rparr>"
  have "AcquireLock 0 ''s'' JobCuration [] = (?db, True)" by (simp add: AcquireLock_def rdb_SetNX_def rdb_Get_def)
  from runs_exclude_each_other [OF this, where tries = "[(5, ''u'', JobCuration)]" and st = ?st and e = "sample_job_env\<lparr>jb_now := 7\<rparr>"]
  show ?thesis by (simp add: Let_def lockTTL_def)
qed

text \<open>
  The lock is released whoever holds it: a run that outlives the lock's lifetime takes away the lock of the
  run that started after it, and a third run starts while the second is at work.
\<close>

lemma late_release_breaks_exclusion:
  assumes "snd (AcquireLock t s job db)" "t + lockTTL \<le> t2" "t2 \<le> t3" "t3 < t2 + lockTTL"
  shows "let db1 = fst (AcquireLock t s job db); (db2, second) = AcquireLock t2 s job db1
    in second \<and> \<not> snd (AcquireLock t3 s job db2) \<and> snd (AcquireLock t3 s job (ReleaseLock s job db2))"
  using assms job_lock.granted_after_expiry [of t "(s, job)" db t2] job_lock.granted_after_release [of t3 "(s, job)"]
    job_lock.acquire_granted [of t3 "(s, job)"] job_lock.held_acquire [of t2 "(s, job)" "fst (AcquireLock t s job db)" t3 "(s, job)"]
    job_lock.acquire_granted [of t2 "(s, job)" "fst (AcquireLock t s job db)"]
  by (auto simp: Let_def split_def lock_acquire_def lock_release_def)

end
