(* ===== verification/Config_Store.thy ===== *)
theory Config_Store
  imports Go_Json Go_Strconv Valkey
begin

text \<open>
  The settings of the processes (\<^verbatim>\<open>internal/config\<close>): defaults, environment, the sections stored in Valkey,
  and the list of MCP servers. Every caller of \<^verbatim>\<open>Load\<close> drops its error, so what counts is what the
  destination holds afterwards: \<^verbatim>\<open>encoding/json\<close> goes on after a value of the wrong type, leaving that
  field as it was. The JSON text layer and the environment are arguments.
\<close>

section \<open>Sections\<close>

record ChatConfig =
  chat_SystemPrompt :: string
  chat_Model :: string
  chat_RequestTimeoutS :: int

definition DefaultChatConfig :: ChatConfig where
  "DefaultChatConfig =
     \<lparr>chat_SystemPrompt = ''You are a helpful assistant.'', chat_Model = ''default'', chat_RequestTimeoutS = 120\<rparr>"

record MemoryConfig =
  mem_RecallLimit :: int
  mem_PrewarmLimit :: int
  mem_RecallDefaultTypes :: string
  mem_DefaultProvenance :: string
  mem_TagTaxonomy :: string
  mem_PrimaryUserID :: string
  mem_RecallDefaultSpeakerScope :: string
  mem_IdentityNameDenylist :: string
  mem_RecallThreshold :: rat
  mem_MaxHops :: int
  mem_Vault :: string
  mem_StoreConfidence :: rat

definition zero_MemoryConfig :: MemoryConfig where
  "zero_MemoryConfig =
     \<lparr>mem_RecallLimit = 0, mem_PrewarmLimit = 0, mem_RecallDefaultTypes = [], mem_DefaultProvenance = [],
      mem_TagTaxonomy = [], mem_PrimaryUserID = [], mem_RecallDefaultSpeakerScope = [],
      mem_IdentityNameDenylist = [], mem_RecallThreshold = 0, mem_MaxHops = 0, mem_Vault = [],
      mem_StoreConfidence = 0\<rparr>"

definition DefaultMemoryConfig :: MemoryConfig where
  "DefaultMemoryConfig = zero_MemoryConfig
     \<lparr>mem_RecallLimit := 5, mem_PrewarmLimit := 3, mem_RecallDefaultTypes := ''observation'',
      mem_DefaultProvenance := ''explicit'', mem_TagTaxonomy := ''identity,preferences,technical,home,ephemera'',
      mem_RecallDefaultSpeakerScope := ''any''\<rparr>"

record BrokerConfig =
  bk_SlotCount :: int
  bk_PreemptTimeoutMS :: int

definition DefaultBrokerConfig :: BrokerConfig where
  "DefaultBrokerConfig = \<lparr>bk_SlotCount = 4, bk_PreemptTimeoutMS = 5000\<rparr>"

record RetroConfig =
  ret_InactivityTimeoutS :: int
  ret_SkillDupThreshold :: rat
  ret_MinHistoryTurns :: int
  ret_CurationCategories :: "string list"
  ret_CurationRecallLimit :: int

definition DefaultRetroConfig :: RetroConfig where
  "DefaultRetroConfig =
     \<lparr>ret_InactivityTimeoutS = 300, ret_SkillDupThreshold = 85 / 100, ret_MinHistoryTurns = 4,
      ret_CurationCategories = [''preference'', ''fact'', ''context'', ''skill''], ret_CurationRecallLimit = 15\<rparr>"

record MCPServerConfig =
  mcp_Name :: string
  mcp_Enabled :: bool
  mcp_Command :: string
  mcp_Args :: "string list"
  mcp_Env :: "(string \<times> string) list"  \<comment> \<open>a map, by its entries in ascending order\<close>

section \<open>Decoding into a value that is there\<close>

text \<open>
  An array is decoded into the slice that is there: an element keeps what the slice has at its place
  when the value is \<^verbatim>\<open>null\<close> or of the wrong type.
\<close>

fun strings_into :: "string list \<Rightarrow> json list \<Rightarrow> string list" where
  "strings_into old [] = []"
| "strings_into old (j # js) =
     (let s = (case old of [] \<Rightarrow> [] | s # _ \<Rightarrow> s) in
      (case dec_string s j of None \<Rightarrow> s | Some s' \<Rightarrow> s') # strings_into (drop 1 old) js)"

fun dec_strings_into :: "string list decoder" where
  "dec_strings_into old JNull = Some []"
| "dec_strings_into old (JArr js) = Some (strings_into old js)"
| "dec_strings_into old _ = None"

definition lenient_key :: "'a field_dec list \<Rightarrow> string \<times> json \<Rightarrow> 'a \<Rightarrow> 'a" where
  "lenient_key fs kv a = (case dec_key fs (fst kv) (snd kv) a of None \<Rightarrow> a | Some b \<Rightarrow> b)"

fun unmarshal_into :: "'a field_dec list \<Rightarrow> json \<Rightarrow> 'a \<Rightarrow> 'a" where
  "unmarshal_into fs (JObj kvs) a = fold (lenient_key fs) kvs a"
| "unmarshal_into fs _ a = a"

definition chat_fields :: "ChatConfig field_dec list" where
  "chat_fields =
     [fld ''system_prompt'' dec_string chat_SystemPrompt chat_SystemPrompt_update,
      fld ''model'' dec_string chat_Model chat_Model_update,
      fld ''request_timeout_s'' dec_int chat_RequestTimeoutS chat_RequestTimeoutS_update]"

definition memory_fields :: "MemoryConfig field_dec list" where
  "memory_fields =
     [fld ''recall_limit'' dec_int mem_RecallLimit mem_RecallLimit_update,
      fld ''prewarm_limit'' dec_int mem_PrewarmLimit mem_PrewarmLimit_update,
      fld ''recall_default_types'' dec_string mem_RecallDefaultTypes mem_RecallDefaultTypes_update,
      fld ''default_provenance'' dec_string mem_DefaultProvenance mem_DefaultProvenance_update,
      fld ''tag_taxonomy'' dec_string mem_TagTaxonomy mem_TagTaxonomy_update,
      fld ''primary_user_id'' dec_string mem_PrimaryUserID mem_PrimaryUserID_update,
      fld ''recall_default_speaker_scope'' dec_string mem_RecallDefaultSpeakerScope mem_RecallDefaultSpeakerScope_update,
      fld ''identity_name_denylist'' dec_string mem_IdentityNameDenylist mem_IdentityNameDenylist_update,
      fld ''recall_threshold'' dec_float mem_RecallThreshold mem_RecallThreshold_update,
      fld ''max_hops'' dec_int mem_MaxHops mem_MaxHops_update,
      fld ''vault'' dec_string mem_Vault mem_Vault_update,
      fld ''store_confidence'' dec_float mem_StoreConfidence mem_StoreConfidence_update]"

definition broker_fields :: "BrokerConfig field_dec list" where
  "broker_fields =
     [fld ''slot_count'' dec_int bk_SlotCount bk_SlotCount_update,
      fld ''preempt_timeout_ms'' dec_int bk_PreemptTimeoutMS bk_PreemptTimeoutMS_update]"

definition retro_fields :: "RetroConfig field_dec list" where
  "retro_fields =
     [fld ''inactivity_timeout_s'' dec_int ret_InactivityTimeoutS ret_InactivityTimeoutS_update,
      fld ''skill_dup_threshold'' dec_float ret_SkillDupThreshold ret_SkillDupThreshold_update,
      fld ''min_history_turns'' dec_int ret_MinHistoryTurns ret_MinHistoryTurns_update,
      fld ''curation_categories'' dec_strings_into ret_CurationCategories ret_CurationCategories_update,
      fld ''curation_recall_limit'' dec_int ret_CurationRecallLimit ret_CurationRecallLimit_update]"

section \<open>The store\<close>

definition KeyChat :: string where "KeyChat = ''config:chat''"
definition KeyMemory :: string where "KeyMemory = ''config:memory''"
definition KeyBroker :: string where "KeyBroker = ''config:broker''"
definition KeyRetro :: string where "KeyRetro = ''config:retro''"
definition KeyMCPServers :: string where "KeyMCPServers = ''config:mcp:servers''"

definition validSections :: "(string \<times> string) list" where
  "validSections = [(''chat'', KeyChat), (''memory'', KeyMemory), (''broker'', KeyBroker), (''retro'', KeyRetro)]"

definition ValidSection :: "string \<Rightarrow> bool" where
  "ValidSection section = (map_of validSections section \<noteq> None)"

text \<open>What the process keeps the settings in, and the text layer.\<close>

record config_env =
  cf_parse :: "string \<Rightarrow> json option"
  cf_render :: "json \<Rightarrow> string"
  cf_now :: int

definition Config_Load :: "config_env \<Rightarrow> 'a field_dec list \<Rightarrow> string \<Rightarrow> redis \<Rightarrow> 'a \<Rightarrow> 'a" where
  "Config_Load e fs key db dest =
     (case rdb_Get (cf_now e) db key of
        Inr (Some data) \<Rightarrow> (case cf_parse e data of None \<Rightarrow> dest | Some j \<Rightarrow> unmarshal_into fs j dest)
      | _ \<Rightarrow> dest)"

lemma size_snd_json: "kv \<in> set kvs \<Longrightarrow> size (snd kv) < Suc (size_list (size_prod (\<lambda>x. 0) size) kvs)"
  by (induction kvs) auto

text \<open>
  \<^verbatim>\<open>Save\<close> decodes both objects into \<^verbatim>\<open>map[string]any\<close> and marshals the merged map: nested objects lose
  duplicate keys and are sorted, and a number goes through \<^verbatim>\<open>float64\<close>, for which \<open>num\<close> stands. A stored
  \<^verbatim>\<open>null\<close> leaves a nil map, and writing to it panics.
\<close>

function through_any :: "(json \<Rightarrow> json) \<Rightarrow> json \<Rightarrow> json" where
  "through_any num JNull = JNull"
| "through_any num (JBool b) = JBool b"
| "through_any num (JStr s) = JStr s"
| "through_any num (JInt n) = num (JInt n)"
| "through_any num (JReal q) = num (JReal q)"
| "through_any num (JArr js) = JArr (map (through_any num) js)"
| "through_any num (JObj kvs) = JObj (map_entries (map (\<lambda>kv. (fst kv, through_any num (snd kv))) kvs))"
  by pat_completeness auto

termination
  by (relation "measure (\<lambda>(num, j). size j)") (auto simp: size_list_estimation less_Suc_eq_le size_list_estimation' dest: size_snd_json)

datatype save_error = ErrInvalidSection | SaveStore store_error | SaveBadStored | SaveBadValues | SavePanic

fun object_entries :: "json \<Rightarrow> (string \<times> json) list option" where
  "object_entries JNull = Some []"
| "object_entries (JObj kvs) = Some kvs"
| "object_entries _ = None"

definition Config_Save ::
  "config_env \<Rightarrow> (json \<Rightarrow> json) \<Rightarrow> string \<Rightarrow> json option \<Rightarrow> redis \<Rightarrow> redis \<times> save_error option" where
  "Config_Save e num section values db =
     (case map_of validSections section of
        None \<Rightarrow> (db, Some ErrInvalidSection)
      | Some key \<Rightarrow>
         (case rdb_Get (cf_now e) db key of
            Inl err \<Rightarrow> (db, Some (SaveStore err))
          | Inr r \<Rightarrow>
             let existing = (case r of None \<Rightarrow> [] | Some s \<Rightarrow> s);
                 stored = (if existing = [] then Some (JObj []) else cf_parse e existing)
             in (case Option.bind stored object_entries of
                  None \<Rightarrow> (db, Some SaveBadStored)
                | Some old \<Rightarrow>
                   (case Option.bind values object_entries of
                      None \<Rightarrow> (db, Some SaveBadValues)
                    | Some incoming \<Rightarrow>
                       if stored = Some JNull
                       then (if incoming \<noteq> [] then (db, Some SavePanic)
                             else (rdb_Set key (cf_render e JNull) None db, None))
                       else (rdb_Set key (cf_render e (through_any num (JObj (old @ incoming)))) None db, None)))))"

fun read_sections :: "int \<Rightarrow> redis \<Rightarrow> (string \<times> string) list \<Rightarrow> store_error + (string \<times> string) list" where
  "read_sections now db [] = Inr []"
| "read_sections now db ((section, key) # ss) =
     (case rdb_Get now db key of
        Inl e \<Rightarrow> Inl e
      | Inr r \<Rightarrow> map_sum id (\<lambda>rest. (case r of None \<Rightarrow> [] | Some data \<Rightarrow> [(section, data)]) @ rest)
          (read_sections now db ss))"

definition ReadAll :: "int \<Rightarrow> redis \<Rightarrow> store_error + (string \<times> string) list" where
  "ReadAll now db = read_sections now db validSections"

section \<open>Resolution\<close>

definition env_str :: "(string \<Rightarrow> string) \<Rightarrow> string \<Rightarrow> string \<Rightarrow> string" where
  "env_str env k d = (if env k \<noteq> [] then env k else d)"

definition env_num :: "(string \<Rightarrow> string) \<Rightarrow> string \<Rightarrow> int \<Rightarrow> int" where
  "env_num env k d = (case atoi (env k) of None \<Rightarrow> d | Some v \<Rightarrow> v)"

definition ResolveChat :: "config_env \<Rightarrow> (string \<Rightarrow> string) \<Rightarrow> redis \<Rightarrow> ChatConfig" where
  "ResolveChat e env db =
     (let d = DefaultChatConfig;
          cfg = \<lparr>chat_SystemPrompt = env_str env ''SYSTEM_PROMPT'' (chat_SystemPrompt d),
                 chat_Model = env_str env ''MODEL'' (chat_Model d),
                 chat_RequestTimeoutS = env_num env ''REQUEST_TIMEOUT_S'' (chat_RequestTimeoutS d)\<rparr>
      in Config_Load e chat_fields KeyChat db cfg)"

definition ResolveMemory :: "config_env \<Rightarrow> (string \<Rightarrow> string) \<Rightarrow> redis \<Rightarrow> MemoryConfig" where
  "ResolveMemory e env db =
     (let d = DefaultMemoryConfig;
          cfg = d\<lparr>mem_RecallLimit := env_num env ''RECALL_LIMIT'' (mem_RecallLimit d),
                  mem_PrewarmLimit := env_num env ''PREWARM_LIMIT'' (mem_PrewarmLimit d),
                  mem_RecallDefaultTypes := env_str env ''RECALL_DEFAULT_TYPES'' (mem_RecallDefaultTypes d),
                  mem_DefaultProvenance := env_str env ''DEFAULT_PROVENANCE'' (mem_DefaultProvenance d),
                  mem_TagTaxonomy := env_str env ''TAG_TAXONOMY'' (mem_TagTaxonomy d),
                  mem_PrimaryUserID := env_str env ''PRIMARY_USER_ID'' (mem_PrimaryUserID d),
                  mem_RecallDefaultSpeakerScope :=
                    env_str env ''RECALL_DEFAULT_SPEAKER_SCOPE'' (mem_RecallDefaultSpeakerScope d),
                  mem_IdentityNameDenylist := env_str env ''IDENTITY_NAME_DENYLIST'' (mem_IdentityNameDenylist d)\<rparr>
      in Config_Load e memory_fields KeyMemory db cfg)"

definition ResolveBroker :: "config_env \<Rightarrow> (string \<Rightarrow> string) \<Rightarrow> redis \<Rightarrow> BrokerConfig" where
  "ResolveBroker e env db =
     (let d = DefaultBrokerConfig;
          cfg = \<lparr>bk_SlotCount = env_num env ''SLOT_COUNT'' (bk_SlotCount d),
                 bk_PreemptTimeoutMS = env_num env ''PREEMPT_TIMEOUT_MS'' (bk_PreemptTimeoutMS d)\<rparr>
      in Config_Load e broker_fields KeyBroker db cfg)"

definition ResolveRetro ::
  "config_env \<Rightarrow> (string \<Rightarrow> rat option) \<Rightarrow> (string \<Rightarrow> string) \<Rightarrow> redis \<Rightarrow> RetroConfig" where
  "ResolveRetro e parse_float env db =
     (let d = DefaultRetroConfig;
          cfg = \<lparr>ret_InactivityTimeoutS = env_num env ''INACTIVITY_TIMEOUT_S'' (ret_InactivityTimeoutS d),
                 ret_SkillDupThreshold =
                   (case parse_float (env ''SKILL_DUP_THRESHOLD'') of None \<Rightarrow> ret_SkillDupThreshold d | Some v \<Rightarrow> v),
                 ret_MinHistoryTurns = env_num env ''MIN_HISTORY_TURNS'' (ret_MinHistoryTurns d),
                 ret_CurationCategories =
                   (if env ''CURATION_CATEGORIES'' \<noteq> [] then split_on (CHR '','') (env ''CURATION_CATEGORIES'')
                    else ret_CurationCategories d),
                 ret_CurationRecallLimit =
                   (case atoi (env ''RETRO_CURATION_RECALL_LIMIT'') of
                      Some v \<Rightarrow> if v > 0 then v else ret_CurationRecallLimit d
                    | None \<Rightarrow> ret_CurationRecallLimit d)\<rparr>
      in Config_Load e retro_fields KeyRetro db cfg)"

section \<open>MCP servers\<close>

definition zero_MCPServerConfig :: MCPServerConfig where
  "zero_MCPServerConfig = \<lparr>mcp_Name = [], mcp_Enabled = False, mcp_Command = [], mcp_Args = [], mcp_Env = []\<rparr>"

definition dec_MCPServerConfig :: "MCPServerConfig decoder" where
  "dec_MCPServerConfig = dec_struct
     [fld ''name'' dec_string mcp_Name mcp_Name_update,
      fld ''enabled'' dec_bool mcp_Enabled mcp_Enabled_update,
      fld ''command'' dec_string mcp_Command mcp_Command_update,
      fld ''args'' (dec_list [] dec_string) mcp_Args mcp_Args_update,
      fld ''env'' dec_str_map mcp_Env mcp_Env_update]"

definition enc_MCPServerConfig :: "MCPServerConfig \<Rightarrow> json" where
  "enc_MCPServerConfig c = JObj
     [(''name'', JStr (mcp_Name c)), (''enabled'', JBool (mcp_Enabled c)), (''command'', JStr (mcp_Command c)),
      (''args'', enc_list JStr (mcp_Args c)), (''env'', enc_str_map (mcp_Env c))]"

definition mcp_name_char :: "char \<Rightarrow> bool" where
  "mcp_name_char c \<longleftrightarrow>
     (let n = (of_char c :: nat) in
      97 \<le> n \<and> n \<le> 122 \<or> 65 \<le> n \<and> n \<le> 90 \<or> 48 \<le> n \<and> n \<le> 57 \<or> c = CHR ''_'' \<or> c = CHR ''-'')"

definition validateMCPServerEntry :: "MCPServerConfig \<Rightarrow> string list \<Rightarrow> string" where
  "validateMCPServerEntry c seen =
     (if trim_space (mcp_Name c) = [] then ''name is required''
      else if \<not> (mcp_Name c \<noteq> [] \<and> list_all mcp_name_char (mcp_Name c)) then ''name must match [a-zA-Z0-9_-]+''
      else if mcp_Name c \<in> set seen then ''duplicate name''
      else if trim_space (mcp_Command c) = [] then ''command is required''
      else [])"

fun keep_valid :: "string list \<Rightarrow> MCPServerConfig list \<Rightarrow> MCPServerConfig list" where
  "keep_valid seen [] = []"
| "keep_valid seen (c # cs) =
     (if validateMCPServerEntry c seen \<noteq> [] then keep_valid seen cs
      else c # keep_valid (mcp_Name c # seen) cs)"

definition ResolveMCPServers :: "config_env \<Rightarrow> redis \<Rightarrow> MCPServerConfig list" where
  "ResolveMCPServers e db =
     (case rdb_Get (cf_now e) db KeyMCPServers of
        Inr (Some raw) \<Rightarrow>
          (case Option.bind (cf_parse e raw) (dec_list zero_MCPServerConfig dec_MCPServerConfig []) of
             None \<Rightarrow> []
           | Some entries \<Rightarrow> keep_valid [] entries)
      | _ \<Rightarrow> [])"

fun first_invalid :: "nat \<Rightarrow> string list \<Rightarrow> MCPServerConfig list \<Rightarrow> (nat \<times> string \<times> string) option" where
  "first_invalid i seen [] = None"
| "first_invalid i seen (c # cs) =
     (if validateMCPServerEntry c seen \<noteq> [] then Some (i, mcp_Name c, validateMCPServerEntry c seen)
      else first_invalid (Suc i) (mcp_Name c # seen) cs)"

definition SaveMCPServers :: "config_env \<Rightarrow> MCPServerConfig list \<Rightarrow> redis \<Rightarrow> redis \<times> (nat \<times> string \<times> string) option" where
  "SaveMCPServers e servers db =
     (case first_invalid 0 [] servers of
        Some err \<Rightarrow> (db, Some err)
      | None \<Rightarrow> (rdb_Set KeyMCPServers (cf_render e (enc_list enc_MCPServerConfig servers)) None db, None))"

section \<open>Precedence\<close>

text \<open>
  The reference: of the stored values whose key names the field, the last one of the right type counts;
  without one, the environment or the default stays.
\<close>

definition stored_object :: "config_env \<Rightarrow> string \<Rightarrow> redis \<Rightarrow> (string \<times> json) list" where
  "stored_object e key db =
     (case rdb_Get (cf_now e) db key of
        Inr (Some data) \<Rightarrow> (case cf_parse e data of Some (JObj kvs) \<Rightarrow> kvs | _ \<Rightarrow> [])
      | _ \<Rightarrow> [])"

definition named :: "string \<Rightarrow> (string \<times> json) list \<Rightarrow> json list" where
  "named n kvs = map snd (filter (\<lambda>kv. fold_key (fst kv) = fold_key n) kvs)"

definition last_or :: "'a \<Rightarrow> 'a list \<Rightarrow> 'a" where
  "last_or d xs = (if xs = [] then d else last xs)"

definition strings_of :: "json list \<Rightarrow> string list" where
  "strings_of vs = concat (map (\<lambda>v. case v of JStr s \<Rightarrow> [s] | _ \<Rightarrow> []) vs)"

definition ints_of :: "json list \<Rightarrow> int list" where
  "ints_of vs = concat (map (\<lambda>v. case v of JInt n \<Rightarrow> [n] | _ \<Rightarrow> []) vs)"

lemma named_simps [simp]:
  "named n [] = []"
  "named n (kv # kvs) = (if fold_key (fst kv) = fold_key n then snd kv # named n kvs else named n kvs)"
  by (simp_all add: named_def)

lemma last_or_simps [simp]: "last_or d [] = d" "last_or d (x # xs) = last_or x xs"
  by (simp_all add: last_or_def)

definition str_into :: "string \<Rightarrow> json \<Rightarrow> string" where
  "str_into old v = (case v of JStr s \<Rightarrow> s | _ \<Rightarrow> old)"

definition int_into :: "int \<Rightarrow> json \<Rightarrow> int" where
  "int_into old v = (case v of JInt n \<Rightarrow> n | _ \<Rightarrow> old)"

lemma str_into_dec:
  "dec_string old v = None \<Longrightarrow> str_into old v = old" "dec_string old v = Some s \<Longrightarrow> str_into old v = s"
  by (cases v; simp add: str_into_def)+

lemma int_into_dec:
  "dec_int old v = None \<Longrightarrow> int_into old v = old" "dec_int old v = Some n \<Longrightarrow> int_into old v = n"
  by (cases v; simp add: int_into_def)+

lemma fold_str_into: "fold (\<lambda>v x. str_into x v) vs old = last_or old (strings_of vs)"
proof (induction vs arbitrary: old)
  case (Cons v vs)
  then show ?case by (cases v) (auto simp: str_into_def strings_of_def)
qed (simp add: strings_of_def)

lemma fold_int_into: "fold (\<lambda>v x. int_into x v) vs old = last_or old (ints_of vs)"
proof (induction vs arbitrary: old)
  case (Cons v vs)
  then show ?case by (cases v) (auto simp: int_into_def ints_of_def)
qed (simp add: ints_of_def)

lemma lenient_key_simps:
  "lenient_key [] kv a = a"
  "lenient_key (fld n d get upd # fs) kv a =
     (if fold_key (fst kv) = fold_key n
      then (case d (get a) (snd kv) of None \<Rightarrow> a | Some x \<Rightarrow> upd (\<lambda>_. x) a)
      else lenient_key fs kv a)"
  by (simp_all add: lenient_key_def dec_key_def fld_def split: option.splits)

text \<open>A field that no other key touches follows the values of its own keys.\<close>

definition untouched :: "('a \<Rightarrow> 'v) \<Rightarrow> 'a field_dec list \<Rightarrow> bool" where
  "untouched get fs \<longleftrightarrow> (\<forall>kv a. get (lenient_key fs kv a) = get a)"

definition settled :: "('a \<Rightarrow> 'v) \<Rightarrow> string \<Rightarrow> ('v \<Rightarrow> json \<Rightarrow> 'v) \<Rightarrow> 'a field_dec list \<Rightarrow> bool" where
  "settled get n into fs \<longleftrightarrow>
     (\<forall>kv a. get (lenient_key fs kv a) = (if fold_key (fst kv) = fold_key n then into (get a) (snd kv) else get a))"

lemma untouched_intros:
  "untouched get []"
  "(\<And>x a. get (upd (\<lambda>_. x) a) = get a) \<Longrightarrow> untouched get fs \<Longrightarrow> untouched get (fld n d g upd # fs)"
  by (auto simp: untouched_def lenient_key_simps split: option.splits)

lemma settled_here:
  "(\<And>x a. get (upd (\<lambda>_. x) a) = x) \<Longrightarrow> (\<And>old v. (case d old v of None \<Rightarrow> old | Some x \<Rightarrow> x) = into old v) \<Longrightarrow>
    untouched get fs \<Longrightarrow> settled get n into (fld n d get upd # fs)"
  by (auto simp: settled_def untouched_def lenient_key_simps split: option.splits)
    (metis option.simps(4), metis option.simps(5))

lemma settled_there:
  "fold_key n \<noteq> fold_key n' \<Longrightarrow> (\<And>x a. get (upd (\<lambda>_. x) a) = get a) \<Longrightarrow> settled get n into fs \<Longrightarrow>
    settled get n into (fld n' d g upd # fs)"
  by (auto simp: settled_def lenient_key_simps split: option.splits)

lemma field_settled:
  assumes "settled get n into fs"
  shows "get (fold (lenient_key fs) kvs a) = fold (\<lambda>v x. into x v) (named n kvs) (get a)"
  using assms [unfolded settled_def, rule_format] by (induction kvs arbitrary: a) simp_all

lemma str_settled:
  "settled get n str_into fs \<Longrightarrow> get (fold (lenient_key fs) kvs a) = last_or (get a) (strings_of (named n kvs))"
  by (simp add: field_settled fold_str_into)

lemma int_settled:
  "settled get n int_into fs \<Longrightarrow> get (fold (lenient_key fs) kvs a) = last_or (get a) (ints_of (named n kvs))"
  by (simp add: field_settled fold_int_into)

lemma into_dec:
  "(case dec_string old v of None \<Rightarrow> old | Some x \<Rightarrow> x) = str_into old v"
  "(case dec_int m v of None \<Rightarrow> m | Some x \<Rightarrow> x) = int_into m v"
  by (auto simp: str_into_dec int_into_dec split: option.splits)

lemma Config_Load_fold: "Config_Load e fs key db dest = fold (lenient_key fs) (stored_object e key db) dest"
proof -
  have "unmarshal_into fs j dest = fold (lenient_key fs) (case j of JObj kvs \<Rightarrow> kvs | _ \<Rightarrow> []) dest" for j
    by (cases j) auto
  then show ?thesis by (simp add: Config_Load_def stored_object_def split: sum.splits option.splits)
qed

lemmas settled_rules = settled_here settled_there untouched_intros

lemma chat_settled:
  "chat_SystemPrompt (fold (lenient_key chat_fields) kvs cfg) =
     last_or (chat_SystemPrompt cfg) (strings_of (named ''system_prompt'' kvs))"
  "chat_Model (fold (lenient_key chat_fields) kvs cfg) = last_or (chat_Model cfg) (strings_of (named ''model'' kvs))"
  "chat_RequestTimeoutS (fold (lenient_key chat_fields) kvs cfg) =
     last_or (chat_RequestTimeoutS cfg) (ints_of (named ''request_timeout_s'' kvs))"
  subgoal by (rule str_settled) (simp only: chat_fields_def, intro settled_rules; simp add: into_dec char_lower_def)
  subgoal by (rule str_settled) (simp only: chat_fields_def, intro settled_rules; simp add: into_dec char_lower_def)
  subgoal by (rule int_settled) (simp only: chat_fields_def, intro settled_rules; simp add: into_dec char_lower_def)
  done

lemma broker_settled:
  "bk_SlotCount (fold (lenient_key broker_fields) kvs cfg) =
     last_or (bk_SlotCount cfg) (ints_of (named ''slot_count'' kvs))"
  "bk_PreemptTimeoutMS (fold (lenient_key broker_fields) kvs cfg) =
     last_or (bk_PreemptTimeoutMS cfg) (ints_of (named ''preempt_timeout_ms'' kvs))"
  subgoal by (rule int_settled) (simp only: broker_fields_def, intro settled_rules; simp add: into_dec char_lower_def)
  subgoal by (rule int_settled) (simp only: broker_fields_def, intro settled_rules; simp add: into_dec char_lower_def)
  done

lemma memory_settled:
  "mem_PrimaryUserID (fold (lenient_key memory_fields) kvs cfg2) =
     last_or (mem_PrimaryUserID cfg2) (strings_of (named ''primary_user_id'' kvs))"
  "mem_RecallDefaultSpeakerScope (fold (lenient_key memory_fields) kvs cfg2) =
     last_or (mem_RecallDefaultSpeakerScope cfg2) (strings_of (named ''recall_default_speaker_scope'' kvs))"
  subgoal by (rule str_settled) (simp only: memory_fields_def, intro settled_rules; simp add: into_dec char_lower_def)
  subgoal by (rule str_settled) (simp only: memory_fields_def, intro settled_rules; simp add: into_dec char_lower_def)
  done


section \<open>Saving a section\<close>

lemma map_of_through:
  "map_of (map (\<lambda>kv. (fst kv, f (snd kv))) kvs) k = map_option f (map_of kvs k)"
  by (induction kvs) auto

lemma sections_distinct:
  "map_of validSections s = Some key \<Longrightarrow> map_of validSections s' = Some key \<Longrightarrow> s' = s"
  by (auto simp: validSections_def KeyChat_def KeyMemory_def KeyBroker_def KeyRetro_def split: if_splits)

lemmas rdb_Get_Set_forever = kv.get_put

text \<open>
  Saving a section merges: the keys of the request get its values (numbers as \<^verbatim>\<open>float64\<close> keeps them), the
  other stored keys stay, no other section changes. An unknown section changes nothing.
\<close>

theorem config_save_merges:
  assumes "map_of validSections section = Some key"
    and "rdb_Get (cf_now e) db key = Inr None \<or>
         (\<exists>s old. rdb_Get (cf_now e) db key = Inr (Some s) \<and> s \<noteq> [] \<and> cf_parse e s = Some (JObj old))"
    and "let j = through_any num (JObj (stored_object e key db @ new)) in cf_parse e (cf_render e j) = Some j"
  shows "\<exists>db'. Config_Save e num section (Some (JObj new)) db = (db', None) \<and>
    (\<forall>k. map_of (stored_object e key db') k =
       map_option (through_any num) (case map_of (rev new) k of
           Some v \<Rightarrow> Some v | None \<Rightarrow> map_of (rev (stored_object e key db)) k)) \<and>
    (\<forall>s key'. s \<noteq> section \<longrightarrow> map_of validSections s = Some key' \<longrightarrow>
       stored_object e key' db' = stored_object e key' db) \<and>
    (\<forall>s v. \<not> ValidSection s \<longrightarrow> Config_Save e num s v db = (db, Some ErrInvalidSection))"
proof -
  let ?old = "stored_object e key db"
  let ?j = "through_any num (JObj (?old @ new))"
  let ?db = "rdb_Set key (cf_render e ?j) None db"
  have "Config_Save e num section (Some (JObj new)) db = (?db, None)"
    using assms(1,2) by (auto simp: Config_Save_def stored_object_def)
  moreover have "map_of (stored_object e key ?db) k =
      map_option (through_any num) (case map_of (rev new) k of Some v \<Rightarrow> Some v | None \<Rightarrow> map_of (rev ?old) k)" for k
  proof -
    have "stored_object e key ?db = map_entries (map (\<lambda>kv. (fst kv, through_any num (snd kv))) (?old @ new))"
      unfolding stored_object_def [of _ _ ?db] using assms(3) by (simp add: rdb_Get_Set_forever Let_def)
    then show ?thesis
      by (simp add: map_of_map_entries rev_map map_of_through map_add_def split: option.splits)
  qed
  moreover have "stored_object e key' ?db = stored_object e key' db"
    if "s \<noteq> section" "map_of validSections s = Some key'" for s key'
    using that sections_distinct [OF assms(1)] by (auto simp: stored_object_def rdb_Get_Set_forever)
  moreover have "Config_Save e num s v db = (db, Some ErrInvalidSection)" if "\<not> ValidSection s" for s v
    using that by (simp add: Config_Save_def ValidSection_def)
  ultimately show ?thesis by blast
qed

definition sample_config_env :: config_env where
  "sample_config_env =
     \<lparr>cf_parse = (\<lambda>s. Some (if s = ''old'' then JObj [(''model'', JStr ''a''), (''request_timeout_s'', JInt 5)]
        else JObj [(''model'', JStr ''b''), (''request_timeout_s'', JInt 5)])),
      cf_render = (\<lambda>_. ''new''), cf_now = 0\<rparr>"

theorem config_save_merges_witness:
  "\<exists>db'. Config_Save sample_config_env id ''chat'' (Some (JObj [(''model'', JStr ''b'')]))
       [(KeyChat, RString ''old'' None)] = (db', None) \<and>
     map_of (stored_object sample_config_env KeyChat db') ''model'' = Some (JStr ''b'') \<and>
     map_of (stored_object sample_config_env KeyChat db') ''request_timeout_s'' = Some (JInt 5)"
proof -
  let ?db = "[(KeyChat, RString ''old'' None)]"
  have o: "stored_object sample_config_env KeyChat ?db = [(''model'', JStr ''a''), (''request_timeout_s'', JInt 5)]"
    by (simp add: stored_object_def rdb_Get_def sample_config_env_def)
  have "\<exists>db'. Config_Save sample_config_env id ''chat'' (Some (JObj [(''model'', JStr ''b'')])) ?db = (db', None) \<and>
    (\<forall>k. map_of (stored_object sample_config_env KeyChat db') k =
       map_option (through_any id) (case map_of (rev [(''model'', JStr ''b'')]) k of
           Some v \<Rightarrow> Some v | None \<Rightarrow> map_of (rev (stored_object sample_config_env KeyChat ?db)) k)) \<and>
    (\<forall>s key'. s \<noteq> ''chat'' \<longrightarrow> map_of validSections s = Some key' \<longrightarrow>
       stored_object sample_config_env key' db' = stored_object sample_config_env key' ?db) \<and>
    (\<forall>s v. \<not> ValidSection s \<longrightarrow> Config_Save sample_config_env id s v ?db = (?db, Some ErrInvalidSection))"
  proof (rule config_save_merges)
    show "map_of validSections ''chat'' = Some KeyChat" by (simp add: validSections_def)
    show "rdb_Get (cf_now sample_config_env) ?db KeyChat = Inr None \<or>
      (\<exists>s old. rdb_Get (cf_now sample_config_env) ?db KeyChat = Inr (Some s) \<and> s \<noteq> [] \<and>
         cf_parse sample_config_env s = Some (JObj old))"
      by (simp add: rdb_Get_def sample_config_env_def)
    show "let j = through_any id (JObj (stored_object sample_config_env KeyChat ?db @ [(''model'', JStr ''b'')]))
      in cf_parse sample_config_env (cf_render sample_config_env j) = Some j"
      unfolding o by code_simp
  qed
  then show ?thesis unfolding o by (elim exE conjE) (intro exI conjI, assumption, simp_all)
qed

section \<open>The server list\<close>

lemma first_invalid_keep: "first_invalid i seen (keep_valid seen cs) = None"
  by (induction seen cs arbitrary: i rule: keep_valid.induct) auto

lemma keep_valid_accepted: "first_invalid i seen cs = None \<Longrightarrow> keep_valid seen cs = cs"
  by (induction i seen cs rule: first_invalid.induct) (auto split: if_splits)

lemma dec_enc_MCPServerConfig:
  "map_entries (mcp_Env c) = mcp_Env c \<Longrightarrow> dec_MCPServerConfig zero_MCPServerConfig (enc_MCPServerConfig c) = Some c"
  by (cases c) (simp add: dec_MCPServerConfig_def enc_MCPServerConfig_def zero_MCPServerConfig_def key_simps)

text \<open>
  A list of MCP servers that is accepted for saving is the list that is resolved afterwards, in the same
  order; and what is resolved, whatever is stored, is always a list that would be accepted: names
  unique and well-formed, commands present.
\<close>

theorem mcp_servers_roundtrip:
  assumes "SaveMCPServers e servers db = (db', None)"
    and "\<forall>c \<in> set servers. map_entries (mcp_Env c) = mcp_Env c"
    and "cf_parse e (cf_render e (enc_list enc_MCPServerConfig servers)) = Some (enc_list enc_MCPServerConfig servers)"
  shows "ResolveMCPServers e db' = servers \<and> first_invalid 0 [] (ResolveMCPServers e db) = None \<and>
    distinct (map mcp_Name servers)"
proof -
  have ok: "first_invalid 0 [] servers = None"
    and db': "db' = rdb_Set KeyMCPServers (cf_render e (enc_list enc_MCPServerConfig servers)) None db"
    using assms(1) by (auto simp: SaveMCPServers_def split: option.splits)
  have "dec_list zero_MCPServerConfig dec_MCPServerConfig [] (enc_list enc_MCPServerConfig servers) = Some servers"
    using assms(2) by (simp add: dec_enc_MCPServerConfig)
  then have "ResolveMCPServers e db' = keep_valid [] servers"
    by (simp add: ResolveMCPServers_def db' rdb_Get_Set_forever assms(3))
  moreover have "first_invalid 0 [] (ResolveMCPServers e db) = None"
    by (auto simp: ResolveMCPServers_def first_invalid_keep split: sum.splits option.splits)
  moreover have "distinct (map mcp_Name cs) \<and> set (map mcp_Name cs) \<inter> set seen = {}"
    if "first_invalid i seen cs = None" for i seen cs
    using that by (induction i seen cs rule: first_invalid.induct)
      (auto simp: validateMCPServerEntry_def split: if_splits)
  ultimately show ?thesis using ok by (auto simp: keep_valid_accepted)
qed

theorem mcp_servers_roundtrip_witness:
  "let c = zero_MCPServerConfig\<lparr>mcp_Name := ''fs'', mcp_Command := ''run'', mcp_Env := [(''A'', ''1'')]\<rparr>;
       e = \<lparr>cf_parse = (\<lambda>_. Some (enc_list enc_MCPServerConfig [c])), cf_render = (\<lambda>_. ''x''), cf_now = 0\<rparr>
   in ResolveMCPServers e (fst (SaveMCPServers e [c] [])) = [c]"
proof -
  let ?c = "zero_MCPServerConfig\<lparr>mcp_Name := ''fs'', mcp_Command := ''run'', mcp_Env := [(''A'', ''1'')]\<rparr>"
  let ?e = "\<lparr>cf_parse = (\<lambda>_. Some (enc_list enc_MCPServerConfig [?c])), cf_render = (\<lambda>_. ''x''), cf_now = 0\<rparr>"
  have "first_invalid 0 [] [?c] = None" by code_simp
  then have "SaveMCPServers ?e [?c] [] = (fst (SaveMCPServers ?e [?c] []), None)"
    by (simp add: SaveMCPServers_def)
  then have "ResolveMCPServers ?e (fst (SaveMCPServers ?e [?c] [])) = [?c] \<and>
      first_invalid 0 [] (ResolveMCPServers ?e []) = None \<and> distinct (map mcp_Name [?c])"
    by (rule mcp_servers_roundtrip) (simp_all add: map_entries_def)
  then show ?thesis unfolding Let_def by (rule conjunct1)
qed

end
