(* ===== verification/Context_Manager.thy ===== *)
theory Context_Manager
  imports Response_Store Config_Store Memory_Client Messaging
begin

text \<open>
  The context manager (\<^verbatim>\<open>internal/context\<close>): it turns a chat request into the prompt of the main agent.
  History and memories are fetched by two goroutines that share nothing, and both are waited for;
  the store is read in one state, the memory service is a function on a world of its own.
\<close>

section \<open>Assembly\<close>

record Memory =
  mm_ID :: string
  mm_Content :: string
  mm_Score :: rat
  mm_Tags :: "string list"

definition formatContextBlock :: "Memory list \<Rightarrow> string" where
  "formatContextBlock memories =
     (if memories = [] then []
      else ''<context>'' @ [CHR 0x0A] @
        concat (map (\<lambda>m. ''- '' @ mm_Content m @ [CHR 0x0A]) memories) @
        ''</context>'' @ [CHR 0x0A, CHR 0x0A])"

definition Assemble :: "string \<Rightarrow> Memory list \<Rightarrow> ChatMsg list \<Rightarrow> ChatMsg \<Rightarrow> ChatMsg list" where
  "Assemble systemPrompt memories history userMessage =
     (let assembled = [\<lparr>cm_Role = ''system'', cm_Content = systemPrompt, cm_ToolCalls = [], cm_ToolCallID = []\<rparr>]
            @ history;
          sorted = sort_key (\<lambda>m. - mm_Score m) memories;
          decorated = userMessage\<lparr>cm_Content := formatContextBlock sorted @ cm_Content userMessage\<rparr>
      in assembled @ [decorated])"

section \<open>Session history list\<close>

definition sessionKey :: "string \<Rightarrow> string" where
  "sessionKey sessionID = ''session:'' @ sessionID @ '':history''"

definition SessionStore_Append :: "(json \<Rightarrow> string) \<Rightarrow> string \<Rightarrow> ChatMsg \<Rightarrow> redis \<Rightarrow> store_error + redis" where
  "SessionStore_Append render sessionID msg db = rdb_RPush (sessionKey sessionID) (render (enc_ChatMsg msg)) db"

definition SessionStore_GetHistory :: "(string \<Rightarrow> json option) \<Rightarrow> string \<Rightarrow> redis \<Rightarrow> store_error + ChatMsg list" where
  "SessionStore_GetHistory parse sessionID db =
     map_sum id (List.map_filter (\<lambda>r. Option.bind (parse r) (dec_ChatMsg zero_ChatMsg)))
       (rdb_LRange db (sessionKey sessionID))"

section \<open>The request handler\<close>

record Manager =
  mg_systemPrompt :: string
  mg_recallLimit :: int
  mg_prewarmLimit :: int

record 'w ctx_env =
  cx_config :: config_env
  cx_Recall :: "RecallRequest \<Rightarrow> 'w \<Rightarrow> 'w \<times> (string + MemorySummary list)"
  cx_fresh :: string
  cx_now :: int
  cx_published :: bool  \<comment> \<open>does \<^verbatim>\<open>Publish\<close> succeed?\<close>

text \<open>The outcome of the goroutine that reads the history: an error leaves the history empty.\<close>

definition load_history :: "(string \<Rightarrow> json option) \<Rightarrow> ChatRequestPayload \<Rightarrow> redis \<Rightarrow> ChatMsg list" where
  "load_history parse payload db =
     (case GetSessionMessages parse (chr_SessionID payload) db of
        Inl _ \<Rightarrow> []
      | Inr canonical \<Rightarrow> if canonical \<noteq> [] then canonical else butlast (chr_Messages payload))"

text \<open>The recall request of the other goroutine; \<open>None\<close> when no recall is made.\<close>

definition recall_request :: "Manager \<Rightarrow> MemoryConfig \<Rightarrow> ChatRequestPayload \<Rightarrow> ChatMsg \<Rightarrow> RecallRequest option" where
  "recall_request m memCfg payload userMsg =
     (let req = zero_RecallRequest\<lparr>rc_Query := cm_Content userMsg, rc_Limit := mg_recallLimit m\<rparr>;
          speaker = chr_SpeakerID payload
      in if mem_RecallDefaultSpeakerScope memCfg = ''primary'' then
           Some (if speaker \<noteq> [] \<and> speaker \<noteq> ''unknown'' then req\<lparr>rc_SpeakerID := speaker\<rparr>
                 else if mem_PrimaryUserID memCfg \<noteq> [] then req\<lparr>rc_SpeakerID := mem_PrimaryUserID memCfg\<rparr>
                 else req)
         else if mem_RecallDefaultSpeakerScope memCfg = ''explicit'' then
           (if speaker = [] \<or> speaker = ''unknown'' then None
            else Some (req\<lparr>rc_SpeakerID := speaker\<rparr>))
         else Some req)"

definition to_memory :: "MemorySummary \<Rightarrow> Memory" where
  "to_memory ms = \<lparr>mm_ID = ms_ID ms, mm_Content = ms_Content ms, mm_Score = ms_Score ms, mm_Tags = ms_Tags ms\<rparr>"

definition recall_memories :: "'w ctx_env \<Rightarrow> RecallRequest option \<Rightarrow> 'w \<Rightarrow> 'w \<times> Memory list" where
  "recall_memories e req w =
     (case req of
        None \<Rightarrow> (w, [])
      | Some r \<Rightarrow> (case cx_Recall e r w of
           (w', Inl _) \<Rightarrow> (w', [])
         | (w', Inr resp) \<Rightarrow> (w', map to_memory resp)))"

definition memory_config :: "'w ctx_env \<Rightarrow> redis \<Rightarrow> MemoryConfig" where
  "memory_config e db = Config_Load (cx_config e) memory_fields KeyMemory db zero_MemoryConfig"

text \<open>The last assistant message of a history; the loop runs from its end.\<close>

fun last_assistant :: "ChatMsg list \<Rightarrow> string" where
  "last_assistant [] = []"
| "last_assistant (m # ms) = (if cm_Role m = ''assistant'' then cm_Content m else last_assistant ms)"

definition preWarmMemories :: "'w ctx_env \<Rightarrow> Manager \<Rightarrow> string \<Rightarrow> redis \<Rightarrow> 'w \<Rightarrow> 'w" where
  "preWarmMemories e m sessionID db w =
     (case GetSessionMessages (cf_parse (cx_config e)) sessionID db of
        Inl _ \<Rightarrow> w
      | Inr history \<Rightarrow>
         let lastAssistant = last_assistant (rev history)
         in if lastAssistant = [] then w
            else fst (cx_Recall e (zero_RecallRequest\<lparr>rc_Query := lastAssistant, rc_Limit := mg_prewarmLimit m\<rparr>) w))"

datatype ctx_outcome = CtxUndecodable | CtxPanic | CtxPublishFailed | CtxPublished

definition agent_stream :: "string \<Rightarrow> string" where
  "agent_stream agent = ''stream:agent:'' @ agent @ '':requests''"

definition context_payload :: "'w ctx_env \<Rightarrow> Manager \<Rightarrow> Message \<Rightarrow> ChatRequestPayload \<Rightarrow> redis \<Rightarrow> Memory list \<Rightarrow> ContextAssembledPayload" where
  "context_payload e m msg payload db memories =
     \<lparr>ca_SessionID = chr_SessionID payload,
      ca_Messages = Assemble (mg_systemPrompt m) memories (load_history (cf_parse (cx_config e)) payload db)
        (last (chr_Messages payload)),
      ca_TargetAgent = ''main-agent'', ca_ReplyStream = m_ReplyStream msg, ca_SpeakerID = chr_SpeakerID payload\<rparr>"

definition context_handleRequest ::
  "'w ctx_env \<Rightarrow> Manager \<Rightarrow> Message \<Rightarrow> redis \<Rightarrow> 'w \<Rightarrow> 'w \<times> (string \<times> Message) list \<times> ctx_outcome" where
  "context_handleRequest e m msg db w =
     (case dec_ChatRequestPayload (m_Payload msg) of
        None \<Rightarrow> (w, [], CtxUndecodable)
      | Some payload \<Rightarrow>
         if chr_Messages payload = [] then (w, [], CtxPanic)
         else
           let userMsg = last (chr_Messages payload);
               (w, memories) = recall_memories e (recall_request m (memory_config e db) payload userMsg) w;
               contextMsg = (NewMessage (cx_fresh e) (cx_now e) TypeContextAssembled ''context-manager''
                 (enc_ContextAssembledPayload (context_payload e m msg payload db memories)))
                 \<lparr>m_CorrelationID := m_CorrelationID msg\<rparr>
           in if \<not> cx_published e then (w, [], CtxPublishFailed)
              else (preWarmMemories e m (chr_SessionID payload) db w,
                    [(agent_stream ''main-agent'', contextMsg)], CtxPublished))"

section \<open>The session list round trip\<close>

lemma session_history_append:
  assumes "parse (render (enc_ChatMsg msg)) = Some (enc_ChatMsg msg)"
    and "SessionStore_Append render s msg db = Inr db'"
    and "SessionStore_GetHistory parse s db = Inr h"
  shows "SessionStore_GetHistory parse s db' = Inr (h @ [msg])"
  using assms
  by (auto simp: SessionStore_Append_def SessionStore_GetHistory_def rdb_RPush_def rdb_LRange_def update_conv'
      map_filter_def split: sum.splits option.splits rvalue.splits)

section \<open>The prompt\<close>

lemma sorted_by_score: "sorted_wrt (\<lambda>a b. mm_Score a \<ge> mm_Score b) (sort_key (\<lambda>m. - mm_Score m) ms)"
proof -
  have "sorted_wrt (\<lambda>a b. - mm_Score a \<le> - mm_Score b) (sort_key (\<lambda>m. - mm_Score m) ms)"
    using sorted_sort_key [of "\<lambda>m. - mm_Score m" ms] by (simp add: sorted_map)
  then show ?thesis by (rule sorted_wrt_mono_rel [rotated]) simp
qed

text \<open>Who is meant to be recalled for: nobody in particular, the speaker, or the primary user.\<close>

definition known_speaker :: "string \<Rightarrow> bool" where
  "known_speaker s \<longleftrightarrow> s \<noteq> [] \<and> s \<noteq> ''unknown''"

definition recall_speaker :: "MemoryConfig \<Rightarrow> string \<Rightarrow> string" where
  "recall_speaker cfg speaker =
     (if mem_RecallDefaultSpeakerScope cfg = ''primary''
      then (if known_speaker speaker then speaker else mem_PrimaryUserID cfg)
      else if mem_RecallDefaultSpeakerScope cfg = ''explicit'' then speaker else [])"

lemma recall_request_cases:
  "recall_request m cfg p u =
     (if mem_RecallDefaultSpeakerScope cfg = ''explicit'' \<and> \<not> known_speaker (chr_SpeakerID p) then None
      else Some (zero_RecallRequest\<lparr>rc_Query := cm_Content u, rc_Limit := mg_recallLimit m,
             rc_SpeakerID := recall_speaker cfg (chr_SpeakerID p)\<rparr>))"
  by (auto simp: recall_request_def recall_speaker_def known_speaker_def zero_RecallRequest_def Let_def)

lemma context_handleRequest_prompt:
  assumes "dec_ChatRequestPayload (m_Payload msg) = Some p"
    and "chr_Messages p = earlier @ [u]"
    and "cx_published e"
  shows "\<exists>w' c a history memories.
    context_handleRequest e m msg db w = (w', [(agent_stream ''main-agent'', c)], CtxPublished) \<and>
    m_CorrelationID c = m_CorrelationID msg \<and> m_Type c = TypeContextAssembled \<and>
    dec_ContextAssembledPayload (m_Payload c) = Some a \<and>
    ca_SessionID a = chr_SessionID p \<and> ca_SpeakerID a = chr_SpeakerID p \<and> ca_ReplyStream a = m_ReplyStream msg \<and>
    ca_Messages a = \<lparr>cm_Role = ''system'', cm_Content = mg_systemPrompt m, cm_ToolCalls = [], cm_ToolCallID = []\<rparr> #
      history @ [u\<lparr>cm_Content := formatContextBlock memories @ cm_Content u\<rparr>] \<and>
    (case GetSessionMessages (cf_parse (cx_config e)) (chr_SessionID p) db of
       Inl _ \<Rightarrow> history = [] | Inr stored \<Rightarrow> history = (if stored = [] then earlier else stored)) \<and>
    sorted_wrt (\<lambda>a b. mm_Score a \<ge> mm_Score b) memories \<and>
    (\<forall>k. filter (\<lambda>x. mm_Score x = k) memories =
      filter (\<lambda>x. mm_Score x = k)
        (if mem_RecallDefaultSpeakerScope (memory_config e db) = ''explicit'' \<and> \<not> known_speaker (chr_SpeakerID p) then []
         else case snd (cx_Recall e (zero_RecallRequest\<lparr>rc_Query := cm_Content u, rc_Limit := mg_recallLimit m,
                rc_SpeakerID := recall_speaker (memory_config e db) (chr_SpeakerID p)\<rparr>) w) of
              Inl _ \<Rightarrow> [] | Inr found \<Rightarrow> map to_memory found))"
proof -
  let ?recalled = "recall_memories e (recall_request m (memory_config e db) p u) w"
  let ?sorted = "sort_key (\<lambda>x. - mm_Score x) (snd ?recalled)"
  let ?c = "(NewMessage (cx_fresh e) (cx_now e) TypeContextAssembled ''context-manager''
      (enc_ContextAssembledPayload (context_payload e m msg p db (snd ?recalled))))\<lparr>m_CorrelationID := m_CorrelationID msg\<rparr>"
  have run: "\<exists>w'. context_handleRequest e m msg db w = (w', [(agent_stream ''main-agent'', ?c)], CtxPublished)"
    using assms by (simp add: context_handleRequest_def split: prod.splits)
  have stable: "filter (\<lambda>x. mm_Score x = k) ?sorted = filter (\<lambda>x. mm_Score x = k) (snd ?recalled)" for k
    using sort_key_stable [of "\<lambda>x. - mm_Score x" "- k" "snd ?recalled"] by simp
  have rec: "snd ?recalled =
      (if mem_RecallDefaultSpeakerScope (memory_config e db) = ''explicit'' \<and> \<not> known_speaker (chr_SpeakerID p) then []
       else case snd (cx_Recall e (zero_RecallRequest\<lparr>rc_Query := cm_Content u, rc_Limit := mg_recallLimit m,
              rc_SpeakerID := recall_speaker (memory_config e db) (chr_SpeakerID p)\<rparr>) w) of
            Inl _ \<Rightarrow> [] | Inr found \<Rightarrow> map to_memory found)"
    by (simp add: recall_memories_def recall_request_cases split: sum.splits prod.splits)
  from run obtain w' where
    "context_handleRequest e m msg db w = (w', [(agent_stream ''main-agent'', ?c)], CtxPublished)" ..
  then show ?thesis
    using assms(2) stable sorted_by_score [of "snd ?recalled"]
    by (intro exI [of _ w'] exI [of _ ?c] exI [of _ "context_payload e m msg p db (snd ?recalled)"]
        exI [of _ "load_history (cf_parse (cx_config e)) p db"] exI [of _ ?sorted] conjI)
      (simp_all add: NewMessage_def context_payload_def Assemble_def Let_def load_history_def rec split: sum.splits)
qed

lemma context_prompt_history:
  assumes "dec_ChatRequestPayload (m_Payload msg) = Some p"
    and "chr_Messages p = earlier @ [u]"
    and "cx_published e"
  shows "\<exists>w' c a memories.
    context_handleRequest e m msg db w = (w', [(agent_stream ''main-agent'', c)], CtxPublished) \<and>
    dec_ContextAssembledPayload (m_Payload c) = Some a \<and>
    ca_Messages a = \<lparr>cm_Role = ''system'', cm_Content = mg_systemPrompt m, cm_ToolCalls = [], cm_ToolCallID = []\<rparr> #
      (case GetSessionMessages (cf_parse (cx_config e)) (chr_SessionID p) db of
         Inl _ \<Rightarrow> [] | Inr stored \<Rightarrow> (if stored = [] then earlier else stored)) @
      [u\<lparr>cm_Content := formatContextBlock memories @ cm_Content u\<rparr>]"
  using context_handleRequest_prompt [OF assms, of m db w]
  by (elim exE conjE) (intro exI conjI, assumption, assumption, auto split: sum.splits if_splits)

text \<open>
  C12. The prompt. A chat request with messages yields exactly one message for the main agent, under the
  request's correlation id and with its session, speaker and reply stream. Its messages are the system
  prompt, the history and the last message of the request, in front of which the memories stand, one line each between
  \<^verbatim>\<open><context>\<close> and \<^verbatim>\<open></context>\<close>, best score first and equal scores in the order of recall. The history is the session's stored one; the
  request's own earlier messages are used only if nothing is stored. Memories are recalled for the
  speaker the configured scope asks for; in scope \<^verbatim>\<open>explicit\<close> an unknown speaker gets none.
\<close>

theorem context_prompt:
  assumes "dec_ChatRequestPayload (m_Payload msg) = Some p"
    and "chr_Messages p = earlier @ [u]"
    and "cx_published e"
  shows "\<exists>w' c a history memories.
    context_handleRequest e m msg db w = (w', [(agent_stream ''main-agent'', c)], CtxPublished) \<and>
    m_CorrelationID c = m_CorrelationID msg \<and> m_Type c = TypeContextAssembled \<and>
    dec_ContextAssembledPayload (m_Payload c) = Some a \<and>
    ca_SessionID a = chr_SessionID p \<and> ca_SpeakerID a = chr_SpeakerID p \<and> ca_ReplyStream a = m_ReplyStream msg \<and>
    ca_Messages a = \<lparr>cm_Role = ''system'', cm_Content = mg_systemPrompt m, cm_ToolCalls = [], cm_ToolCallID = []\<rparr> #
      history @ [u\<lparr>cm_Content := (if memories = [] then []
         else ''<context>'' @ [CHR 0x0A] @ concat (map (\<lambda>x. ''- '' @ mm_Content x @ [CHR 0x0A]) memories) @ ''</context>'' @ [CHR 0x0A, CHR 0x0A]) @
         cm_Content u\<rparr>] \<and>
    (case GetSessionMessages (cf_parse (cx_config e)) (chr_SessionID p) db of
       Inl _ \<Rightarrow> history = [] | Inr stored \<Rightarrow> history = (if stored = [] then earlier else stored)) \<and>
    sorted_wrt (\<lambda>a b. mm_Score a \<ge> mm_Score b) memories \<and>
    (\<forall>k. filter (\<lambda>x. mm_Score x = k) memories =
      filter (\<lambda>x. mm_Score x = k)
        (if mem_RecallDefaultSpeakerScope (memory_config e db) = ''explicit'' \<and> \<not> known_speaker (chr_SpeakerID p) then []
         else case snd (cx_Recall e (zero_RecallRequest\<lparr>rc_Query := cm_Content u, rc_Limit := mg_recallLimit m,
                rc_SpeakerID := recall_speaker (memory_config e db) (chr_SpeakerID p)\<rparr>) w) of
              Inl _ \<Rightarrow> [] | Inr found \<Rightarrow> map to_memory found))"
  using context_handleRequest_prompt [OF assms, of m db w] unfolding formatContextBlock_def .

definition sample_request :: "string \<Rightarrow> ChatMsg list \<Rightarrow> Message" where
  "sample_request s ms = NewMessage ''c1'' 0 TypeChatRequest ''gateway''
     (enc_ChatRequestPayload \<lparr>chr_SessionID = s, chr_Messages = ms, chr_Model = [], chr_Stream = False, chr_SpeakerID = ''ann''\<rparr>)"

definition sample_ctx :: "unit ctx_env" where
  "sample_ctx = \<lparr>cx_config = \<lparr>cf_parse = (\<lambda>_. None), cf_render = (\<lambda>_. []), cf_now = 0\<rparr>,
     cx_Recall = (\<lambda>_ w. (w, Inr [\<lparr>ms_ID = ''1'', ms_Content = ''low'', ms_Tags = [], ms_Score = 1, ms_Type = [], ms_Metadata = []\<rparr>,
                                  \<lparr>ms_ID = ''2'', ms_Content = ''high'', ms_Tags = [], ms_Score = 2, ms_Type = [], ms_Metadata = []\<rparr>])),
     cx_fresh = ''f'', cx_now = 0, cx_published = True\<rparr>"

theorem context_prompt_witness:
  "\<exists>w' c a memories.
     context_handleRequest sample_ctx \<lparr>mg_systemPrompt = ''sys'', mg_recallLimit = 5, mg_prewarmLimit = 3\<rparr>
       (sample_request ''s'' [zero_ChatMsg\<lparr>cm_Role := ''user'', cm_Content := ''hi''\<rparr>]) [] () =
       (w', [(agent_stream ''main-agent'', c)], CtxPublished) \<and>
     dec_ContextAssembledPayload (m_Payload c) = Some a \<and> map cm_Role (ca_Messages a) = [''system'', ''user''] \<and>
     ca_Messages a ! 1 = zero_ChatMsg\<lparr>cm_Role := ''user'', cm_Content := formatContextBlock memories @ ''hi''\<rparr> \<and>
     sorted_wrt (\<lambda>a b. mm_Score a \<ge> mm_Score b) memories"
proof -
  let ?u = "zero_ChatMsg\<lparr>cm_Role := ''user'', cm_Content := ''hi''\<rparr>"
  let ?p = "\<lparr>chr_SessionID = ''s'', chr_Messages = [?u], chr_Model = [], chr_Stream = False, chr_SpeakerID = ''ann''\<rparr>"
  have "GetSessionMessages (cf_parse (cx_config sample_ctx)) (chr_SessionID ?p) [] = Inr []"
    by (simp add: GetSessionMessages_def GetSessionHistory_def rdb_LRange_def)
  note g = this
  have d: "dec_ChatRequestPayload (m_Payload (sample_request ''s'' [?u])) = Some ?p"
    by (simp add: sample_request_def NewMessage_def)
  have m: "chr_Messages ?p = [] @ [?u]" by simp
  have pub: "cx_published sample_ctx" by (simp add: sample_ctx_def)
  let ?m = "\<lparr>mg_systemPrompt = ''sys'', mg_recallLimit = 5, mg_prewarmLimit = 3\<rparr>"
  from context_prompt [OF d m pub, of ?m "[]" "()", folded formatContextBlock_def] obtain w' c a history memories where
    "context_handleRequest sample_ctx ?m (sample_request ''s'' [?u]) [] () = (w', [(agent_stream ''main-agent'', c)], CtxPublished)"
    "dec_ContextAssembledPayload (m_Payload c) = Some a"
    and msgs: "ca_Messages a = \<lparr>cm_Role = ''system'', cm_Content = mg_systemPrompt ?m, cm_ToolCalls = [], cm_ToolCallID = []\<rparr> #
      history @ [?u\<lparr>cm_Content := formatContextBlock memories @ cm_Content ?u\<rparr>]"
    and "case (Inr [] :: store_error + ChatMsg list) of Inl _ \<Rightarrow> history = [] | Inr stored \<Rightarrow> history = (if stored = [] then [] else stored)"
    and "sorted_wrt (\<lambda>a b. mm_Score a \<ge> mm_Score b) memories"
    unfolding g by (elim exE conjE) (rule that; assumption)
  then show ?thesis
    by (intro exI [of _ w'] exI [of _ c] exI [of _ a] exI [of _ memories] conjI) (simp_all add: zero_ChatMsg_def)
qed

end
