(* ===== verification/Gateway_Turn.thy ===== *)
theory Gateway_Turn
  imports Context_Manager
begin

text \<open>
  A turn at the gateway (\<^verbatim>\<open>internal/gateway/responses.go\<close>, \<^verbatim>\<open>speaker.go\<close>): choice of the session, conversion of items,
  the request to the context manager, the stored response, the index by which a replayed
  conversation finds its session again, and the event stream of a streaming client. The HTTP layer is
  reduced to the decoded body, the speaker header and the reply; ids, clock, SHA-256, the JSON text layer
  and the answer of the agents are arguments.
\<close>

section \<open>Requests and replies\<close>

record responsesRequest =
  rr_Input :: json
  rr_Model :: string
  rr_PreviousResponseID :: string
  rr_Tools :: json
  rr_ToolChoice :: json
  rr_Stream :: bool
  rr_Store :: "bool option"
  rr_SpeakerID :: string

definition dec_responsesRequest :: "json \<Rightarrow> responsesRequest option" where
  "dec_responsesRequest = dec_struct
     [fld ''input'' dec_raw rr_Input rr_Input_update,
      fld ''model'' dec_string rr_Model rr_Model_update,
      fld ''previous_response_id'' dec_string rr_PreviousResponseID rr_PreviousResponseID_update,
      fld ''tools'' dec_raw rr_Tools rr_Tools_update,
      fld ''tool_choice'' dec_raw rr_ToolChoice rr_ToolChoice_update,
      fld ''stream'' dec_bool rr_Stream rr_Stream_update,
      fld ''store'' (dec_option False dec_bool) rr_Store rr_Store_update,
      fld ''speaker_id'' dec_string rr_SpeakerID rr_SpeakerID_update]
     \<lparr>rr_Input = JNull, rr_Model = [], rr_PreviousResponseID = [], rr_Tools = JNull, rr_ToolChoice = JNull,
      rr_Stream = False, rr_Store = None, rr_SpeakerID = []\<rparr>"

record responsesResponse =
  rp_ID :: string
  rp_Object :: string
  rp_CreatedAt :: int
  rp_Model :: string
  rp_SessionID :: string
  rp_PreviousResponseID :: string
  rp_Output :: "OutputItem list"
  rp_Status :: string

definition enc_responsesResponse :: "responsesResponse \<Rightarrow> json" where
  "enc_responsesResponse r = JObj
     ([(''id'', JStr (rp_ID r)), (''object'', JStr (rp_Object r)), (''created_at'', JInt (rp_CreatedAt r)),
       (''model'', JStr (rp_Model r)), (''session_id'', JStr (rp_SessionID r))] @
      omit_empty ''previous_response_id'' (JStr (rp_PreviousResponseID r)) @
      [(''output'', enc_list enc_OutputItem (rp_Output r)), (''status'', JStr (rp_Status r))])"

text \<open>A reply: an error in the OpenAI form, a JSON body, a bare status, or events (name and data).\<close>

datatype gw_reply =
    GwError int string string
  | GwBody int json
  | GwStatus int
  | GwEvents "(string \<times> json) list"

definition StatusCompleted :: string where "StatusCompleted = ''completed''"
definition StatusInProgress :: string where "StatusInProgress = ''in_progress''"

record gw_env =
  ge_config :: config_env
  ge_num :: "json \<Rightarrow> json"                      \<comment> \<open>a number through \<^verbatim>\<open>float64\<close>\<close>
  ge_sha256hex :: "string \<Rightarrow> string"
  ge_hashTTL :: int
  ge_session :: string                          \<comment> \<open>\<^verbatim>\<open>NewSessionID\<close>\<close>
  ge_response :: string                         \<comment> \<open>\<^verbatim>\<open>NewResponseID\<close>\<close>
  ge_corr :: string                             \<comment> \<open>\<^verbatim>\<open>NewCorrelationID\<close>\<close>
  ge_event :: string                            \<comment> \<open>the id of the event message\<close>
  ge_time :: string                             \<comment> \<open>the current time in RFC 3339\<close>
  ge_unix :: int
  ge_error_text :: "store_error \<Rightarrow> string"      \<comment> \<open>the text of a store error\<close>
  ge_published :: bool                          \<comment> \<open>does \<^verbatim>\<open>Publish\<close> succeed?\<close>
  ge_wait :: "string \<Rightarrow> string \<Rightarrow> wait_error + Message"  \<comment> \<open>\<^verbatim>\<open>WaitForReply\<close> on a stream for a correlation id\<close>

abbreviation ge_parse :: "gw_env \<Rightarrow> string \<Rightarrow> json option" where "ge_parse e \<equiv> cf_parse (ge_config e)"
abbreviation ge_render :: "gw_env \<Rightarrow> json \<Rightarrow> string" where "ge_render e \<equiv> cf_render (ge_config e)"
abbreviation ge_now :: "gw_env \<Rightarrow> int" where "ge_now e \<equiv> cf_now (ge_config e)"

section \<open>Items and messages\<close>

definition parseInput :: "(json \<Rightarrow> json) \<Rightarrow> json \<Rightarrow> string + InputItem list" where
  "parseInput num raw =
     (case raw of
        JStr v \<Rightarrow> Inr [zero_InputItem\<lparr>ii_Type := ''message'', ii_Role := ''user'', ii_Content := CJson (JStr v)\<rparr>]
      | JArr vs \<Rightarrow>
          (case dec_list zero_InputItem dec_InputItem [] (through_any num (JArr vs)) of
             None \<Rightarrow> Inl ''invalid input items format''
           | Some items \<Rightarrow> Inr items)
      | _ \<Rightarrow> Inl ''input must be a string or array'')"

definition currentTurnInput :: "InputItem list \<Rightarrow> InputItem list" where
  "currentTurnInput inputItems = (if inputItems = [] then [] else [last inputItems])"

definition chat :: "string \<Rightarrow> string \<Rightarrow> ChatMsg" where
  "chat role body = \<lparr>cm_Role = role, cm_Content = body, cm_ToolCalls = [], cm_ToolCallID = []\<rparr>"

definition tool_output_msg :: "string \<Rightarrow> string \<Rightarrow> ChatMsg" where
  "tool_output_msg out callID = \<lparr>cm_Role = ''tool'', cm_Content = out, cm_ToolCalls = [], cm_ToolCallID = callID\<rparr>"

definition tool_call_of :: "OutputItem \<Rightarrow> ChatMsg" where
  "tool_call_of out =
     \<lparr>cm_Role = ''assistant'', cm_Content = [],
      cm_ToolCalls = [\<lparr>tc_ID = oi_CallID out, tc_Type = ''function'', tc_Name = oi_Name out, tc_Arguments = oi_Args out\<rparr>],
      cm_ToolCallID = []\<rparr>"

definition inputItemsToMessages :: "InputItem list \<Rightarrow> ChatMsg list" where
  "inputItemsToMessages items =
     map (\<lambda>item. if ii_Type item = ''function_call_output'' then tool_output_msg (ii_Output item) (ii_CallID item)
                 else chat (if ii_Role item = [] then ''user'' else ii_Role item) (FlattenContent (ii_Content item))) items"

definition chain_output :: "OutputItem \<Rightarrow> ChatMsg list" where
  "chain_output out =
     (if oi_Type out = ''function_call'' then [tool_call_of out]
      else if oi_Type out = ''function_call_output'' then [tool_output_msg (oi_Output out) (oi_CallID out)]
      else if oi_Type out = ''message'' \<and> oi_Role out = ''assistant'' then
        (let body = concat (map (\<lambda>part. if cp_Type part = ''output_text'' \<or> cp_Type part = ''text'' then cp_Text part else [])
                      (oi_Content out))
         in if body \<noteq> [] then [chat ''assistant'' body] else [])
      else [])"

definition chainToMessages :: "Response list \<Rightarrow> ChatMsg list" where
  "chainToMessages chain =
     concat (map (\<lambda>resp. inputItemsToMessages (rs_Input resp) @ concat (map chain_output (rs_Output resp))) chain)"

definition clientFacingOutput :: "OutputItem list \<Rightarrow> OutputItem list" where
  "clientFacingOutput items =
     filter (\<lambda>it. \<not> (oi_Type it = ''function_call'' \<or> oi_Type it = ''function_call_output'')) items"

definition textToOutputItems :: "string \<Rightarrow> OutputItem list" where
  "textToOutputItems body =
     [zero_OutputItem\<lparr>oi_Type := ''message'', oi_Role := ''assistant'',
        oi_Content := [\<lparr>cp_Type = ''output_text'', cp_Text = body\<rparr>]\<rparr>]"

definition call_item :: "ToolCall \<Rightarrow> OutputItem" where
  "call_item tc = zero_OutputItem\<lparr>oi_Type := ''function_call'', oi_CallID := tc_ID tc, oi_Name := tc_Name tc,
     oi_Args := tc_Arguments tc\<rparr>"

definition result_item :: "string \<Rightarrow> string \<Rightarrow> OutputItem" where
  "result_item callID out = zero_OutputItem\<lparr>oi_Type := ''function_call_output'', oi_CallID := callID, oi_Output := out\<rparr>"

text \<open>The trace of a turn: calls in order, each followed by its result. Of several results with one id the map keeps the last.\<close>

definition trace_items :: "ToolCall list \<Rightarrow> ToolResult list \<Rightarrow> OutputItem list" where
  "trace_items calls results =
     concat (map (\<lambda>tc. call_item tc #
         (case map_of (rev (map (\<lambda>tr. (tr_CallID tr, tr_Output tr)) results)) (tc_ID tc) of
            None \<Rightarrow> [] | Some out \<Rightarrow> [result_item (tc_ID tc) out])) calls)"

section \<open>Session and speaker\<close>

record sessionDecision =
  sd_SessionID :: string
  sd_EffectivePrevRespID :: string
  sd_StitchPrefixHash :: string
  sd_Stitched :: bool

definition mint :: "gw_env \<Rightarrow> string \<Rightarrow> sessionDecision" where
  "mint e hashHex = \<lparr>sd_SessionID = ge_session e, sd_EffectivePrevRespID = [], sd_StitchPrefixHash = hashHex, sd_Stitched = False\<rparr>"

definition decideSession :: "gw_env \<Rightarrow> string \<Rightarrow> bool \<Rightarrow> InputItem list \<Rightarrow> redis \<Rightarrow> gw_reply + sessionDecision" where
  "decideSession e prevRespID shouldStore inputItems db =
     (if prevRespID \<noteq> [] then
        (case InheritSessionID prevRespID db of
           Inl _ \<Rightarrow> Inl (GwError 400 ''invalid_request'' (''previous_response_id not found: '' @ prevRespID))
         | Inr sid \<Rightarrow> Inr \<lparr>sd_SessionID = sid, sd_EffectivePrevRespID = prevRespID, sd_StitchPrefixHash = [], sd_Stitched = False\<rparr>)
      else if shouldStore \<and> length inputItems > 1 then
        (let hashHex = StitchHash (ge_sha256hex e) (butlast inputItems) in
         case LookupSessionByPrefixHash (ge_now e) hashHex db of
           Inl _ \<Rightarrow> Inr (mint e hashHex)
         | Inr None \<Rightarrow> Inr (mint e hashHex)
         | Inr (Some sid) \<Rightarrow>
             Inr \<lparr>sd_SessionID = sid,
                  sd_EffectivePrevRespID = (case GetLastResponseID sid db of Inl _ \<Rightarrow> [] | Inr prev \<Rightarrow> prev),
                  sd_StitchPrefixHash = hashHex, sd_Stitched = True\<rparr>)
      else Inr (mint e []))"

text \<open>\<open>inherit\<close>: is the response store passed on?\<close>

definition resolveSpeakerID :: "config_env \<Rightarrow> string \<Rightarrow> string \<Rightarrow> string \<Rightarrow> bool \<Rightarrow> redis \<Rightarrow> string" where
  "resolveSpeakerID c bodySpeakerID header prevResponseID inherit db =
     (if bodySpeakerID \<noteq> [] then bodySpeakerID
      else if header \<noteq> [] then header
      else
        let inherited = (if prevResponseID \<noteq> [] \<and> inherit
                         then (case InheritSpeakerID prevResponseID db of Inl _ \<Rightarrow> [] | Inr s \<Rightarrow> s) else []);
            primary = mem_PrimaryUserID (Config_Load c memory_fields KeyMemory db zero_MemoryConfig)
        in if inherited \<noteq> [] then inherited else if primary \<noteq> [] then primary else ''unknown'')"

section \<open>Storing a turn\<close>

definition writeStitchIndex :: "gw_env \<Rightarrow> string \<Rightarrow> InputItem list \<Rightarrow> OutputItem list \<Rightarrow> redis \<Rightarrow> redis" where
  "writeStitchIndex e sessionID inputItems outputItems db =
     StoreSessionPrefixHash (ge_hashTTL e) (ge_now e)
       (StitchHash (ge_sha256hex e) (inputItems @ map OutputItemToInputItem outputItems)) sessionID db"

record turn_ctx =
  tx_responseID :: string
  tx_sessionID :: string
  tx_correlationID :: string
  tx_model :: string
  tx_previousResponseID :: string
  tx_inputItems :: "InputItem list"
  tx_store :: bool
  tx_speakerID :: string

definition stored_response :: "gw_env \<Rightarrow> turn_ctx \<Rightarrow> OutputItem list \<Rightarrow> Response" where
  "stored_response e t outputItems =
     \<lparr>rs_ID = tx_responseID t, rs_Input = currentTurnInput (tx_inputItems t), rs_Output = outputItems,
      rs_PreviousResponseID = tx_previousResponseID t, rs_SessionID = tx_sessionID t, rs_SpeakerID = tx_speakerID t,
      rs_Model = tx_model t, rs_CreatedAt = ge_time e, rs_Status = StatusCompleted\<rparr>"

definition store_turn :: "gw_env \<Rightarrow> turn_ctx \<Rightarrow> OutputItem list \<Rightarrow> redis \<Rightarrow> redis" where
  "store_turn e t outputItems db =
     (if \<not> tx_store t then db
      else case Save (ge_render e) (stored_response e t outputItems) db of
             (db', Some _) \<Rightarrow> db'
           | (db', None) \<Rightarrow> writeStitchIndex e (tx_sessionID t) (tx_inputItems t) outputItems db')"

definition client_response :: "gw_env \<Rightarrow> turn_ctx \<Rightarrow> OutputItem list \<Rightarrow> string \<Rightarrow> responsesResponse" where
  "client_response e t output status =
     \<lparr>rp_ID = tx_responseID t, rp_Object = ''response'', rp_CreatedAt = ge_unix e, rp_Model = tx_model t,
      rp_SessionID = tx_sessionID t, rp_PreviousResponseID = tx_previousResponseID t, rp_Output = output, rp_Status = status\<rparr>"

text \<open>\<^verbatim>\<open>publishTurnCompleted\<close>: the message on the event channel.\<close>

definition publishTurnCompleted :: "gw_env \<Rightarrow> string \<Rightarrow> string \<times> Message" where
  "publishTurnCompleted e sessionID =
     (''channel:events'', NewMessage (ge_event e) (ge_now e) ''session_event'' ''gateway''
        (enc_SessionEventPayload \<lparr>ev_SessionID = sessionID, ev_Event = ''turn_completed''\<rparr>))"

definition reply_stream :: "string \<Rightarrow> string" where
  "reply_stream correlationID = ''stream:gateway:reply:'' @ correlationID"

definition handleResponsesNonStreaming ::
  "gw_env \<Rightarrow> turn_ctx \<Rightarrow> redis \<Rightarrow> redis \<times> (string \<times> Message) list \<times> gw_reply" where
  "handleResponsesNonStreaming e t db =
     (case ge_wait e (reply_stream (tx_correlationID t)) (tx_correlationID t) of
        Inl _ \<Rightarrow> (db, [], GwError 504 ''timeout'' ''Request timed out waiting for response'')
      | Inr reply \<Rightarrow>
          (case dec_ChatResponsePayload (m_Payload reply) of
             None \<Rightarrow> (db, [], GwError 500 ''internal_error'' ''Failed to decode response'')
           | Some payload \<Rightarrow>
               let outputItems = trace_items (cr_ToolCalls payload) (cr_ToolResults payload) @
                                 textToOutputItems (cr_Content payload)
               in (store_turn e t outputItems db, [publishTurnCompleted e (tx_sessionID t)],
                   GwBody 200 (enc_responsesResponse
                     (client_response e t (clientFacingOutput outputItems) StatusCompleted)))))"

section \<open>The event stream\<close>

text \<open>
  What the select of the streaming loop receives, in the order it picks it: a message of the tool-call
  channel, one of the token channel (\<open>None\<close> when there is none or its text is no message), or the end
  of the request's context. The data of an event is a marshalled map: its keys are in ascending order.
\<close>

datatype stream_input = FromTools "Message option" | FromTokens "Message option" | RequestDone

record stream_state =
  ss_content :: string
  ss_items :: "OutputItem list"
  ss_declared :: bool

datatype stream_end = Running | Disconnected | Completed

definition response_event :: "string \<Rightarrow> responsesResponse \<Rightarrow> string \<times> json" where
  "response_event name r = (name, JObj [(''response'', enc_responsesResponse r), (''type'', JStr name)])"

definition item_id :: "string \<Rightarrow> string" where
  "item_id correlationID = ''msg_'' @ take 8 correlationID"

definition text_part :: "string \<Rightarrow> json" where
  "text_part body = JObj [(''text'', JStr body), (''type'', JStr ''output_text'')]"

definition message_item :: "string \<Rightarrow> string \<Rightarrow> json list \<Rightarrow> json" where
  "message_item itemID status parts = JObj
     [(''content'', JArr parts), (''id'', JStr itemID), (''role'', JStr ''assistant''), (''status'', JStr status),
      (''type'', JStr ''message'')]"

definition item_added :: "string \<Rightarrow> (string \<times> json) list" where
  "item_added itemID =
     [(''response.output_item.added'', JObj [(''item'', message_item itemID ''in_progress'' []), (''output_index'', JInt 0),
         (''type'', JStr ''response.output_item.added'')]),
      (''response.content_part.added'', JObj [(''content_index'', JInt 0), (''item_id'', JStr itemID), (''output_index'', JInt 0),
         (''part'', text_part []), (''type'', JStr ''response.content_part.added'')])]"

definition text_delta :: "string \<Rightarrow> string \<Rightarrow> string \<times> json" where
  "text_delta itemID tok =
     (''response.output_text.delta'', JObj [(''content_index'', JInt 0), (''delta'', JStr tok), (''item_id'', JStr itemID),
         (''output_index'', JInt 0), (''type'', JStr ''response.output_text.delta'')])"

definition item_closed :: "string \<Rightarrow> string \<Rightarrow> (string \<times> json) list" where
  "item_closed itemID body =
     [(''response.output_text.done'', JObj [(''content_index'', JInt 0), (''item_id'', JStr itemID), (''output_index'', JInt 0),
         (''text'', JStr body), (''type'', JStr ''response.output_text.done'')]),
      (''response.content_part.done'', JObj [(''content_index'', JInt 0), (''item_id'', JStr itemID), (''output_index'', JInt 0),
         (''part'', text_part body), (''type'', JStr ''response.content_part.done'')]),
      (''response.output_item.done'', JObj [(''item'', message_item itemID ''completed'' [text_part body]),
         (''output_index'', JInt 0), (''type'', JStr ''response.output_item.done'')])]"

text \<open>What a message of the tool-call channel adds to the trace.\<close>

definition tool_trace :: "Message option \<Rightarrow> OutputItem list" where
  "tool_trace m =
     (case m of
        None \<Rightarrow> []
      | Some msg \<Rightarrow>
          if m_Type msg = TypeToolCall then
            (case dec_ToolCallPayload (m_Payload msg) of None \<Rightarrow> [] | Some p \<Rightarrow> [call_item (tcp_Call p)])
          else if m_Type msg = TypeToolResult then
            (case dec_ToolResultPayload (m_Payload msg) of None \<Rightarrow> [] | Some p \<Rightarrow> [result_item (trp_CallID p) (trp_Output p)])
          else [])"

definition token_of_msg :: "Message option \<Rightarrow> TokenPayload option" where
  "token_of_msg m = Option.bind m (\<lambda>msg. dec_TokenPayload (m_Payload msg))"

fun stream_loop ::
  "gw_env \<Rightarrow> turn_ctx \<Rightarrow> stream_input list \<Rightarrow> stream_state \<Rightarrow> redis \<Rightarrow>
   (string \<times> json) list \<times> redis \<times> (string \<times> Message) list \<times> stream_end" where
  "stream_loop e t [] st db = ([], db, [], Running)"
| "stream_loop e t (RequestDone # ins) st db = ([], db, [], Disconnected)"
| "stream_loop e t (FromTools m # ins) st db =
     stream_loop e t ins (st\<lparr>ss_items := ss_items st @ tool_trace m\<rparr>) db"
| "stream_loop e t (FromTokens m # ins) st db =
     (let itemID = item_id (tx_correlationID t) in
      case token_of_msg m of
        None \<Rightarrow> stream_loop e t ins st db
      | Some token \<Rightarrow>
         if tk_Done token then
           let outputItems = ss_items st @ textToOutputItems (ss_content st) in
           ((if ss_declared st then item_closed itemID (ss_content st) else []) @
              [response_event ''response.completed'' (client_response e t (clientFacingOutput outputItems) StatusCompleted)],
            store_turn e t outputItems db, [publishTurnCompleted e (tx_sessionID t)], Completed)
         else
           let (evs, rest) = stream_loop e t ins
                 (st\<lparr>ss_declared := True, ss_content := ss_content st @ tk_Token token\<rparr>) db
           in ((if ss_declared st then [] else item_added itemID) @ [text_delta itemID (tk_Token token)] @ evs, rest))"

definition handleResponsesStreaming ::
  "gw_env \<Rightarrow> turn_ctx \<Rightarrow> bool \<Rightarrow> stream_input list \<Rightarrow> redis \<Rightarrow>
   (redis \<times> (string \<times> Message) list \<times> gw_reply) \<times> stream_end" where
  "handleResponsesStreaming e t flusher ins db =
     (if \<not> flusher then ((db, [], GwError 500 ''internal_error'' ''Streaming not supported''), Disconnected)
      else
        let created = client_response e t [] StatusInProgress;
            (evs, db', pubs, ended) = stream_loop e t ins \<lparr>ss_content = [], ss_items = [], ss_declared = False\<rparr> db
        in ((db', pubs, GwEvents ([response_event ''response.created'' created, response_event ''response.in_progress'' created] @ evs)),
            ended))"

section \<open>The request handler\<close>

definition chat_request :: "gw_env \<Rightarrow> responsesRequest \<Rightarrow> string \<Rightarrow> string \<Rightarrow> ChatMsg list \<Rightarrow> Message" where
  "chat_request e req sessionID speakerID allMsgs =
     (NewMessage (ge_corr e) (ge_now e) TypeChatRequest ''gateway'' (enc_ChatRequestPayload
        \<lparr>chr_SessionID = sessionID, chr_Messages = allMsgs, chr_Model = rr_Model req, chr_Stream = rr_Stream req,
         chr_SpeakerID = speakerID\<rparr>))\<lparr>m_ReplyStream := reply_stream (ge_corr e)\<rparr>"

text \<open>
  \<^verbatim>\<open>handleCreateResponse\<close> up to the answer of the agents: an error reply, or the request that was published and
  the turn that waits for its answer.
\<close>

definition prepare_turn :: "gw_env \<Rightarrow> json option \<Rightarrow> string \<Rightarrow> redis \<Rightarrow> gw_reply + (responsesRequest \<times> Message \<times> turn_ctx)" where
  "prepare_turn e body header db =
     (case Option.bind body dec_responsesRequest of
        None \<Rightarrow> Inl (GwError 400 ''invalid_request'' ''Failed to parse request body'')
      | Some req \<Rightarrow>
     (case parseInput (ge_num e) (rr_Input req) of
        Inl err \<Rightarrow> Inl (GwError 400 ''invalid_request'' err)
      | Inr inputItems \<Rightarrow>
        if inputItems = [] then Inl (GwError 400 ''invalid_request'' ''input is required and must not be empty'')
        else
          let shouldStore = (case rr_Store req of None \<Rightarrow> True | Some b \<Rightarrow> b);
              prev = rr_PreviousResponseID req
          in case decideSession e prev shouldStore inputItems db of
               Inl err \<Rightarrow> Inl err
             | Inr decision \<Rightarrow>
                 let speakerID = resolveSpeakerID (ge_config e) (rr_SpeakerID req) header prev True db
                 in case (if prev = [] then Inr [] else WalkChain (ge_parse e) prev db) of
                      Inl err \<Rightarrow> Inl (GwError 400 ''invalid_request'' (''failed to resolve response chain: '' @ ge_error_text e err))
                    | Inr chain \<Rightarrow>
                        let msg = chat_request e req (sd_SessionID decision) speakerID
                                    (chainToMessages chain @ inputItemsToMessages inputItems)
                        in if \<not> ge_published e
                           then Inl (GwError 500 ''internal_error'' ''Failed to publish request'')
                           else Inr (req, msg,
                             \<lparr>tx_responseID = ge_response e, tx_sessionID = sd_SessionID decision,
                              tx_correlationID = ge_corr e, tx_model = rr_Model req,
                              tx_previousResponseID = sd_EffectivePrevRespID decision, tx_inputItems = inputItems,
                              tx_store = shouldStore, tx_speakerID = speakerID\<rparr>)))"

definition handleCreateResponse ::
  "gw_env \<Rightarrow> bool \<Rightarrow> stream_input list \<Rightarrow> json option \<Rightarrow> string \<Rightarrow> redis \<Rightarrow> redis \<times> (string \<times> Message) list \<times> gw_reply" where
  "handleCreateResponse e flusher ins body header db =
     (case prepare_turn e body header db of
        Inl err \<Rightarrow> (db, [], err)
      | Inr (req, msg, t) \<Rightarrow>
          let (db', pubs, reply) =
            (if rr_Stream req then fst (handleResponsesStreaming e t flusher ins db)
             else handleResponsesNonStreaming e t db)
          in (db', (''stream:gateway:requests'', msg) # pubs, reply))"

definition parseTimestamp :: "(string \<Rightarrow> int option) \<Rightarrow> int \<Rightarrow> string \<Rightarrow> int" where
  "parseTimestamp rfc3339 now ts = (case rfc3339 ts of None \<Rightarrow> now | Some t \<Rightarrow> t)"

definition handleGetResponse :: "gw_env \<Rightarrow> (string \<Rightarrow> int option) \<Rightarrow> string \<Rightarrow> redis \<Rightarrow> gw_reply" where
  "handleGetResponse e rfc3339 rid db =
     (case Store_Get (ge_parse e) rid db of
        Inl _ \<Rightarrow> GwError 500 ''internal_error'' ''Failed to retrieve response''
      | Inr None \<Rightarrow> GwError 404 ''not_found'' ''Response not found''
      | Inr (Some resp) \<Rightarrow> GwBody 200 (enc_responsesResponse
          \<lparr>rp_ID = rs_ID resp, rp_Object = ''response'', rp_CreatedAt = parseTimestamp rfc3339 (ge_unix e) (rs_CreatedAt resp),
           rp_Model = rs_Model resp, rp_SessionID = rs_SessionID resp, rp_PreviousResponseID = rs_PreviousResponseID resp,
           rp_Output = rs_Output resp, rp_Status = rs_Status resp\<rparr>))"

section \<open>A stored turn\<close>

text \<open>The store can take the turn: the keys it writes are free or of the right type, and its id is new to the session.\<close>

definition turn_storable :: "gw_env \<Rightarrow> turn_ctx \<Rightarrow> OutputItem list \<Rightarrow> redis \<Rightarrow> string list \<Rightarrow> bool" where
  "turn_storable e t outs db ids \<longleftrightarrow>
     tx_store t \<and> rdb_LRange db (sessionResponsesKey (tx_sessionID t)) = Inr ids \<and> tx_responseID t \<notin> set ids \<and>
     tx_responseID t \<noteq> [] \<and>
     (\<exists>h. rdb_HGetAll db (responseKey (tx_responseID t)) = Inr h) \<and>
     (\<forall>it \<in> set (tx_inputItems t). storable_content (ii_Content it)) \<and>
     text_layer_ok (ge_render e) (ge_parse e) (enc_list enc_InputItem (currentTurnInput (tx_inputItems t))) \<and>
     text_layer_ok (ge_render e) (ge_parse e) (enc_list enc_OutputItem outs)"

lemma Store_Get_index [simp]:
  "Store_Get parse rid (writeStitchIndex e s ins outs db) = Store_Get parse rid db"
  "rdb_LRange (writeStitchIndex e s ins outs db) (sessionResponsesKey s') = rdb_LRange db (sessionResponsesKey s')"
  by (simp_all add: writeStitchIndex_def StoreSessionPrefixHash_def Store_Get_def rdb_HGetAll_def rdb_LRange_def update_conv')

lemma Save_frame:
  "s \<noteq> rs_SessionID resp \<Longrightarrow>
    rdb_LRange (fst (Save render resp db)) (sessionResponsesKey s) = rdb_LRange db (sessionResponsesKey s)"
  by (auto simp: Save_def rdb_HSet_def rdb_RPush_def rdb_LRange_def update_conv' split: sum.splits option.splits rvalue.splits prod.splits)

lemma store_turn_saved:
  assumes "turn_storable e t outs db ids"
  shows "\<exists>db1. Save (ge_render e) (stored_response e t outs) db = (db1, None) \<and>
    store_turn e t outs db = writeStitchIndex e (tx_sessionID t) (tx_inputItems t) outs db1 \<and>
    Store_Get (ge_parse e) (tx_responseID t) db1 = Inr (Some (stored_response e t outs)) \<and>
    rdb_LRange db1 (sessionResponsesKey (tx_sessionID t)) = Inr (ids @ [tx_responseID t]) \<and>
    (\<forall>rid. rid \<noteq> tx_responseID t \<longrightarrow> Store_Get (ge_parse e) rid db1 = Store_Get (ge_parse e) rid db)"
proof -
  let ?r = "stored_response e t outs"
  obtain h where h: "rdb_HGetAll db (responseKey (rs_ID ?r)) = Inr h"
    using assms by (auto simp: turn_storable_def stored_response_def)
  have l: "rdb_LRange db (sessionResponsesKey (rs_SessionID ?r)) = Inr ids"
    using assms by (simp add: turn_storable_def stored_response_def)
  have "\<forall>it \<in> set (rs_Input ?r). storable_content (ii_Content it)"
    using assms by (auto simp: turn_storable_def stored_response_def currentTurnInput_def)
  moreover have "text_layer_ok (ge_render e) (ge_parse e) (enc_list enc_InputItem (rs_Input ?r))"
    and "text_layer_ok (ge_render e) (ge_parse e) (enc_list enc_OutputItem (rs_Output ?r))"
    using assms by (simp_all add: turn_storable_def stored_response_def)
  ultimately obtain db1 where "Save (ge_render e) ?r db = (db1, None)"
    "Store_Get (ge_parse e) (rs_ID ?r) db1 = Inr (Some ?r)"
    "rdb_LRange db1 (sessionResponsesKey (rs_SessionID ?r)) = Inr (ids @ [rs_ID ?r])"
    "\<forall>rid. rid \<noteq> rs_ID ?r \<longrightarrow> Store_Get (ge_parse e) rid db1 = Store_Get (ge_parse e) rid db"
    using Save_effect [OF _ _ _ h l] by blast
  then show ?thesis
    using assms by (auto simp: store_turn_def turn_storable_def stored_response_def)
qed

subsection \<open>The history grows by the turn\<close>

definition turn_messages :: "Response \<Rightarrow> ChatMsg list" where
  "turn_messages resp = concat (map input_msgs (rs_Input resp)) @ concat (map output_msgs (rs_Output resp))"

lemma get_all_snoc:
  assumes "get_all parse db ids = Inr rs" "Store_Get parse rid db' = Inr (Some r)"
    and "\<And>i. i \<in> set ids \<Longrightarrow> Store_Get parse i db' = Store_Get parse i db"
  shows "get_all parse db' (ids @ [rid]) = Inr (rs @ [r])"
  using assms
proof (induction ids arbitrary: rs)
  case (Cons i ids)
  from Cons.prems obtain x where x: "Store_Get parse i db = Inr x"
    by (auto split: sum.splits)
  moreover from x Cons.prems obtain rs' where rs': "get_all parse db ids = Inr rs'"
    and "rs = (case x of None \<Rightarrow> rs' | Some y \<Rightarrow> y # rs')" by (auto split: sum.splits)
  moreover have "get_all parse db' (ids @ [rid]) = Inr (rs' @ [r])" using Cons.IH [OF rs'] Cons.prems by simp
  ultimately show ?case using Cons.prems(3) [of i] by (simp split: option.splits)
qed simp

lemma store_turn_history:
  assumes "turn_storable e t outs db ids"
    and "GetSessionMessages (ge_parse e) (tx_sessionID t) db = Inr old"
  shows "GetSessionMessages (ge_parse e) (tx_sessionID t) (store_turn e t outs db) =
    Inr (old @ turn_messages (stored_response e t outs))"
proof -
  from store_turn_saved [OF assms(1)] obtain db1 where
    st: "store_turn e t outs db = writeStitchIndex e (tx_sessionID t) (tx_inputItems t) outs db1"
    and new: "Store_Get (ge_parse e) (tx_responseID t) db1 = Inr (Some (stored_response e t outs))"
    and l: "rdb_LRange db1 (sessionResponsesKey (tx_sessionID t)) = Inr (ids @ [tx_responseID t])"
    and same: "\<forall>rid. rid \<noteq> tx_responseID t \<longrightarrow> Store_Get (ge_parse e) rid db1 = Store_Get (ge_parse e) rid db"
    by blast
  have lr: "rdb_LRange db (sessionResponsesKey (tx_sessionID t)) = Inr ids" and fresh: "tx_responseID t \<notin> set ids"
    using assms(1) by (simp_all add: turn_storable_def)
  obtain rs where rs: "get_all (ge_parse e) db ids = Inr rs" and old: "old = concat (map turn_messages rs)"
    using assms(2) by (cases "get_all (ge_parse e) db ids")
      (auto simp: GetSessionMessages_def GetSessionHistory_def lr turn_messages_def [abs_def])
  have "get_all (ge_parse e) (store_turn e t outs db) (ids @ [tx_responseID t]) = Inr (rs @ [stored_response e t outs])"
  proof (rule get_all_snoc [OF rs])
    show "Store_Get (ge_parse e) i (store_turn e t outs db) = Store_Get (ge_parse e) i db" if "i \<in> set ids" for i
      using that fresh same by (cases "i = tx_responseID t") (simp_all add: st)
  qed (simp add: st new)
  then show ?thesis
    by (simp add: GetSessionMessages_def GetSessionHistory_def st l old turn_messages_def [abs_def])
qed

text \<open>What a turn leaves in the history: the user's message, each tool call with its result, the answer.\<close>

lemma output_msgs_items [simp]:
  "output_msgs (call_item tc) = [tool_call_of (call_item tc)]"
  "output_msgs (result_item c out) = [tool_output_msg out c]"
  by (simp_all add: output_msgs_def call_item_def result_item_def zero_OutputItem_def tool_call_of_def tool_output_msg_def)

lemma output_msgs_text: "concat (map output_msgs (textToOutputItems body)) = (if body = [] then [] else [chat ''assistant'' body])"
  by (simp add: textToOutputItems_def output_msgs_def zero_OutputItem_def text_types_def append_text_def chat_def)

definition trace_msgs :: "ToolCall list \<Rightarrow> ToolResult list \<Rightarrow> ChatMsg list" where
  "trace_msgs calls results =
     concat (map (\<lambda>tc. tool_call_of (call_item tc) #
         (case map_of (rev (map (\<lambda>tr. (tr_CallID tr, tr_Output tr)) results)) (tc_ID tc) of
            None \<Rightarrow> [] | Some out \<Rightarrow> [tool_output_msg out (tc_ID tc)])) calls)"

lemma output_msgs_trace: "concat (map output_msgs (trace_items calls results)) = trace_msgs calls results"
  by (induction calls) (auto simp: trace_items_def trace_msgs_def split: option.splits)

lemma turn_messages_stored:
  "tx_inputItems t = ins @ [it] \<Longrightarrow>
    turn_messages (stored_response e t (trace_items calls results @ textToOutputItems body)) =
      input_msgs it @ trace_msgs calls results @ (if body = [] then [] else [chat ''assistant'' body])"
  by (simp add: turn_messages_def stored_response_def currentTurnInput_def output_msgs_trace output_msgs_text
      del: concat_append) (simp add: output_msgs_trace output_msgs_text)

text \<open>
  C5. A conversation continues. Once a turn of a session has been answered and stored, the prompt of the
  next turn of that session is the system prompt, everything that was in the session before, then the
  answered turn (the user's message, every tool call followed by its result, the answer), then the new
  message with the recalled memories in front of it.
\<close>

theorem conversation_continues:
  assumes "ge_wait e (reply_stream (tx_correlationID t)) (tx_correlationID t) = Inr reply"
    and "dec_ChatResponsePayload (m_Payload reply) = Some p"
    and "turn_storable e t (trace_items (cr_ToolCalls p) (cr_ToolResults p) @ textToOutputItems (cr_Content p)) db ids"
    and "tx_inputItems t = ins @ [it]" "cr_Content p \<noteq> []"
    and "GetSessionMessages (ge_parse e) (tx_sessionID t) db = Inr old"
    and "cf_parse (cx_config c) = ge_parse e" "cx_published c"
    and "dec_ChatRequestPayload (m_Payload msg) = Some q" "chr_SessionID q = tx_sessionID t"
    and "chr_Messages q = earlier @ [u]"
  shows "\<exists>w' prompt a memories.
    context_handleRequest c m msg (fst (handleResponsesNonStreaming e t db)) w =
      (w', [(agent_stream ''main-agent'', prompt)], CtxPublished) \<and>
    dec_ContextAssembledPayload (m_Payload prompt) = Some a \<and>
    ca_Messages a = chat ''system'' (mg_systemPrompt m) # old @
      (input_msgs it @ trace_msgs (cr_ToolCalls p) (cr_ToolResults p) @ [chat ''assistant'' (cr_Content p)]) @
      [u\<lparr>cm_Content := formatContextBlock memories @ cm_Content u\<rparr>]"
proof -
  let ?outs = "trace_items (cr_ToolCalls p) (cr_ToolResults p) @ textToOutputItems (cr_Content p)"
  let ?db = "fst (handleResponsesNonStreaming e t db)"
  have db: "?db = store_turn e t ?outs db"
    using assms(1,2) by (simp add: handleResponsesNonStreaming_def Let_def)
  have stored: "GetSessionMessages (cf_parse (cx_config c)) (chr_SessionID q) ?db =
      Inr (old @ input_msgs it @ trace_msgs (cr_ToolCalls p) (cr_ToolResults p) @ [chat ''assistant'' (cr_Content p)])"
    using store_turn_history [OF assms(3,6)] turn_messages_stored [OF assms(4)] assms(5)
    by (simp add: db assms(7,10))
  show ?thesis
    using context_prompt_history [OF assms(9,11,8), of m ?db w, unfolded stored] by (auto simp: chat_def)
qed

definition sample_turn :: turn_ctx where
  "sample_turn = \<lparr>tx_responseID = ''r1'', tx_sessionID = ''s1'', tx_correlationID = ''c1'', tx_model = ''m'',
     tx_previousResponseID = [],
     tx_inputItems = [zero_InputItem\<lparr>ii_Type := ''message'', ii_Role := ''user'', ii_Content := CJson (JStr ''hi'')\<rparr>],
     tx_store = True, tx_speakerID = ''ann''\<rparr>"

definition sample_answer :: ChatResponsePayload where
  "sample_answer = \<lparr>cr_SessionID = ''s1'', cr_Content = ''noon'',
     cr_ToolCalls = [\<lparr>tc_ID = ''k'', tc_Type = ''function'', tc_Name = ''current_time'', tc_Arguments = ''{}''\<rparr>],
     cr_ToolResults = [\<lparr>tr_CallID = ''k'', tr_Output = ''12:00''\<rparr>], cr_Done = True\<rparr>"

definition sample_outs :: "OutputItem list" where
  "sample_outs = trace_items (cr_ToolCalls sample_answer) (cr_ToolResults sample_answer) @ textToOutputItems (cr_Content sample_answer)"

definition sample_gw :: gw_env where
  "sample_gw =
     \<lparr>ge_config = \<lparr>cf_parse = (\<lambda>s. if s = ''in'' then Some (enc_list enc_InputItem (currentTurnInput (tx_inputItems sample_turn)))
                                 else if s = ''out'' then Some (enc_list enc_OutputItem sample_outs) else None),
        cf_render = (\<lambda>j. if j = enc_list enc_OutputItem sample_outs then ''out'' else ''in''), cf_now = 0\<rparr>,
      ge_num = id, ge_sha256hex = id, ge_hashTTL = 100, ge_session = ''s9'', ge_response = ''r1'', ge_corr = ''c1'',
      ge_event = ''e'', ge_time = ''t'', ge_unix = 0, ge_error_text = (\<lambda>_. []), ge_published = True,
      ge_wait = (\<lambda>_ _. Inr (NewMessage ''c1'' 0 TypeChatResponse ''main-agent'' (enc_ChatResponsePayload sample_answer)))\<rparr>"

lemma sample_storable: "turn_storable sample_gw sample_turn sample_outs [] []"
proof -
  have ne: "enc_list enc_InputItem (currentTurnInput (tx_inputItems sample_turn)) \<noteq> enc_list enc_OutputItem sample_outs"
    by code_simp
  then have "text_layer_ok (ge_render sample_gw) (ge_parse sample_gw) (enc_list enc_InputItem (currentTurnInput (tx_inputItems sample_turn)))"
    "text_layer_ok (ge_render sample_gw) (ge_parse sample_gw) (enc_list enc_OutputItem sample_outs)"
    by (simp_all add: text_layer_ok_def sample_gw_def)
  then show ?thesis
    by (simp add: turn_storable_def rdb_LRange_def rdb_HGetAll_def) (simp add: sample_turn_def storable_content_def)
qed

theorem conversation_continues_witness:
  "let c = sample_ctx\<lparr>cx_config := ge_config sample_gw\<rparr>;
       m = \<lparr>mg_systemPrompt = ''sys'', mg_recallLimit = 5, mg_prewarmLimit = 3\<rparr>
   in \<exists>w' prompt a.
        context_handleRequest c m (sample_request ''s1'' [chat ''user'' ''and now?''])
          (fst (handleResponsesNonStreaming sample_gw sample_turn [])) () =
            (w', [(agent_stream ''main-agent'', prompt)], CtxPublished) \<and>
        dec_ContextAssembledPayload (m_Payload prompt) = Some a \<and>
        map cm_Role (ca_Messages a) = [''system'', ''user'', ''assistant'', ''tool'', ''assistant'', ''user'']"
proof -
  let ?c = "sample_ctx\<lparr>cx_config := ge_config sample_gw\<rparr>"
  let ?m = "\<lparr>mg_systemPrompt = ''sys'', mg_recallLimit = 5, mg_prewarmLimit = 3\<rparr>"
  let ?u = "chat ''user'' ''and now?''"
  let ?it = "zero_InputItem\<lparr>ii_Type := ''message'', ii_Role := ''user'', ii_Content := CJson (JStr ''hi'')\<rparr>"
  let ?q = "\<lparr>chr_SessionID = ''s1'', chr_Messages = [?u], chr_Model = [], chr_Stream = False, chr_SpeakerID = ''ann''\<rparr>"
  have "\<exists>w' prompt a memories.
    context_handleRequest ?c ?m (sample_request ''s1'' [?u]) (fst (handleResponsesNonStreaming sample_gw sample_turn [])) () =
      (w', [(agent_stream ''main-agent'', prompt)], CtxPublished) \<and>
    dec_ContextAssembledPayload (m_Payload prompt) = Some a \<and>
    ca_Messages a = chat ''system'' (mg_systemPrompt ?m) # [] @
      (input_msgs ?it @ trace_msgs (cr_ToolCalls sample_answer) (cr_ToolResults sample_answer) @
        [chat ''assistant'' (cr_Content sample_answer)]) @
      [?u\<lparr>cm_Content := formatContextBlock memories @ cm_Content ?u\<rparr>]"
  proof (rule conversation_continues)
    show "ge_wait sample_gw (reply_stream (tx_correlationID sample_turn)) (tx_correlationID sample_turn) =
      Inr (NewMessage ''c1'' 0 TypeChatResponse ''main-agent'' (enc_ChatResponsePayload sample_answer))"
      by (simp add: sample_gw_def)
    show "turn_storable sample_gw sample_turn
      (trace_items (cr_ToolCalls sample_answer) (cr_ToolResults sample_answer) @ textToOutputItems (cr_Content sample_answer)) [] []"
      using sample_storable by (simp add: sample_outs_def)
    show "dec_ChatRequestPayload (m_Payload (sample_request ''s1'' [?u])) = Some ?q"
      by (simp add: sample_request_def NewMessage_def)
    show "chr_Messages ?q = [] @ [?u]" by simp
    show "tx_inputItems sample_turn = [] @ [?it]" by (simp add: sample_turn_def)
    show "GetSessionMessages (ge_parse sample_gw) (tx_sessionID sample_turn) [] = Inr []"
      by (simp add: GetSessionMessages_def GetSessionHistory_def rdb_LRange_def)
  qed (simp_all add: NewMessage_def sample_answer_def sample_ctx_def sample_turn_def)
  then obtain w' prompt a memories where
    "context_handleRequest ?c ?m (sample_request ''s1'' [?u]) (fst (handleResponsesNonStreaming sample_gw sample_turn [])) () =
      (w', [(agent_stream ''main-agent'', prompt)], CtxPublished)"
    "dec_ContextAssembledPayload (m_Payload prompt) = Some a"
    and msgs: "ca_Messages a = chat ''system'' (mg_systemPrompt ?m) # [] @
      (input_msgs ?it @ trace_msgs (cr_ToolCalls sample_answer) (cr_ToolResults sample_answer) @
        [chat ''assistant'' (cr_Content sample_answer)]) @
      [?u\<lparr>cm_Content := formatContextBlock memories @ cm_Content ?u\<rparr>]"
    by (elim exE conjE) (rule that; assumption)
  then show ?thesis
    unfolding Let_def
    by (intro exI [of _ w'] exI [of _ prompt] exI [of _ a] conjI)
      (simp_all add: chat_def input_msgs_def trace_msgs_def sample_answer_def zero_InputItem_def tool_call_of_def tool_output_msg_def)
qed

section \<open>Finding the session again\<close>

text \<open>
  A client that keeps the conversation itself sends back what it has seen: each item with its role and
  text, as a string or as content parts.
\<close>

definition replays :: "InputItem list \<Rightarrow> OutputItem list \<Rightarrow> bool" where
  "replays items outs \<longleftrightarrow>
     list_all2 (\<lambda>it out. ii_Role it = oi_Role out \<and> FlattenContent (ii_Content it) = FlattenContent (CParts (oi_Content out))) items outs"

lemma replays_bytes:
  "replays items outs \<Longrightarrow> concat (map stitch_item items) = concat (map stitch_item (map OutputItemToInputItem outs))"
  unfolding replays_def
  by (induction rule: list_all2_induct) (simp_all add: stitch_item_def OutputItemToInputItem_def Let_def)

text \<open>The hidden trace has no text of its own and does not count.\<close>

definition trace_silent :: "OutputItem list \<Rightarrow> bool" where
  "trace_silent outs \<longleftrightarrow> (\<forall>out \<in> set outs. oi_Type out \<in> {''function_call'', ''function_call_output''} \<longrightarrow> oi_Content out = [])"

lemma stitch_visible:
  "trace_silent outs \<Longrightarrow>
    concat (map stitch_item (map OutputItemToInputItem (clientFacingOutput outs))) =
    concat (map stitch_item (map OutputItemToInputItem outs))"
proof (induction outs)
  case (Cons out outs)
  then have "concat (map stitch_item (map OutputItemToInputItem (clientFacingOutput outs))) =
      concat (map stitch_item (map OutputItemToInputItem outs))" by (simp add: trace_silent_def)
  moreover have "stitch_item (OutputItemToInputItem out) = []"
    if "oi_Type out \<in> {''function_call'', ''function_call_output''}"
    using that Cons.prems by (auto simp: trace_silent_def stitch_item_def OutputItemToInputItem_def Let_def)
  ultimately show ?case by (auto simp: clientFacingOutput_def)
qed (simp add: clientFacingOutput_def)

lemma trace_silent_turn [simp]: "trace_silent (trace_items calls results @ textToOutputItems body)"
  by (auto simp: trace_silent_def trace_items_def textToOutputItems_def call_item_def result_item_def zero_OutputItem_def
      split: option.splits)

lemma stitched_after_store:
  assumes "turn_storable e t outs db ids" "trace_silent outs" "tx_sessionID t \<noteq> []"
    and "replays replay (clientFacingOutput outs)" "tx_inputItems t @ replay \<noteq> []"
    and "ge_sha256hex e' = ge_sha256hex e" "ge_now e' < ge_now e + ge_hashTTL e"
  shows "\<exists>h. decideSession e' [] True (tx_inputItems t @ replay @ [new]) (store_turn e t outs db) =
    Inr \<lparr>sd_SessionID = tx_sessionID t, sd_EffectivePrevRespID = tx_responseID t, sd_StitchPrefixHash = h, sd_Stitched = True\<rparr>"
proof -
  from store_turn_saved [OF assms(1)] obtain db1 where
    st: "store_turn e t outs db = writeStitchIndex e (tx_sessionID t) (tx_inputItems t) outs db1"
    and l: "rdb_LRange db1 (sessionResponsesKey (tx_sessionID t)) = Inr (ids @ [tx_responseID t])"
    by blast
  let ?h = "StitchHash (ge_sha256hex e) (tx_inputItems t @ map OutputItemToInputItem outs)"
  have h: "StitchHash (ge_sha256hex e') (tx_inputItems t @ replay) = ?h"
    unfolding StitchHash_def map_append concat_append replays_bytes [OF assms(4)] stitch_visible [OF assms(2)] assms(6) ..
  have "LookupSessionByPrefixHash (ge_now e') ?h (store_turn e t outs db) = Inr (Some (tx_sessionID t))"
    using assms(7) by (simp add: st LookupSessionByPrefixHash_def writeStitchIndex_def StoreSessionPrefixHash_def
        rdb_Get_def update_conv')
  moreover have "GetLastResponseID (tx_sessionID t) (store_turn e t outs db) = Inr (tx_responseID t)"
    by (simp add: GetLastResponseID_def rdb_LLast_def st l)
  moreover have "butlast (tx_inputItems t @ replay @ [new]) = tx_inputItems t @ replay"
    by (metis append.assoc butlast_snoc)
  moreover have "length (tx_inputItems t @ replay @ [new]) > 1"
    using assms(5) by (cases "tx_inputItems t @ replay") auto
  ultimately show ?thesis by (simp add: decideSession_def h Let_def)
qed

text \<open>
  C23. Stitching. A client without \<^verbatim>\<open>previous_response_id\<close> that sends back the conversation of an answered turn,
  with the answer as it was shown (tool calls hidden, text as a string or in parts), and a new item, is
  put into the session of that turn and chained to its response, as long as the index entry lives and
  no later turn has been stored.
\<close>

theorem replayed_conversation_stitches:
  assumes "ge_wait e (reply_stream (tx_correlationID t)) (tx_correlationID t) = Inr reply"
    and "dec_ChatResponsePayload (m_Payload reply) = Some p"
    and "turn_storable e t (trace_items (cr_ToolCalls p) (cr_ToolResults p) @ textToOutputItems (cr_Content p)) db ids"
    and "tx_sessionID t \<noteq> []" "tx_inputItems t \<noteq> []"
    and "ii_Role answer = ''assistant''"
    and "ii_Content answer = CJson (JStr (cr_Content p)) \<or>
         ii_Content answer = CJson (enc_list enc_ContentPart [\<lparr>cp_Type = ''output_text'', cp_Text = cr_Content p\<rparr>])"
    and "ge_sha256hex e' = ge_sha256hex e" "ge_now e' < ge_now e + ge_hashTTL e"
  shows "\<exists>h. decideSession e' [] True (tx_inputItems t @ [answer, new]) (fst (handleResponsesNonStreaming e t db)) =
    Inr \<lparr>sd_SessionID = tx_sessionID t, sd_EffectivePrevRespID = tx_responseID t, sd_StitchPrefixHash = h, sd_Stitched = True\<rparr>"
proof -
  let ?outs = "trace_items (cr_ToolCalls p) (cr_ToolResults p) @ textToOutputItems (cr_Content p)"
  have vis: "clientFacingOutput ?outs = textToOutputItems (cr_Content p)"
    by (auto simp: clientFacingOutput_def trace_items_def textToOutputItems_def call_item_def result_item_def
        zero_OutputItem_def filter_empty_conv split: option.splits)
  have "replays [answer] (clientFacingOutput ?outs)"
    unfolding vis using assms(6,7) flatten_parts_json [of "[\<lparr>cp_Type = ''output_text'', cp_Text = cr_Content p\<rparr>]" "[]"]
    by (auto simp: replays_def textToOutputItems_def zero_OutputItem_def text_types_def append_text_def enc_list_def)
  from stitched_after_store [OF assms(3) trace_silent_turn assms(4) this _ assms(8,9)] assms(5)
  show ?thesis using assms(1,2) by (simp add: handleResponsesNonStreaming_def Let_def)
qed

theorem replayed_conversation_stitches_witness:
  "\<exists>h. decideSession sample_gw [] True
       (tx_inputItems sample_turn @
         [zero_InputItem\<lparr>ii_Role := ''assistant'', ii_Content := CJson (JStr ''noon'')\<rparr>,
          zero_InputItem\<lparr>ii_Role := ''user'', ii_Content := CJson (JStr ''thanks'')\<rparr>])
       (fst (handleResponsesNonStreaming sample_gw sample_turn [])) =
     Inr \<lparr>sd_SessionID = ''s1'', sd_EffectivePrevRespID = ''r1'', sd_StitchPrefixHash = h, sd_Stitched = True\<rparr>"
proof -
  have "\<exists>h. decideSession sample_gw [] True
       (tx_inputItems sample_turn @
         [zero_InputItem\<lparr>ii_Role := ''assistant'', ii_Content := CJson (JStr ''noon'')\<rparr>,
          zero_InputItem\<lparr>ii_Role := ''user'', ii_Content := CJson (JStr ''thanks'')\<rparr>])
       (fst (handleResponsesNonStreaming sample_gw sample_turn [])) =
     Inr \<lparr>sd_SessionID = tx_sessionID sample_turn, sd_EffectivePrevRespID = tx_responseID sample_turn,
          sd_StitchPrefixHash = h, sd_Stitched = True\<rparr>"
  proof (rule replayed_conversation_stitches)
    show "ge_wait sample_gw (reply_stream (tx_correlationID sample_turn)) (tx_correlationID sample_turn) =
      Inr (NewMessage ''c1'' 0 TypeChatResponse ''main-agent'' (enc_ChatResponsePayload sample_answer))"
      by (simp add: sample_gw_def)
    show "turn_storable sample_gw sample_turn
      (trace_items (cr_ToolCalls sample_answer) (cr_ToolResults sample_answer) @ textToOutputItems (cr_Content sample_answer)) [] []"
      using sample_storable by (simp add: sample_outs_def)
  qed (simp_all add: NewMessage_def sample_turn_def sample_answer_def sample_gw_def)
  then show ?thesis by (simp add: sample_turn_def)
qed

text \<open>
  The index knows the text of a conversation only. When two clients have had the same exchange, whoever
  they are, the session of the later one is found for both: the earlier client's next turn is put into
  the other's session.
\<close>

theorem equal_conversations_share_session:
  assumes "turn_storable e1 t1 outs db ids1"
    and "turn_storable e2 t2 outs (store_turn e1 t1 outs db) ids2"
    and "tx_inputItems t2 = tx_inputItems t1" "tx_inputItems t1 \<noteq> []"
    and "tx_sessionID t1 \<noteq> tx_sessionID t2" "tx_sessionID t2 \<noteq> []" "tx_speakerID t1 \<noteq> tx_speakerID t2"
    and "trace_silent outs" "replays replay (clientFacingOutput outs)"
    and "ge_sha256hex e' = ge_sha256hex e2" "ge_now e' < ge_now e2 + ge_hashTTL e2"
  shows "\<exists>d. decideSession e' [] True (tx_inputItems t1 @ replay @ [new])
      (store_turn e2 t2 outs (store_turn e1 t1 outs db)) = Inr d \<and>
    sd_SessionID d = tx_sessionID t2 \<and> sd_EffectivePrevRespID d = tx_responseID t2"
  using stitched_after_store [OF assms(2,8,6,9) _ assms(10,11), of new] assms(3,4) by auto

section \<open>Streaming\<close>

definition done_token :: "stream_input \<Rightarrow> bool" where
  "done_token i \<longleftrightarrow> (case i of FromTokens m \<Rightarrow> (case token_of_msg m of None \<Rightarrow> False | Some t \<Rightarrow> tk_Done t) | _ \<Rightarrow> False)"

definition tokens_of :: "stream_input list \<Rightarrow> string list" where
  "tokens_of ins = concat (map (\<lambda>i. case i of FromTokens m \<Rightarrow> (case token_of_msg m of None \<Rightarrow> [] | Some t \<Rightarrow> [tk_Token t]) | _ \<Rightarrow> []) ins)"

definition trace_of :: "stream_input list \<Rightarrow> OutputItem list" where
  "trace_of ins = concat (map (\<lambda>i. case i of FromTools m \<Rightarrow> tool_trace m | _ \<Rightarrow> []) ins)"

lemma stream_views [simp]:
  "tokens_of [] = []" "trace_of [] = []"
  "tokens_of (FromTools m # ins) = tokens_of ins" "trace_of (FromTools m # ins) = tool_trace m @ trace_of ins"
  "trace_of (FromTokens m # ins) = trace_of ins"
  "tokens_of (FromTokens m # ins) = (case token_of_msg m of None \<Rightarrow> [] | Some t \<Rightarrow> [tk_Token t]) @ tokens_of ins"
  by (simp_all add: tokens_of_def trace_of_def)

text \<open>The events of the text: its frame opens with the first token and closes at the end.\<close>

definition text_events :: "string \<Rightarrow> bool \<Rightarrow> string list \<Rightarrow> (string \<times> json) list" where
  "text_events itemID declared toks =
     (if declared \<or> toks = [] then [] else item_added itemID) @ map (text_delta itemID) toks"

lemma stream_loop_done:
  assumes "\<forall>i \<in> set pre. i \<noteq> RequestDone \<and> \<not> done_token i" "done_token d"
  shows "stream_loop e t (pre @ d # post) st db =
    (let body = ss_content st @ concat (tokens_of pre);
         outs = ss_items st @ trace_of pre @ textToOutputItems body;
         itemID = item_id (tx_correlationID t)
     in (text_events itemID (ss_declared st) (tokens_of pre) @
         (if ss_declared st \<or> tokens_of pre \<noteq> [] then item_closed itemID body else []) @
         [response_event ''response.completed'' (client_response e t (clientFacingOutput outs) StatusCompleted)],
         store_turn e t outs db, [publishTurnCompleted e (tx_sessionID t)], Completed))"
  using assms(1)
proof (induction pre arbitrary: st)
  case Nil
  from assms(2) obtain m tok where "d = FromTokens m" "token_of_msg m = Some tok" "tk_Done tok"
    by (auto simp: done_token_def split: stream_input.splits option.splits)
  then show ?case by (simp add: Let_def text_events_def)
next
  case (Cons i pre)
  show ?case
  proof (cases i)
    case (FromTools m)
    then show ?thesis using Cons by (simp add: Let_def)
  next
    case (FromTokens m)
    with Cons.prems have nd: "token_of_msg m = Some tok \<Longrightarrow> \<not> tk_Done tok" for tok
      by (auto simp: done_token_def)
    show ?thesis
      using FromTokens Cons nd by (cases "token_of_msg m") (simp_all add: Let_def text_events_def)
  next
    case RequestDone
    with Cons.prems show ?thesis by simp
  qed
qed

text \<open>What the tool-call channel carries for a call and for its result, and the tool messages among the inputs.\<close>

definition announces_call :: "ToolCall \<Rightarrow> Message option \<Rightarrow> bool" where
  "announces_call tc m \<longleftrightarrow>
     (\<exists>msg p. m = Some msg \<and> m_Type msg = TypeToolCall \<and> dec_ToolCallPayload (m_Payload msg) = Some p \<and> tcp_Call p = tc)"

definition announces_result :: "string \<Rightarrow> string \<Rightarrow> Message option \<Rightarrow> bool" where
  "announces_result callID out m \<longleftrightarrow>
     (\<exists>msg p. m = Some msg \<and> m_Type msg = TypeToolResult \<and> dec_ToolResultPayload (m_Payload msg) = Some p \<and>
        trp_CallID p = callID \<and> trp_Output p = out)"

definition tools_in :: "stream_input list \<Rightarrow> Message option list" where
  "tools_in ins = concat (map (\<lambda>i. case i of FromTools m \<Rightarrow> [m] | _ \<Rightarrow> []) ins)"

definition announcements :: "(ToolCall \<times> string) list \<Rightarrow> (Message option \<Rightarrow> bool) list" where
  "announcements runs = concat (map (\<lambda>(tc, out). [announces_call tc, announces_result (tc_ID tc) out]) runs)"

lemma trace_of_tools: "trace_of ins = concat (map tool_trace (tools_in ins))"
proof (induction ins)
  case (Cons i ins)
  then show ?case by (cases i) (simp_all add: trace_of_def tools_in_def)
qed (simp add: trace_of_def tools_in_def)

lemma tool_trace_announced:
  "announces_call tc m \<Longrightarrow> tool_trace m = [call_item tc]"
  "announces_result callID out m \<Longrightarrow> tool_trace m = [result_item callID out]"
  by (auto simp: announces_call_def announces_result_def tool_trace_def)

lemma trace_announced:
  assumes "list_all2 (\<lambda>m shown. shown m) ms (announcements runs)"
  shows "concat (map tool_trace ms) = concat (map (\<lambda>(tc, out). [call_item tc, result_item (tc_ID tc) out]) runs)"
  using assms
proof (induction runs arbitrary: ms)
  case (Cons r runs)
  obtain tc out where r: "r = (tc, out)" by fastforce
  with Cons.prems obtain m1 m2 ms' where "ms = m1 # m2 # ms'" "announces_call tc m1" "announces_result (tc_ID tc) out m2"
    "list_all2 (\<lambda>m shown. shown m) ms' (announcements runs)"
    by (auto simp: announcements_def list_all2_Cons2)
  with Cons.IH r show ?case by (simp add: tool_trace_announced)
qed (simp add: announcements_def)

lemma trace_items_ran:
  assumes "distinct (map (tc_ID \<circ> fst) runs)"
  shows "trace_items (map fst runs) (map (\<lambda>(tc, out). \<lparr>tr_CallID = tc_ID tc, tr_Output = out\<rparr>) runs) =
    concat (map (\<lambda>(tc, out). [call_item tc, result_item (tc_ID tc) out]) runs)"
proof -
  let ?kv = "map (\<lambda>(tc, out). (tc_ID tc, out)) runs"
  have "distinct (map fst (rev ?kv))" using assms by (simp add: rev_map [symmetric] comp_def split_def)
  then have "map_of (rev ?kv) (tc_ID tc) = Some out" if "(tc, out) \<in> set runs" for tc out
    using that by (intro map_of_is_SomeI) force+
  then have "concat (map (\<lambda>x. call_item (fst x) # (case map_of (rev ?kv) (tc_ID (fst x)) of
      None \<Rightarrow> [] | Some out \<Rightarrow> [result_item (tc_ID (fst x)) out])) runs) =
      concat (map (\<lambda>(tc, out). [call_item tc, result_item (tc_ID tc) out]) runs)"
    by (intro arg_cong [where f = concat] map_cong) auto
  then show ?thesis by (simp add: trace_items_def comp_def split_def)
qed


text \<open>The events are sent only while the request is being served: without a done token the stream does not end, and nothing is stored.\<close>

lemma stream_needs_done:
  assumes "\<forall>i \<in> set ins. i \<noteq> RequestDone \<and> \<not> done_token i"
  shows "snd (stream_loop e t ins st db) = (db, [], Running)"
  using assms
proof (induction ins arbitrary: st)
  case (Cons i ins)
  show ?case
  proof (cases i)
    case (FromTokens m)
    with Cons.prems have nd: "token_of_msg m = Some tok \<Longrightarrow> \<not> tk_Done tok" for tok by (auto simp: done_token_def)
    show ?thesis
    proof (cases "token_of_msg m")
      case None
      with FromTokens Cons show ?thesis by simp
    next
      case (Some tok)
      have "snd (stream_loop e t ins (st\<lparr>ss_declared := True, ss_content := ss_content st @ tk_Token tok\<rparr>) db) = (db, [], Running)"
        using Cons by simp
      with Some nd [OF Some] show ?thesis by (simp add: FromTokens Let_def case_prod_unfold)
    qed
  qed (use Cons in auto)
qed simp


end
