(* ===== verification/Gateway_Api.thy ===== *)
theory Gateway_Api
  imports Gateway_Turn Retro_Dispatch Registry
begin

text \<open>
  The other endpoints of the gateway (\<^verbatim>\<open>internal/gateway/server.go\<close>, \<^verbatim>\<open>mcp.go\<close>, \<^verbatim>\<open>health.go\<close>): chat completions,
  settings, sessions, the manual trigger of a retro job, MCP servers and status. A handler gets the
  decoded body (\<open>None\<close> when it does not parse) and returns the store, what it published and the reply.
\<close>

section \<open>Chat completions\<close>

record openAIMsg =
  om_Role :: string
  om_Content :: string

record openAIRequest =
  oq_Model :: string
  oq_Messages :: "openAIMsg list"
  oq_Stream :: bool
  oq_SessionID :: string
  oq_SpeakerID :: string

definition dec_openAIMsg :: "openAIMsg decoder" where
  "dec_openAIMsg = dec_struct
     [fld ''role'' dec_string om_Role om_Role_update, fld ''content'' dec_string om_Content om_Content_update]"

definition dec_openAIRequest :: "json \<Rightarrow> openAIRequest option" where
  "dec_openAIRequest = dec_struct
     [fld ''model'' dec_string oq_Model oq_Model_update,
      fld ''messages'' (dec_list \<lparr>om_Role = [], om_Content = []\<rparr> dec_openAIMsg) oq_Messages oq_Messages_update,
      fld ''stream'' dec_bool oq_Stream oq_Stream_update,
      fld ''session_id'' dec_string oq_SessionID oq_SessionID_update,
      fld ''speaker_id'' dec_string oq_SpeakerID oq_SpeakerID_update]
     \<lparr>oq_Model = [], oq_Messages = [], oq_Stream = False, oq_SessionID = [], oq_SpeakerID = []\<rparr>"

text \<open>
  A choice. \<^verbatim>\<open>Message\<close> is a struct, so \<^verbatim>\<open>omitempty\<close> never leaves it out; \<^verbatim>\<open>Delta\<close> is a pointer.
\<close>

definition enc_openAIMsg :: "openAIMsg \<Rightarrow> json" where
  "enc_openAIMsg m = JObj [(''role'', JStr (om_Role m)), (''content'', JStr (om_Content m))]"

record openAIChoice =
  oc_Message :: openAIMsg
  oc_Delta :: "openAIMsg option"
  oc_FinishReason :: "string option"

definition enc_openAIChoice :: "openAIChoice \<Rightarrow> json" where
  "enc_openAIChoice c = JObj
     ([(''index'', JInt 0), (''message'', enc_openAIMsg (oc_Message c))] @
      (case oc_Delta c of None \<Rightarrow> [] | Some d \<Rightarrow> [(''delta'', enc_openAIMsg d)]) @
      [(''finish_reason'', case oc_FinishReason c of None \<Rightarrow> JNull | Some r \<Rightarrow> JStr r)])"

record openAIResponse =
  os_ID :: string
  os_Object :: string
  os_Created :: int
  os_Model :: string
  os_SessionID :: string
  os_Choices :: "openAIChoice list"

definition enc_openAIResponse :: "openAIResponse \<Rightarrow> json" where
  "enc_openAIResponse r = JObj
     ([(''id'', JStr (os_ID r)), (''object'', JStr (os_Object r)), (''created'', JInt (os_Created r)), (''model'', JStr (os_Model r))] @
      omit_empty ''session_id'' (JStr (os_SessionID r)) @ [(''choices'', enc_list enc_openAIChoice (os_Choices r))])"

definition messagesToInputItems :: "openAIMsg list \<Rightarrow> InputItem list" where
  "messagesToInputItems msgs =
     map (\<lambda>m. zero_InputItem\<lparr>ii_Type := ''message'', ii_Role := om_Role m, ii_Content := CJson (JStr (om_Content m))\<rparr>) msgs"

definition no_msg :: openAIMsg where "no_msg = \<lparr>om_Role = [], om_Content = []\<rparr>"

definition chat_chunk :: "gw_env \<Rightarrow> turn_ctx \<Rightarrow> openAIMsg \<Rightarrow> string option \<Rightarrow> json" where
  "chat_chunk e t delta finish = enc_openAIResponse
     \<lparr>os_ID = ''chatcmpl-'' @ take 8 (tx_correlationID t), os_Object = ''chat.completion.chunk'', os_Created = ge_unix e,
      os_Model = tx_model t, os_SessionID = [],
      os_Choices = [\<lparr>oc_Message = no_msg, oc_Delta = Some delta, oc_FinishReason = finish\<rparr>]\<rparr>"

text \<open>The whole input is stored, there is no previous response and no index entry.\<close>

definition chat_response :: "gw_env \<Rightarrow> turn_ctx \<Rightarrow> string \<Rightarrow> Response" where
  "chat_response e t body =
     \<lparr>rs_ID = tx_responseID t, rs_Input = tx_inputItems t, rs_Output = textToOutputItems body,
      rs_PreviousResponseID = [], rs_SessionID = tx_sessionID t, rs_SpeakerID = tx_speakerID t,
      rs_Model = tx_model t, rs_CreatedAt = ge_time e, rs_Status = StatusCompleted\<rparr>"

definition handleChatCompletionsNonStreaming ::
  "gw_env \<Rightarrow> turn_ctx \<Rightarrow> redis \<Rightarrow> redis \<times> (string \<times> Message) list \<times> gw_reply" where
  "handleChatCompletionsNonStreaming e t db =
     (case ge_wait e (reply_stream (tx_correlationID t)) (tx_correlationID t) of
        Inl _ \<Rightarrow> (db, [], GwError 504 ''timeout'' ''Request timed out waiting for response'')
      | Inr reply \<Rightarrow>
          (case dec_ChatResponsePayload (m_Payload reply) of
             None \<Rightarrow> (db, [], GwError 500 ''internal_error'' ''Failed to decode response'')
           | Some payload \<Rightarrow>
               (fst (Save (ge_render e) (chat_response e t (cr_Content payload)) db),
                [publishTurnCompleted e (tx_sessionID t)],
                GwBody 200 (enc_openAIResponse
                  \<lparr>os_ID = ''chatcmpl-'' @ take 8 (tx_correlationID t), os_Object = ''chat.completion'',
                   os_Created = ge_unix e, os_Model = tx_model t, os_SessionID = tx_sessionID t,
                   os_Choices = [\<lparr>oc_Message = \<lparr>om_Role = ''assistant'', om_Content = cr_Content payload\<rparr>,
                                   oc_Delta = None, oc_FinishReason = Some ''stop''\<rparr>]\<rparr>))))"

text \<open>The chunks are events without a name; the last one is the text \<^verbatim>\<open>[DONE]\<close>.\<close>

fun chat_stream ::
  "gw_env \<Rightarrow> turn_ctx \<Rightarrow> stream_input list \<Rightarrow> string \<Rightarrow> redis \<Rightarrow>
   (string \<times> json) list \<times> redis \<times> (string \<times> Message) list \<times> stream_end" where
  "chat_stream e t [] body db = ([], db, [], Running)"
| "chat_stream e t (RequestDone # ins) body db = ([], db, [], Disconnected)"
| "chat_stream e t (FromTools m # ins) body db = chat_stream e t ins body db"
| "chat_stream e t (FromTokens m # ins) body db =
     (case token_of_msg m of
        None \<Rightarrow> chat_stream e t ins body db
      | Some token \<Rightarrow>
          if tk_Done token then
            ([([], chat_chunk e t no_msg (Some ''stop'')), ([], JStr ''[DONE]'')],
             fst (Save (ge_render e) (chat_response e t body) db), [publishTurnCompleted e (tx_sessionID t)], Completed)
          else
            let (evs, rest) = chat_stream e t ins (body @ tk_Token token) db
            in (([], chat_chunk e t \<lparr>om_Role = ''assistant'', om_Content = tk_Token token\<rparr> None) # evs, rest))"

definition handleChatCompletionsStreaming ::
  "gw_env \<Rightarrow> turn_ctx \<Rightarrow> bool \<Rightarrow> stream_input list \<Rightarrow> redis \<Rightarrow> (redis \<times> (string \<times> Message) list \<times> gw_reply) \<times> stream_end" where
  "handleChatCompletionsStreaming e t flusher ins db =
     (if \<not> flusher then ((db, [], GwError 500 ''internal_error'' ''Streaming not supported''), Disconnected)
      else let (evs, db', pubs, ended) = chat_stream e t ins [] db in ((db', pubs, GwEvents evs), ended))"

definition handleChatCompletions ::
  "gw_env \<Rightarrow> bool \<Rightarrow> stream_input list \<Rightarrow> json option \<Rightarrow> string \<Rightarrow> redis \<Rightarrow> redis \<times> (string \<times> Message) list \<times> gw_reply" where
  "handleChatCompletions e flusher ins body header db =
     (case Option.bind body dec_openAIRequest of
        None \<Rightarrow> (db, [], GwError 400 ''invalid_request'' ''Failed to parse request body'')
      | Some req \<Rightarrow>
        if oq_Messages req = [] then
          (db, [], GwError 400 ''invalid_request'' ''messages array is required and must not be empty'')
        else
          let sessionID = (if oq_SessionID req = [] then ge_session e else oq_SessionID req);
              speakerID = resolveSpeakerID (ge_config e) (oq_SpeakerID req) header [] False db;
              msg = (NewMessage (ge_corr e) (ge_now e) TypeChatRequest ''gateway'' (enc_ChatRequestPayload
                 \<lparr>chr_SessionID = sessionID, chr_Messages = map (\<lambda>m. chat (om_Role m) (om_Content m)) (oq_Messages req),
                  chr_Model = oq_Model req, chr_Stream = oq_Stream req, chr_SpeakerID = speakerID\<rparr>))
                 \<lparr>m_ReplyStream := reply_stream (ge_corr e)\<rparr>;
              t = \<lparr>tx_responseID = ge_response e, tx_sessionID = sessionID, tx_correlationID = ge_corr e,
                   tx_model = oq_Model req, tx_previousResponseID = [], tx_inputItems = messagesToInputItems (oq_Messages req),
                   tx_store = True, tx_speakerID = speakerID\<rparr>
          in if \<not> ge_published e then (db, [], GwError 500 ''internal_error'' ''Failed to publish request'')
             else let (db', pubs, reply) =
                 (if oq_Stream req then fst (handleChatCompletionsStreaming e t flusher ins db)
                  else handleChatCompletionsNonStreaming e t db)
               in (db', (''stream:gateway:requests'', msg) # pubs, reply))"

section \<open>Models and settings\<close>

definition handleModels :: "gw_env \<Rightarrow> redis \<Rightarrow> gw_reply" where
  "handleModels e db =
     (let model = chat_Model (Config_Load (ge_config e) chat_fields KeyChat db DefaultChatConfig);
          model = (if model = [] then ''default'' else model)
      in GwBody 200 (JObj [(''data'', JArr [JObj [(''created'', JInt (ge_unix e)), (''id'', JStr model),
           (''object'', JStr ''model''), (''owned_by'', JStr ''microagent'')]]), (''object'', JStr ''list'')]))"

definition enc_ChatConfig :: "ChatConfig \<Rightarrow> json" where
  "enc_ChatConfig c = JObj
     [(''system_prompt'', JStr (chat_SystemPrompt c)), (''model'', JStr (chat_Model c)),
      (''request_timeout_s'', JInt (chat_RequestTimeoutS c))]"

definition enc_MemoryConfig :: "MemoryConfig \<Rightarrow> json" where
  "enc_MemoryConfig c = JObj
     ([(''recall_limit'', JInt (mem_RecallLimit c)), (''prewarm_limit'', JInt (mem_PrewarmLimit c)),
       (''recall_default_types'', JStr (mem_RecallDefaultTypes c)), (''default_provenance'', JStr (mem_DefaultProvenance c)),
       (''tag_taxonomy'', JStr (mem_TagTaxonomy c))] @
      omit_empty ''primary_user_id'' (JStr (mem_PrimaryUserID c)) @
      [(''recall_default_speaker_scope'', JStr (mem_RecallDefaultSpeakerScope c))] @
      omit_empty ''identity_name_denylist'' (JStr (mem_IdentityNameDenylist c)) @
      (if mem_RecallThreshold c = 0 then [] else [(''recall_threshold'', JReal (mem_RecallThreshold c))]) @
      omit_empty ''max_hops'' (JInt (mem_MaxHops c)) @ omit_empty ''vault'' (JStr (mem_Vault c)) @
      (if mem_StoreConfidence c = 0 then [] else [(''store_confidence'', JReal (mem_StoreConfidence c))]))"

definition enc_BrokerConfig :: "BrokerConfig \<Rightarrow> json" where
  "enc_BrokerConfig c = JObj
     [(''slot_count'', JInt (bk_SlotCount c)), (''preempt_timeout_ms'', JInt (bk_PreemptTimeoutMS c))]"

definition enc_RetroConfig :: "RetroConfig \<Rightarrow> json" where
  "enc_RetroConfig c = JObj
     [(''inactivity_timeout_s'', JInt (ret_InactivityTimeoutS c)), (''skill_dup_threshold'', JReal (ret_SkillDupThreshold c)),
      (''min_history_turns'', JInt (ret_MinHistoryTurns c)), (''curation_categories'', enc_list JStr (ret_CurationCategories c)),
      (''curation_recall_limit'', JInt (ret_CurationRecallLimit c))]"

text \<open>
  The stored text of a section goes into the reply as it is; a section whose text is no JSON makes the
  encoder fail, and the reply stays empty.
\<close>

definition mustDefault :: "(string \<Rightarrow> json option) \<Rightarrow> (string \<times> string) list \<Rightarrow> string \<Rightarrow> json \<Rightarrow> json option" where
  "mustDefault parse sections key def = (case map_of sections key of Some raw \<Rightarrow> parse raw | None \<Rightarrow> Some def)"

definition handleGetConfig :: "gw_env \<Rightarrow> redis \<Rightarrow> gw_reply" where
  "handleGetConfig e db =
     (case ReadAll (ge_now e) db of
        Inl _ \<Rightarrow> GwError 500 ''internal_error'' ''Failed to read config''
      | Inr sections \<Rightarrow>
          (case those_map (\<lambda>(k, def). map_option (Pair k) (mustDefault (ge_parse e) sections k def))
                  [(''broker'', enc_BrokerConfig DefaultBrokerConfig), (''chat'', enc_ChatConfig DefaultChatConfig),
                   (''memory'', enc_MemoryConfig DefaultMemoryConfig), (''retro'', enc_RetroConfig DefaultRetroConfig)] of
             None \<Rightarrow> GwStatus 200
           | Some kvs \<Rightarrow> GwBody 200 (JObj kvs)))"

record configUpdateRequest =
  cu_Section :: string
  cu_Values :: "json option"

definition dec_configUpdateRequest :: "json \<Rightarrow> configUpdateRequest option" where
  "dec_configUpdateRequest = dec_struct
     [fld ''section'' dec_string cu_Section cu_Section_update,
      fld ''values'' (\<lambda>_ j. Some (Some j)) cu_Values cu_Values_update] \<lparr>cu_Section = [], cu_Values = None\<rparr>"

definition handlePutConfig :: "gw_env \<Rightarrow> json option \<Rightarrow> redis \<Rightarrow> redis \<times> gw_reply option" where
  "handlePutConfig e body db =
     (case Option.bind body dec_configUpdateRequest of
        None \<Rightarrow> (db, Some (GwError 400 ''invalid_request'' ''Failed to parse request body''))
      | Some req \<Rightarrow>
        if \<not> ValidSection (cu_Section req) then
          (db, Some (GwError 400 ''invalid_section'' (''Invalid config section: '' @ cu_Section req)))
        else (case Config_Save (ge_config e) (ge_num e) (cu_Section req) (cu_Values req) db of
            (db', Some SavePanic) \<Rightarrow> (db', None)
          | (db', Some _) \<Rightarrow> (db', Some (GwError 500 ''internal_error'' ''Failed to save config''))
          | (db', None) \<Rightarrow> (db', Some (GwBody 200 (JObj [(''status'', JStr ''ok'')])))))"

section \<open>Sessions\<close>

definition enc_SessionSummary :: "SessionSummary \<Rightarrow> json" where
  "enc_SessionSummary s = JObj
     ([(''session_id'', JStr (sm_SessionID s)), (''turn_count'', JInt (int (sm_TurnCount s))),
       (''last_active'', JStr (sm_LastActive s))] @ omit_empty ''last_speaker_id'' (JStr (sm_LastSpeakerID s)))"

definition handleListSessions :: "string list \<Rightarrow> redis \<Rightarrow> gw_reply" where
  "handleListSessions scanned db = GwBody 200 (enc_list enc_SessionSummary (ListSessions scanned db))"

definition handleGetSession :: "gw_env \<Rightarrow> string \<Rightarrow> redis \<Rightarrow> gw_reply" where
  "handleGetSession e sessionID db =
     (if \<not> SessionExists sessionID db then GwError 404 ''not_found'' ''Session not found''
      else case GetSessionMessages (ge_parse e) sessionID db of
             Inl _ \<Rightarrow> GwError 500 ''internal_error'' ''Failed to read session''
           | Inr messages \<Rightarrow>
               let speakerID = GetSessionSpeakerID sessionID db
               in GwBody 200 (JObj ((if speakerID \<noteq> [] then [(''last_speaker_id'', JStr speakerID)] else []) @
                    [(''messages'', enc_list enc_ChatMsg messages), (''session_id'', JStr sessionID)])))"

definition handleDeleteSession :: "string \<Rightarrow> redis \<Rightarrow> redis \<times> gw_reply" where
  "handleDeleteSession sessionID db =
     (if \<not> SessionExists sessionID db then (db, GwError 404 ''not_found'' ''Session not found'')
      else case DeleteSession sessionID db of
             (db', Some _) \<Rightarrow> (db', GwError 500 ''internal_error'' ''Failed to delete session'')
           | (db', None) \<Rightarrow> (db', GwBody 200 (JObj [(''status'', JStr ''deleted'')])))"

section \<open>The retro trigger\<close>

record RetroTriggerPayload =
  rt_SessionID :: string
  rt_JobType :: string

definition enc_RetroTriggerPayload :: "RetroTriggerPayload \<Rightarrow> json" where
  "enc_RetroTriggerPayload p = JObj [(''session_id'', JStr (rt_SessionID p)), (''job_type'', JStr (rt_JobType p))]"

definition dec_RetroTriggerPayload :: "json \<Rightarrow> RetroTriggerPayload option" where
  "dec_RetroTriggerPayload = dec_struct
     [fld ''session_id'' dec_string rt_SessionID rt_SessionID_update, fld ''job_type'' dec_string rt_JobType rt_JobType_update]
     \<lparr>rt_SessionID = [], rt_JobType = []\<rparr>"

definition dec_retroTriggerRequest :: "json \<Rightarrow> string option" where
  "dec_retroTriggerRequest = dec_struct [(''job_type'', \<lambda>j old. dec_string old j)] []"

text \<open>\<^verbatim>\<open>validJobTypes\<close> has the names the retro agent knows.\<close>

definition handleRetroTrigger ::
  "gw_env \<Rightarrow> string \<Rightarrow> json option \<Rightarrow> redis \<Rightarrow> redis \<times> (string \<times> Message) list \<times> gw_reply" where
  "handleRetroTrigger e sessionID body db =
     (case Option.bind body dec_retroTriggerRequest of
        None \<Rightarrow> (db, [], GwError 400 ''invalid_request'' ''Failed to parse request body'')
      | Some jobName \<Rightarrow>
     (case job_of_name jobName of
        None \<Rightarrow> (db, [], GwError 400 ''invalid_job_type''
          (''Invalid job_type: '' @ jobName @ ''. Valid types: memory_extraction, skill_creation, curation''))
      | Some jobType \<Rightarrow>
        if \<not> SessionExists sessionID db then (db, [], GwError 404 ''not_found'' ''Session not found'')
        else
          let (db1, acquired) = AcquireLock (ge_now e) sessionID jobType db in
          if \<not> acquired then (db1, [], GwBody 409 (JObj [(''error'', JStr ''Job already running for this session'')]))
          else if \<not> ge_published e then
            (ReleaseLock sessionID jobType db1, [], GwError 500 ''internal_error'' ''Failed to publish trigger'')
          else
            (db1, [(''stream:retro:triggers'', NewMessage (ge_corr e) (ge_now e) ''retro_trigger'' ''gateway''
                      (enc_RetroTriggerPayload \<lparr>rt_SessionID = sessionID, rt_JobType = jobName\<rparr>))],
             GwBody 202 (JObj [(''job_type'', JStr jobName), (''session_id'', JStr sessionID), (''status'', JStr ''accepted'')]))))"

section \<open>MCP servers\<close>

definition handleListMCPServers :: "gw_env \<Rightarrow> redis \<Rightarrow> gw_reply" where
  "handleListMCPServers e db = GwBody 200 (JObj [(''servers'', enc_list enc_MCPServerConfig (ResolveMCPServers (ge_config e) db))])"

definition invalid_entry_text :: "(string \<Rightarrow> string) \<Rightarrow> nat \<times> string \<times> string \<Rightarrow> string" where
  "invalid_entry_text quote err =
     (case err of (i, name, reason) \<Rightarrow> ''entry '' @ itoa (int i) @ '' ('' @ quote name @ ''): '' @ reason)"

definition dec_servers_body :: "json \<Rightarrow> MCPServerConfig list option" where
  "dec_servers_body = dec_struct [(''servers'', \<lambda>j old. dec_list zero_MCPServerConfig dec_MCPServerConfig old j)] []"

definition handlePutMCPServers :: "gw_env \<Rightarrow> (string \<Rightarrow> string) \<Rightarrow> json option \<Rightarrow> redis \<Rightarrow> redis \<times> gw_reply" where
  "handlePutMCPServers e quote body db =
     (case Option.bind body dec_servers_body of
        None \<Rightarrow> (db, GwError 400 ''invalid_request'' ''failed to decode body'')
      | Some servers \<Rightarrow>
          (case SaveMCPServers (ge_config e) servers db of
             (db', Some err) \<Rightarrow> (db', GwError 400 ''invalid_request'' (invalid_entry_text quote err))
           | (db', None) \<Rightarrow> (db', GwStatus 204)))"

definition handleAddMCPServer :: "gw_env \<Rightarrow> (string \<Rightarrow> string) \<Rightarrow> json option \<Rightarrow> redis \<Rightarrow> redis \<times> gw_reply" where
  "handleAddMCPServer e quote body db =
     (case Option.bind body (dec_MCPServerConfig zero_MCPServerConfig) of
        None \<Rightarrow> (db, GwError 400 ''invalid_request'' ''failed to decode body'')
      | Some entry \<Rightarrow>
          let existing = ResolveMCPServers (ge_config e) db in
          if mcp_Name entry \<in> mcp_Name ` set existing then
            (db, GwError 409 ''conflict'' ''server with this name already exists'')
          else (case SaveMCPServers (ge_config e) (existing @ [entry]) db of
             (db', Some err) \<Rightarrow> (db', GwError 400 ''invalid_request'' (invalid_entry_text quote err))
           | (db', None) \<Rightarrow> (db', GwBody 201 (enc_MCPServerConfig entry))))"

definition handleDeleteMCPServer :: "gw_env \<Rightarrow> (string \<Rightarrow> string) \<Rightarrow> string \<Rightarrow> redis \<Rightarrow> redis \<times> gw_reply" where
  "handleDeleteMCPServer e quote name db =
     (let existing = ResolveMCPServers (ge_config e) db;
          updated = filter (\<lambda>c. mcp_Name c \<noteq> name) existing
      in if name \<notin> mcp_Name ` set existing then (db, GwError 404 ''not_found'' ''server not found'')
         else case SaveMCPServers (ge_config e) updated db of
             (db', Some err) \<Rightarrow> (db', GwError 500 ''internal_error'' (invalid_entry_text quote err))
           | (db', None) \<Rightarrow> (db', GwStatus 204))"

definition readMCPHealth :: "gw_env \<Rightarrow> redis \<Rightarrow> json list" where
  "readMCPHealth e db =
     (case rdb_Get (ge_now e) db ''health:main-agent:mcp'' of
        Inr (Some raw) \<Rightarrow>
          if raw = [] then []
          else (case Option.bind (ge_parse e raw) (dec_list JNull dec_raw []) of None \<Rightarrow> [] | Some out \<Rightarrow> out)
      | _ \<Rightarrow> [])"

section \<open>Status\<close>

record ServiceHealth =
  sh_Name :: string
  sh_Status :: string
  sh_Message :: string

definition checkValkey :: "string option \<Rightarrow> ServiceHealth" where
  "checkValkey ping =
     (case ping of
        Some err \<Rightarrow> \<lparr>sh_Name = ''valkey'', sh_Status = ''unhealthy'', sh_Message = err\<rparr>
      | None \<Rightarrow> \<lparr>sh_Name = ''valkey'', sh_Status = ''healthy'', sh_Message = []\<rparr>)"

text \<open>The request fails with an error text, or gives a status code.\<close>

definition checkHTTPService :: "string \<Rightarrow> string + int \<Rightarrow> ServiceHealth" where
  "checkHTTPService name outcome =
     (case outcome of
        Inl err \<Rightarrow> \<lparr>sh_Name = name, sh_Status = ''unhealthy'', sh_Message = err\<rparr>
      | Inr code \<Rightarrow>
          if code \<ge> 200 \<and> code < 300 then \<lparr>sh_Name = name, sh_Status = ''healthy'', sh_Message = []\<rparr>
          else \<lparr>sh_Name = name, sh_Status = ''unhealthy'', sh_Message = ''HTTP '' @ itoa code\<rparr>)"

definition enc_ServiceHealth :: "ServiceHealth \<Rightarrow> json" where
  "enc_ServiceHealth h = JObj ([(''name'', JStr (sh_Name h)), (''status'', JStr (sh_Status h))] @
     omit_empty ''message'' (JStr (sh_Message h)))"

text \<open>\<^verbatim>\<open>ListRegistered\<close>, on the keys that \<^verbatim>\<open>SCAN\<close> returns for \<^verbatim>\<open>agent:*\<close>.\<close>

definition ListRegistered :: "config_env \<Rightarrow> string list \<Rightarrow> redis \<Rightarrow> RegisterPayload list" where
  "ListRegistered c scanned db =
     List.map_filter (\<lambda>key. case rdb_Get (cf_now c) db key of
         Inr (Some data) \<Rightarrow> Option.bind (cf_parse c data) dec_RegisterPayload
       | _ \<Rightarrow> None) scanned"

definition enc_agentStatus :: "RegisterPayload \<Rightarrow> json" where
  "enc_agentStatus a = JObj
     [(''agent_id'', JStr (rp_AgentID a)), (''priority'', JInt (rp_Priority a)), (''preemptible'', JBool (rp_Preemptible a)),
      (''capabilities'', enc_list JStr (rp_Capabilities a)), (''trigger'', JStr (rp_Trigger a))]"

definition handleStatus ::
  "gw_env \<Rightarrow> string \<times> string \<times> string \<Rightarrow> string option \<Rightarrow> string + int \<Rightarrow> string + int \<Rightarrow> string list \<Rightarrow> redis \<Rightarrow> gw_reply" where
  "handleStatus e addrs ping llama memory scanned db =
     (case addrs of (port, llamaAddr, memoryAddr) \<Rightarrow>
        GwBody 200 (JObj
          [(''services'', enc_list enc_ServiceHealth
             [checkValkey ping, checkHTTPService ''llama.cpp'' llama, checkHTTPService ''memory-service'' memory]),
           (''agents'', enc_list enc_agentStatus (ListRegistered (ge_config e) scanned db)),
           (''system'', JObj [(''gateway_port'', JStr port), (''llama_addr'', JStr llamaAddr), (''memory_addr'', JStr memoryAddr)]),
           (''mcp_servers'', JArr (readMCPHealth e db))]))"

section \<open>The lock of a triggered job\<close>

lemma lock_stays_free: "\<not> lock_held t k db \<Longrightarrow> t \<le> t' \<Longrightarrow> \<not> lock_held t' k db"
  by (auto simp: lock_held_def rdb_Get_def split: option.splits rvalue.splits if_splits)

lemma dec_enc_RetroTrigger [simp]: "dec_RetroTriggerPayload (enc_RetroTriggerPayload p) = Some p"
  by (cases p) (simp add: dec_RetroTriggerPayload_def enc_RetroTriggerPayload_def key_simps)

text \<open>
  C24. A manual trigger and the lock of its job. While the lock is held the request is refused and nothing
  changes. Otherwise the lock is taken for its full time, no other lock changes, and one message with the
  session and the job reaches the retro agent; if it cannot be published the lock is free again and the
  other locks are as before. The retro agent's handling of that message ends with the lock free.
\<close>

theorem retro_trigger_lock:
  assumes "Option.bind body dec_retroTriggerRequest = Some name" "job_of_name name = Some job" "SessionExists s db"
  shows "(lock_held (ge_now e) (s, job) db \<longrightarrow>
      handleRetroTrigger e s body db = (db, [], GwBody 409 (JObj [(''error'', JStr ''Job already running for this session'')]))) \<and>
    (\<not> lock_held (ge_now e) (s, job) db \<longrightarrow> ge_published e \<longrightarrow>
      (\<exists>db' msg reply. handleRetroTrigger e s body db = (db', [(''stream:retro:triggers'', msg)], GwBody 202 reply) \<and>
        dec_RetroTriggerPayload (m_Payload msg) = Some \<lparr>rt_SessionID = s, rt_JobType = name\<rparr> \<and>
        (\<forall>t k. lock_held t k db' \<longleftrightarrow> (if k = (s, job) then t < ge_now e + lockTTL else lock_held t k db)))) \<and>
    (\<not> lock_held (ge_now e) (s, job) db \<longrightarrow> \<not> ge_published e \<longrightarrow>
      (\<exists>db' c m. handleRetroTrigger e s body db = (db', [], GwError 500 c m) \<and>
        (\<forall>t k. ge_now e \<le> t \<longrightarrow> lock_held t k db' \<longleftrightarrow> lock_held t k db))) \<and>
    (\<forall>c je st st' t. dispatchSingle c je s name st = Some st' \<longrightarrow> \<not> lock_held t (s, job) (js_db st'))"
proof -
  let ?k = "(s, job)"
  obtain db1 ok where a: "AcquireLock (ge_now e) s job db = (db1, ok)" by fastforce
  then have la: "lock_acquire (ge_now e) ?k db = (db1, ok)" by (simp add: lock_acquire_def)
  have ok: "ok \<longleftrightarrow> \<not> lock_held (ge_now e) ?k db" using job_lock.acquire_granted [of "ge_now e" ?k db] la by simp
  have db1: "lock_held t k db1 \<longleftrightarrow> (if k = ?k then t < ge_now e + lockTTL else lock_held t k db)"
    if "\<not> lock_held (ge_now e) ?k db" for t k
    using job_lock.held_acquire [OF that, of t k] la by simp
  have refused: "db1 = db" if "lock_held (ge_now e) ?k db"
    using job_lock.acquire_refused [OF that] la by simp
  have rel: "lock_held t k (ReleaseLock s job d) \<longleftrightarrow> k \<noteq> ?k \<and> lock_held t k d" for t k d
    using job_lock.held_release [of t k ?k d] by (simp add: lock_release_def)
  have disp: "\<not> lock_held t ?k (js_db st')" if "dispatchSingle c je s name st = Some st'" for c je st st' t
    using that assms(2) rel by (auto simp: dispatchSingle_def Let_def split: option.splits)
  note run = handleRetroTrigger_def assms a Let_def
  show ?thesis
  proof (intro conjI impI)
    assume "lock_held (ge_now e) ?k db"
    then show "handleRetroTrigger e s body db = (db, [], GwBody 409 (JObj [(''error'', JStr ''Job already running for this session'')]))"
      using ok refused by (simp add: run)
  next
    assume f: "\<not> lock_held (ge_now e) ?k db" and "ge_published e"
    then show "\<exists>db' msg reply. handleRetroTrigger e s body db = (db', [(''stream:retro:triggers'', msg)], GwBody 202 reply) \<and>
        dec_RetroTriggerPayload (m_Payload msg) = Some \<lparr>rt_SessionID = s, rt_JobType = name\<rparr> \<and>
        (\<forall>t k. lock_held t k db' \<longleftrightarrow> (if k = (s, job) then t < ge_now e + lockTTL else lock_held t k db))"
      using ok db1 [OF f]
      by (intro exI [of _ db1] exI [of _ "NewMessage (ge_corr e) (ge_now e) ''retro_trigger'' ''gateway''
            (enc_RetroTriggerPayload \<lparr>rt_SessionID = s, rt_JobType = name\<rparr>)"] exI conjI allI)
        (simp add: run, simp add: NewMessage_def, blast)
  next
    assume f: "\<not> lock_held (ge_now e) ?k db" and "\<not> ge_published e"
    then show "\<exists>db' c m. handleRetroTrigger e s body db = (db', [], GwError 500 c m) \<and>
        (\<forall>t k. ge_now e \<le> t \<longrightarrow> lock_held t k db' \<longleftrightarrow> lock_held t k db)"
      using ok db1 [OF f] rel lock_stays_free [OF f] by (simp add: run)
  next
    show "\<forall>c je st st' t. dispatchSingle c je s name st = Some st' \<longrightarrow> \<not> lock_held t ?k (js_db st')"
      using disp by blast
  qed
qed

theorem retro_trigger_lock_witness:
  "let db = [(sessionResponsesKey ''s'', RList [''r''])]; body = Some (JObj [(''job_type'', JStr ''curation'')])
   in \<exists>db' msg reply. handleRetroTrigger sample_gw ''s'' body db = (db', [(''stream:retro:triggers'', msg)], GwBody 202 reply) \<and>
        lock_held 5 (''s'', JobCuration) db' \<and> \<not> lock_held lockTTL (''s'', JobCuration) db'"
proof -
  let ?db = "[(sessionResponsesKey ''s'', RList [''r''])]"
  let ?body = "Some (JObj [(''job_type'', JStr ''curation'')])"
  have b: "Option.bind ?body dec_retroTriggerRequest = Some ''curation''"
    by (simp add: dec_retroTriggerRequest_def key_simps)
  have j: "job_of_name ''curation'' = Some JobCuration" by (simp add: job_of_name_def)
  have x: "SessionExists ''s'' ?db" by (simp add: SessionExists_def)
  have "lockKey ''s'' JobCuration \<noteq> sessionResponsesKey ''s''" by (simp add: lockKey_def sessionResponsesKey_def)
  then have f: "\<not> lock_held (ge_now sample_gw) (''s'', JobCuration) ?db" by (simp add: lock_held_def rdb_Get_def)
  have p: "ge_published sample_gw" "ge_now sample_gw = 0" by (simp_all add: sample_gw_def)
  from retro_trigger_lock [OF b j x, of sample_gw] f p(1) obtain db' msg reply where
    "handleRetroTrigger sample_gw ''s'' ?body ?db = (db', [(''stream:retro:triggers'', msg)], GwBody 202 reply)"
    and h: "\<forall>t k. lock_held t k db' \<longleftrightarrow> (if k = (''s'', JobCuration) then t < ge_now sample_gw + lockTTL else lock_held t k ?db)"
    by blast
  moreover have "lock_held 5 (''s'', JobCuration) db'" "\<not> lock_held lockTTL (''s'', JobCuration) db'"
    using h p(2) by (simp_all add: lockTTL_def)
  ultimately show ?thesis unfolding Let_def by blast
qed

end
