(* ===== verification/Slot_View.thy ===== *)
theory Slot_View
  imports Gateway_Api Broker
begin

text \<open>
  The slot table as the dashboard shows it (\<^verbatim>\<open>internal/gateway/broker.go\<close>): the gateway asks the broker for a
  snapshot, waits for the reply and passes the entries on. The last theorem puts both ends together.
\<close>

definition zero_SlotSnapshotEntry :: SlotSnapshotEntry where
  "zero_SlotSnapshotEntry = \<lparr>ss_SlotID = 0, ss_Class = [], ss_State = [], ss_AgentID = [], ss_Priority = 0, ss_AgeS = 0\<rparr>"

definition dec_SlotSnapshotEntry :: "SlotSnapshotEntry \<Rightarrow> json \<Rightarrow> SlotSnapshotEntry option" where
  "dec_SlotSnapshotEntry = dec_struct
     [fld ''slot'' dec_int ss_SlotID ss_SlotID_update,
      fld ''class'' dec_string ss_Class ss_Class_update,
      fld ''state'' dec_string ss_State ss_State_update,
      fld ''agent'' dec_string ss_AgentID ss_AgentID_update,
      fld ''priority'' dec_int ss_Priority ss_Priority_update,
      fld ''age_s'' dec_float ss_AgeS ss_AgeS_update]"

text \<open>The slice is nil (\<open>None\<close>) when the reply has no list, and is then shown as \<^verbatim>\<open>null\<close>.\<close>

definition dec_SlotSnapshotResponsePayload :: "json \<Rightarrow> SlotSnapshotEntry list option option" where
  "dec_SlotSnapshotResponsePayload = dec_struct
     [(''slots'', \<lambda>j old. dec_option [] (dec_list zero_SlotSnapshotEntry dec_SlotSnapshotEntry) old j)] None"

definition slots_body :: "SlotSnapshotEntry list option \<Rightarrow> json" where
  "slots_body slots = JObj [(''slots'', case slots of None \<Rightarrow> JNull | Some xs \<Rightarrow> enc_list enc_SlotSnapshotEntry xs)]"

definition snapshot_request :: "gw_env \<Rightarrow> string \<Rightarrow> Message" where
  "snapshot_request e nanos =
     (NewMessage (ge_corr e) (ge_now e) ''slot_snapshot_request'' ''gateway'' (JObj []))
       \<lparr>m_ReplyStream := ''stream:reply:broker-slots:'' @ nanos\<rparr>"

definition handleBrokerSlots :: "gw_env \<Rightarrow> string \<Rightarrow> string \<Rightarrow> (string \<times> Message) list \<times> gw_reply" where
  "handleBrokerSlots e nanos publishErr =
     (let req = snapshot_request e nanos
      in if \<not> ge_published e then
           ([], GwBody 503 (JObj [(''detail'', JStr publishErr), (''error'', JStr ''broker_unreachable'')]))
         else ([(''stream:broker:slot-snapshot-requests'', req)],
           case ge_wait e (m_ReplyStream req) (m_CorrelationID req) of
             Inl _ \<Rightarrow> GwBody 503 (JObj [(''error'', JStr ''broker_unreachable'')])
           | Inr reply \<Rightarrow>
               (case dec_SlotSnapshotResponsePayload (m_Payload reply) of
                  None \<Rightarrow> GwBody 502 (JObj [(''error'', JStr ''broker_bad_reply'')])
                | Some slots \<Rightarrow> GwBody 200 (slots_body slots))))"

lemma dec_enc_SlotSnapshotEntry [simp]:
  "dec_SlotSnapshotEntry zero_SlotSnapshotEntry (enc_SlotSnapshotEntry s) = Some s"
  by (cases s; cases "ss_AgentID s")
    (simp_all add: dec_SlotSnapshotEntry_def enc_SlotSnapshotEntry_def zero_SlotSnapshotEntry_def omit_empty_def key_simps)

lemma dec_slots_payload [simp]:
  "dec_SlotSnapshotResponsePayload (JObj [(''slots'', enc_list enc_SlotSnapshotEntry xs)]) = Some (Some xs)"
  by (simp add: dec_SlotSnapshotResponsePayload_def dec_option_def key_simps)

section \<open>What the dashboard shows\<close>

lemma Snapshot_entries:
  assumes "slot_inv st"
  shows "map (\<lambda>s. (ss_SlotID s, ss_AgentID s, ss_Class s, ss_State s, ss_Priority s)) (Snapshot now st) =
    map (\<lambda>i. (int i, case slot_holder st (int i) of None \<Rightarrow> [] | Some a \<Rightarrow> a, ClassOf (int i) st,
      SlotState_String (se_State (st ! i)), se_Priority (st ! i))) [0..<length st]"
  using assms
  by (intro nth_equalityI) (auto simp: Snapshot_def slot_inv_def slot_ok_def slot_holder_def ClassOf_def in_range_def)

lemma run_handleSnapshotRequest:
  assumes "\<forall>s m. e_publish e s m" "m_Type msg = ''slot_snapshot_request''" "m_ReplyStream msg \<noteq> []"
  shows "run_action (handleSnapshotRequest e msg) b = Returns (b\<lparr>b_published := b_published b @ [(m_ReplyStream msg,
    NewReply (e_now e) msg ''slot_snapshot_response'' ''llm-broker''
      (JObj [(''slots'', enc_list enc_SlotSnapshotEntry (Snapshot (e_now e) (b_slots b)))]))]\<rparr>)"
  using assms by (simp add: handleSnapshotRequest_def publish_def)

text \<open>
  C29. The slot view of the dashboard. The gateway's request, handled by the broker, changes no slot, and the
  broker's reply makes the gateway answer with the table as it stood then: one entry per slot in order,
  with the agent that holds it (none for a free slot), its class, its state and its priority.
\<close>

theorem dashboard_shows_slots:
  assumes inv: "slot_inv (b_slots b)" and net: "ge_published g" "\<forall>s m. e_publish e s m"
    and reply: "\<And>b1. run_action (handleSnapshotRequest e (snapshot_request g nanos)) b = Returns b1 \<Longrightarrow>
      ge_wait g (m_ReplyStream (snapshot_request g nanos)) (ge_corr g) = Inr (snd (last (b_published b1)))"
  shows "\<exists>b1 shown. run_action (handleSnapshotRequest e (snapshot_request g nanos)) b = Returns b1 \<and> b_slots b1 = b_slots b \<and>
    handleBrokerSlots g nanos err =
      ([(''stream:broker:slot-snapshot-requests'', snapshot_request g nanos)], GwBody 200 (slots_body (Some shown))) \<and>
    map (\<lambda>s. (ss_SlotID s, ss_AgentID s, ss_Class s, ss_State s, ss_Priority s)) shown =
      map (\<lambda>i. (int i, case slot_holder (b_slots b) (int i) of None \<Rightarrow> [] | Some a \<Rightarrow> a, ClassOf (int i) (b_slots b),
         SlotState_String (se_State (b_slots b ! i)), se_Priority (b_slots b ! i))) [0..<length (b_slots b)]"
proof -
  let ?req = "snapshot_request g nanos"
  have req: "m_Type ?req = ''slot_snapshot_request''" "m_ReplyStream ?req \<noteq> []" "m_CorrelationID ?req = ge_corr g"
    by (simp_all add: snapshot_request_def NewMessage_def)
  note run = run_handleSnapshotRequest [OF net(2) req(1,2), of b]
  have "handleBrokerSlots g nanos err =
    ([(''stream:broker:slot-snapshot-requests'', ?req)], GwBody 200 (slots_body (Some (Snapshot (e_now e) (b_slots b)))))"
    using net(1) reply [OF run] req(3) by (simp add: handleBrokerSlots_def NewReply_def)
  with run Snapshot_entries [OF inv, of "e_now e"] show ?thesis
    by (intro exI [of _ "Snapshot (e_now e) (b_slots b)"] exI) (auto intro: run)
qed

theorem dashboard_shows_slots_witness:
  "let b = (NewBroker 1 1 [])\<lparr>b_slots := [free_entry 0 SlotClassAgent, (free_entry 1 SlotClassHindsight)\<lparr>se_State := SlotAssigned, se_AgentID := ''proxy''\<rparr>]\<rparr>;
       e = \<lparr>e_now = 7, e_fresh = ''f'', e_publish = (\<lambda>_ _. True), e_view = (\<lambda>_ st. st)\<rparr>;
       req = snapshot_request sample_gw ''1'';
       g = sample_gw\<lparr>ge_wait := (\<lambda>_ _. Inr (NewReply 7 req ''slot_snapshot_response'' ''llm-broker''
             (JObj [(''slots'', enc_list enc_SlotSnapshotEntry (Snapshot 7 (b_slots b)))])))\<rparr>
   in \<exists>shown. handleBrokerSlots g ''1'' [] = ([(''stream:broker:slot-snapshot-requests'', req)], GwBody 200 (slots_body (Some shown))) \<and>
        map ss_AgentID shown = ['''', ''proxy'']"
proof -
  define b where "b = (NewBroker 1 1 [])\<lparr>b_slots := [free_entry 0 SlotClassAgent,
    (free_entry 1 SlotClassHindsight)\<lparr>se_State := SlotAssigned, se_AgentID := ''proxy''\<rparr>]\<rparr>"
  define g where "g = sample_gw\<lparr>ge_wait := (\<lambda>_ _. Inr (NewReply 7 (snapshot_request sample_gw ''1'') ''slot_snapshot_response'' ''llm-broker''
             (JObj [(''slots'', enc_list enc_SlotSnapshotEntry (Snapshot 7 (b_slots b)))])))\<rparr>"
  let ?e = "\<lparr>e_now = 7, e_fresh = ''f'', e_publish = (\<lambda>_ _. True), e_view = (\<lambda>_ st. st)\<rparr> :: env"
  have req: "snapshot_request g ''1'' = snapshot_request sample_gw ''1''" by (simp add: snapshot_request_def g_def)
  have inv: "slot_inv (b_slots b)" by (auto simp: b_def slot_inv_def slot_ok_def less_Suc_eq)
  have pub: "ge_published g" by (simp add: g_def sample_gw_def)
  have reply: "ge_wait g s c = Inr (snd (last (b_published b1)))"
    if "run_action (handleSnapshotRequest ?e (snapshot_request g ''1'')) b = Returns b1" for b1 s c
    using that unfolding req by (auto simp: g_def handleSnapshotRequest_def publish_def snapshot_request_def NewMessage_def)
  have net: "\<forall>s m. e_publish ?e s m" by simp
  have "\<exists>b1 shown. run_action (handleSnapshotRequest ?e (snapshot_request g ''1'')) b = Returns b1 \<and> b_slots b1 = b_slots b \<and>
    handleBrokerSlots g ''1'' [] =
      ([(''stream:broker:slot-snapshot-requests'', snapshot_request g ''1'')], GwBody 200 (slots_body (Some shown))) \<and>
    map (\<lambda>s. (ss_SlotID s, ss_AgentID s, ss_Class s, ss_State s, ss_Priority s)) shown =
      map (\<lambda>i. (int i, case slot_holder (b_slots b) (int i) of None \<Rightarrow> [] | Some a \<Rightarrow> a, ClassOf (int i) (b_slots b),
         SlotState_String (se_State (b_slots b ! i)), se_Priority (b_slots b ! i))) [0..<length (b_slots b)]"
    by (rule dashboard_shows_slots [OF inv pub net]) (rule reply)
  then obtain shown where shown: "handleBrokerSlots g ''1'' [] =
      ([(''stream:broker:slot-snapshot-requests'', snapshot_request g ''1'')], GwBody 200 (slots_body (Some shown)))"
    and *: "map (\<lambda>s. (ss_SlotID s, ss_AgentID s, ss_Class s, ss_State s, ss_Priority s)) shown =
      map (\<lambda>i. (int i, case slot_holder (b_slots b) (int i) of None \<Rightarrow> [] | Some a \<Rightarrow> a, ClassOf (int i) (b_slots b),
         SlotState_String (se_State (b_slots b ! i)), se_Priority (b_slots b ! i))) [0..<length (b_slots b)]"
    by (elim exE conjE) (rule that, assumption+)
  have "map ss_AgentID shown = ['''', ''proxy'']"
    using arg_cong [OF *, of "map (\<lambda>(_, a, _). a)"] by (simp add: comp_def b_def slot_holder_def in_range_def)
  with shown have "\<exists>shown. handleBrokerSlots g ''1'' [] = ([(''stream:broker:slot-snapshot-requests'', snapshot_request sample_gw ''1'')], GwBody 200 (slots_body (Some shown))) \<and>
      map ss_AgentID shown = ['''', ''proxy'']"
    unfolding req by (intro exI [of _ shown] conjI)
  then show ?thesis by (simp only: Let_def g_def b_def)
qed

end
