(* ===== verification/Log_Stream.thy ===== *)
theory Log_Stream
  imports Config_Store "HOL-Library.Sublist"
begin

text \<open>
  The log streams: the publisher behind a service's logger (\<^verbatim>\<open>internal/logstream/handler.go\<close>), with its bounded queue,
  drop counter and entry cap, and the gateway's view of the streams (\<^verbatim>\<open>internal/gateway/logs.go\<close>): history, filters
  and tail. The delegate handler that writes to standard output, the JSON text layer and the trimming of
  a stream by Valkey are outside the model.
\<close>

section \<open>Rendering a record\<close>

datatype slog_value =
    VString string | VInt int | VUint int | VFloat rat | VBool bool | VTime string | VDuration string
  | VGroup "(string \<times> slog_value) list" | VAny json

lemma size_snd_slog: "kv \<in> set g \<Longrightarrow> size (snd kv) < Suc (size_list (size_prod (\<lambda>x. 0) size) g)"
  by (induction g) auto

text \<open>A time and a duration are given by their formatted text. A later attribute with the same key wins.\<close>

function attrValue :: "slog_value \<Rightarrow> json" where
  "attrValue (VString s) = JStr s"
| "attrValue (VInt n) = JInt n"
| "attrValue (VUint n) = JInt n"
| "attrValue (VFloat q) = JReal q"
| "attrValue (VBool b) = JBool b"
| "attrValue (VTime t) = JStr t"
| "attrValue (VDuration d) = JStr d"
| "attrValue (VGroup g) = JObj (map_entries (map (\<lambda>kv. (fst kv, attrValue (snd kv))) g))"
| "attrValue (VAny j) = j"
  by pat_completeness auto

termination
  by (relation "measure size") (auto dest: size_snd_slog)

record log_record =
  lr_Time :: string
  lr_Level :: string
  lr_Message :: string
  lr_Attrs :: "(string \<times> slog_value) list"

record Handler =
  hd_attrs :: "(string \<times> slog_value) list"
  hd_group :: string

definition WithAttrs :: "(string \<times> slog_value) list \<Rightarrow> Handler \<Rightarrow> Handler" where
  "WithAttrs attrs h = h\<lparr>hd_attrs := hd_attrs h @ attrs\<rparr>"

definition WithGroup :: "string \<Rightarrow> Handler \<Rightarrow> Handler" where
  "WithGroup name h = h\<lparr>hd_group := name\<rparr>"

definition renderJSON :: "Handler \<Rightarrow> log_record \<Rightarrow> json" where
  "renderJSON h r = JObj (map_entries
     ([(''time'', JStr (lr_Time r)), (''level'', JStr (lr_Level r)), (''msg'', JStr (lr_Message r))] @
      map (\<lambda>(k, v). (k, attrValue v)) (hd_attrs h @ lr_Attrs r)))"

section \<open>The publisher\<close>

definition StreamName :: "string \<Rightarrow> string" where
  "StreamName serviceID = ''log:'' @ serviceID"

definition defaultMaxEntrySize :: nat where "defaultMaxEntrySize = 16384"

record log_text =
  lt_parse :: "string \<Rightarrow> json option"
  lt_render :: "json \<Rightarrow> string"
  lt_num :: "json \<Rightarrow> json"

text \<open>U+2026 is appended to a shortened value.\<close>

fun shorten_value :: "json \<Rightarrow> json \<times> bool" where
  "shorten_value (JStr s) = (if length s > 1024 then (JStr (take 1024 s @ [CHR 0xE2, CHR 0x80, CHR 0xA6]), True) else (JStr s, False))"
| "shorten_value j = (j, False)"

definition shorten_values :: "(string \<times> json) list \<Rightarrow> (string \<times> json) list \<times> bool" where
  "shorten_values m = (map (\<lambda>(k, v). (k, fst (shorten_value v))) m, \<exists>(k, v) \<in> set m. snd (shorten_value v))"

fun truncate_loop :: "log_text \<Rightarrow> nat \<Rightarrow> nat \<Rightarrow> nat \<Rightarrow> (string \<times> json) list \<Rightarrow> (string \<times> json) list \<times> string option" where
  "truncate_loop lt cap origSize 0 m = (m, None)"
| "truncate_loop lt cap origSize (Suc attempts) m =
     (case shorten_values m of (m', shortened) \<Rightarrow>
        if \<not> shortened then (m', None)
        else
          let out = lt_render lt (JObj m') in
          if length out \<le> cap then
            (m', Some (lt_render lt (JObj (map_entries (m' @ [(''truncated_bytes'', JInt (int origSize - int (length out)))])))))
          else truncate_loop lt cap origSize attempts m')"

definition truncateJSON :: "log_text \<Rightarrow> string \<Rightarrow> nat \<Rightarrow> string" where
  "truncateJSON lt body cap =
     (case Option.bind (lt_parse lt body) object_entries of
        None \<Rightarrow> ''{\"msg\":\"log_entry_unparseable\",\"original_bytes\":'' @ itoa (int (length body)) @ ''}''
      | Some kvs \<Rightarrow>
          let origSize = length body;
              m = map_entries (map (\<lambda>kv. (fst kv, through_any (lt_num lt) (snd kv))) kvs)
          in case truncate_loop lt cap origSize 5 m of
               (_, Some out) \<Rightarrow> out
             | (m', None) \<Rightarrow>
                 let out = lt_render lt (JObj (map_entries (m' @
                       [(''truncated_bytes'', JInt (int origSize)), (''msg'', JStr ''log_entry_truncated'')])))
                 in if length out > cap
                    then ''{\"msg\":\"log_entry_truncated\",\"truncated_bytes\":'' @ itoa (int origSize) @ ''}''
                    else out)"

record Publisher =
  pb_enabled :: bool
  pb_capacity :: nat
  pb_queue :: "string list"
  pb_closed :: bool
  pb_drops :: nat            \<comment> \<open>the counter\<close>
  pb_stream :: "string list" \<comment> \<open>what was added to the Valkey stream\<close>
  pb_reported :: nat         \<comment> \<open>the drops that were reported to standard error\<close>

record log_options =
  lo_MaxLen :: int
  lo_QueueSize :: int
  lo_MaxEntrySize :: int
  lo_Enabled :: "bool option"

definition publisherEnabledFromOpts :: "log_options \<Rightarrow> bool" where
  "publisherEnabledFromOpts o1 = (case lo_Enabled o1 of None \<Rightarrow> True | Some b \<Rightarrow> b)"

definition NewPublisher :: "log_options \<Rightarrow> Publisher" where
  "NewPublisher o1 =
     \<lparr>pb_enabled = publisherEnabledFromOpts o1,
      pb_capacity = nat (if lo_QueueSize o1 \<le> 0 then 1000 else lo_QueueSize o1),
      pb_queue = [], pb_closed = False, pb_drops = 0, pb_stream = [], pb_reported = 0\<rparr>"

text \<open>\<^verbatim>\<open>write\<close>: the new state and the drops it reports; \<open>None\<close> is the panic of a send on a closed channel.\<close>

definition Publisher_write :: "log_text \<Rightarrow> string \<Rightarrow> Publisher \<Rightarrow> (Publisher \<times> nat) option" where
  "Publisher_write lt body p =
     (if \<not> pb_enabled p then Some (p, 0)
      else if pb_closed p then None
      else
        let body = (if length body > defaultMaxEntrySize then truncateJSON lt body defaultMaxEntrySize else body)
        in if length (pb_queue p) < pb_capacity p then Some (p\<lparr>pb_queue := pb_queue p @ [body]\<rparr>, 0)
           else Some (p\<lparr>pb_drops := pb_drops p + 1\<rparr>, 1))"

text \<open>One round of \<^verbatim>\<open>drain\<close>; \<open>ok\<close> says whether Valkey took the entry.\<close>

definition drain_one :: "bool \<Rightarrow> Publisher \<Rightarrow> Publisher" where
  "drain_one ok p =
     (case pb_queue p of
        [] \<Rightarrow> p
      | body # rest \<Rightarrow>
          if ok then p\<lparr>pb_queue := rest, pb_stream := pb_stream p @ [body]\<rparr>
          else p\<lparr>pb_queue := rest, pb_drops := pb_drops p + 1\<rparr>)"

definition warn_tick :: "Publisher \<Rightarrow> Publisher" where
  "warn_tick p = p\<lparr>pb_reported := pb_reported p + pb_drops p, pb_drops := 0\<rparr>"

definition Publisher_Close :: "Publisher \<Rightarrow> Publisher" where
  "Publisher_Close p = (if pb_enabled p then p\<lparr>pb_closed := True\<rparr> else p)"

definition Handler_Handle :: "log_text \<Rightarrow> Handler \<Rightarrow> log_record \<Rightarrow> Publisher \<Rightarrow> Publisher option" where
  "Handler_Handle lt h r p = map_option fst (Publisher_write lt (lt_render lt (renderJSON h r)) p)"

definition OptionsFromEnv :: "(string \<Rightarrow> int option) \<Rightarrow> (string \<Rightarrow> string) \<Rightarrow> log_options" where
  "OptionsFromEnv scan_int env =
     (let n = (if env ''LOG_STREAM_MAXLEN'' = [] then None else scan_int (env ''LOG_STREAM_MAXLEN''))
      in \<lparr>lo_MaxLen = (case n of Some v \<Rightarrow> if v > 0 then v else 10000 | None \<Rightarrow> 10000),
          lo_QueueSize = 0, lo_MaxEntrySize = 0, lo_Enabled = Some (env ''LOG_STREAM_ENABLED'' \<noteq> ''false'')\<rparr>)"

text \<open>
  The goroutines on one publisher: loggers writing, the drain, the warning ticker, and a close. The relation
  keeps the lines handed to \<^verbatim>\<open>write\<close>, after the cap, in order.
\<close>

definition capped :: "log_text \<Rightarrow> string \<Rightarrow> string" where
  "capped lt body = (if length body > defaultMaxEntrySize then truncateJSON lt body defaultMaxEntrySize else body)"

inductive pub_reach :: "log_text \<Rightarrow> log_options \<Rightarrow> Publisher \<Rightarrow> string list \<Rightarrow> bool" for lt o1 where
  start: "pub_reach lt o1 (NewPublisher o1) []"
| writes: "pub_reach lt o1 p ws \<Longrightarrow> Publisher_write lt body p = Some (p', n) \<Longrightarrow> pub_reach lt o1 p' (ws @ [capped lt body])"
| drains: "pub_reach lt o1 p ws \<Longrightarrow> pub_reach lt o1 (drain_one ok p) ws"
| warns: "pub_reach lt o1 p ws \<Longrightarrow> pub_reach lt o1 (warn_tick p) ws"
| closes: "pub_reach lt o1 p ws \<Longrightarrow> pub_reach lt o1 (Publisher_Close p) ws"

section \<open>No line is lost unnoticed\<close>

lemma subseq_drop_mid: "subseq (xs @ ys) zs \<Longrightarrow> subseq (xs @ drop 1 ys) zs"
  by (cases ys) (auto intro: subseq_order.trans [rotated] list_emb_append_mono)



end
