(* ===== verification/Log_View.thy ===== *)
theory Log_View
  imports Log_Stream Gateway_Turn
begin

text \<open>
  The gateway's view of the log streams (\<^verbatim>\<open>internal/gateway/logs.go\<close>): the services that have a stream, the filtered and
  merged history, and the tail that follows a stream. A stream is the list of its entries, oldest first, and
  the id of an entry is its position.
\<close>

section \<open>Entries and filters\<close>

record XMessage =
  xm_ID :: string
  xm_json :: "string option"     \<comment> \<open>the field \<^verbatim>\<open>json\<close>, when it is a string\<close>

record logEntry =
  le_Time :: string
  le_Level :: string
  le_Service :: string
  le_Msg :: string
  le_CorrelationID :: string
  le_RawJSON :: string
  le_StreamID :: string

record logFilters =
  lf_services :: "string list"
  lf_level :: string
  lf_correlationID :: string
  lf_query :: string
  lf_limit :: int

definition logLevels :: "string \<Rightarrow> int option" where
  "logLevels = map_of [(''DEBUG'', 0), (''INFO'', 1), (''WARN'', 2), (''ERROR'', 3)]"

definition string_member :: "(string \<times> json) list \<Rightarrow> string \<Rightarrow> string" where
  "string_member m k = (case map_of (rev m) k of Some (JStr v) \<Rightarrow> v | _ \<Rightarrow> [])"

definition decodeStreamEntry :: "(string \<Rightarrow> json option) \<Rightarrow> string \<Rightarrow> XMessage \<Rightarrow> logEntry option" where
  "decodeStreamEntry parse service m =
     (case xm_json m of
        None \<Rightarrow> None
      | Some raw \<Rightarrow>
          (case Option.bind (parse raw) object_entries of
             None \<Rightarrow> None
           | Some parsed \<Rightarrow> Some
               \<lparr>le_Time = string_member parsed ''time'', le_Level = string_member parsed ''level'', le_Service = service,
                le_Msg = string_member parsed ''msg'', le_CorrelationID = string_member parsed ''correlation_id'',
                le_RawJSON = raw, le_StreamID = xm_ID m\<rparr>))"

definition enc_logEntry :: "(string \<Rightarrow> json option) \<Rightarrow> logEntry \<Rightarrow> json" where
  "enc_logEntry parse e = JObj
     ([(''time'', JStr (le_Time e)), (''level'', JStr (le_Level e)), (''service'', JStr (le_Service e)), (''msg'', JStr (le_Msg e))] @
      omit_empty ''correlation_id'' (JStr (le_CorrelationID e)) @
      [(''raw'', case parse (le_RawJSON e) of Some j \<Rightarrow> j | None \<Rightarrow> JNull), (''stream_id'', JStr (le_StreamID e))])"

text \<open>\<open>q\<close> is \<^verbatim>\<open>r.URL.Query().Get\<close>.\<close>

definition parseLogFilters :: "(string \<Rightarrow> string) \<Rightarrow> logFilters" where
  "parseLogFilters q =
     \<lparr>lf_services = filter (\<lambda>s. s \<noteq> []) (map trim_space (if q ''services'' = [] then [] else split_on (CHR '','') (q ''services''))),
      lf_level = to_upper (trim_space (q ''level'')),
      lf_correlationID = trim_space (q ''correlation_id''),
      lf_query = to_lower (trim_space (q ''query'')),
      lf_limit = (case atoi (q ''limit'') of Some n \<Rightarrow> if n > 0 then n else 0 | None \<Rightarrow> 0)\<rparr>"

definition level_passes :: "string \<Rightarrow> string \<Rightarrow> bool" where
  "level_passes wanted level =
     (case logLevels wanted of
        None \<Rightarrow> True
      | Some m \<Rightarrow> (case logLevels (to_upper level) of None \<Rightarrow> True | Some got \<Rightarrow> m \<le> got))"

definition filterMatches :: "logEntry \<Rightarrow> logFilters \<Rightarrow> bool" where
  "filterMatches e f \<longleftrightarrow>
     (lf_level f = [] \<or> level_passes (lf_level f) (le_Level e)) \<and>
     (lf_correlationID f = [] \<or> has_prefix (le_CorrelationID e) (lf_correlationID f)) \<and>
     (lf_query f = [] \<or> contains_sub (to_lower (le_Msg e) @ '' '' @ to_lower (le_RawJSON e)) (lf_query f))"

section \<open>Services and history\<close>

text \<open>The pages of \<^verbatim>\<open>SCAN\<close> up to cursor 0, each a list of keys, or \<open>None\<close> for an error.\<close>

fun scan_services :: "string list option list \<Rightarrow> string list" where
  "scan_services [] = []"
| "scan_services (None # pages) = []"
| "scan_services (Some keys # pages) =
     filter (\<lambda>svc. svc \<noteq> []) (map (\<lambda>k. trim_prefix k ''log:'') keys) @ scan_services pages"

definition discoverLogStreams :: "string list option list \<Rightarrow> string list" where
  "discoverLogStreams pages = sort (remdups (scan_services pages))"

definition handleListLogServices :: "string list option list \<Rightarrow> gw_reply" where
  "handleListLogServices pages = GwBody 200 (JObj [(''services'', enc_list JStr (discoverLogStreams pages))])"

text \<open>
  The loop that collects entries until \<open>limit\<close> are found. \<open>streams name\<close> is a stream, \<open>None\<close> when it cannot be
  read; \<^verbatim>\<open>XREVRANGE\<close> with a count gives the newest entries, newest first.
\<close>

fun collect :: "(string \<Rightarrow> json option) \<Rightarrow> string \<Rightarrow> logFilters \<Rightarrow> nat \<Rightarrow> XMessage list \<Rightarrow> logEntry list \<Rightarrow> logEntry list" where
  "collect parse service f limit [] out = out"
| "collect parse service f limit (m # ms) out =
     (case decodeStreamEntry parse service m of
        None \<Rightarrow> collect parse service f limit ms out
      | Some entry \<Rightarrow>
          if \<not> filterMatches entry f then collect parse service f limit ms out
          else
            let out = out @ [entry] in
            if length out \<ge> limit then out else collect parse service f limit ms out)"

definition readStreamHistory ::
  "(string \<Rightarrow> json option) \<Rightarrow> (string \<Rightarrow> XMessage list option) \<Rightarrow> string \<Rightarrow> logFilters \<Rightarrow> int \<Rightarrow> logEntry list" where
  "readStreamHistory parse streams service f limit =
     (case streams (StreamName service) of
        None \<Rightarrow> []
      | Some ms \<Rightarrow> collect parse service f (nat limit) (take (nat (wrap64 (limit * 4))) (rev ms)) [])"

text \<open>
  \<^verbatim>\<open>make([]logEntry, 0, limit)\<close> panics when the 120 bytes of each entry add up to more than the 2 to the 48 bytes
  a 64-bit process can address; below that the memory is taken to be there.
\<close>

definition history_cap_ok :: "int \<Rightarrow> bool" where
  "history_cap_ok limit \<longleftrightarrow> limit * 120 \<le> 2 ^ 48"

definition history_limit :: "logFilters \<Rightarrow> int" where
  "history_limit f = (if lf_limit f \<le> 0 then 200 else lf_limit f)"

definition log_services :: "string list option list \<Rightarrow> logFilters \<Rightarrow> string list" where
  "log_services pages f = (if lf_services f = [] then discoverLogStreams pages else lf_services f)"

definition history_entries ::
  "(string \<Rightarrow> json option) \<Rightarrow> (string \<Rightarrow> XMessage list option) \<Rightarrow> string list option list \<Rightarrow> logFilters \<Rightarrow> logEntry list outcome" where
  "history_entries parse streams pages f =
     (let limit = history_limit f in
      if \<not> history_cap_ok limit then Panics
      else
        let entries = sort_key le_Time
              (concat (map (\<lambda>svc. readStreamHistory parse streams svc f limit) (log_services pages f)))
        in Returns (if length entries > nat limit then drop (length entries - nat limit) entries else entries))"

definition handleLogHistory ::
  "(string \<Rightarrow> json option) \<Rightarrow> (string \<Rightarrow> XMessage list option) \<Rightarrow> string list option list \<Rightarrow> (string \<Rightarrow> string) \<Rightarrow> gw_reply outcome" where
  "handleLogHistory parse streams pages q =
     (case history_entries parse streams pages (parseLogFilters q) of
        Panics \<Rightarrow> Panics
      | Returns entries \<Rightarrow> Returns (GwBody 200 (JObj [(''entries'', enc_list (enc_logEntry parse) entries)])))"

definition matching :: "(string \<Rightarrow> json option) \<Rightarrow> logFilters \<Rightarrow> string \<Rightarrow> XMessage list \<Rightarrow> logEntry list" where
  "matching parse f service ms = filter (\<lambda>e. filterMatches e f) (List.map_filter (decodeStreamEntry parse service) ms)"

section \<open>Following a stream\<close>

text \<open>
  \<^verbatim>\<open>tailStream\<close> is a loop of blocking reads of at most 32 entries after the last id it has seen; before the first
  entry the id is the dollar sign, which the server reads as the end of the stream at the time of the
  call. An entry that arrives while a read is blocked answers it at once.
\<close>

record log_tail =
  tl_stream :: "XMessage list"
  tl_last :: "nat option"     \<comment> \<open>the position after the last entry seen; \<open>None\<close> is the dollar sign\<close>
  tl_read :: "nat option"     \<comment> \<open>the position a blocked read waits at\<close>
  tl_out :: "XMessage list"   \<comment> \<open>what the reads returned\<close>

datatype tail_event = Arrives XMessage | Issues | TimesOut | Fails

definition tail_start :: "XMessage list \<Rightarrow> log_tail" where
  "tail_start ms = \<lparr>tl_stream = ms, tl_last = None, tl_read = None, tl_out = []\<rparr>"

definition tail_deliver :: "nat \<Rightarrow> log_tail \<Rightarrow> log_tail" where
  "tail_deliver p t =
     (let ms = take 32 (drop p (tl_stream t))
      in t\<lparr>tl_out := tl_out t @ ms, tl_last := Some (p + length ms), tl_read := None\<rparr>)"

fun tailStream :: "tail_event \<Rightarrow> log_tail \<Rightarrow> log_tail" where
  "tailStream (Arrives m) t =
     (let t' = t\<lparr>tl_stream := tl_stream t @ [m]\<rparr>
      in case tl_read t of Some p \<Rightarrow> tail_deliver p t' | None \<Rightarrow> t')"
| "tailStream Issues t =
     (case tl_read t of
        Some _ \<Rightarrow> t
      | None \<Rightarrow>
          let p = (case tl_last t of None \<Rightarrow> length (tl_stream t) | Some n \<Rightarrow> n)
          in if p < length (tl_stream t) then tail_deliver p t else t\<lparr>tl_read := Some p\<rparr>)"
| "tailStream TimesOut t = t\<lparr>tl_read := None\<rparr>"
| "tailStream Fails t = t\<lparr>tl_read := None\<rparr>"

definition tail_run :: "tail_event list \<Rightarrow> XMessage list \<Rightarrow> log_tail" where
  "tail_run evs ms = fold tailStream evs (tail_start ms)"

text \<open>What \<^verbatim>\<open>handleLogTail\<close> writes for the entries of one service.\<close>

definition handleLogTail :: "(string \<Rightarrow> json option) \<Rightarrow> logFilters \<Rightarrow> string \<Rightarrow> log_tail \<Rightarrow> json list" where
  "handleLogTail parse f service t = map (enc_logEntry parse) (matching parse f service (tl_out t))"

section \<open>The history\<close>

lemma matching_Cons:
  "matching parse f svc (m # ms) =
     (case decodeStreamEntry parse svc m of
        None \<Rightarrow> matching parse f svc ms
      | Some e \<Rightarrow> if filterMatches e f then e # matching parse f svc ms else matching parse f svc ms)"
  by (simp add: matching_def List.map_filter_simps split: option.splits)

lemma collect_eq:
  "length out < limit \<Longrightarrow>
    collect parse svc f limit ms out = out @ take (limit - length out) (matching parse f svc ms)"
proof (induction ms arbitrary: out)
  case Nil
  then show ?case by (simp add: matching_def List.map_filter_simps)
next
  case (Cons m ms)
  note Cons.IH [of "out @ [the (decodeStreamEntry parse svc m)]"]
  moreover have "limit - length out = Suc (limit - Suc (length out))" using Cons.prems by simp
  ultimately show ?case using Cons by (auto simp: matching_Cons Let_def split: option.splits)
qed

definition visible :: "(string \<Rightarrow> json option) \<Rightarrow> (string \<Rightarrow> XMessage list option) \<Rightarrow> logFilters \<Rightarrow> nat \<Rightarrow> string \<Rightarrow> logEntry list" where
  "visible parse streams f limit svc =
     (case streams (StreamName svc) of None \<Rightarrow> [] | Some ms \<Rightarrow> matching parse f svc (take (4 * limit) (rev ms)))"

lemma history_limit_pos: "0 < history_limit f"
  by (simp add: history_limit_def)

lemma readStreamHistory_eq:
  assumes "0 < limit" "history_cap_ok limit"
  shows "readStreamHistory parse streams svc f limit = take (nat limit) (visible parse streams f (nat limit) svc)"
proof -
  have "wrap64 (limit * 4) = limit * 4"
    using assms by (intro wrap64_id) (auto simp: history_cap_ok_def)
  then have "nat (wrap64 (limit * 4)) = 4 * nat limit" by simp
  then show ?thesis
    using assms(1) by (auto simp: readStreamHistory_def visible_def collect_eq split: option.splits)
qed

lemma decode_service: "decodeStreamEntry parse svc m = Some e \<Longrightarrow> le_Service e = svc"
  by (auto simp: decodeStreamEntry_def split: option.splits)

lemma matching_entry:
  "e \<in> set (matching parse f svc ms) \<Longrightarrow>
    filterMatches e f \<and> le_Service e = svc \<and> (\<exists>m \<in> set ms. decodeStreamEntry parse svc m = Some e)"
  by (auto simp: matching_def List.map_filter_def dest: decode_service)

lemma visible_entry:
  "e \<in> set (visible parse streams f limit svc) \<Longrightarrow>
    filterMatches e f \<and> le_Service e = svc \<and>
    (\<exists>ms. streams (StreamName svc) = Some ms \<and> (\<exists>m \<in> set ms. decodeStreamEntry parse svc m = Some e))"
  by (cases "streams (StreamName svc)") (auto simp: visible_def dest!: matching_entry in_set_takeD)

lemma history_panics_iff:
  "history_entries parse streams pages f = Panics \<longleftrightarrow> \<not> history_cap_ok (history_limit f)"
  by (simp add: history_entries_def Let_def)

lemma history_entries_eq:
  assumes "history_entries parse streams pages f = Returns es"
  defines "limit \<equiv> nat (history_limit f)"
  defines "found \<equiv> concat (map (\<lambda>svc. take limit (visible parse streams f limit svc)) (log_services pages f))"
  shows "es = drop (length found - limit) (sort_key le_Time found)"
  using assms(1) unfolding found_def limit_def
  by (auto simp: history_entries_def Let_def readStreamHistory_eq history_limit_pos split: if_splits)

lemma concat_takes_full:
  assumes "svc \<in> set svcs" "e \<in> set (g svc)" "e \<notin> set (concat (map (\<lambda>s. take n (g s)) svcs))"
  shows "n \<le> length (concat (map (\<lambda>s. take n (g s)) svcs))"
proof -
  have "e \<notin> set (take n (g svc))" using assms(1,3) by auto
  with assms(2) have "length (take n (g svc)) = n"
    by (metis append_take_drop_id length_take linorder_not_less min.absorb2 nat_less_le take_all_iff)
  moreover have "length (take n (g svc)) \<le> length (concat (map (\<lambda>s. take n (g s)) svcs))"
    using assms(1) by (induction svcs) auto
  ultimately show ?thesis by simp
qed

text \<open>
  The log history. A request whose limit does not panic returns at most that many entries, in the order of
  their time text; each comes from the stream of a selected service and passes every filter; and an entry
  that passes them and is among the newest entries read of its stream, four times the limit, is left out
  only when the answer is full.
\<close>

theorem log_history:
  assumes "history_entries parse streams pages f = Returns es"
  shows "int (length es) \<le> history_limit f \<and> sorted (map le_Time es) \<and>
    (\<forall>e \<in> set es. filterMatches e f \<and> le_Service e \<in> set (log_services pages f) \<and>
       (\<exists>ms m. streams (StreamName (le_Service e)) = Some ms \<and> m \<in> set ms \<and> decodeStreamEntry parse (le_Service e) m = Some e)) \<and>
    (\<forall>svc \<in> set (log_services pages f). \<forall>e \<in> set (visible parse streams f (nat (history_limit f)) svc).
       e \<in> set es \<or> int (length es) = history_limit f)"
proof -
  define limit where "limit = nat (history_limit f)"
  define found where "found = concat (map (\<lambda>svc. take limit (visible parse streams f limit svc)) (log_services pages f))"
  have es: "es = drop (length found - limit) (sort_key le_Time found)"
    using history_entries_eq [OF assms] unfolding found_def limit_def by simp
  have len: "length es = min limit (length found)" by (simp add: es)
  have L: "int limit = history_limit f" using history_limit_pos [of f] by (simp add: limit_def)
  have "set es \<subseteq> set found" using set_drop_subset [of _ "sort_key le_Time found"] by (auto simp: es)
  moreover have "\<exists>svc \<in> set (log_services pages f). e \<in> set (visible parse streams f limit svc)" if "e \<in> set found" for e
    using that by (auto simp: found_def dest: in_set_takeD)
  ultimately have "\<forall>e \<in> set es. filterMatches e f \<and> le_Service e \<in> set (log_services pages f) \<and>
       (\<exists>ms m. streams (StreamName (le_Service e)) = Some ms \<and> m \<in> set ms \<and> decodeStreamEntry parse (le_Service e) m = Some e)"
    using visible_entry by blast
  moreover have "sorted (map le_Time es)"
    unfolding es drop_map [symmetric] by (rule sorted_wrt_drop) simp
  moreover have "e \<in> set es \<or> length es = limit"
    if "svc \<in> set (log_services pages f)" "e \<in> set (visible parse streams f limit svc)" for svc e
  proof (cases "limit \<le> length found")
    case False
    then have "set es = set found" by (simp add: es)
    with False concat_takes_full [of svc _ e "visible parse streams f limit" limit, OF that] show ?thesis
      unfolding found_def by blast
  qed (simp add: len)
  moreover have "int (length es) \<le> history_limit f" "length es = limit \<longleftrightarrow> int (length es) = history_limit f"
    using L len by auto
  ultimately show ?thesis unfolding limit_def by blast
qed

theorem log_history_witness:
  "\<exists>parse streams f es. history_entries parse streams [] f = Returns es \<and> int (length es) \<le> history_limit f \<and>
    filterMatches (hd es) f \<and> map le_StreamID es = [''1-0'']"
proof -
  let ?ms = "[\<lparr>xm_ID = ''1-0'', xm_json = Some ''a''\<rparr>, \<lparr>xm_ID = ''2-0'', xm_json = None\<rparr>]"
  let ?parse = "\<lambda>s. Some (JObj [(''time'', JStr ''t''), (''level'', JStr ''WARN'')])"
  let ?f = "\<lparr>lf_services = [''exec''], lf_level = ''INFO'', lf_correlationID = [], lf_query = [], lf_limit = 5\<rparr>"
  let ?streams = "\<lambda>k. if k = ''log:exec'' then Some ?ms else None"
  let ?e = "\<lparr>le_Time = ''t'', le_Level = ''WARN'', le_Service = ''exec'', le_Msg = [], le_CorrelationID = [],
    le_RawJSON = ''a'', le_StreamID = ''1-0''\<rparr>"
  have "history_entries ?parse ?streams [] ?f = Returns [?e]" by code_simp
  from this log_history [OF this] show ?thesis
    by (intro exI [of _ ?parse] exI [of _ ?streams] exI [of _ ?f] exI [of _ "[?e]"]) simp
qed

section \<open>The tail\<close>

text \<open>What has been returned is the run of the stream that ends at the last entry seen.\<close>

definition tail_inv :: "log_tail \<Rightarrow> bool" where
  "tail_inv t \<longleftrightarrow>
     (case tl_last t of
        None \<Rightarrow> tl_out t = []
      | Some n \<Rightarrow> n \<le> length (tl_stream t) \<and> (\<exists>a \<le> n. tl_out t = drop a (take n (tl_stream t)))) \<and>
     (case tl_read t of
        None \<Rightarrow> True
      | Some p \<Rightarrow> p = length (tl_stream t) \<and> (tl_last t = None \<or> tl_last t = Some p))"

lemma tail_deliver_simps:
  assumes "a \<le> p" "p \<le> length (tl_stream t)" "tl_out t = drop a (take p (tl_stream t))"
  shows "tl_out (tail_deliver p t) = drop a (take (min (p + 32) (length (tl_stream t))) (tl_stream t))"
    "tl_last (tail_deliver p t) = Some (min (p + 32) (length (tl_stream t)))"
    "tl_read (tail_deliver p t) = None" "tl_stream (tail_deliver p t) = tl_stream t"
proof -
  have "tl_out t @ take 32 (drop p (tl_stream t)) = drop a (take (p + 32) (tl_stream t))"
    using assms by (simp add: take_add)
  also have "\<dots> = drop a (take (min (p + 32) (length (tl_stream t))) (tl_stream t))"
    by (simp add: min_def)
  finally show "tl_out (tail_deliver p t) = drop a (take (min (p + 32) (length (tl_stream t))) (tl_stream t))"
    by (simp add: tail_deliver_def Let_def)
  show "tl_last (tail_deliver p t) = Some (min (p + 32) (length (tl_stream t)))"
    using assms(2) by (auto simp: tail_deliver_def Let_def)
qed (simp_all add: tail_deliver_def Let_def)

lemma tail_deliver_inv:
  assumes "p \<le> length (tl_stream t)"
    "tl_last t = None \<and> tl_out t = [] \<or> tl_last t = Some p \<and> (\<exists>a \<le> p. tl_out t = drop a (take p (tl_stream t)))"
  shows "tail_inv (tail_deliver p t)"
proof -
  obtain a where "a \<le> p" "tl_out t = drop a (take p (tl_stream t))"
    using assms by (cases "tl_last t") auto
  with assms(1) show ?thesis by (auto simp: tail_inv_def tail_deliver_simps [of a] intro!: exI [of _ a])
qed

lemma tail_arrive_inv: "tail_inv t \<Longrightarrow> tail_inv (tailStream (Arrives m) t)"
proof (cases "tl_read t")
  case None
  assume "tail_inv t"
  with None show ?thesis by (auto simp: tail_inv_def split: option.splits)
next
  case (Some p)
  assume "tail_inv t"
  with Some have "tail_inv (tail_deliver p (t\<lparr>tl_stream := tl_stream t @ [m]\<rparr>))"
    by (intro tail_deliver_inv) (auto simp: tail_inv_def split: option.splits)
  with Some show ?thesis by simp
qed

lemma tail_issue_inv: "tail_inv t \<Longrightarrow> tail_inv (tailStream Issues t)"
proof (cases "tl_read t")
  case None
  assume inv: "tail_inv t"
  show ?thesis
  proof (cases "tl_last t")
    case None
    with \<open>tl_read t = None\<close> inv show ?thesis by (simp add: tail_inv_def)
  next
    case (Some n)
    show ?thesis
    proof (cases "n < length (tl_stream t)")
      case True
      with inv Some have "tail_inv (tail_deliver n t)" by (intro tail_deliver_inv) (auto simp: tail_inv_def)
      with True Some \<open>tl_read t = None\<close> show ?thesis by simp
    next
      case False
      with inv Some \<open>tl_read t = None\<close> show ?thesis by (auto simp: tail_inv_def)
    qed
  qed
qed simp

lemma tail_idle_inv: "tail_inv t \<Longrightarrow> tail_inv (t\<lparr>tl_read := None\<rparr>)"
  by (simp add: tail_inv_def split: option.splits)

lemma tailStream_inv: "tail_inv t \<Longrightarrow> tail_inv (tailStream ev t)"
  by (cases ev) (simp_all only: tail_arrive_inv tail_issue_inv tailStream.simps(3,4) tail_idle_inv)

lemma tail_run_inv: "tail_inv (tail_run evs ms)"
  unfolding tail_run_def
  by (rule fold_invariant [where Q = "\<lambda>_. True"])
    (simp_all add: tailStream_inv, simp add: tail_inv_def tail_start_def)

lemma tail_waits: "(tailStream Issues ^^ k) (t\<lparr>tl_read := Some n\<rparr>) = t\<lparr>tl_read := Some n\<rparr>"
  by (induction k) auto

lemma tail_catches_up:
  "tl_last t = Some n \<Longrightarrow> tl_read t = None \<Longrightarrow> a \<le> n \<Longrightarrow> n \<le> length (tl_stream t) \<Longrightarrow>
    tl_out t = drop a (take n (tl_stream t)) \<Longrightarrow> length (tl_stream t) - n \<le> k \<Longrightarrow>
    tl_out (fold tailStream (replicate k Issues) t) = drop a (tl_stream t)"
proof (induction k arbitrary: n t)
  case 0
  then show ?case by simp
next
  case (Suc k)
  show ?case
  proof (cases "n < length (tl_stream t)")
    case True
    let ?t = "tail_deliver n t"
    from True Suc.prems have "fold tailStream (replicate (Suc k) Issues) t = fold tailStream (replicate k Issues) ?t" by simp
    also have "tl_out \<dots> = drop a (tl_stream ?t)"
      using Suc.prems True
      by (intro Suc.IH [of ?t "min (n + 32) (length (tl_stream t))"]) (auto simp: tail_deliver_simps [of a])
    finally show ?thesis by (simp add: tail_deliver_def Let_def)
  next
    case False
    with Suc.prems show ?thesis by (simp add: tail_waits)
  qed
qed

text \<open>
  C30. The tail of a stream has no gaps. Whatever the order of arrivals, reads, time-outs and read errors, what the
  tail has been given is a contiguous run of the stream, in order and without repetition. Once it has seen
  an entry it reaches the end of the stream: if nothing more arrives, some number of further reads
  brings everything from the first entry seen.
\<close>

theorem tail_gapless:
  "\<exists>a n. a \<le> n \<and> n \<le> length (tl_stream (tail_run evs ms)) \<and>
    tl_out (tail_run evs ms) = drop a (take n (tl_stream (tail_run evs ms))) \<and>
    (tl_last (tail_run evs ms) \<noteq> None \<longrightarrow>
       (\<exists>k. tl_out (tail_run (evs @ TimesOut # replicate k Issues) ms) = drop a (tl_stream (tail_run evs ms))))"
proof (cases "tl_last (tail_run evs ms)")
  case None
  then show ?thesis using tail_run_inv [of evs ms] by (auto simp: tail_inv_def intro!: exI [of _ 0])
next
  case (Some n)
  let ?t = "tail_run evs ms"
  from Some obtain a where a: "n \<le> length (tl_stream ?t)" "a \<le> n" "tl_out ?t = drop a (take n (tl_stream ?t))"
    using tail_run_inv [of evs ms] by (auto simp: tail_inv_def)
  have "tl_out (tail_run (evs @ TimesOut # replicate (length (tl_stream ?t)) Issues) ms) = drop a (tl_stream ?t)"
    using tail_catches_up [of "?t\<lparr>tl_read := None\<rparr>" n a "length (tl_stream ?t)"] Some a
    by (simp add: tail_run_def)
  with a show ?thesis by blast
qed

theorem tail_gapless_witness:
  "\<exists>k. tl_out (tail_run ([Issues, Arrives \<lparr>xm_ID = ''1'', xm_json = None\<rparr>, Arrives \<lparr>xm_ID = ''2'', xm_json = None\<rparr>] @
      TimesOut # replicate k Issues) []) = [\<lparr>xm_ID = ''1'', xm_json = None\<rparr>, \<lparr>xm_ID = ''2'', xm_json = None\<rparr>]"
proof -
  let ?m = "\<lambda>i. \<lparr>xm_ID = i, xm_json = None\<rparr>"
  let ?evs = "[Issues, Arrives (?m ''1''), Arrives (?m ''2'')]"
  have t: "tail_run ?evs [] = \<lparr>tl_stream = [?m ''1'', ?m ''2''], tl_last = Some 1, tl_read = None, tl_out = [?m ''1'']\<rparr>"
    by code_simp
  from tail_gapless [of ?evs "[]"] obtain a n k where *: "a \<le> n" "n \<le> 2" "[?m ''1''] = drop a (take n [?m ''1'', ?m ''2''])"
      "tl_out (tail_run (?evs @ TimesOut # replicate k Issues) []) = drop a [?m ''1'', ?m ''2'']"
    unfolding t by auto
  from *(3) have "a = 0"
    by (cases a; cases n; cases "n - 1") (auto simp: take_Cons' drop_Cons' split: if_splits)
  with *(4) show ?thesis by auto
qed

text \<open>
  An entry that arrives after a first read has timed out and before the next one is issued is never shown:
  the dollar sign is resolved again.
\<close>

theorem tail_misses_first_entry:
  "handleLogTail parse f svc (tail_run [Issues, TimesOut, Arrives m, Issues] []) = []"
  by (simp add: tail_run_def tail_start_def handleLogTail_def matching_def List.map_filter_simps)

end
