(* ===== verification/Llm_Proxy.thy ===== *)
theory Llm_Proxy
  imports Slot_Protocol
begin

text \<open>
  The LLM proxy (\<^verbatim>\<open>internal/llmproxy/server.go\<close>): an OpenAI-compatible endpoint through which the memory engine shares the
  broker's slots. A request takes a slot of the hindsight class, sends its LLM request to the broker, collects the
  replies, answers at once or as a stream of chunks, and gives the slot back. The writer is taken to accept
  what is written to it; the counter of outstanding requests is back at its value when a request returns and is
  never read.
\<close>

section \<open>Configuration and requests\<close>

record proxy_config =
  px_Identity :: string
  px_SlotTimeout :: int
  px_RequestTimeout :: int

definition proxy_New :: "proxy_config \<Rightarrow> proxy_config" where
  "proxy_New cfg =
     \<lparr>px_Identity = (if px_Identity cfg = [] then ''llm-proxy'' else px_Identity cfg),
      px_SlotTimeout = (if px_SlotTimeout cfg \<le> 0 then 10000000000 else px_SlotTimeout cfg),
      px_RequestTimeout = (if px_RequestTimeout cfg \<le> 0 then 120000000000 else px_RequestTimeout cfg)\<rparr>"

record openAIChatRequest =
  pq_Model :: string
  pq_Messages :: "ChatMsg list"
  pq_Stream :: bool
  pq_Tools :: "json list"
  pq_ToolChoice :: "json option"    \<comment> \<open>\<^verbatim>\<open>json.RawMessage\<close>, \<open>None\<close> when the member is missing\<close>

definition dec_openAIChatRequest :: "json \<Rightarrow> openAIChatRequest option" where
  "dec_openAIChatRequest = dec_struct
     [fld ''model'' dec_string pq_Model pq_Model_update,
      fld ''messages'' (dec_list zero_ChatMsg dec_ChatMsg) pq_Messages pq_Messages_update,
      fld ''stream'' dec_bool pq_Stream pq_Stream_update,
      fld ''tools'' (dec_list JNull dec_raw) pq_Tools pq_Tools_update,
      fld ''tool_choice'' (\<lambda>old j. Some (Some j)) pq_ToolChoice pq_ToolChoice_update]
     \<lparr>pq_Model = [], pq_Messages = [], pq_Stream = False, pq_Tools = [], pq_ToolChoice = None\<rparr>"

text \<open>\<open>raw_text\<close> is the text of a JSON value as it stands in the request.\<close>

definition decodeToolChoice :: "(json \<Rightarrow> string) \<Rightarrow> json option \<Rightarrow> string" where
  "decodeToolChoice raw_text raw =
     (case raw of
        None \<Rightarrow> []
      | Some j \<Rightarrow> (case dec_string [] j of Some s \<Rightarrow> s | None \<Rightarrow> raw_text j))"

definition finishReason :: "ToolCall list \<Rightarrow> string" where
  "finishReason tools = (if tools \<noteq> [] then ''tool_calls'' else ''stop'')"

datatype px_reply =
    PxError int string string
  | PxBody json
  | PxChunks "json list"     \<comment> \<open>the chunks, followed by \<^verbatim>\<open>[DONE]\<close>\<close>

definition handleHealth :: px_reply where
  "handleHealth = PxBody (JObj [(''status'', JStr ''ok'')])"

section \<open>The slot\<close>

definition px_slot_request :: "rt_env \<Rightarrow> proxy_config \<Rightarrow> Message" where
  "px_slot_request e cfg =
     (NewMessage (re_fresh e 0) (re_now e) TypeSlotRequest (px_Identity cfg)
        (enc_SlotRequestPayload \<lparr>sr_AgentID = px_Identity cfg, sr_Priority = 0, sr_SlotClass = SlotClassHindsight\<rparr>))
     \<lparr>m_ReplyStream := ''stream:reply:'' @ px_Identity cfg @ '':'' @ itoa (re_now e)\<rparr>"

definition px_slot_ack :: "rt_env \<Rightarrow> proxy_config \<Rightarrow> int \<Rightarrow> Message" where
  "px_slot_ack e cfg slotID =
     (NewMessage (re_fresh e 1) (re_now e) TypeSlotAssignedAck (px_Identity cfg)
        (enc_SlotAssignedAckPayload \<lparr>ack_AgentID = px_Identity cfg, ack_SlotID = slotID\<rparr>))
     \<lparr>m_CorrelationID := m_CorrelationID (px_slot_request e cfg)\<rparr>"

text \<open>The messages published and the slot or the error.\<close>

definition acquireSlot :: "rt_env \<Rightarrow> proxy_config \<Rightarrow> Message list \<times> (rt_error + int)" where
  "acquireSlot e cfg =
     (let slotMsg = px_slot_request e cfg in
      if \<not> re_publish e slotMsg then ([], Inl PublishFailed)
      else case re_wait e (m_ReplyStream slotMsg) (m_CorrelationID slotMsg) of
        Inl err \<Rightarrow> ([slotMsg], Inl (WaitFailed err))
      | Inr reply \<Rightarrow>
          (case dec_SlotAssignedPayload (m_Payload reply) of
             None \<Rightarrow> ([slotMsg], Inl DecodeFailed)
           | Some payload \<Rightarrow>
               let ackMsg = px_slot_ack e cfg (sa_SlotID payload) in
               if \<not> re_publish e ackMsg then ([slotMsg], Inl PublishFailed)
               else ([slotMsg, ackMsg], Inr (sa_SlotID payload))))"

definition px_release :: "rt_env \<Rightarrow> nat \<Rightarrow> proxy_config \<Rightarrow> int \<Rightarrow> Message list" where
  "px_release e n cfg slotID =
     (let relMsg = release_msg e n (px_Identity cfg) slotID in if re_publish e relMsg then [relMsg] else [])"

definition proxy_defensiveRelease :: "rt_env \<Rightarrow> proxy_config \<Rightarrow> Message list" where
  "proxy_defensiveRelease e cfg = px_release e 2 cfg (-1)"

definition px_llm_request :: "rt_env \<Rightarrow> (json \<Rightarrow> string) \<Rightarrow> proxy_config \<Rightarrow> int \<Rightarrow> openAIChatRequest \<Rightarrow> Message" where
  "px_llm_request e raw_text cfg slotID req =
     (NewMessage (re_fresh e 4) (re_now e) TypeChatRequest (px_Identity cfg)
        (enc_LLMRequestPayload \<lparr>lr_SlotID = slotID, lr_SlotClass = SlotClassHindsight, lr_Messages = pq_Messages req,
           lr_Stream = pq_Stream req, lr_Tools = pq_Tools req, lr_ToolChoice = decodeToolChoice raw_text (pq_ToolChoice req)\<rparr>))
     \<lparr>m_ReplyStream := ''stream:llm-reply:'' @ px_Identity cfg @ '':'' @ itoa (re_now e)\<rparr>"

definition publishLLMRequest ::
  "rt_env \<Rightarrow> (json \<Rightarrow> string) \<Rightarrow> proxy_config \<Rightarrow> int \<Rightarrow> openAIChatRequest \<Rightarrow> Message list \<times> (rt_error + string)" where
  "publishLLMRequest e raw_text cfg slotID req =
     (let reqMsg = px_llm_request e raw_text cfg slotID req in
      if \<not> re_publish e reqMsg then ([], Inl PublishFailed) else ([reqMsg], Inr (m_CorrelationID reqMsg)))"

section \<open>Collecting the replies\<close>

text \<open>
  One round: the error of a context that is done when the round starts, and the outcome of \<^verbatim>\<open>ReadGroup\<close>, where \<open>Inl\<close>
  carries the error of the context if that is the reason. The callbacks are lists of what they were called with.
\<close>

record px_round =
  pr_gone :: "string option"
  pr_read :: "string option + (Message \<times> string) list"

record px_state =
  ps_tokens :: "string list"
  ps_calls :: "ToolCall list"
  ps_acks :: "string list"

fun px_batch :: "(Message \<times> string) list \<Rightarrow> px_state \<Rightarrow> px_state \<times> bool" where
  "px_batch [] x = (x, False)"
| "px_batch ((msg, eid) # ms) x =
     (let x = x\<lparr>ps_acks := ps_acks x @ [eid]\<rparr> in
      if m_Type msg = TypeToolCall then
        (case dec_ToolCallPayload (m_Payload msg) of
           None \<Rightarrow> px_batch ms x
         | Some payload \<Rightarrow> px_batch ms (x\<lparr>ps_calls := ps_calls x @ [tcp_Call payload]\<rparr>))
      else if m_Type msg = TypeToken then
        (case dec_TokenPayload (m_Payload msg) of
           None \<Rightarrow> px_batch ms x
         | Some token \<Rightarrow>
             if tk_Done token then (x, True)
             else if tk_Token token \<noteq> [] then px_batch ms (x\<lparr>ps_tokens := ps_tokens x @ [tk_Token token]\<rparr>)
             else px_batch ms x)
      else px_batch ms x)"

text \<open>The loop: the state, and \<open>None\<close> while it runs, \<open>Some None\<close> at the done token, \<open>Some\<close> of an error at the end of a context.\<close>

fun consumeReplyWithCallbacks :: "px_round list \<Rightarrow> px_state \<Rightarrow> px_state \<times> string option option" where
  "consumeReplyWithCallbacks [] x = (x, None)"
| "consumeReplyWithCallbacks (rd # rds) x =
     (case pr_gone rd of
        Some err \<Rightarrow> (x, Some (Some err))
      | None \<Rightarrow>
          (case pr_read rd of
             Inl (Some err) \<Rightarrow> (x, Some (Some err))
           | Inl None \<Rightarrow> consumeReplyWithCallbacks rds x
           | Inr msgs \<Rightarrow>
               (case px_batch msgs x of
                  (x', True) \<Rightarrow> (x', Some None)
                | (x', False) \<Rightarrow> consumeReplyWithCallbacks rds x')))"

definition px_start :: px_state where
  "px_start = \<lparr>ps_tokens = [], ps_calls = [], ps_acks = []\<rparr>"

definition consumeReply :: "px_round list \<Rightarrow> string \<times> ToolCall list \<times> string option option" where
  "consumeReply rounds =
     (case consumeReplyWithCallbacks rounds px_start of (x, res) \<Rightarrow> (concat (ps_tokens x), ps_calls x, res))"

section \<open>Answers\<close>

definition px_response :: "string \<Rightarrow> int \<Rightarrow> string \<Rightarrow> string \<Rightarrow> ToolCall list \<Rightarrow> json" where
  "px_response corrID created model content toolCalls = JObj
     [(''id'', JStr (''chatcmpl-'' @ corrID)), (''object'', JStr ''chat.completion''), (''created'', JInt created),
      (''model'', JStr model),
      (''choices'', JArr [JObj
        [(''index'', JInt 0),
         (''message'', JObj ([(''role'', JStr ''assistant''), (''content'', JStr content)] @
            omit_empty ''tool_calls'' (enc_list enc_ToolCall toolCalls))),
         (''finish_reason'', JStr (finishReason toolCalls))]])]"

definition aggregateResponse :: "string \<Rightarrow> int \<Rightarrow> string \<Rightarrow> px_round list \<Rightarrow> px_reply option" where
  "aggregateResponse corrID created model rounds =
     (case consumeReply rounds of
        (content, toolCalls, None) \<Rightarrow> None
      | (content, toolCalls, Some (Some err)) \<Rightarrow> Some (PxError 502 ''upstream_error'' err)
      | (content, toolCalls, Some None) \<Rightarrow> Some (PxBody (px_response corrID created model content toolCalls)))"

definition px_chunk :: "string \<Rightarrow> int \<Rightarrow> string \<Rightarrow> (string \<times> json) list \<Rightarrow> json \<Rightarrow> json" where
  "px_chunk corrID created model delta finish = JObj
     [(''id'', JStr (''chatcmpl-'' @ corrID)), (''object'', JStr ''chat.completion.chunk''), (''created'', JInt created),
      (''model'', JStr model),
      (''choices'', JArr [JObj [(''index'', JInt 0), (''delta'', JObj delta), (''finish_reason'', finish)]])]"

definition px_final_chunk :: "string \<Rightarrow> int \<Rightarrow> string \<Rightarrow> ToolCall list \<Rightarrow> json" where
  "px_final_chunk corrID created model calls =
     (if calls \<noteq> [] then px_chunk corrID created model (omit_empty ''tool_calls'' (enc_list enc_ToolCall calls)) (JStr ''tool_calls'')
      else px_chunk corrID created model [] (JStr ''stop''))"

definition streamResponse :: "bool \<Rightarrow> string \<Rightarrow> int \<Rightarrow> string \<Rightarrow> px_round list \<Rightarrow> px_reply option" where
  "streamResponse flusher corrID created model rounds =
     (if \<not> flusher then Some (PxError 500 ''internal_error'' ''streaming not supported'')
      else case consumeReplyWithCallbacks rounds px_start of
        (x, None) \<Rightarrow> None
      | (x, Some _) \<Rightarrow> Some (PxChunks
          ([px_chunk corrID created model [(''role'', JStr ''assistant'')] JNull] @
           map (\<lambda>tok. px_chunk corrID created model (omit_empty ''content'' (JStr tok)) JNull) (ps_tokens x) @
           [px_final_chunk corrID created model (ps_calls x)])))"

text \<open>
  The handler: the messages published in order, and the reply, \<open>None\<close> while the loop runs. \<open>err_text\<close> is the text
  of an error, \<open>bad\<close> that of a body that does not decode. A deferred release follows the reply.
\<close>

definition proxy_handleChatCompletions ::
  "rt_env \<Rightarrow> (rt_error \<Rightarrow> string) \<Rightarrow> (json \<Rightarrow> string) \<Rightarrow> proxy_config \<Rightarrow> bool \<Rightarrow> int \<Rightarrow> string \<Rightarrow> string \<Rightarrow> json option \<Rightarrow> px_round list \<Rightarrow>
     Message list \<times> px_reply option" where
  "proxy_handleChatCompletions e err_text raw_text cfg flusher created header bad body rounds =
     (let corrID = (if header = [] then re_fresh e 5 else header) in
      case Option.bind body dec_openAIChatRequest of
        None \<Rightarrow> ([], Some (PxError 400 ''invalid_request'' bad))
      | Some req \<Rightarrow>
     (case acquireSlot e cfg of
        (sent, Inl err) \<Rightarrow>
          (sent @ proxy_defensiveRelease e cfg, Some (PxError 503 ''slot_unavailable'' (err_text err)))
      | (sent, Inr slotID) \<Rightarrow>
     (case publishLLMRequest e raw_text cfg slotID req of
        (sent2, Inl err) \<Rightarrow>
          (sent @ sent2 @ px_release e 3 cfg slotID, Some (PxError 502 ''publish_error'' (err_text err)))
      | (sent2, Inr llmCorrID) \<Rightarrow>
          if \<not> re_group e then
            (sent @ sent2 @ px_release e 3 cfg slotID, Some (PxError 500 ''internal_error'' (err_text GroupFailed)))
          else
            let reply = (if pq_Stream req then streamResponse flusher corrID created (pq_Model req) rounds
                         else aggregateResponse corrID created (pq_Model req) rounds)
            in (sent @ sent2 @ (if reply = None then [] else px_release e 3 cfg slotID), reply))))"

section \<open>The loop over its stream\<close>

definition px_entries :: "px_round list \<Rightarrow> (Message \<times> string) list" where
  "px_entries rounds = concat (map (\<lambda>rd. case pr_read rd of Inl _ \<Rightarrow> [] | Inr ms \<Rightarrow> ms) rounds)"

definition px_calm :: "px_round list \<Rightarrow> bool" where
  "px_calm rounds \<longleftrightarrow> list_all (\<lambda>rd. pr_gone rd = None \<and> (case pr_read rd of Inl (Some _) \<Rightarrow> False | _ \<Rightarrow> True)) rounds"

lemma px_batch_append:
  "px_batch (ms @ ns) x = (case px_batch ms x of (x', True) \<Rightarrow> (x', True) | (x', False) \<Rightarrow> px_batch ns x')"
  by (induction ms x rule: px_batch.induct) (auto simp: Let_def split: option.splits prod.splits if_splits bool.splits)

lemma consume_stream:
  "px_calm rounds \<Longrightarrow> consumeReplyWithCallbacks rounds x =
     (case px_batch (px_entries rounds) x of (x', d) \<Rightarrow> (x', if d then Some None else None))"
proof (induction rounds arbitrary: x)
  case Nil
  then show ?case by (simp add: px_entries_def)
next
  case (Cons rd rounds)
  then have "px_calm rounds" "pr_gone rd = None" by (simp_all add: px_calm_def)
  with Cons show ?case
    by (cases "pr_read rd")
      (auto simp: px_entries_def px_calm_def px_batch_append split: option.splits prod.splits bool.splits)
qed

lemma px_batch_body:
  assumes "\<forall>m \<in> fst ` set ms. \<not> is_done m"
  shows "px_batch ms x = (x\<lparr>ps_tokens := ps_tokens x @ filter (\<lambda>t. t \<noteq> []) (tokens_in (map fst ms)),
      ps_calls := ps_calls x @ calls_in (map fst ms), ps_acks := ps_acks x @ map snd ms\<rparr>, False)"
  using assms
proof (induction ms x rule: px_batch.induct)
  case (1 x)
  then show ?case by (simp add: tokens_in_def calls_in_def map_filter_simps)
next
  case (2 msg eid ms x)
  then show ?case
    by (auto simp: tokens_in_def calls_in_def map_filter_simps is_done_def Let_def split: option.splits)
qed

lemma px_batch_done:
  assumes "\<forall>m \<in> fst ` set body. \<not> is_done m" "is_done d"
  shows "px_batch (body @ (d, eid) # rest) px_start =
    (\<lparr>ps_tokens = filter (\<lambda>t. t \<noteq> []) (tokens_in (map fst body)), ps_calls = calls_in (map fst body),
      ps_acks = map snd body @ [eid]\<rparr>, True)"
  using assms by (auto simp: px_batch_append px_batch_body px_start_def is_done_def Let_def split: option.splits)

lemma concat_filter_ne: "concat (filter (\<lambda>t. t \<noteq> []) ts) = concat ts"
  by (induction ts) auto

section \<open>A proxied call\<close>

definition px_answer :: "openAIChatRequest \<Rightarrow> string \<Rightarrow> int \<Rightarrow> string list \<Rightarrow> ToolCall list \<Rightarrow> px_reply" where
  "px_answer req corrID created tokens calls =
     (if pq_Stream req then PxChunks
        ([px_chunk corrID created (pq_Model req) [(''role'', JStr ''assistant'')] JNull] @
         map (\<lambda>tok. px_chunk corrID created (pq_Model req) [(''content'', JStr tok)] JNull) (filter (\<lambda>t. t \<noteq> []) tokens) @
         [px_final_chunk corrID created (pq_Model req) calls])
      else PxBody (px_response corrID created (pq_Model req) (concat tokens) calls))"

lemma px_reply_done:
  assumes "px_calm rounds" "px_entries rounds = body @ (d, eid) # rest"
    "\<forall>m \<in> fst ` set body. \<not> is_done m" "is_done d"
  shows "(if pq_Stream req then streamResponse True corrID created (pq_Model req) rounds
          else aggregateResponse corrID created (pq_Model req) rounds) =
    Some (px_answer req corrID created (tokens_in (map fst body)) (calls_in (map fst body)))"
proof -
  have "consumeReplyWithCallbacks rounds px_start =
    (\<lparr>ps_tokens = filter (\<lambda>t. t \<noteq> []) (tokens_in (map fst body)), ps_calls = calls_in (map fst body),
      ps_acks = map snd body @ [eid]\<rparr>, Some None)"
    using consume_stream [OF assms(1)] px_batch_done [OF assms(3,4)] assms(2) by simp
  then show ?thesis
    by (auto simp: streamResponse_def aggregateResponse_def consumeReply_def px_answer_def concat_filter_ne omit_empty_def
        intro!: map_cong)
qed



section \<open>The proxy's slots at the broker\<close>



text \<open>
  The release after a failed acquisition names no slot, and the broker takes that as every slot of the agent.
  All requests of the proxy share one agent id, so a request that gets no slot in time takes away the
  slots of the requests that are being served.
\<close>

theorem failed_acquisition_frees_all:
  assumes "acquireSlot re cfg = (sent, Inl err)" "\<forall>m. re_publish re m" "px_Identity cfg \<noteq> []" "b_pendingQueue b = []"
  shows "\<exists>m b'. proxy_defensiveRelease re cfg = [m] \<and> handles e m b b' \<and>
    (\<forall>i. slot_holder (b_slots b') i \<noteq> Some (px_Identity cfg))"
proof -
  let ?m = "release_msg re 2 (px_Identity cfg) (-1)"
  have "proxy_defensiveRelease re cfg = [?m]"
    using assms(2) by (simp add: proxy_defensiveRelease_def px_release_def Let_def)
  moreover have "handles e ?m b (b\<lparr>b_slots := fst (ReleaseByAgent (px_Identity cfg) (b_slots b))\<rparr>)"
    using assms(4)
    by (cases "ReleaseByAgent (px_Identity cfg) (b_slots b)")
      (simp add: handleMessage_def release_msg_def NewMessage_def handleSlotRelease_def assignFromQueue_def)
  ultimately show ?thesis using slot_holder_ReleaseByAgent [OF assms(3), of "b_slots b"]
    by (intro exI [of _ ?m] exI [of _ "b\<lparr>b_slots := fst (ReleaseByAgent (px_Identity cfg) (b_slots b))\<rparr>"]) auto
qed

end
