(* ===== verification/Hindsight.thy ===== *)
theory Hindsight
  imports Memory_Client
begin

text \<open>
  The client of the memory engine Hindsight (\<^verbatim>\<open>internal/hindsight/types.go\<close>, \<^verbatim>\<open>client.go\<close>): the shapes of its requests and answers
  and one call per endpoint. The engine itself is behind the transport. An \<^verbatim>\<open>any\<close> value is its JSON.
\<close>

section \<open>Types\<close>

record EntityInput =
  ei_Text :: string
  ei_Type :: string

record MemoryItem =
  mi_Content :: string
  mi_Timestamp :: string
  mi_Context :: string
  mi_Metadata :: "(string \<times> string) list"
  mi_DocumentID :: string
  mi_Entities :: "EntityInput list"
  mi_Tags :: "string list"
  mi_ObservationScopes :: string

record HsRetainRequest =
  hrt_Items :: "MemoryItem list"
  hrt_Async :: bool

record TokenUsage =
  tu_InputTokens :: int
  tu_OutputTokens :: int
  tu_TotalTokens :: int

record HsRetainResponse =
  hrs_Success :: bool
  hrs_BankID :: string
  hrs_ItemsCount :: int
  hrs_Async :: bool
  hrs_OperationID :: string
  hrs_OperationIDs :: "string list"
  hrs_Usage :: "TokenUsage option"

definition zero_HsRetainResponse :: HsRetainResponse where
  "zero_HsRetainResponse = \<lparr>hrs_Success = False, hrs_BankID = [], hrs_ItemsCount = 0, hrs_Async = False, hrs_OperationID = [],
     hrs_OperationIDs = [], hrs_Usage = None\<rparr>"

record HsRecallRequest =
  hrc_Query :: string
  hrc_Types :: "string list"
  hrc_Budget :: string
  hrc_MaxTokens :: int
  hrc_Trace :: bool
  hrc_QueryTimestamp :: string
  hrc_Tags :: "string list"
  hrc_Entities :: "string list"
  hrc_Metadata :: "(string \<times> string) list"

definition zero_HsRecallRequest :: HsRecallRequest where
  "zero_HsRecallRequest = \<lparr>hrc_Query = [], hrc_Types = [], hrc_Budget = [], hrc_MaxTokens = 0, hrc_Trace = False,
     hrc_QueryTimestamp = [], hrc_Tags = [], hrc_Entities = [], hrc_Metadata = []\<rparr>"

record RecallResult =
  rec_ID :: string
  rec_Text :: string
  rec_Type :: string
  rec_Entities :: "string list"
  rec_Context :: string
  rec_OccurredStart :: string
  rec_OccurredEnd :: string
  rec_MentionedAt :: string
  rec_DocumentID :: string
  rec_Metadata :: "(string \<times> string) list"
  rec_Score :: rat
  rec_ChunkID :: string
  rec_ProofCount :: int
  rec_Tags :: "string list"
  rec_FactType :: string

definition zero_RecallResult :: RecallResult where
  "zero_RecallResult = \<lparr>rec_ID = [], rec_Text = [], rec_Type = [], rec_Entities = [], rec_Context = [], rec_OccurredStart = [],
     rec_OccurredEnd = [], rec_MentionedAt = [], rec_DocumentID = [], rec_Metadata = [], rec_Score = 0, rec_ChunkID = [],
     rec_ProofCount = 0, rec_Tags = [], rec_FactType = []\<rparr>"

record HsRecallResponse =
  hrr_Results :: "RecallResult list"
  hrr_SourceFacts :: "(string \<times> RecallResult) list"

record HsReflectRequest =
  hrf_Query :: string
  hrf_Budget :: string
  hrf_MaxTokens :: int
  hrf_Tags :: "string list"
  hrf_ResponseSchema :: "(string \<times> json) list"

record HsReflectResponse =
  hrp_Text :: string
  hrp_StructuredOutput :: "(string \<times> json) list"
  hrp_Usage :: "TokenUsage option"

record MemoryHistoryEntry =
  mh_ID :: string
  mh_Text :: string
  mh_Type :: string
  mh_SourceFacts :: "string list"
  mh_ChangedAt :: string
  mh_Metadata :: "(string \<times> string) list"

record DispositionTraits =
  dt_Skepticism :: int
  dt_Literalism :: int
  dt_Empathy :: int

record BankListItem =
  bli_BankID :: string
  bli_Name :: string
  bli_Disposition :: DispositionTraits
  bli_Mission :: string
  bli_CreatedAt :: string
  bli_UpdatedAt :: string

definition zero_BankListItem :: BankListItem where
  "zero_BankListItem = \<lparr>bli_BankID = [], bli_Name = [], bli_Disposition = \<lparr>dt_Skepticism = 0, dt_Literalism = 0, dt_Empathy = 0\<rparr>,
     bli_Mission = [], bli_CreatedAt = [], bli_UpdatedAt = []\<rparr>"

record BankConfigResponse =
  bc_BankID :: string
  bc_Config :: "(string \<times> json) list"
  bc_Overrides :: "(string \<times> json) list"

record Directive =
  dv_ID :: string
  dv_BankID :: string
  dv_Name :: string
  dv_Content :: string
  dv_Priority :: int
  dv_IsActive :: bool
  dv_Tags :: "string list"
  dv_CreatedAt :: string
  dv_UpdatedAt :: string

definition zero_Directive :: Directive where
  "zero_Directive = \<lparr>dv_ID = [], dv_BankID = [], dv_Name = [], dv_Content = [], dv_Priority = 0, dv_IsActive = False, dv_Tags = [],
     dv_CreatedAt = [], dv_UpdatedAt = []\<rparr>"

record CreateDirectiveRequest =
  cd_Name :: string
  cd_Content :: string
  cd_Priority :: int
  cd_IsActive :: bool
  cd_Tags :: "string list"

record UpdateDirectiveRequest =
  ud_Name :: "string option"
  ud_Content :: "string option"
  ud_Priority :: "int option"
  ud_IsActive :: "bool option"
  ud_Tags :: "string list"

record WebhookHTTPConfig =
  wc_Method :: string
  wc_TimeoutSeconds :: int
  wc_Headers :: "(string \<times> string) list"
  wc_Params :: "(string \<times> string) list"

record Webhook =
  wh_ID :: string
  wh_BankID :: string
  wh_URL :: string
  wh_EventTypes :: "string list"
  wh_Enabled :: bool
  wh_HTTPConfig :: "WebhookHTTPConfig option"
  wh_CreatedAt :: string
  wh_UpdatedAt :: string

definition zero_Webhook :: Webhook where
  "zero_Webhook = \<lparr>wh_ID = [], wh_BankID = [], wh_URL = [], wh_EventTypes = [], wh_Enabled = False, wh_HTTPConfig = None,
     wh_CreatedAt = [], wh_UpdatedAt = []\<rparr>"

record CreateWebhookRequest =
  cw_URL :: string
  cw_Secret :: string
  cw_EventTypes :: "string list"
  cw_Enabled :: bool
  cw_HTTPConfig :: "WebhookHTTPConfig option"

record UpdateWebhookRequest =
  uw_URL :: "string option"
  uw_EventTypes :: "string list"
  uw_Enabled :: "bool option"
  uw_HTTPConfig :: "WebhookHTTPConfig option"

section \<open>JSON\<close>

definition omit_ptr :: "string \<Rightarrow> ('a \<Rightarrow> json) \<Rightarrow> 'a option \<Rightarrow> (string \<times> json) list" where
  "omit_ptr k e x = (case x of None \<Rightarrow> [] | Some v \<Rightarrow> [(k, e v)])"

definition enc_EntityInput :: "EntityInput \<Rightarrow> json" where
  "enc_EntityInput e = JObj ([(''text'', JStr (ei_Text e))] @ omit_empty ''type'' (JStr (ei_Type e)))"

definition enc_MemoryItem :: "MemoryItem \<Rightarrow> json" where
  "enc_MemoryItem m = JObj
     ([(''content'', JStr (mi_Content m))] @
      omit_empty ''timestamp'' (JStr (mi_Timestamp m)) @
      omit_empty ''context'' (JStr (mi_Context m)) @
      omit_empty ''metadata'' (enc_str_map (mi_Metadata m)) @
      omit_empty ''document_id'' (JStr (mi_DocumentID m)) @
      omit_empty ''entities'' (enc_list enc_EntityInput (mi_Entities m)) @
      omit_empty ''tags'' (enc_list JStr (mi_Tags m)) @
      omit_empty ''observation_scopes'' (JStr (mi_ObservationScopes m)))"

definition enc_HsRetainRequest :: "HsRetainRequest \<Rightarrow> json" where
  "enc_HsRetainRequest r = JObj ([(''items'', enc_list enc_MemoryItem (hrt_Items r))] @ omit_empty ''async'' (JBool (hrt_Async r)))"

definition enc_HsRecallRequest :: "HsRecallRequest \<Rightarrow> json" where
  "enc_HsRecallRequest r = JObj
     ([(''query'', JStr (hrc_Query r))] @
      omit_empty ''types'' (enc_list JStr (hrc_Types r)) @
      omit_empty ''budget'' (JStr (hrc_Budget r)) @
      omit_empty ''max_tokens'' (JInt (hrc_MaxTokens r)) @
      omit_empty ''trace'' (JBool (hrc_Trace r)) @
      omit_empty ''query_timestamp'' (JStr (hrc_QueryTimestamp r)) @
      omit_empty ''tags'' (enc_list JStr (hrc_Tags r)) @
      omit_empty ''entities'' (enc_list JStr (hrc_Entities r)) @
      omit_empty ''metadata'' (enc_str_map (hrc_Metadata r)))"

definition dec_RecallResult :: "RecallResult decoder" where
  "dec_RecallResult = dec_struct
     [fld ''id'' dec_string rec_ID rec_ID_update,
      fld ''text'' dec_string rec_Text rec_Text_update,
      fld ''type'' dec_string rec_Type rec_Type_update,
      fld ''entities'' (dec_list [] dec_string) rec_Entities rec_Entities_update,
      fld ''context'' dec_string rec_Context rec_Context_update,
      fld ''occurred_start'' dec_string rec_OccurredStart rec_OccurredStart_update,
      fld ''occurred_end'' dec_string rec_OccurredEnd rec_OccurredEnd_update,
      fld ''mentioned_at'' dec_string rec_MentionedAt rec_MentionedAt_update,
      fld ''document_id'' dec_string rec_DocumentID rec_DocumentID_update,
      fld ''metadata'' dec_str_map rec_Metadata rec_Metadata_update,
      fld ''score'' dec_float rec_Score rec_Score_update,
      fld ''chunk_id'' dec_string rec_ChunkID rec_ChunkID_update,
      fld ''proof_count'' dec_int rec_ProofCount rec_ProofCount_update,
      fld ''tags'' (dec_list [] dec_string) rec_Tags rec_Tags_update,
      fld ''fact_type'' dec_string rec_FactType rec_FactType_update]"

definition dec_HsRecallResponse :: "json \<Rightarrow> HsRecallResponse option" where
  "dec_HsRecallResponse = dec_struct
     [fld ''results'' (dec_list zero_RecallResult dec_RecallResult) hrr_Results hrr_Results_update,
      fld ''source_facts'' (dec_struct_map zero_RecallResult dec_RecallResult) hrr_SourceFacts hrr_SourceFacts_update]
     \<lparr>hrr_Results = [], hrr_SourceFacts = []\<rparr>"

definition dec_TokenUsage :: "TokenUsage decoder" where
  "dec_TokenUsage = dec_struct
     [fld ''input_tokens'' dec_int tu_InputTokens tu_InputTokens_update,
      fld ''output_tokens'' dec_int tu_OutputTokens tu_OutputTokens_update,
      fld ''total_tokens'' dec_int tu_TotalTokens tu_TotalTokens_update]"

text \<open>A pointer that is set is decoded into what it points to; the answers here start from nil.\<close>

definition dec_usage :: "TokenUsage option decoder" where
  "dec_usage = (\<lambda>old. dec_option (case old of Some u \<Rightarrow> u | None \<Rightarrow> \<lparr>tu_InputTokens = 0, tu_OutputTokens = 0, tu_TotalTokens = 0\<rparr>)
     dec_TokenUsage old)"

definition dec_HsRetainResponse :: "json \<Rightarrow> HsRetainResponse option" where
  "dec_HsRetainResponse = dec_struct
     [fld ''success'' dec_bool hrs_Success hrs_Success_update,
      fld ''bank_id'' dec_string hrs_BankID hrs_BankID_update,
      fld ''items_count'' dec_int hrs_ItemsCount hrs_ItemsCount_update,
      fld ''async'' dec_bool hrs_Async hrs_Async_update,
      fld ''operation_id'' dec_string hrs_OperationID hrs_OperationID_update,
      fld ''operation_ids'' (dec_list [] dec_string) hrs_OperationIDs hrs_OperationIDs_update,
      fld ''usage'' dec_usage hrs_Usage hrs_Usage_update]
     zero_HsRetainResponse"

fun dec_any_map :: "(string \<times> json) list decoder" where
  "dec_any_map old JNull = Some []"
| "dec_any_map old (JObj kvs) = Some (map_entries (old @ kvs))"
| "dec_any_map old _ = None"

definition enc_HsReflectRequest :: "HsReflectRequest \<Rightarrow> json" where
  "enc_HsReflectRequest r = JObj
     ([(''query'', JStr (hrf_Query r))] @
      omit_empty ''budget'' (JStr (hrf_Budget r)) @
      omit_empty ''max_tokens'' (JInt (hrf_MaxTokens r)) @
      omit_empty ''tags'' (enc_list JStr (hrf_Tags r)) @
      omit_empty ''response_schema'' (JObj (hrf_ResponseSchema r)))"

definition dec_HsReflectResponse :: "json \<Rightarrow> HsReflectResponse option" where
  "dec_HsReflectResponse = dec_struct
     [fld ''text'' dec_string hrp_Text hrp_Text_update,
      fld ''structured_output'' dec_any_map hrp_StructuredOutput hrp_StructuredOutput_update,
      fld ''usage'' dec_usage hrp_Usage hrp_Usage_update]
     \<lparr>hrp_Text = [], hrp_StructuredOutput = [], hrp_Usage = None\<rparr>"

definition dec_MemoryHistoryEntry :: "MemoryHistoryEntry decoder" where
  "dec_MemoryHistoryEntry = dec_struct
     [fld ''id'' dec_string mh_ID mh_ID_update,
      fld ''text'' dec_string mh_Text mh_Text_update,
      fld ''type'' dec_string mh_Type mh_Type_update,
      fld ''source_facts'' (dec_list [] dec_string) mh_SourceFacts mh_SourceFacts_update,
      fld ''changed_at'' dec_string mh_ChangedAt mh_ChangedAt_update,
      fld ''metadata'' dec_str_map mh_Metadata mh_Metadata_update]"

definition dec_DispositionTraits :: "DispositionTraits decoder" where
  "dec_DispositionTraits = dec_struct
     [fld ''skepticism'' dec_int dt_Skepticism dt_Skepticism_update,
      fld ''literalism'' dec_int dt_Literalism dt_Literalism_update,
      fld ''empathy'' dec_int dt_Empathy dt_Empathy_update]"

definition dec_BankListItem :: "BankListItem decoder" where
  "dec_BankListItem = dec_struct
     [fld ''bank_id'' dec_string bli_BankID bli_BankID_update,
      fld ''name'' dec_string bli_Name bli_Name_update,
      fld ''disposition'' dec_DispositionTraits bli_Disposition bli_Disposition_update,
      fld ''mission'' dec_string bli_Mission bli_Mission_update,
      fld ''created_at'' dec_string bli_CreatedAt bli_CreatedAt_update,
      fld ''updated_at'' dec_string bli_UpdatedAt bli_UpdatedAt_update]"

definition dec_BankConfig :: "json \<Rightarrow> BankConfigResponse option" where
  "dec_BankConfig = dec_struct
     [fld ''bank_id'' dec_string bc_BankID bc_BankID_update,
      fld ''config'' dec_any_map bc_Config bc_Config_update,
      fld ''overrides'' dec_any_map bc_Overrides bc_Overrides_update]
     \<lparr>bc_BankID = [], bc_Config = [], bc_Overrides = []\<rparr>"

definition dec_Directive :: "Directive decoder" where
  "dec_Directive = dec_struct
     [fld ''id'' dec_string dv_ID dv_ID_update,
      fld ''bank_id'' dec_string dv_BankID dv_BankID_update,
      fld ''name'' dec_string dv_Name dv_Name_update,
      fld ''content'' dec_string dv_Content dv_Content_update,
      fld ''priority'' dec_int dv_Priority dv_Priority_update,
      fld ''is_active'' dec_bool dv_IsActive dv_IsActive_update,
      fld ''tags'' (dec_list [] dec_string) dv_Tags dv_Tags_update,
      fld ''created_at'' dec_string dv_CreatedAt dv_CreatedAt_update,
      fld ''updated_at'' dec_string dv_UpdatedAt dv_UpdatedAt_update]"

definition enc_CreateDirectiveRequest :: "CreateDirectiveRequest \<Rightarrow> json" where
  "enc_CreateDirectiveRequest r = JObj
     ([(''name'', JStr (cd_Name r)), (''content'', JStr (cd_Content r))] @
      omit_empty ''priority'' (JInt (cd_Priority r)) @
      [(''is_active'', JBool (cd_IsActive r))] @
      omit_empty ''tags'' (enc_list JStr (cd_Tags r)))"

definition enc_UpdateDirectiveRequest :: "UpdateDirectiveRequest \<Rightarrow> json" where
  "enc_UpdateDirectiveRequest r = JObj
     (omit_ptr ''name'' JStr (ud_Name r) @ omit_ptr ''content'' JStr (ud_Content r) @ omit_ptr ''priority'' JInt (ud_Priority r) @
      omit_ptr ''is_active'' JBool (ud_IsActive r) @ omit_empty ''tags'' (enc_list JStr (ud_Tags r)))"

definition dec_WebhookHTTPConfig :: "WebhookHTTPConfig decoder" where
  "dec_WebhookHTTPConfig = dec_struct
     [fld ''method'' dec_string wc_Method wc_Method_update,
      fld ''timeout_seconds'' dec_int wc_TimeoutSeconds wc_TimeoutSeconds_update,
      fld ''headers'' dec_str_map wc_Headers wc_Headers_update,
      fld ''params'' dec_str_map wc_Params wc_Params_update]"

definition enc_WebhookHTTPConfig :: "WebhookHTTPConfig \<Rightarrow> json" where
  "enc_WebhookHTTPConfig c = JObj
     (omit_empty ''method'' (JStr (wc_Method c)) @ omit_empty ''timeout_seconds'' (JInt (wc_TimeoutSeconds c)) @
      omit_empty ''headers'' (enc_str_map (wc_Headers c)) @ omit_empty ''params'' (enc_str_map (wc_Params c)))"

definition dec_Webhook :: "Webhook decoder" where
  "dec_Webhook = dec_struct
     [fld ''id'' dec_string wh_ID wh_ID_update,
      fld ''bank_id'' dec_string wh_BankID wh_BankID_update,
      fld ''url'' dec_string wh_URL wh_URL_update,
      fld ''event_types'' (dec_list [] dec_string) wh_EventTypes wh_EventTypes_update,
      fld ''enabled'' dec_bool wh_Enabled wh_Enabled_update,
      fld ''http_config'' (\<lambda>old. dec_option
         (case old of Some c \<Rightarrow> c | None \<Rightarrow> \<lparr>wc_Method = [], wc_TimeoutSeconds = 0, wc_Headers = [], wc_Params = []\<rparr>)
         dec_WebhookHTTPConfig old) wh_HTTPConfig wh_HTTPConfig_update,
      fld ''created_at'' dec_string wh_CreatedAt wh_CreatedAt_update,
      fld ''updated_at'' dec_string wh_UpdatedAt wh_UpdatedAt_update]"

definition enc_CreateWebhookRequest :: "CreateWebhookRequest \<Rightarrow> json" where
  "enc_CreateWebhookRequest r = JObj
     ([(''url'', JStr (cw_URL r))] @ omit_empty ''secret'' (JStr (cw_Secret r)) @
      omit_empty ''event_types'' (enc_list JStr (cw_EventTypes r)) @ [(''enabled'', JBool (cw_Enabled r))] @
      omit_ptr ''http_config'' enc_WebhookHTTPConfig (cw_HTTPConfig r))"

definition enc_UpdateWebhookRequest :: "UpdateWebhookRequest \<Rightarrow> json" where
  "enc_UpdateWebhookRequest r = JObj
     (omit_ptr ''url'' JStr (uw_URL r) @ omit_empty ''event_types'' (enc_list JStr (uw_EventTypes r)) @
      omit_ptr ''enabled'' JBool (uw_Enabled r) @ omit_ptr ''http_config'' enc_WebhookHTTPConfig (uw_HTTPConfig r))"

section \<open>The client\<close>

record hs_client =
  hc_baseURL :: string
  hc_apiKey :: string
  hc_namespace :: string
  hc_parse :: "string \<Rightarrow> json option"

definition Hindsight_New :: "string \<Rightarrow> string \<Rightarrow> (string \<Rightarrow> json option) \<Rightarrow> hs_client" where
  "Hindsight_New baseURL apiKey parse =
     \<lparr>hc_baseURL = trim_right_slash baseURL, hc_apiKey = apiKey, hc_namespace = ''default'', hc_parse = parse\<rparr>"

type_synonym ('w, 'a) hs_call = "'w \<Rightarrow> 'w \<times> (rest_error + 'a)"

definition hs_do ::
  "hs_client \<Rightarrow> 'w transport \<Rightarrow> string \<Rightarrow> string \<Rightarrow> json option \<Rightarrow> 'a \<Rightarrow> (json \<Rightarrow> 'a option) option \<Rightarrow> ('w, 'a) hs_call" where
  "hs_do c http method path body zero dec w =
     rest_call http (hc_parse c) (hc_baseURL c)
       (if hc_apiKey c \<noteq> [] then [(''Authorization'', ''Bearer '' @ hc_apiKey c)] else []) method path body zero dec w"

definition bankPath :: "hs_client \<Rightarrow> string \<Rightarrow> string \<Rightarrow> string" where
  "bankPath c bankID suffix = ''/v1/'' @ hc_namespace c @ ''/banks/'' @ bankID @ suffix"

definition hs_Retain :: "hs_client \<Rightarrow> 'w transport \<Rightarrow> string \<Rightarrow> HsRetainRequest \<Rightarrow> ('w, HsRetainResponse) hs_call" where
  "hs_Retain c http bankID req =
     hs_do c http ''POST'' (bankPath c bankID ''/memories'') (Some (enc_HsRetainRequest req)) zero_HsRetainResponse
       (Some dec_HsRetainResponse)"

definition hs_Recall :: "hs_client \<Rightarrow> 'w transport \<Rightarrow> string \<Rightarrow> HsRecallRequest \<Rightarrow> ('w, HsRecallResponse) hs_call" where
  "hs_Recall c http bankID req =
     hs_do c http ''POST'' (bankPath c bankID ''/memories/recall'') (Some (enc_HsRecallRequest req))
       \<lparr>hrr_Results = [], hrr_SourceFacts = []\<rparr> (Some dec_HsRecallResponse)"

definition hs_DeleteMemory :: "hs_client \<Rightarrow> 'w transport \<Rightarrow> string \<Rightarrow> string \<Rightarrow> ('w, unit) hs_call" where
  "hs_DeleteMemory c http bankID memoryID = hs_do c http ''DELETE'' (bankPath c bankID (''/memories/'' @ memoryID)) None () None"

definition hs_GetMemoryHistory :: "hs_client \<Rightarrow> 'w transport \<Rightarrow> string \<Rightarrow> string \<Rightarrow> ('w, MemoryHistoryEntry list) hs_call" where
  "hs_GetMemoryHistory c http bankID memoryID =
     hs_do c http ''GET'' (bankPath c bankID (''/memories/'' @ memoryID @ ''/history'')) None []
       (Some (dec_list \<lparr>mh_ID = [], mh_Text = [], mh_Type = [], mh_SourceFacts = [], mh_ChangedAt = [], mh_Metadata = []\<rparr>
          dec_MemoryHistoryEntry []))"

definition hs_Reflect :: "hs_client \<Rightarrow> 'w transport \<Rightarrow> string \<Rightarrow> HsReflectRequest \<Rightarrow> ('w, HsReflectResponse) hs_call" where
  "hs_Reflect c http bankID req =
     hs_do c http ''POST'' (bankPath c bankID ''/reflect'') (Some (enc_HsReflectRequest req))
       \<lparr>hrp_Text = [], hrp_StructuredOutput = [], hrp_Usage = None\<rparr> (Some dec_HsReflectResponse)"

definition hs_ListBanks :: "hs_client \<Rightarrow> 'w transport \<Rightarrow> ('w, BankListItem list) hs_call" where
  "hs_ListBanks c http =
     hs_do c http ''GET'' (''/v1/'' @ hc_namespace c @ ''/banks'') None []
       (Some (dec_struct [fld ''banks'' (dec_list zero_BankListItem dec_BankListItem) id id] []))"

definition hs_CreateBank :: "hs_client \<Rightarrow> 'w transport \<Rightarrow> string \<Rightarrow> string \<Rightarrow> ('w, BankListItem) hs_call" where
  "hs_CreateBank c http bankID name w =
     (if bankID = [] then (w, Inl (RestArgument ''hindsight: CreateBank: BankID is required''))
      else hs_do c http ''PUT'' (bankPath c bankID [])
        (Some (JObj (omit_empty ''bank_id'' (JStr bankID) @ omit_empty ''name'' (JStr name))))
        zero_BankListItem (Some (dec_BankListItem zero_BankListItem)) w)"

definition hs_GetBankConfig :: "hs_client \<Rightarrow> 'w transport \<Rightarrow> string \<Rightarrow> ('w, BankConfigResponse) hs_call" where
  "hs_GetBankConfig c http bankID =
     hs_do c http ''GET'' (bankPath c bankID ''/config'') None \<lparr>bc_BankID = [], bc_Config = [], bc_Overrides = []\<rparr> (Some dec_BankConfig)"

definition hs_PatchBankConfig :: "hs_client \<Rightarrow> 'w transport \<Rightarrow> string \<Rightarrow> (string \<times> json) list \<Rightarrow> ('w, BankConfigResponse) hs_call" where
  "hs_PatchBankConfig c http bankID updates =
     hs_do c http ''PATCH'' (bankPath c bankID ''/config'') (Some (JObj [(''updates'', JObj updates)]))
       \<lparr>bc_BankID = [], bc_Config = [], bc_Overrides = []\<rparr> (Some dec_BankConfig)"

definition hs_ListDirectives :: "hs_client \<Rightarrow> 'w transport \<Rightarrow> string \<Rightarrow> ('w, Directive list) hs_call" where
  "hs_ListDirectives c http bankID =
     hs_do c http ''GET'' (bankPath c bankID ''/directives'') None []
       (Some (dec_struct [fld ''items'' (dec_list zero_Directive dec_Directive) id id] []))"

definition hs_CreateDirective :: "hs_client \<Rightarrow> 'w transport \<Rightarrow> string \<Rightarrow> CreateDirectiveRequest \<Rightarrow> ('w, Directive) hs_call" where
  "hs_CreateDirective c http bankID req =
     hs_do c http ''POST'' (bankPath c bankID ''/directives'') (Some (enc_CreateDirectiveRequest req)) zero_Directive
       (Some (dec_Directive zero_Directive))"

definition hs_UpdateDirective :: "hs_client \<Rightarrow> 'w transport \<Rightarrow> string \<Rightarrow> string \<Rightarrow> UpdateDirectiveRequest \<Rightarrow> ('w, Directive) hs_call" where
  "hs_UpdateDirective c http bankID directiveID req =
     hs_do c http ''PATCH'' (bankPath c bankID (''/directives/'' @ directiveID)) (Some (enc_UpdateDirectiveRequest req)) zero_Directive
       (Some (dec_Directive zero_Directive))"

definition hs_DeleteDirective :: "hs_client \<Rightarrow> 'w transport \<Rightarrow> string \<Rightarrow> string \<Rightarrow> ('w, unit) hs_call" where
  "hs_DeleteDirective c http bankID directiveID =
     hs_do c http ''DELETE'' (bankPath c bankID (''/directives/'' @ directiveID)) None () None"

definition hs_ListWebhooks :: "hs_client \<Rightarrow> 'w transport \<Rightarrow> string \<Rightarrow> ('w, Webhook list) hs_call" where
  "hs_ListWebhooks c http bankID =
     hs_do c http ''GET'' (bankPath c bankID ''/webhooks'') None []
       (Some (dec_struct [fld ''items'' (dec_list zero_Webhook dec_Webhook) id id] []))"

definition hs_CreateWebhook :: "hs_client \<Rightarrow> 'w transport \<Rightarrow> string \<Rightarrow> CreateWebhookRequest \<Rightarrow> ('w, Webhook) hs_call" where
  "hs_CreateWebhook c http bankID req =
     hs_do c http ''POST'' (bankPath c bankID ''/webhooks'') (Some (enc_CreateWebhookRequest req)) zero_Webhook (Some (dec_Webhook zero_Webhook))"

definition hs_UpdateWebhook :: "hs_client \<Rightarrow> 'w transport \<Rightarrow> string \<Rightarrow> string \<Rightarrow> UpdateWebhookRequest \<Rightarrow> ('w, Webhook) hs_call" where
  "hs_UpdateWebhook c http bankID webhookID req =
     hs_do c http ''PATCH'' (bankPath c bankID (''/webhooks/'' @ webhookID)) (Some (enc_UpdateWebhookRequest req)) zero_Webhook
       (Some (dec_Webhook zero_Webhook))"

definition hs_DeleteWebhook :: "hs_client \<Rightarrow> 'w transport \<Rightarrow> string \<Rightarrow> string \<Rightarrow> ('w, unit) hs_call" where
  "hs_DeleteWebhook c http bankID webhookID = hs_do c http ''DELETE'' (bankPath c bankID (''/webhooks/'' @ webhookID)) None () None"

definition hs_Consolidate :: "hs_client \<Rightarrow> 'w transport \<Rightarrow> string \<Rightarrow> ('w, (string \<times> json) list) hs_call" where
  "hs_Consolidate c http bankID = hs_do c http ''POST'' (bankPath c bankID ''/consolidate'') None [] (Some (dec_any_map []))"

definition IsNotFound :: "rest_error \<Rightarrow> bool" where
  "IsNotFound err = (case err of RestStatus code _ _ _ \<Rightarrow> code = 404 | _ \<Rightarrow> False)"

end
