(* ===== verification/Memory_Service.thy ===== *)
theory Memory_Service
  imports Hindsight Config_Store
begin

text \<open>
  The memory service (\<^verbatim>\<open>internal/memoryservice/server.go\<close>): the policy between the program and the memory engine. Retain fills in
  provenance, speaker and fact type; recall scopes by speaker; forget deletes by id or by the best match; webhooks are
  verified and registered. The engine is behind the transport, with its state \<open>w\<close>; the settings are read again each time
  the code resolves them (\<open>resolve n\<close> is the n-th time within one request).
\<close>

section \<open>State and helpers\<close>

record 'w ms_env =
  me_hc :: hs_client
  me_http :: "'w transport"
  me_bank :: string
  me_externalURL :: string
  me_secret :: string
  me_hmac :: "string \<Rightarrow> string \<Rightarrow> string"       \<comment> \<open>hex of HMAC-SHA256, by secret and body\<close>
  me_err :: "rest_error \<Rightarrow> string"               \<comment> \<open>the text of an error\<close>
  me_quote :: "string \<Rightarrow> string"                 \<comment> \<open>\<^verbatim>\<open>%q\<close>\<close>
  me_bad :: string                               \<comment> \<open>the text of a decode error\<close>

record ms_state =
  st_reachable :: bool
  st_unknownSpeakerRetains :: int

datatype ms_reply = MsError int string string | MsBody int json | MsStatus int

definition MemoryService_New :: ms_state where
  "MemoryService_New = \<lparr>st_reachable = True, st_unknownSpeakerRetains = 0\<rparr>"

definition MarkHindsightReachable :: "bool \<Rightarrow> ms_state \<Rightarrow> ms_state" where
  "MarkHindsightReachable ok st = st\<lparr>st_reachable := ok\<rparr>"

definition memory_handleStatus :: "ms_state \<Rightarrow> ms_reply" where
  "memory_handleStatus st = MsBody 200 (JObj [(''unknown_speaker_retains'', JInt (st_unknownSpeakerRetains st))])"

definition pickStatus :: "bool \<Rightarrow> string" where
  "pickStatus ok = (if ok then ''ok'' else ''degraded'')"

definition memory_handleHealth :: "string \<Rightarrow> ms_state \<Rightarrow> ms_reply" where
  "memory_handleHealth bank st =
     MsBody (if st_reachable st then 200 else 503)
       (enc_str_map [(''bank'', bank), (''hindsight'', if st_reachable st then ''reachable'' else ''unreachable''),
                     (''status'', pickStatus (st_reachable st))])"

definition validProvenance :: "string \<Rightarrow> bool" where
  "validProvenance p \<longleftrightarrow> p \<in> {''explicit'', ''implicit'', ''inferred'', ''researched''}"

definition validFactType :: "string \<Rightarrow> bool" where
  "validFactType ft \<longleftrightarrow> ft \<in> {''person_fact'', ''world_fact'', ''context_fact'', ''procedural_fact''}"

definition timeScuedCues :: "string list" where
  "timeScuedCues =
     [''yesterday'', ''today'', ''tomorrow'', ''last week'', ''this week'', ''last month'', ''this morning'', ''tonight'', ''recently'',
      ''just now'', ''earlier'', ''later'', ''ago'']"

definition inferFactType :: "string \<Rightarrow> string list \<Rightarrow> string" where
  "inferFactType content entities =
     (if list_ex (contains_sub (to_lower content)) timeScuedCues then ''context_fact''
      else if list_ex (\<lambda>e. \<not> has_prefix e ''class:'') entities then ''person_fact''
      else ''world_fact'')"

definition defaultProvenance :: "MemoryConfig \<Rightarrow> string" where
  "defaultProvenance cfg = (if validProvenance (mem_DefaultProvenance cfg) then mem_DefaultProvenance cfg else ''explicit'')"

definition defaultRecallTypes :: "MemoryConfig \<Rightarrow> string list" where
  "defaultRecallTypes cfg =
     (let v = mem_RecallDefaultTypes cfg in
      if v = [] \<or> v = ''observation'' then [''observation'']
      else if v = ''world_experience'' then [''world'', ''experience'']
      else if v = ''all'' then [''observation'', ''world'', ''experience'']
      else [''observation''])"

definition meta_put :: "string \<Rightarrow> string \<Rightarrow> (string \<times> string) list \<Rightarrow> (string \<times> string) list" where
  "meta_put k v m = map_entries (m @ [(k, v)])"

section \<open>Retain\<close>

definition fill_provenance :: "MemoryConfig \<Rightarrow> (string \<times> string) list \<Rightarrow> (string \<times> string) list" where
  "fill_provenance cfg m = (if map_of m ''provenance'' = None then meta_put ''provenance'' (defaultProvenance cfg) m else m)"

definition fill_speaker :: "MemoryConfig \<Rightarrow> (string \<times> string) list \<Rightarrow> (string \<times> string) list" where
  "fill_speaker cfg m =
     (if map_of m ''speaker_id'' = None
      then meta_put ''speaker_id'' (if mem_PrimaryUserID cfg \<noteq> [] then mem_PrimaryUserID cfg else ''unknown'') m else m)"

definition retain_item :: "RetainRequest \<Rightarrow> (string \<times> string) list \<Rightarrow> MemoryItem" where
  "retain_item req m =
     \<lparr>mi_Content = rq_Content req, mi_Timestamp = rq_Timestamp req, mi_Context = rq_Context req, mi_Metadata = m,
      mi_DocumentID = rq_DocumentID req, mi_Entities = map (\<lambda>e. \<lparr>ei_Text = e, ei_Type = []\<rparr>) (rq_Entities req),
      mi_Tags = rq_Tags req, mi_ObservationScopes = rq_ObservationScopes req\<rparr>"

definition retain_send :: "'w ms_env \<Rightarrow> RetainRequest \<Rightarrow> (string \<times> string) list \<Rightarrow> ms_state \<times> 'w \<Rightarrow> (ms_state \<times> 'w) \<times> ms_reply" where
  "retain_send e req m s =
     (case hs_Retain (me_hc e) (me_http e) (me_bank e) \<lparr>hrt_Items = [retain_item req m], hrt_Async = False\<rparr> (snd s) of
        (w', Inl err) \<Rightarrow> ((fst s, w'), MsError 502 ''upstream_error'' (me_err e err))
      | (w', Inr resp) \<Rightarrow>
          ((fst s, w'), MsBody 200 (enc_RetainResponse
            \<lparr>rs_Success = hrs_Success resp, rs_BankID = hrs_BankID resp, rs_ItemsCount = hrs_ItemsCount resp, rs_Async = hrs_Async resp\<rparr>)))"

definition handleRetain :: "'w ms_env \<Rightarrow> (nat \<Rightarrow> MemoryConfig) \<Rightarrow> json option \<Rightarrow> ms_state \<times> 'w \<Rightarrow> (ms_state \<times> 'w) \<times> ms_reply" where
  "handleRetain e resolve body s =
     (case Option.bind body dec_RetainRequest of
        None \<Rightarrow> (s, MsError 400 ''invalid_request'' (me_bad e))
      | Some req \<Rightarrow>
        if rq_Content req = [] then (s, MsError 400 ''invalid_request'' ''content is required'')
        else
          let m = fill_provenance (resolve 0) (rq_Metadata req);
              provenance = the (map_of m ''provenance'')
          in if \<not> validProvenance provenance then
               (s, MsError 400 ''invalid_provenance''
                 (''metadata.provenance must be one of explicit|implicit|inferred|researched; got '' @ me_quote e provenance))
             else
               let m = fill_speaker (resolve 1) m;
                   s = (if map_of m ''speaker_id'' = Some ''unknown''
                        then ((fst s)\<lparr>st_unknownSpeakerRetains := st_unknownSpeakerRetains (fst s) + 1\<rparr>, snd s) else s)
               in case map_of m ''fact_type'' of
                    Some ft \<Rightarrow>
                      if \<not> validFactType ft then
                        (s, MsError 400 ''invalid_fact_type''
                          (''metadata.fact_type must be one of person_fact|world_fact|context_fact|procedural_fact; got '' @ me_quote e ft))
                      else retain_send e req m s
                  | None \<Rightarrow> retain_send e req (meta_put ''fact_type'' (inferFactType (rq_Content req) (rq_Entities req)) m) s)"

section \<open>Recall\<close>

definition orString :: "string \<Rightarrow> string \<Rightarrow> string" where
  "orString a b = (if a \<noteq> [] then a else b)"

definition translateResult :: "RecallResult \<Rightarrow> MemorySummary" where
  "translateResult m =
     \<lparr>ms_ID = rec_ID m, ms_Content = rec_Text m, ms_Tags = rec_Tags m, ms_Score = rec_Score m,
      ms_Type = orString (rec_Type m) (rec_FactType m), ms_Metadata = rec_Metadata m\<rparr>"

definition limitToTokens :: "int \<Rightarrow> int" where
  "limitToTokens limit =
     (if limit \<le> 0 then 4096
      else let n = wrap64 (limit * 512) in if n < 1024 then 1024 else if n > 8192 then 8192 else n)"

text \<open>The speaker a recall is about, or the error.\<close>

definition service_speaker :: "MemoryConfig \<Rightarrow> RecallRequest \<Rightarrow> string option" where
  "service_speaker cfg req =
     (if rc_SpeakerID req \<noteq> [] then Some (rc_SpeakerID req)
      else if mem_RecallDefaultSpeakerScope cfg = ''primary'' then Some (mem_PrimaryUserID cfg)
      else if mem_RecallDefaultSpeakerScope cfg = ''explicit'' then None
      else Some [])"

definition recall_filter :: "string \<Rightarrow> string list \<Rightarrow> (string \<times> string) list" where
  "recall_filter speakerID factTypes =
     (let m = (if speakerID \<noteq> [] then meta_put ''speaker_id'' speakerID [] else [])
      in if length factTypes = 1 then meta_put ''fact_type'' (hd factTypes) m else m)"

definition hs_recall_request :: "RecallRequest \<Rightarrow> string list \<Rightarrow> string \<Rightarrow> HsRecallRequest" where
  "hs_recall_request req types speakerID =
     zero_HsRecallRequest\<lparr>hrc_Query := rc_Query req, hrc_Types := types, hrc_MaxTokens := limitToTokens (rc_Limit req),
       hrc_Tags := rc_Tags req, hrc_Entities := rc_Entities req, hrc_Metadata := recall_filter speakerID (rc_FactTypes req)\<rparr>"

definition recall_reply :: "int \<Rightarrow> HsRecallResponse \<Rightarrow> RecallResponse" where
  "recall_reply limit resp =
     (let memories = map translateResult (hrr_Results resp) in
      \<lparr>rr_Memories = (if limit > 0 \<and> int (length memories) > limit then take (nat limit) memories else memories),
       rr_SourceFacts = map (\<lambda>(i, m). (i, translateResult m)) (hrr_SourceFacts resp)\<rparr>)"

definition handleRecall :: "'w ms_env \<Rightarrow> (nat \<Rightarrow> MemoryConfig) \<Rightarrow> json option \<Rightarrow> ms_state \<times> 'w \<Rightarrow> (ms_state \<times> 'w) \<times> ms_reply" where
  "handleRecall e resolve body s =
     (case Option.bind body dec_RecallRequest of
        None \<Rightarrow> (s, MsError 400 ''invalid_request'' (me_bad e))
      | Some req \<Rightarrow>
        if rc_Query req = [] then (s, MsError 400 ''invalid_request'' ''query is required'')
        else
          let types = (if rc_Types req = [] then defaultRecallTypes (resolve 0) else rc_Types req)
          in case service_speaker (resolve 1) req of
               None \<Rightarrow> (s, MsError 400 ''speaker_required''
                 ''recall_default_speaker_scope is 'explicit' and no speaker_id was provided'')
             | Some speakerID \<Rightarrow>
                 (case find (\<lambda>ft. \<not> validFactType ft) (rc_FactTypes req) of
                    Some ft \<Rightarrow> (s, MsError 400 ''invalid_fact_type''
                      (''fact_type '' @ me_quote e ft @ '' is not valid; must be person_fact|world_fact|context_fact|procedural_fact''))
                  | None \<Rightarrow>
                      (case hs_Recall (me_hc e) (me_http e) (me_bank e) (hs_recall_request req types speakerID) (snd s) of
                         (w', Inl err) \<Rightarrow> ((fst s, w'), MsError 502 ''upstream_error'' (me_err e err))
                       | (w', Inr resp) \<Rightarrow> ((fst s, w'), MsBody 200 (enc_RecallResponse (recall_reply (rc_Limit req) resp))))))"

section \<open>Reflect and forget\<close>

definition handleReflect :: "'w ms_env \<Rightarrow> json option \<Rightarrow> ms_state \<times> 'w \<Rightarrow> (ms_state \<times> 'w) \<times> ms_reply" where
  "handleReflect e body s =
     (case Option.bind body dec_ReflectRequest of
        None \<Rightarrow> (s, MsError 400 ''invalid_request'' (me_bad e))
      | Some (query, tags) \<Rightarrow>
        if query = [] then (s, MsError 400 ''invalid_request'' ''query is required'')
        else case hs_Reflect (me_hc e) (me_http e) (me_bank e)
               \<lparr>hrf_Query = query, hrf_Budget = [], hrf_MaxTokens = 0, hrf_Tags = tags, hrf_ResponseSchema = []\<rparr> (snd s) of
               (w', Inl err) \<Rightarrow> ((fst s, w'), MsError 502 ''upstream_error'' (me_err e err))
             | (w', Inr resp) \<Rightarrow> ((fst s, w'), MsBody 200 (JObj [(''text'', JStr (hrp_Text resp))])))"

definition forget_delete :: "'w ms_env \<Rightarrow> string \<Rightarrow> ms_state \<times> 'w \<Rightarrow> (ms_state \<times> 'w) \<times> ms_reply" where
  "forget_delete e targetID s =
     (case hs_DeleteMemory (me_hc e) (me_http e) (me_bank e) targetID (snd s) of
        (w', Inl err) \<Rightarrow> ((fst s, w'),
          if IsNotFound err then MsError 404 ''not_found'' ''memory does not exist'' else MsError 502 ''upstream_error'' (me_err e err))
      | (w', Inr _) \<Rightarrow> ((fst s, w'), MsBody 200 (JObj [(''deleted_id'', JStr targetID)])))"

definition handleForget :: "'w ms_env \<Rightarrow> json option \<Rightarrow> ms_state \<times> 'w \<Rightarrow> (ms_state \<times> 'w) \<times> ms_reply" where
  "handleForget e body s =
     (case Option.bind body dec_ForgetRequest of
        None \<Rightarrow> (s, MsError 400 ''invalid_request'' (me_bad e))
      | Some (memoryID, query) \<Rightarrow>
        if memoryID \<noteq> [] then forget_delete e memoryID s
        else if query = [] then (s, MsError 400 ''invalid_request'' ''memory_id or query required'')
        else case hs_Recall (me_hc e) (me_http e) (me_bank e) (zero_HsRecallRequest\<lparr>hrc_Query := query\<rparr>) (snd s) of
               (w', Inl err) \<Rightarrow> ((fst s, w'), MsError 502 ''upstream_error'' (me_err e err))
             | (w', Inr resp) \<Rightarrow>
                 (case hrr_Results resp of
                    [] \<Rightarrow> ((fst s, w'), MsError 404 ''not_found'' ''no memory matched query'')
                  | m # _ \<Rightarrow> forget_delete e (rec_ID m) (fst s, w')))"

section \<open>Webhooks\<close>

definition webhookSigHeaders :: "string list" where
  "webhookSigHeaders = [''X-Hindsight-Signature'', ''X-Signature-256'', ''X-Hub-Signature-256'', ''X-Signature'']"

definition verifySignature :: "'w ms_env \<Rightarrow> (string \<Rightarrow> string) \<Rightarrow> string \<Rightarrow> bool" where
  "verifySignature e header body \<longleftrightarrow>
     me_secret e = [] \<or>
     (let expected = me_hmac e (me_secret e) body in
      list_ex (\<lambda>h. let sig = header h in
        sig \<noteq> [] \<and> (equal_fold sig expected \<or> equal_fold (trim_prefix sig ''sha256='') expected)) webhookSigHeaders)"

text \<open>The body is the text read, or the error of reading it.\<close>

definition handleWebhook :: "'w ms_env \<Rightarrow> (string \<Rightarrow> string) \<Rightarrow> string + string \<Rightarrow> ms_reply" where
  "handleWebhook e header body =
     (case body of
        Inl err \<Rightarrow> MsError 400 ''invalid_request'' err
      | Inr b \<Rightarrow>
          if \<not> verifySignature e header b then MsError 401 ''invalid_signature'' ''signature did not match''
          else MsStatus 200)"

definition sameStringSet :: "string list \<Rightarrow> string list \<Rightarrow> bool" where
  "sameStringSet a b \<longleftrightarrow> length a = length b \<and> list_all (\<lambda>s. s \<in> set a) b"

definition webhook_targets :: "(string \<times> string list) list" where
  "webhook_targets = [(''/hooks/hind/retain'', [''retain.completed'']), (''/hooks/hind/consolidation'', [''consolidation.completed''])]"

fun register_targets :: "'w ms_env \<Rightarrow> Webhook list \<Rightarrow> (string \<times> string list) list \<Rightarrow> 'w \<Rightarrow> 'w \<times> rest_error option" where
  "register_targets e existing [] w = (w, None)"
| "register_targets e existing ((urlPath, events) # ts) w =
     (let wantURL = trim_right_slash (me_externalURL e) @ urlPath in
      case find (\<lambda>wh. wh_URL wh = wantURL) existing of
        None \<Rightarrow>
          (case hs_CreateWebhook (me_hc e) (me_http e) (me_bank e)
                  \<lparr>cw_URL = wantURL, cw_Secret = me_secret e, cw_EventTypes = events, cw_Enabled = True, cw_HTTPConfig = None\<rparr> w of
             (w', Inl err) \<Rightarrow> (w', Some err)
           | (w', Inr _) \<Rightarrow> register_targets e existing ts w')
      | Some wh \<Rightarrow>
          if \<not> sameStringSet (wh_EventTypes wh) events \<or> \<not> wh_Enabled wh then
            (case hs_UpdateWebhook (me_hc e) (me_http e) (me_bank e) (wh_ID wh)
                    \<lparr>uw_URL = None, uw_EventTypes = events, uw_Enabled = Some True, uw_HTTPConfig = None\<rparr> w of
               (w', Inl err) \<Rightarrow> (w', Some err)
             | (w', Inr _) \<Rightarrow> register_targets e existing ts w')
          else register_targets e existing ts w)"

definition RegisterWebhooks :: "'w ms_env \<Rightarrow> 'w \<Rightarrow> 'w \<times> rest_error option" where
  "RegisterWebhooks e w =
     (if me_externalURL e = [] then
        (w, Some (RestArgument ''memoryservice: MEMORY_SERVICE_EXTERNAL_URL required for webhook registration''))
      else case hs_ListWebhooks (me_hc e) (me_http e) (me_bank e) w of
             (w', Inl err) \<Rightarrow> (w', Some err)
           | (w', Inr existing) \<Rightarrow> register_targets e existing webhook_targets w')"

section \<open>The service as its client reaches it\<close>

fun reply_text :: "(json \<Rightarrow> string) \<Rightarrow> ms_reply \<Rightarrow> wire_reply" where
  "reply_text render (MsError code kind msg) =
     HttpReply code (render (JObj [(''error'', JObj [(''code'', JStr kind), (''message'', JStr msg)])]))"
| "reply_text render (MsBody code j) = HttpReply code (render j)"
| "reply_text render (MsStatus code) = HttpReply code []"

text \<open>The routes its client uses; the router answers everything else with 404 or 405.\<close>

definition memory_routes ::
  "'w ms_env \<Rightarrow> (nat \<Rightarrow> MemoryConfig) \<Rightarrow> (json \<Rightarrow> string) \<Rightarrow> string \<Rightarrow> (ms_state \<times> 'w) transport" where
  "memory_routes e resolve render base req s =
     (let route = (\<lambda>path. hq_Method req = ''POST'' \<and> hq_URL req = base @ path) in
      if route ''/retain'' then map_prod id (reply_text render) (handleRetain e resolve (hq_Body req) s)
      else if route ''/recall'' then map_prod id (reply_text render) (handleRecall e resolve (hq_Body req) s)
      else if route ''/reflect'' then map_prod id (reply_text render) (handleReflect e (hq_Body req) s)
      else if route ''/forget'' then map_prod id (reply_text render) (handleForget e (hq_Body req) s)
      else (s, HttpReply 404 ''404 page not found''))"

section \<open>What reaches the engine\<close>

lemma meta_put_normal [simp]: "map_entries (meta_put k v m) = meta_put k v m"
  by (simp add: meta_put_def)

lemma map_entries_Nil [simp]: "map_entries [] = []"
  by (simp add: map_entries_def)

lemma map_of_meta_put: "map_entries m = m \<Longrightarrow> map_of (meta_put k v m) k' = (if k' = k then Some v else map_of m k')"
  by (auto simp: meta_put_def map_of_map_entries map_of_normal)

lemma fill_speaker_of:
  assumes "map_entries m = m"
  shows "map_entries (fill_speaker cfg m) = fill_speaker cfg m"
    "map_of (fill_speaker cfg m) k = (if k = ''speaker_id'' \<and> map_of m k = None
       then Some (if mem_PrimaryUserID cfg \<noteq> [] then mem_PrimaryUserID cfg else ''unknown'') else map_of m k)"
  using assms by (auto simp: fill_speaker_def map_of_meta_put)

lemma fill_provenance_of:
  assumes "map_entries m = m"
  shows "map_entries (fill_provenance cfg m) = fill_provenance cfg m"
    "map_of (fill_provenance cfg m) k = (if k = ''provenance'' \<and> map_of m k = None then Some (defaultProvenance cfg) else map_of m k)"
  using assms by (auto simp: fill_provenance_def map_of_meta_put)

lemma inferFactType_valid: "validFactType (inferFactType content entities)"
  by (simp add: inferFactType_def validFactType_def)

definition policy_metadata :: "RetainRequest \<Rightarrow> (string \<times> string) list \<Rightarrow> bool" where
  "policy_metadata req m \<longleftrightarrow>
     (\<exists>p. map_of m ''provenance'' = Some p \<and> validProvenance p) \<and>
     (\<exists>ft. map_of m ''fact_type'' = Some ft \<and> validFactType ft) \<and>
     (map_of (rq_Metadata req) ''fact_type'' = None \<longrightarrow> map_of m ''fact_type'' = Some (
        if \<exists>cue \<in> set timeScuedCues. contains_sub (to_lower (rq_Content req)) cue then ''context_fact''
        else if \<exists>x \<in> set (rq_Entities req). \<not> has_prefix x ''class:'' then ''person_fact'' else ''world_fact'')) \<and>
     map_of m ''speaker_id'' \<noteq> None \<and>
     (\<forall>k v. map_of (rq_Metadata req) k = Some v \<longrightarrow> map_of m k = Some v) \<and>
     (\<forall>k. k \<notin> {''provenance'', ''fact_type'', ''speaker_id''} \<longrightarrow> map_of m k = map_of (rq_Metadata req) k)"

lemma handleRetain_cases:
  assumes "handleRetain e resolve (Some j) s = (s', reply)"
  obtains (refused) kind msg where "reply = MsError 400 kind msg" "snd s' = snd s"
  | (sent) req m s1 where "dec_RetainRequest j = Some req" "rq_Content req \<noteq> []" "policy_metadata req m" "snd s1 = snd s"
      "(s', reply) = retain_send e req m s1"
proof (cases "dec_RetainRequest j")
  case None
  with assms show ?thesis by (intro refused) (auto simp: handleRetain_def)
next
  case (Some req)
  note norm = dec_RetainRequest_normal [OF Some]
  let ?m1 = "fill_provenance (resolve 0) (rq_Metadata req)"
  let ?m2 = "fill_speaker (resolve 1) ?m1"
  let ?s1 = "if map_of ?m2 ''speaker_id'' = Some ''unknown''
    then ((fst s)\<lparr>st_unknownSpeakerRetains := st_unknownSpeakerRetains (fst s) + 1\<rparr>, snd s) else s"
  note m1 = fill_provenance_of(2) [OF norm, of "resolve 0"]
  note m2 = fill_speaker_of [OF fill_provenance_of(1) [OF norm], of "resolve 1" "resolve 0"]
  consider (empty) "rq_Content req = []"
    | (provenance) "rq_Content req \<noteq> []" "\<not> validProvenance (the (map_of ?m1 ''provenance''))"
    | (fact_type) ft where "rq_Content req \<noteq> []" "validProvenance (the (map_of ?m1 ''provenance''))"
        "map_of ?m2 ''fact_type'' = Some ft" "\<not> validFactType ft"
    | (kept) ft where "rq_Content req \<noteq> []" "validProvenance (the (map_of ?m1 ''provenance''))"
        "map_of ?m2 ''fact_type'' = Some ft" "validFactType ft"
    | (inferred) "rq_Content req \<noteq> []" "validProvenance (the (map_of ?m1 ''provenance''))" "map_of ?m2 ''fact_type'' = None"
    by blast
  then show ?thesis
  proof cases
    case empty
    with assms Some show ?thesis by (intro refused [of "''invalid_request''"]) (auto simp: handleRetain_def)
  next
    case provenance
    with assms Some show ?thesis by (intro refused [of "''invalid_provenance''"]) (auto simp: handleRetain_def Let_def)
  next
    case fact_type
    with assms Some have "(s', reply) = (?s1, MsError 400 ''invalid_fact_type''
        (''metadata.fact_type must be one of person_fact|world_fact|context_fact|procedural_fact; got '' @ me_quote e ft))"
      by (simp add: handleRetain_def Let_def)
    then show ?thesis by (intro refused) (simp_all split: if_splits)
  next
    case kept
    with assms Some have "(s', reply) = retain_send e req ?m2 ?s1" by (simp add: handleRetain_def Let_def)
    moreover have "policy_metadata req ?m2"
      using kept m2 m1 by (auto simp: policy_metadata_def)
    ultimately show ?thesis using Some kept(1) by (intro sent [of req ?m2 ?s1]) simp_all
  next
    case inferred
    let ?m = "meta_put ''fact_type'' (inferFactType (rq_Content req) (rq_Entities req)) ?m2"
    from inferred assms Some have "(s', reply) = retain_send e req ?m ?s1" by (simp add: handleRetain_def Let_def)
    moreover have "policy_metadata req ?m"
      using inferred m2 m1 inferFactType_valid by (auto simp: policy_metadata_def map_of_meta_put inferFactType_def list_ex_iff)
    ultimately show ?thesis using Some inferred(1) by (intro sent [of req ?m ?s1]) simp_all
  qed
qed


text \<open>An engine that accepts every item and lists what it was sent.\<close>

definition accepting_engine :: "json list transport" where
  "accepting_engine req seen =
     (seen @ (case hq_Body req of None \<Rightarrow> [] | Some j \<Rightarrow> [j]), HttpReply 200 [])"

definition test_env :: "json list ms_env" where
  "test_env = \<lparr>me_hc = Hindsight_New ''http://h'' [] (\<lambda>_. None), me_http = accepting_engine, me_bank = ''b'', me_externalURL = ''http://m'',
     me_secret = ''k'', me_hmac = (\<lambda>k b. ''abc''), me_err = (\<lambda>_. []), me_quote = id, me_bad = []\<rparr>"


section \<open>Recall\<close>

lemma limitToTokens_bounds: "1024 \<le> limitToTokens limit \<and> limitToTokens limit \<le> 8192"
  by (simp add: limitToTokens_def Let_def)

lemma recall_filter_of:
  "map_of (recall_filter sp fts) ''speaker_id'' = (if sp = [] then None else Some sp)"
  "map_of (recall_filter sp fts) ''fact_type'' = (if length fts = 1 then Some (hd fts) else None)"
  by (auto simp: recall_filter_def Let_def map_of_meta_put)

definition normal_response :: "HsRecallResponse \<Rightarrow> bool" where
  "normal_response resp \<longleftrightarrow> list_all (\<lambda>m. map_entries (rec_Metadata m) = rec_Metadata m) (hrr_Results resp) \<and>
     map_entries (hrr_SourceFacts resp) = hrr_SourceFacts resp \<and>
     list_all (\<lambda>(i, m). map_entries (rec_Metadata m) = rec_Metadata m) (hrr_SourceFacts resp)"

lemma map_entries_map_snd:
  assumes "map_entries m = m"
  shows "map_entries (map (\<lambda>(k, v). (k, f v)) m) = map (\<lambda>(k, v). (k, f v)) m"
proof (rule map_entries_sorted)
  have "map fst m = sort (remdups (map fst m))" using map_entries_keys [of m] assms by simp
  then have "sorted (map fst m)" "distinct (map fst m)" by (metis sorted_sort, metis distinct_remdups distinct_sort)
  then show "sorted (map fst (map (\<lambda>(k, v). (k, f v)) m))" "distinct (map fst (map (\<lambda>(k, v). (k, f v)) m))"
    by (simp_all add: comp_def split_def)
qed

lemma dec_enc_recall_reply:
  assumes "normal_response resp"
  shows "dec_RecallResponse (enc_RecallResponse (recall_reply limit resp)) = Some (recall_reply limit resp)"
proof (rule dec_enc_RecallResponse)
  show "\<forall>m \<in> set (rr_Memories (recall_reply limit resp)). map_entries (ms_Metadata m) = ms_Metadata m"
    using assms by (auto simp: recall_reply_def normal_response_def list_all_iff translateResult_def Let_def take_map dest: in_set_takeD)
  show "normal_summaries (rr_SourceFacts (recall_reply limit resp))"
    using assms map_entries_map_snd [of "hrr_SourceFacts resp" translateResult]
    by (auto simp: recall_reply_def normal_response_def normal_summaries_def list_all_iff translateResult_def Let_def)
qed

lemma recall_via_routes:
  assumes "handleRecall e resolve (Some (enc_RecallRequest req)) s = (s', reply)" "reply_text render reply = HttpReply code txt"
  shows "MemoryClient_Recall c (memory_routes e resolve render (mc_baseURL c)) cid req s =
    (s', if code < 200 \<or> code \<ge> 300 then Inl (RestStatus code ''POST'' ''/recall'' txt)
         else if txt = [] then Inr \<lparr>rr_Memories = [], rr_SourceFacts = []\<rparr>
         else case Option.bind (mc_parse c txt) dec_RecallResponse of
                None \<Rightarrow> Inl (RestDecode ''POST'' ''/recall'') | Some v \<Rightarrow> Inr v)"
  using assms by (simp add: MemoryClient_Recall_def memory_do_def rest_call_def memory_routes_def Let_def split: option.splits)




text \<open>A recall for two fact types or more is not restricted by fact type at all.\<close>

theorem several_fact_types_unfiltered:
  assumes "length (rc_FactTypes req) \<noteq> 1"
  shows "map_of (hrc_Metadata (hs_recall_request req types sp)) ''fact_type'' = None"
  using assms by (simp add: hs_recall_request_def recall_filter_of)

text \<open>A retain that is refused for its fact type has already been counted as one of an unknown speaker.\<close>

theorem refused_retain_counted:
  "handleRetain e (\<lambda>_. DefaultMemoryConfig)
     (Some (JObj [(''content'', JStr ''c''), (''metadata'', JObj [(''fact_type'', JStr ''x'')])])) (MemoryService_New, w) =
   ((\<lparr>st_reachable = True, st_unknownSpeakerRetains = 1\<rparr>, w), MsError 400 ''invalid_fact_type''
     (''metadata.fact_type must be one of person_fact|world_fact|context_fact|procedural_fact; got '' @ me_quote e ''x''))"
proof -
  let ?req = "zero_RetainRequest\<lparr>rq_Content := ''c'', rq_Metadata := [(''fact_type'', ''x'')]\<rparr>"
  have "dec_RetainRequest (JObj [(''content'', JStr ''c''), (''metadata'', JObj [(''fact_type'', JStr ''x'')])]) = Some ?req"
    by code_simp
  moreover have "fill_provenance DefaultMemoryConfig [(''fact_type'', ''x'')] = [(''fact_type'', ''x''), (''provenance'', ''explicit'')]"
    by code_simp
  moreover have "fill_speaker DefaultMemoryConfig [(''fact_type'', ''x''), (''provenance'', ''explicit'')] =
      [(''fact_type'', ''x''), (''provenance'', ''explicit''), (''speaker_id'', ''unknown'')]"
    by code_simp
  ultimately show ?thesis
    by (simp add: handleRetain_def validProvenance_def validFactType_def MemoryService_New_def)
qed

section \<open>Webhooks\<close>

lemma trim_prefix_cases: "trim_prefix (p @ s) p = s" "\<not> has_prefix s p \<Longrightarrow> trim_prefix s p = s"
  by (simp_all add: trim_prefix_def)

text \<open>
  C33. A webhook is accepted exactly if no secret is configured or one of the four headers carries the keyed digest
  of the body, in either case of its letters, bare or after \<^verbatim>\<open>sha256=\<close>.
\<close>

theorem webhook_signed:
  "handleWebhook e header (Inr body) = MsStatus 200 \<longleftrightarrow>
    me_secret e = [] \<or>
    (\<exists>h \<in> set webhookSigHeaders. \<exists>d. header h \<noteq> [] \<and> equal_fold d (me_hmac e (me_secret e) body) \<and>
       (header h = d \<or> header h = ''sha256='' @ d))"
proof -
  let ?x = "me_hmac e (me_secret e) body"
  have "equal_fold sig ?x \<or> equal_fold (trim_prefix sig ''sha256='') ?x \<longleftrightarrow>
      (\<exists>d. equal_fold d ?x \<and> (sig = d \<or> sig = ''sha256='' @ d))" for sig
  proof (cases "has_prefix sig ''sha256=''")
    case True
    then obtain t where "sig = ''sha256='' @ t" by (auto simp: has_prefix_iff)
    then show ?thesis by (metis append_same_eq same_append_eq trim_prefix_cases(1))
  next
    case False
    then show ?thesis by (metis has_prefix_append trim_prefix_cases(2))
  qed
  then show ?thesis
    by (auto simp: handleWebhook_def verifySignature_def Let_def list_ex_iff)
qed

end
