(* ===== verification/Memory_Sync.thy ===== *)
theory Memory_Sync
  imports Memory_Service
begin

text \<open>
  Seeding the memory engine (\<^verbatim>\<open>internal/memoryservice/config.go\<close>, \<^verbatim>\<open>sync.go\<close>, and the sync loop of \<^verbatim>\<open>cmd/memory-service/main.go\<close>): the seed read
  from YAML files, and the pass that brings the engine's bank, settings and directives in line with it. The methods of
  the engine's client the pass calls are a record, so that what is asked of the engine can be said; \<open>client_api\<close> is
  the record of the HTTP client. A Go \<^verbatim>\<open>int\<close> inside an \<^verbatim>\<open>any\<close> is a \<open>JInt\<close>, a \<^verbatim>\<open>float64\<close> a \<open>JReal\<close>.
\<close>

section \<open>The seed\<close>

record BankSeed =
  bs_BankID :: string
  bs_Name :: string
  bs_Disposition :: DispositionTraits
  bs_Config :: "(string \<times> json) list"

record DirectiveSeed =
  ds_Name :: string
  ds_Content :: string
  ds_Priority :: int
  ds_IsActive :: "bool option"
  ds_Tags :: "string list"

record SeedConfig =
  sc_Bank :: BankSeed
  sc_Missions :: "(string \<times> string) list"
  sc_Directives :: "DirectiveSeed list"

datatype file_read = FileMissing | FileError string | FileData string

record seed_entry =
  de_Name :: string
  de_IsDir :: bool
  de_Read :: file_read

datatype seed_error = SeedParse string | SeedRead string | SeedNoField string | SeedNoName string

text \<open>The YAML decoder, by the type it decodes into.\<close>

record yaml =
  ym_bank :: "string \<Rightarrow> BankSeed option"
  ym_mission :: "string \<Rightarrow> (string \<times> string) option"     \<comment> \<open>\<^verbatim>\<open>missionFile{Field, Text}\<close>\<close>
  ym_directive :: "string \<Rightarrow> DirectiveSeed option"

definition zero_BankSeed :: BankSeed where
  "zero_BankSeed = \<lparr>bs_BankID = [], bs_Name = [], bs_Disposition = \<lparr>dt_Skepticism = 0, dt_Literalism = 0, dt_Empathy = 0\<rparr>, bs_Config = []\<rparr>"

definition seed_file :: "seed_entry \<Rightarrow> bool" where
  "seed_file d \<longleftrightarrow> \<not> de_IsDir d \<and> has_suffix (de_Name d) ''.yaml''"

fun load_missions ::
  "yaml \<Rightarrow> seed_entry list \<Rightarrow> (string \<times> string) list \<Rightarrow> (string \<times> json) list \<Rightarrow> seed_error + (string \<times> string) list \<times> (string \<times> json) list" where
  "load_missions y [] missions config = Inr (missions, config)"
| "load_missions y (d # ds) missions config =
     (if \<not> seed_file d then load_missions y ds missions config
      else case de_Read d of
        FileData data \<Rightarrow>
          (case ym_mission y data of
             None \<Rightarrow> Inl (SeedParse (de_Name d))
           | Some (field, txt) \<Rightarrow>
               if field = [] then Inl (SeedNoField (de_Name d))
               else load_missions y ds (map_entries (missions @ [(field, txt)])) (map_entries (config @ [(field, JStr txt)])))
      | _ \<Rightarrow> Inl (SeedRead (de_Name d)))"

fun load_directives :: "yaml \<Rightarrow> seed_entry list \<Rightarrow> seed_error + DirectiveSeed list" where
  "load_directives y [] = Inr []"
| "load_directives y (d # ds) =
     (case de_Read d of
        FileData data \<Rightarrow>
          (case ym_directive y data of
             None \<Rightarrow> Inl (SeedParse (de_Name d))
           | Some s \<Rightarrow>
               if ds_Name s = [] \<or> ds_Content s = [] then Inl (SeedNoName (de_Name d))
               else (case load_directives y ds of Inl err \<Rightarrow> Inl err | Inr rest \<Rightarrow> Inr (s # rest)))
      | _ \<Rightarrow> Inl (SeedRead (de_Name d)))"

text \<open>The bank file, the entries of the missions directory and those of the directives directory, as the system lists them.\<close>

definition LoadSeedConfig :: "yaml \<Rightarrow> file_read \<Rightarrow> seed_entry list \<Rightarrow> seed_entry list \<Rightarrow> seed_error + SeedConfig" where
  "LoadSeedConfig y bankFile missionDir directiveDir =
     (case (case bankFile of
              FileData data \<Rightarrow> (case ym_bank y data of None \<Rightarrow> Inl (SeedParse ''bank.yaml'') | Some b \<Rightarrow> Inr b)
            | FileMissing \<Rightarrow> Inr zero_BankSeed
            | FileError _ \<Rightarrow> Inl (SeedRead ''bank.yaml'')) of
        Inl err \<Rightarrow> Inl err
      | Inr bank \<Rightarrow>
     (case load_missions y missionDir [] (bs_Config bank) of
        Inl err \<Rightarrow> Inl err
      | Inr (missions, config) \<Rightarrow>
     (case load_directives y (sort_key de_Name (filter seed_file directiveDir)) of
        Inl err \<Rightarrow> Inl err
      | Inr directives \<Rightarrow> Inr \<lparr>sc_Bank = bank\<lparr>bs_Config := config\<rparr>, sc_Missions = missions, sc_Directives = directives\<rparr>)))"

definition splitDenylist :: "string \<Rightarrow> string list" where
  "splitDenylist s = filter (\<lambda>t. t \<noteq> []) (map trim_space (split_on (CHR '','') s))"

definition name_hits :: "string list \<Rightarrow> string \<Rightarrow> nat" where
  "name_hits names txt = length (filter (\<lambda>name. contains_sub (to_lower txt) (to_lower name)) names)"

definition CheckDenylist :: "SeedConfig \<Rightarrow> string \<Rightarrow> nat" where
  "CheckDenylist seed denylist =
     (let names = splitDenylist denylist in
      sum_list (map (\<lambda>(field, txt). name_hits names txt) (sc_Missions seed)) +
      sum_list (map (\<lambda>d. name_hits names (ds_Content d)) (sc_Directives seed)))"

section \<open>The sync pass\<close>

record 'w hs_api =
  ha_ListBanks :: "('w, BankListItem list) hs_call"
  ha_CreateBank :: "string \<Rightarrow> string \<Rightarrow> ('w, BankListItem) hs_call"
  ha_GetBankConfig :: "string \<Rightarrow> ('w, BankConfigResponse) hs_call"
  ha_PatchBankConfig :: "string \<Rightarrow> (string \<times> json) list \<Rightarrow> ('w, BankConfigResponse) hs_call"
  ha_ListDirectives :: "string \<Rightarrow> ('w, Directive list) hs_call"
  ha_CreateDirective :: "string \<Rightarrow> CreateDirectiveRequest \<Rightarrow> ('w, Directive) hs_call"
  ha_UpdateDirective :: "string \<Rightarrow> string \<Rightarrow> UpdateDirectiveRequest \<Rightarrow> ('w, Directive) hs_call"

definition client_api :: "hs_client \<Rightarrow> 'w transport \<Rightarrow> 'w hs_api" where
  "client_api c http =
     \<lparr>ha_ListBanks = hs_ListBanks c http, ha_CreateBank = hs_CreateBank c http, ha_GetBankConfig = hs_GetBankConfig c http,
      ha_PatchBankConfig = hs_PatchBankConfig c http, ha_ListDirectives = hs_ListDirectives c http,
      ha_CreateDirective = hs_CreateDirective c http, ha_UpdateDirective = hs_UpdateDirective c http\<rparr>"

datatype sync_error = SyncBankMismatch | SyncBank rest_error | SyncConfig rest_error | SyncDirectives rest_error

definition ensureBank :: "'w hs_api \<Rightarrow> string \<Rightarrow> SeedConfig \<Rightarrow> 'w \<Rightarrow> 'w \<times> rest_error option" where
  "ensureBank api bankID seed w =
     (case ha_ListBanks api w of
        (w', Inl err) \<Rightarrow> (w', Some err)
      | (w', Inr banks) \<Rightarrow>
          if list_ex (\<lambda>b. bli_BankID b = bankID) banks then (w', None)
          else (case ha_CreateBank api bankID (bs_Name (sc_Bank seed)) w' of
                  (w'', Inl err) \<Rightarrow> (w'', Some err)
                | (w'', Inr _) \<Rightarrow> (w'', None)))"

text \<open>\<open>num\<close> is the way of a JSON number into \<^verbatim>\<open>float64\<close>.\<close>

definition config_updates :: "(json \<Rightarrow> json) \<Rightarrow> (string \<times> json) list \<Rightarrow> (string \<times> json) list \<Rightarrow> (string \<times> json) list" where
  "config_updates num current want =
     filter (\<lambda>(k, v). map_option (through_any num) (map_of current k) \<noteq> Some v) want"

definition syncConfig :: "'w hs_api \<Rightarrow> (json \<Rightarrow> json) \<Rightarrow> string \<Rightarrow> SeedConfig \<Rightarrow> 'w \<Rightarrow> 'w \<times> rest_error option" where
  "syncConfig api num bankID seed w =
     (if bs_Config (sc_Bank seed) = [] then (w, None)
      else case ha_GetBankConfig api bankID w of
        (w', Inl err) \<Rightarrow> (w', Some err)
      | (w', Inr current) \<Rightarrow>
          let updates = config_updates num (bc_Config current) (bs_Config (sc_Bank seed)) in
          if updates = [] then (w', None)
          else (case ha_PatchBankConfig api bankID updates w' of
                  (w'', Inl err) \<Rightarrow> (w'', Some err)
                | (w'', Inr _) \<Rightarrow> (w'', None)))"

definition tagsEqual :: "string list \<Rightarrow> string list \<Rightarrow> bool" where
  "tagsEqual a b \<longleftrightarrow> length a = length b \<and> list_all (\<lambda>t. t \<in> set a) b"

definition seed_active :: "DirectiveSeed \<Rightarrow> bool" where
  "seed_active s = (case ds_IsActive s of None \<Rightarrow> True | Some b \<Rightarrow> b)"

definition in_sync :: "DirectiveSeed \<Rightarrow> Directive \<Rightarrow> bool" where
  "in_sync s d \<longleftrightarrow> dv_Content d = ds_Content s \<and> dv_Priority d = ds_Priority s \<and> dv_IsActive d = seed_active s \<and>
     tagsEqual (dv_Tags d) (ds_Tags s)"

fun sync_each :: "'w hs_api \<Rightarrow> string \<Rightarrow> (string \<rightharpoonup> Directive) \<Rightarrow> DirectiveSeed list \<Rightarrow> 'w \<Rightarrow> 'w \<times> rest_error option" where
  "sync_each api bankID byName [] w = (w, None)"
| "sync_each api bankID byName (s # ss) w =
     (case byName (ds_Name s) of
        None \<Rightarrow>
          (case ha_CreateDirective api bankID \<lparr>cd_Name = ds_Name s, cd_Content = ds_Content s, cd_Priority = ds_Priority s,
                  cd_IsActive = seed_active s, cd_Tags = ds_Tags s\<rparr> w of
             (w', Inl err) \<Rightarrow> (w', Some err)
           | (w', Inr _) \<Rightarrow> sync_each api bankID byName ss w')
      | Some cur \<Rightarrow>
          if in_sync s cur then sync_each api bankID byName ss w
          else (case ha_UpdateDirective api bankID (dv_ID cur) \<lparr>ud_Name = None, ud_Content = Some (ds_Content s),
                       ud_Priority = Some (ds_Priority s), ud_IsActive = Some (seed_active s), ud_Tags = ds_Tags s\<rparr> w of
                  (w', Inl err) \<Rightarrow> (w', Some err)
                | (w', Inr _) \<Rightarrow> sync_each api bankID byName ss w'))"

definition by_name :: "Directive list \<Rightarrow> string \<rightharpoonup> Directive" where
  "by_name ds = map_of (rev (map (\<lambda>d. (dv_Name d, d)) ds))"

definition syncDirectives :: "'w hs_api \<Rightarrow> string \<Rightarrow> SeedConfig \<Rightarrow> 'w \<Rightarrow> 'w \<times> rest_error option" where
  "syncDirectives api bankID seed w =
     (if sc_Directives seed = [] then (w, None)
      else case ha_ListDirectives api bankID w of
        (w', Inl err) \<Rightarrow> (w', Some err)
      | (w', Inr existing) \<Rightarrow> sync_each api bankID (by_name existing) (sc_Directives seed) w')"

definition Syncer_Apply :: "'w hs_api \<Rightarrow> (json \<Rightarrow> json) \<Rightarrow> string \<Rightarrow> SeedConfig \<Rightarrow> 'w \<Rightarrow> 'w \<times> sync_error option" where
  "Syncer_Apply api num bankID seed w =
     (if bs_BankID (sc_Bank seed) \<noteq> [] \<and> bs_BankID (sc_Bank seed) \<noteq> bankID then (w, Some SyncBankMismatch)
      else case ensureBank api bankID seed w of
        (w1, Some err) \<Rightarrow> (w1, Some (SyncBank err))
      | (w1, None) \<Rightarrow>
          (case syncConfig api num bankID seed w1 of
             (w2, Some err) \<Rightarrow> (w2, Some (SyncConfig err))
           | (w2, None) \<Rightarrow>
               (case syncDirectives api bankID seed w2 of
                  (w3, Some err) \<Rightarrow> (w3, Some (SyncDirectives err))
                | (w3, None) \<Rightarrow> (w3, None))))"

datatype once_error = OnceSeed seed_error | OnceSync sync_error | OnceWebhooks rest_error

definition syncOnce :: "'w ms_env \<Rightarrow> (json \<Rightarrow> json) \<Rightarrow> seed_error + SeedConfig \<Rightarrow> 'w \<Rightarrow> 'w \<times> once_error option" where
  "syncOnce e num loaded w =
     (case loaded of
        Inl err \<Rightarrow> (w, Some (OnceSeed err))
      | Inr seed \<Rightarrow>
          (case Syncer_Apply (client_api (me_hc e) (me_http e)) num (me_bank e) seed w of
             (w1, Some err) \<Rightarrow> (w1, Some (OnceSync err))
           | (w1, None) \<Rightarrow>
               (case RegisterWebhooks e w1 of
                  (w2, Some err) \<Rightarrow> (w2, Some (OnceWebhooks err))
                | (w2, None) \<Rightarrow> (w2, None))))"

text \<open>
  The loop: each round has the seed as loaded then and whether the wait after a failure is cut short by the end of
  the context. The result says whether the sync completed; \<open>None\<close> while rounds are to come.
\<close>

fun runSyncLoop ::
  "'w ms_env \<Rightarrow> (json \<Rightarrow> json) \<Rightarrow> ((seed_error + SeedConfig) \<times> bool) list \<Rightarrow> ms_state \<Rightarrow> 'w \<Rightarrow> ms_state \<times> 'w \<times> bool option" where
  "runSyncLoop e num [] st w = (st, w, None)"
| "runSyncLoop e num ((loaded, cancelled) # rounds) st w =
     (case syncOnce e num loaded w of
        (w', None) \<Rightarrow> (MarkHindsightReachable True st, w', Some True)
      | (w', Some _) \<Rightarrow>
          let st = MarkHindsightReachable False st in
          if cancelled then (st, w', Some False) else runSyncLoop e num rounds st w')"

section \<open>Directives converge\<close>

text \<open>
  What the pass relies on of the engine's directive endpoints: \<open>dirs\<close> is the list the engine has, listing returns it and
  changes nothing, creating appends what was asked for, patching changes the given fields of the directive with
  that id and leaves a field that is not in the request as it was; ids are distinct.
\<close>

definition patched :: "UpdateDirectiveRequest \<Rightarrow> Directive \<Rightarrow> Directive \<Rightarrow> bool" where
  "patched req d d' \<longleftrightarrow>
     dv_ID d' = dv_ID d \<and>
     dv_Name d' = (case ud_Name req of None \<Rightarrow> dv_Name d | Some v \<Rightarrow> v) \<and>
     dv_Content d' = (case ud_Content req of None \<Rightarrow> dv_Content d | Some v \<Rightarrow> v) \<and>
     dv_Priority d' = (case ud_Priority req of None \<Rightarrow> dv_Priority d | Some v \<Rightarrow> v) \<and>
     dv_IsActive d' = (case ud_IsActive req of None \<Rightarrow> dv_IsActive d | Some v \<Rightarrow> v) \<and>
     dv_Tags d' = (if ud_Tags req = [] then dv_Tags d else ud_Tags req)"

definition directive_engine :: "'w hs_api \<Rightarrow> string \<Rightarrow> ('w \<Rightarrow> Directive list) \<Rightarrow> bool" where
  "directive_engine api bank dirs \<longleftrightarrow>
     (\<forall>w. ha_ListDirectives api bank w = (w, Inr (dirs w)) \<and> distinct (map dv_ID (dirs w))) \<and>
     (\<forall>w req. \<exists>w' d. ha_CreateDirective api bank req w = (w', Inr d) \<and> dirs w' = dirs w @ [d] \<and>
        dv_Name d = cd_Name req \<and> dv_Content d = cd_Content req \<and> dv_Priority d = cd_Priority req \<and>
        dv_IsActive d = cd_IsActive req \<and> dv_Tags d = cd_Tags req) \<and>
     (\<forall>w cur req. cur \<in> set (dirs w) \<longrightarrow> (\<exists>w' d. ha_UpdateDirective api bank (dv_ID cur) req w = (w', Inr d) \<and> patched req cur d \<and>
        dirs w' = map (\<lambda>x. if dv_ID x = dv_ID cur then d else x) (dirs w)))"

lemma tagsEqual_refl [simp]: "tagsEqual a a"
  by (simp add: tagsEqual_def list_all_iff)

lemma by_name_snoc: "by_name (ds @ [d]) n = (if n = dv_Name d then Some d else by_name ds n)"
  by (simp add: by_name_def)

lemma by_name_in: "by_name ds n = Some d \<Longrightarrow> d \<in> set ds \<and> dv_Name d = n"
  by (auto simp: by_name_def dest: map_of_SomeD)

lemma by_name_map:
  assumes "\<And>d. d \<in> set ds \<Longrightarrow> dv_Name (f d) = dv_Name d"
  shows "by_name (map f ds) n = map_option f (by_name ds n)"
  using assms by (induction ds rule: rev_induct) (auto simp: by_name_snoc, auto simp: by_name_def)

lemma by_name_patch:
  assumes "distinct (map dv_ID ds)" "cur \<in> set ds" "dv_Name d = dv_Name cur"
  shows "by_name (map (\<lambda>x. if dv_ID x = dv_ID cur then d else x) ds) n =
    (case by_name ds n of None \<Rightarrow> None | Some x \<Rightarrow> Some (if x = cur then d else x))"
proof -
  have same: "x = cur" if "x \<in> set ds" "dv_ID x = dv_ID cur" for x
    using assms(1,2) that by (auto simp: distinct_map inj_on_def)
  have "by_name (map (\<lambda>x. if dv_ID x = dv_ID cur then d else x) ds) n =
      map_option (\<lambda>x. if dv_ID x = dv_ID cur then d else x) (by_name ds n)"
    using assms(3) same by (intro by_name_map) auto
  then show ?thesis using same by (auto split: option.splits dest!: by_name_in)
qed

definition seeded :: "Directive list \<Rightarrow> DirectiveSeed \<Rightarrow> bool" where
  "seeded ds s \<longleftrightarrow> (\<exists>d. by_name ds (ds_Name s) = Some d \<and>
     dv_Content d = ds_Content s \<and> dv_Priority d = ds_Priority s \<and> dv_IsActive d = (ds_IsActive s \<noteq> Some False) \<and>
     length (dv_Tags d) = length (ds_Tags s) \<and> set (ds_Tags s) \<subseteq> set (dv_Tags d))"

lemma seeded_in_sync: "seeded ds s \<longleftrightarrow> (\<exists>d. by_name ds (ds_Name s) = Some d \<and> in_sync s d)"
  by (auto simp: seeded_def in_sync_def tagsEqual_def list_all_iff seed_active_def split: option.splits)

lemma sync_one:
  assumes eng: "directive_engine api bank dirs" and tags: "ds_Tags s \<noteq> []"
    and cur: "byName (ds_Name s) = by_name (dirs w) (ds_Name s)"
  shows "\<exists>w1. sync_each api bank byName (s # ss) w = sync_each api bank byName ss w1 \<and> seeded (dirs w1) s \<and>
    (\<forall>n. n \<noteq> ds_Name s \<longrightarrow> by_name (dirs w1) n = by_name (dirs w) n)"
proof (cases "byName (ds_Name s)")
  case None
  let ?req = "\<lparr>cd_Name = ds_Name s, cd_Content = ds_Content s, cd_Priority = ds_Priority s, cd_IsActive = seed_active s,
    cd_Tags = ds_Tags s\<rparr>"
  from eng obtain w1 d where c: "ha_CreateDirective api bank ?req w = (w1, Inr d)" "dirs w1 = dirs w @ [d]"
    "dv_Name d = cd_Name ?req" "dv_Content d = cd_Content ?req" "dv_Priority d = cd_Priority ?req"
    "dv_IsActive d = cd_IsActive ?req" "dv_Tags d = cd_Tags ?req"
    unfolding directive_engine_def by blast
  then have "in_sync s d" by (simp add: in_sync_def)
  with c None show ?thesis by (intro exI [of _ w1]) (simp add: by_name_snoc seeded_in_sync)
next
  case (Some d0)
  show ?thesis
  proof (cases "in_sync s d0")
    case True
    with Some cur show ?thesis by (intro exI [of _ w]) (simp add: seeded_in_sync)
  next
    case False
    let ?req = "\<lparr>ud_Name = None, ud_Content = Some (ds_Content s), ud_Priority = Some (ds_Priority s),
      ud_IsActive = Some (seed_active s), ud_Tags = ds_Tags s\<rparr>"
    have d0: "d0 \<in> set (dirs w)" "dv_Name d0 = ds_Name s" using Some cur by_name_in [of "dirs w"] by auto
    with eng obtain w1 d where u: "ha_UpdateDirective api bank (dv_ID d0) ?req w = (w1, Inr d)" "patched ?req d0 d"
      "dirs w1 = map (\<lambda>x. if dv_ID x = dv_ID d0 then d else x) (dirs w)"
      unfolding directive_engine_def by blast
    have d: "dv_Name d = dv_Name d0" "in_sync s d" using u(2) tags by (simp_all add: patched_def in_sync_def)
    have "by_name (dirs w1) n = (case by_name (dirs w) n of None \<Rightarrow> None | Some x \<Rightarrow> Some (if x = d0 then d else x))" for n
      unfolding u(3) using eng d0(1) d(1) by (intro by_name_patch) (auto simp: directive_engine_def)
    then have "by_name (dirs w1) (ds_Name s) = Some d" "n \<noteq> ds_Name s \<Longrightarrow> by_name (dirs w1) n = by_name (dirs w) n" for n
      using Some cur d0(2) by (auto split: option.splits dest: by_name_in)
    with Some False u(1) d(2) show ?thesis by (intro exI [of _ w1]) (simp add: seeded_in_sync)
  qed
qed

lemma sync_each_seeds:
  assumes "directive_engine api bank dirs"
  shows "distinct (map ds_Name ss) \<Longrightarrow> \<forall>s \<in> set ss. ds_Tags s \<noteq> [] \<and> byName (ds_Name s) = by_name (dirs w) (ds_Name s) \<Longrightarrow>
    \<exists>w'. sync_each api bank byName ss w = (w', None) \<and> (\<forall>s \<in> set ss. seeded (dirs w') s) \<and>
      (\<forall>n. n \<notin> ds_Name ` set ss \<longrightarrow> by_name (dirs w') n = by_name (dirs w) n)"
proof (induction ss arbitrary: w)
  case Nil
  then show ?case by simp
next
  case (Cons s ss)
  from Cons.prems sync_one [OF assms, of s byName w ss] obtain w1 where
    w1: "sync_each api bank byName (s # ss) w = sync_each api bank byName ss w1" "seeded (dirs w1) s"
      "\<forall>n. n \<noteq> ds_Name s \<longrightarrow> by_name (dirs w1) n = by_name (dirs w) n" by auto
  have ne: "ds_Name t \<noteq> ds_Name s" if "t \<in> set ss" for t using that Cons.prems(1) by (auto simp: image_iff)
  have "\<forall>t \<in> set ss. ds_Tags t \<noteq> [] \<and> byName (ds_Name t) = by_name (dirs w1) (ds_Name t)"
    using Cons.prems(2) w1(3) ne by auto
  with Cons.IH [of w1] Cons.prems(1) obtain w' where
    w': "sync_each api bank byName ss w1 = (w', None)" "\<forall>s \<in> set ss. seeded (dirs w') s"
      "\<forall>n. n \<notin> ds_Name ` set ss \<longrightarrow> by_name (dirs w') n = by_name (dirs w1) n" by auto
  have "by_name (dirs w') (ds_Name s) = by_name (dirs w1) (ds_Name s)" using w'(3) Cons.prems(1) by simp
  then have "seeded (dirs w') s" using w1(2) by (simp add: seeded_in_sync)
  then show ?case using w1 w' by (intro exI [of _ w']) auto
qed

lemma sync_each_idle:
  "\<forall>s \<in> set ss. \<exists>d. byName (ds_Name s) = Some d \<and> in_sync s d \<Longrightarrow> sync_each api bank byName ss w = (w, None)"
  by (induction ss) auto

text \<open>
  C25. The seed is imposed, once. On an engine that lists, creates and patches directives as described, a sync of directives
  with distinct names and tags succeeds, after it each seed directive is there under its name with the seed's content, priority,
  activity and tags, directives of other names are untouched, and a second sync changes nothing.
\<close>

theorem directives_converge:
  assumes "directive_engine api bank dirs" "distinct (map ds_Name (sc_Directives seed))" "\<forall>s \<in> set (sc_Directives seed). ds_Tags s \<noteq> []"
  shows "\<exists>w'. syncDirectives api bank seed w = (w', None) \<and> (\<forall>s \<in> set (sc_Directives seed). seeded (dirs w') s) \<and>
    (\<forall>n. n \<notin> ds_Name ` set (sc_Directives seed) \<longrightarrow> by_name (dirs w') n = by_name (dirs w) n) \<and>
    syncDirectives api bank seed w' = (w', None)"
proof -
  have list: "ha_ListDirectives api bank w = (w, Inr (dirs w))" for w using assms(1) by (simp add: directive_engine_def)
  from sync_each_seeds [OF assms(1,2), of "by_name (dirs w)" w] assms(3) obtain w' where
    w': "sync_each api bank (by_name (dirs w)) (sc_Directives seed) w = (w', None)" "\<forall>s \<in> set (sc_Directives seed). seeded (dirs w') s"
      "\<forall>n. n \<notin> ds_Name ` set (sc_Directives seed) \<longrightarrow> by_name (dirs w') n = by_name (dirs w) n" by auto
  have "sync_each api bank (by_name (dirs w')) (sc_Directives seed) w' = (w', None)"
    using w'(2) by (intro sync_each_idle) (simp add: seeded_in_sync)
  with w' list show ?thesis by (intro exI [of _ w']) (auto simp: syncDirectives_def)
qed

text \<open>An engine whose directives are numbered by their position.\<close>

definition numbered :: "Directive list \<Rightarrow> Directive list" where
  "numbered ds = map (\<lambda>i. (ds ! i)\<lparr>dv_ID := replicate i (CHR ''x'')\<rparr>) [0..<length ds]"

definition patch_directive :: "UpdateDirectiveRequest \<Rightarrow> Directive \<Rightarrow> Directive" where
  "patch_directive req d =
     d\<lparr>dv_Name := (case ud_Name req of None \<Rightarrow> dv_Name d | Some v \<Rightarrow> v),
       dv_Content := (case ud_Content req of None \<Rightarrow> dv_Content d | Some v \<Rightarrow> v),
       dv_Priority := (case ud_Priority req of None \<Rightarrow> dv_Priority d | Some v \<Rightarrow> v),
       dv_IsActive := (case ud_IsActive req of None \<Rightarrow> dv_IsActive d | Some v \<Rightarrow> v),
       dv_Tags := (if ud_Tags req = [] then dv_Tags d else ud_Tags req)\<rparr>"

definition numbered_api :: "Directive list hs_api" where
  "numbered_api =
     \<lparr>ha_ListBanks = (\<lambda>w. (w, Inr [])), ha_CreateBank = (\<lambda>_ _ w. (w, Inr zero_BankListItem)),
      ha_GetBankConfig = (\<lambda>_ w. (w, Inr \<lparr>bc_BankID = [], bc_Config = [], bc_Overrides = []\<rparr>)),
      ha_PatchBankConfig = (\<lambda>_ _ w. (w, Inr \<lparr>bc_BankID = [], bc_Config = [], bc_Overrides = []\<rparr>)),
      ha_ListDirectives = (\<lambda>_ w. (w, Inr (numbered w))),
      ha_CreateDirective = (\<lambda>_ req w.
        let d = zero_Directive\<lparr>dv_Name := cd_Name req, dv_Content := cd_Content req, dv_Priority := cd_Priority req,
                  dv_IsActive := cd_IsActive req, dv_Tags := cd_Tags req\<rparr>
        in (w @ [d], Inr (d\<lparr>dv_ID := replicate (length w) (CHR ''x'')\<rparr>))),
      ha_UpdateDirective = (\<lambda>_ i req w.
        let d = patch_directive req (w ! length i) in (w[length i := d], Inr (d\<lparr>dv_ID := i\<rparr>)))\<rparr>"

lemma numbered_engine: "directive_engine numbered_api bank numbered"
proof -
  have "distinct (map dv_ID (numbered w))" for w
    by (auto simp: numbered_def comp_def distinct_map inj_on_def)
  moreover have "numbered (w @ [d]) = numbered w @ [d\<lparr>dv_ID := replicate (length w) (CHR ''x'')\<rparr>]" for w d
    by (simp add: numbered_def nth_append)
  moreover have "\<exists>w' d. ha_UpdateDirective numbered_api bank (dv_ID cur) req w = (w', Inr d) \<and> patched req cur d \<and>
        numbered w' = map (\<lambda>x. if dv_ID x = dv_ID cur then d else x) (numbered w)" if "cur \<in> set (numbered w)" for w cur req
  proof -
    from that obtain i where i: "i < length w" "cur = (w ! i)\<lparr>dv_ID := replicate i (CHR ''x'')\<rparr>" by (auto simp: numbered_def)
    let ?d = "(patch_directive req (w ! i))\<lparr>dv_ID := replicate i (CHR ''x'')\<rparr>"
    have "patched req cur ?d" using i by (simp add: patched_def patch_directive_def split: option.splits)
    moreover have "numbered (w[i := patch_directive req (w ! i)]) = map (\<lambda>x. if dv_ID x = dv_ID cur then ?d else x) (numbered w)"
      using i by (intro nth_equalityI) (auto simp: numbered_def nth_list_update)
    ultimately show ?thesis using i by (simp add: numbered_api_def Let_def)
  qed
  ultimately show ?thesis unfolding directive_engine_def by (simp add: numbered_api_def Let_def)
qed

theorem directives_converge_witness:
  "\<exists>w'. syncDirectives numbered_api ''b'' \<lparr>sc_Bank = zero_BankSeed, sc_Missions = [], sc_Directives =
      [\<lparr>ds_Name = ''n'', ds_Content = ''new'', ds_Priority = 1, ds_IsActive = None, ds_Tags = [''t'']\<rparr>]\<rparr>
      [zero_Directive\<lparr>dv_Name := ''n'', dv_Content := ''old''\<rparr>] = (w', None) \<and>
    map dv_Content (numbered w') = [''new'']"
proof -
  let ?s = "\<lparr>ds_Name = ''n'', ds_Content = ''new'', ds_Priority = 1, ds_IsActive = None, ds_Tags = [''t'']\<rparr>"
  let ?seed = "\<lparr>sc_Bank = zero_BankSeed, sc_Missions = [], sc_Directives = [?s]\<rparr>"
  let ?w = "[zero_Directive\<lparr>dv_Name := ''n'', dv_Content := ''old''\<rparr>]"
  have run: "snd (syncDirectives numbered_api ''b'' ?seed ?w) = None \<and>
      map dv_Content (numbered (fst (syncDirectives numbered_api ''b'' ?seed ?w))) = [''new'']"
    by code_simp
  from directives_converge [OF numbered_engine, of ?seed "''b''" ?w] obtain w' where
    "syncDirectives numbered_api ''b'' ?seed ?w = (w', None)" "seeded (numbered w') ?s"
    by auto
  with run show ?thesis by auto
qed

text \<open>
  A setting that is an integer in the YAML file is never in sync: the engine's answer has it as a \<^verbatim>\<open>float64\<close>, and the two are
  not deeply equal. Each pass patches it again.
\<close>

lemma through_any_no_int: "(\<And>i n. num (JInt i) \<noteq> JInt n) \<Longrightarrow> (\<And>q n. num (JReal q) \<noteq> JInt n) \<Longrightarrow> through_any num j \<noteq> JInt n"
  by (cases j) simp_all

theorem integer_setting_never_in_sync:
  assumes "\<And>i n. num (JInt i) \<noteq> JInt n" "\<And>q n. num (JReal q) \<noteq> JInt n" "(k, JInt n) \<in> set want"
  shows "(k, JInt n) \<in> set (config_updates num current want)"
  using assms(3) through_any_no_int [OF assms(1,2)]
  by (auto simp: config_updates_def)

text \<open>Tags that the seed drops stay: an empty list of tags is not in the request.\<close>

theorem update_cannot_clear_tags:
  assumes "ud_Tags req = []" "enc_UpdateDirectiveRequest req = JObj kvs"
  shows "map_of kvs ''tags'' = None"
  using assms by (auto simp: enc_UpdateDirectiveRequest_def omit_ptr_def omit_empty_def split: option.splits)

text \<open>The comparison of tags is not symmetric: a repeated tag hides a missing one.\<close>

theorem tagsEqual_repeated: "tagsEqual [''a'', ''b''] [''a'', ''a'']"
  by (simp add: tagsEqual_def)

section \<open>The retry loop\<close>

lemma runSyncLoop_reachable:
  "runSyncLoop e num rounds st w = (st', w', Some done) \<Longrightarrow> st_reachable st' = done"
  by (induction rounds arbitrary: st w)
    (auto simp: MarkHindsightReachable_def Let_def split: prod.splits option.splits if_splits)

end
