(* ===== verification/Panels.thy ===== *)
theory Panels
  imports Gateway_Api "HOL-Library.Product_Lexorder"
begin

text \<open>
  The dashboard panels the program ships: those the gateway builds in (\<^verbatim>\<open>internal/gateway/dashboard.go\<close>) and those the
  services announce (\<^verbatim>\<open>panel.go\<close> of the broker, the LLM proxy, the retro agent and the memory service,
  \<^verbatim>\<open>mcp_panel.go\<close> of the main agent), and the list the gateway makes of them. A map of fields is the list of
  its entries.
\<close>

section \<open>Sections\<close>

definition form_section :: "string \<Rightarrow> string \<Rightarrow> (string \<times> FieldSchema) list \<Rightarrow> Section" where
  "form_section ttl key fs = (blank_section KindForm)\<lparr>sec_Form := Some \<lparr>form_Title = ttl, form_ConfigKey = key, form_Fields = fs\<rparr>\<rparr>"

definition status_section :: "string \<Rightarrow> string \<Rightarrow> string \<Rightarrow> Section" where
  "status_section ttl url layout = (blank_section KindStatus)\<lparr>sec_Status := Some \<lparr>st_Title = ttl, st_URL = url, st_Layout = layout\<rparr>\<rparr>"

definition action_section :: "string \<Rightarrow> Action list \<Rightarrow> Section" where
  "action_section ttl acts = (blank_section KindAction)\<lparr>sec_Action := Some \<lparr>as_Title = ttl, as_Actions = acts\<rparr>\<rparr>"

definition text_param :: "string \<Rightarrow> string \<Rightarrow> bool \<Rightarrow> string \<Rightarrow> ActionParam" where
  "text_param name ty required label = zero_ActionParam\<lparr>ap_Name := name, ap_Type := ty, ap_Required := required, ap_Label := label\<rparr>"

section \<open>Built-in panels\<close>

definition logsPanelDescriptor :: "PanelDescriptor" where
  "logsPanelDescriptor = \<lparr>pd_Version = 1, pd_Title = ''Logs'', pd_Order = Some 85, pd_Sections = [(blank_section KindLogs)\<lparr>sec_Logs := Some
     \<lparr>lg_Title = ''Live Logs'', lg_TailURL = ''/v1/logs/tail'', lg_HistoryURL = ''/v1/logs/stream'', lg_ServicesURL = ''/v1/logs/services'',
      lg_DefaultServices = [], lg_DefaultLevel = ''info''\<rparr>\<rparr>]\<rparr>"

definition chatPanelDescriptor :: "PanelDescriptor" where
  "chatPanelDescriptor = \<lparr>pd_Version = 1, pd_Title = ''Chat'', pd_Order = Some 10, pd_Sections =
     [form_section ''Chat Configuration'' ''chat'' [
        (''system_prompt'', zero_FieldSchema\<lparr>fs_Type := FieldTextarea, fs_Label := ''System Prompt''\<rparr>),
        (''model'', zero_FieldSchema\<lparr>fs_Type := FieldString, fs_Label := ''Model''\<rparr>),
        (''request_timeout_s'', zero_FieldSchema\<lparr>fs_Type := FieldInteger, fs_Label := ''Request Timeout (seconds)'', fs_Min := Some 1\<rparr>)]]\<rparr>"

definition sessionsPanelDescriptor :: "PanelDescriptor" where
  "sessionsPanelDescriptor = \<lparr>pd_Version = 1, pd_Title = ''Sessions'', pd_Order = Some 80, pd_Sections =
     [status_section ''Sessions'' ''/v1/sessions'' StatusTable]\<rparr>"

definition systemPanelDescriptor :: "PanelDescriptor" where
  "systemPanelDescriptor = \<lparr>pd_Version = 1, pd_Title = ''System'', pd_Order = Some 90, pd_Sections =
     [status_section ''System Status'' ''/v1/status'' StatusKeyValue]\<rparr>"

definition buildBuiltinPanels :: "(string \<times> PanelDescriptor) list" where
  "buildBuiltinPanels =
     [(''gateway'', chatPanelDescriptor), (''gateway'', sessionsPanelDescriptor), (''gateway'', systemPanelDescriptor),
      (''gateway'', logsPanelDescriptor)]"

section \<open>Panels of the services\<close>

definition ValidProvenance :: "string list" where
  "ValidProvenance = [''explicit'', ''implicit'', ''inferred'', ''researched'']"

definition ValidRecallTypes :: "string list" where
  "ValidRecallTypes = [''observation'', ''world_experience'', ''all'']"

definition ValidRecallSpeakerScope :: "string list" where
  "ValidRecallSpeakerScope = [''any'', ''primary'', ''explicit'']"

definition ValidFactTypes :: "string list" where
  "ValidFactTypes = [''person_fact'', ''world_fact'', ''context_fact'', ''procedural_fact'']"

definition broker_panel :: "PanelDescriptor" where
  "broker_panel = \<lparr>pd_Version = CurrentDescriptorVersion, pd_Title = ''Broker'', pd_Order = Some 300, pd_Sections =
     [form_section ''Broker Configuration'' ''broker'' [
        (''slot_count'', zero_FieldSchema\<lparr>fs_Type := FieldInteger, fs_Label := ''Total Slot Count'', fs_Description := (''Must equal llama-server'' @ [CHR 0x27] @ ''s configured slot count. Requires broker restart to apply.''), fs_Min := Some 1\<rparr>),
        (''preempt_timeout_ms'', zero_FieldSchema\<lparr>fs_Type := FieldInteger, fs_Label := ''Preempt Timeout (ms)'', fs_Description := ''How long the broker waits for a preempted agent to release its slot before force-releasing. Hot-reloads.'', fs_Min := Some 0\<rparr>)],
      status_section ''Slot Table'' ''/v1/broker/slots'' StatusTable]\<rparr>"

definition llm_proxy_panel :: "string \<Rightarrow> PanelDescriptor" where
  "llm_proxy_panel ident = \<lparr>pd_Version = CurrentDescriptorVersion, pd_Title = ''LLM Proxy'', pd_Order = Some 310, pd_Sections =
     [form_section ''LLM Proxy Configuration'' ''llm_proxy'' [
        (''slot_timeout_ms'', zero_FieldSchema\<lparr>fs_Type := FieldInteger, fs_Label := ''Slot Acquire Timeout (ms)'', fs_Description := ''How long to wait for a hindsight-class slot before returning 503.'', fs_Default := JInt 10000, fs_Min := Some 100\<rparr>),
        (''request_timeout_ms'', zero_FieldSchema\<lparr>fs_Type := FieldInteger, fs_Label := ''Upstream Request Timeout (ms)'', fs_Description := ''Total deadline for the upstream chat completion.'', fs_Default := JInt 300000, fs_Min := Some 1000\<rparr>),
        (''identity'', zero_FieldSchema\<lparr>fs_Type := FieldString, fs_Label := ''Proxy Identity'', fs_Description := ''The agent_id used for broker ownership validation. Env-only.'', fs_Default := JStr ident, fs_Readonly := True\<rparr>)]]\<rparr>"

definition retro_panel :: "PanelDescriptor" where
  "retro_panel = \<lparr>pd_Version = CurrentDescriptorVersion, pd_Title = ''Retro'', pd_Order = Some 320, pd_Sections =
     [form_section ''Retro Policy'' ''retro'' [
        (''inactivity_timeout_s'', zero_FieldSchema\<lparr>fs_Type := FieldInteger, fs_Label := ''Inactivity Timeout (s)'', fs_Description := ''How long a session is silent before retro fires on it.'', fs_Default := JInt 300, fs_Min := Some 10\<rparr>),
        (''skill_dup_threshold'', zero_FieldSchema\<lparr>fs_Type := FieldNumber, fs_Label := ''Skill Duplicate Threshold'', fs_Description := ''Jaccard similarity above which a newly extracted skill is treated as a duplicate.'', fs_Default := JReal (85 / 100), fs_Min := Some 0, fs_Max := Some 1, fs_Step := Some (1 / 100)\<rparr>),
        (''min_history_turns'', zero_FieldSchema\<lparr>fs_Type := FieldInteger, fs_Label := ''Min History Turns'', fs_Description := ''Minimum turn count before skill-creation runs on a session.'', fs_Default := JInt 4, fs_Min := Some 1\<rparr>),
        (''curation_recall_limit'', zero_FieldSchema\<lparr>fs_Type := FieldInteger, fs_Label := ''Curation Recall Limit'', fs_Description := ''Per-category recall limit during curation pass.'', fs_Default := JInt 15, fs_Min := Some 1\<rparr>)],
      action_section ''Manual Triggers''
       [zero_Action\<lparr>act_Label := ''Run Memory Extraction'', act_URL := ''/v1/retro/{session_id}/trigger'', act_Method := ''POST'',
          act_Body := [(''job_type'', JStr ''memory_extraction'')], act_Params := [text_param ''session_id'' FieldString True ''Session ID'']\<rparr>,
        zero_Action\<lparr>act_Label := ''Run Skill Creation'', act_URL := ''/v1/retro/{session_id}/trigger'', act_Method := ''POST'',
          act_Body := [(''job_type'', JStr ''skill_creation'')], act_Params := [text_param ''session_id'' FieldString True ''Session ID'']\<rparr>,
        zero_Action\<lparr>act_Label := ''Run Curation'', act_URL := ''/v1/retro/{session_id}/trigger'', act_Method := ''POST'',
          act_Body := [(''job_type'', JStr ''curation'')], act_Params := [text_param ''session_id'' FieldString True ''Session ID'']\<rparr>]]\<rparr>"

definition memory_panel :: "string \<Rightarrow> string \<Rightarrow> string \<Rightarrow> PanelDescriptor" where
  "memory_panel cpURL bankID statusURL = \<lparr>pd_Version = CurrentDescriptorVersion, pd_Title = ''Memory'', pd_Order = Some 200, pd_Sections =
     [form_section ''Memory Configuration'' ''memory'' [
        (''recall_limit'', zero_FieldSchema\<lparr>fs_Type := FieldInteger, fs_Label := ''Recall Limit'', fs_Description := ''Max memories returned per /recall call.'', fs_Default := JInt 5, fs_Min := Some 1\<rparr>),
        (''prewarm_limit'', zero_FieldSchema\<lparr>fs_Type := FieldInteger, fs_Label := ''Prewarm Limit'', fs_Description := ''Max memories fetched in the background after each turn to keep caches warm.'', fs_Default := JInt 3, fs_Min := Some 0\<rparr>),
        (''recall_default_types'', zero_FieldSchema\<lparr>fs_Type := FieldEnum, fs_Label := ''Recall Default Types'', fs_Description := (''Which memory layer /recall returns when the caller doesn'' @ [CHR 0x27] @ ''t specify. Observation is the synthesis layer; world/experience are raw facts.''), fs_Default := JStr ''observation'', fs_Values := ValidRecallTypes\<rparr>),
        (''default_provenance'', zero_FieldSchema\<lparr>fs_Type := FieldEnum, fs_Label := ''Default Provenance'', fs_Description := (''Provenance applied to /retain calls that don'' @ [CHR 0x27] @ ''t set metadata.provenance.''), fs_Default := JStr ''explicit'', fs_Values := ValidProvenance\<rparr>),
        (''tag_taxonomy'', zero_FieldSchema\<lparr>fs_Type := FieldString, fs_Label := ''Tag Taxonomy'', fs_Description := ''Comma-separated list of well-known tags the extractor is encouraged to use. Informational for now.'', fs_Default := JStr ''identity,preferences,technical,home,ephemera''\<rparr>),
        (''primary_user_id'', zero_FieldSchema\<lparr>fs_Type := FieldString, fs_Label := ''Primary User ID'', fs_Description := ''Fallback speaker for anonymous requests. Leave empty for multi-user deployments.''\<rparr>),
        (''recall_default_speaker_scope'', zero_FieldSchema\<lparr>fs_Type := FieldEnum, fs_Label := ''Recall Speaker Scope'', fs_Description := (''How recall treats missing speaker_id filter. '' @ [CHR 0x27] @ ''any'' @ [CHR 0x27] @ '' = no implicit scope, '' @ [CHR 0x27] @ ''primary'' @ [CHR 0x27] @ '' = restrict to primary_user_id, '' @ [CHR 0x27] @ ''explicit'' @ [CHR 0x27] @ '' = require caller to specify.''), fs_Default := JStr ''any'', fs_Values := ValidRecallSpeakerScope\<rparr>),
        (''identity_name_denylist'', zero_FieldSchema\<lparr>fs_Type := FieldString, fs_Label := ''Identity Name Denylist'', fs_Description := ''Comma-separated names that trigger a startup warning if found in missions/directives. For catching hard-coded person references.''\<rparr>),
        (''memory_bank_id'', zero_FieldSchema\<lparr>fs_Type := FieldString, fs_Label := ''Memory Bank ID'', fs_Description := ''The Hindsight bank this service is configured for. Set via MEMORY_BANK_ID env; restart to change.'', fs_Default := JStr bankID, fs_Readonly := True\<rparr>)],
      status_section ''Identity Stats'' statusURL StatusKeyValue,
      (blank_section KindIframe)\<lparr>sec_Iframe := Some \<lparr>if_Title = ''Hindsight Control Plane'', if_URL = cpURL, if_Height = ''800px''\<rparr>\<rparr>]\<rparr>"

definition mcp_panel :: "PanelDescriptor" where
  "mcp_panel = \<lparr>pd_Version = CurrentDescriptorVersion, pd_Title = ''MCP'', pd_Order = Some 330, pd_Sections =
     [status_section ''Registered MCP Servers'' ''/v1/mcp/servers'' StatusTable,
      action_section ''MCP Server Management''
       [zero_Action\<lparr>act_Label := ''Add server'', act_URL := ''/v1/mcp/servers'', act_Method := ''POST'',
          act_Params := [text_param ''name'' FieldString True ''Name'', text_param ''command'' FieldString True ''Command'',
            text_param ''args'' FieldString False ''Args (space-separated)'',
            text_param ''env'' FieldTextarea False ''Env (KEY=VALUE per line)'',
            (text_param ''enabled'' FieldBoolean False ''Enabled'')\<lparr>ap_Default := JBool True\<rparr>]\<rparr>,
        zero_Action\<lparr>act_Label := ''Remove server'', act_URL := ''/v1/mcp/servers/{name}'', act_Method := ''DELETE'',
          act_Confirm := ''Remove this MCP server? Active connections will be closed.'',
          act_Params := [text_param ''name'' FieldString True ''Name'']\<rparr>]]\<rparr>"

section \<open>The aggregated list\<close>

record panelEntry =
  pe_ServiceID :: string
  pe_Order :: int
  pe_Descriptor :: PanelDescriptor
  pe_explicitOrder :: bool

definition panel_entry :: "string \<Rightarrow> PanelDescriptor \<Rightarrow> bool \<Rightarrow> panelEntry" where
  "panel_entry serviceID d contributed =
     (case ClampOrder (Some d) contributed of (ord, explicit) \<Rightarrow>
        \<lparr>pe_ServiceID = serviceID, pe_Order = ord, pe_Descriptor = d, pe_explicitOrder = explicit\<rparr>)"

text \<open>The comparison of the stable sort: explicit orders first and ascending, then service ids.\<close>

definition panel_key :: "panelEntry \<Rightarrow> bool \<times> int \<times> string" where
  "panel_key p = (\<not> pe_explicitOrder p, if pe_explicitOrder p then pe_Order p else 0, pe_ServiceID p)"

definition builtin_entries :: "panelEntry list" where
  "builtin_entries = map (\<lambda>(sid, d). panel_entry sid d False) buildBuiltinPanels"

definition service_entries :: "Registry \<Rightarrow> panelEntry list" where
  "service_entries reg =
     List.map_filter (\<lambda>agent. map_option (\<lambda>d. panel_entry (ai_AgentID agent) d True) (ai_DashboardPanel agent)) (ListAlive reg)"

definition aggregatePanels :: "Registry \<Rightarrow> panelEntry list" where
  "aggregatePanels reg = sort_key panel_key (builtin_entries @ service_entries reg)"

section \<open>What is shipped is valid\<close>

lemmas panel_defs = form_section_def status_section_def action_section_def text_param_def blank_section_def
  zero_FieldSchema_def zero_Action_def zero_ActionParam_def

lemmas validation_defs = ValidateDescriptor_def CurrentDescriptorVersion_def validateSection_def validate_body_def
  validateForm_def validateField_def validateStatus_def validateIframe_def validateLogs_def validateAction_def
  validate_one_action_def validate_param_def validateActionParamType_def simple_types_def



section \<open>The order of the list\<close>

lemma sort_key_below:
  assumes "\<And>x y. x \<in> set xs \<Longrightarrow> y \<in> set ys \<Longrightarrow> f x \<le> f y"
  shows "sort_key f (xs @ ys) = sort_key f xs @ sort_key f ys"
proof (rule properties_for_sort_key)
  show "mset (sort_key f xs @ sort_key f ys) = mset (xs @ ys)" by simp
  show "filter (\<lambda>x. f k = f x) (sort_key f xs @ sort_key f ys) = filter (\<lambda>x. f k = f x) (xs @ ys)"
    if "k \<in> set (sort_key f xs @ sort_key f ys)" for k
    using sort_key_stable [of f "f k"] by (simp add: eq_commute [of "f k"])
  show "sorted (map f (sort_key f xs @ sort_key f ys))" using assms by (auto simp: sorted_append)
qed

lemma service_key_above:
  assumes "p \<in> set (service_entries reg)" "b \<in> set builtin_entries"
  shows "panel_key b \<le> panel_key p"
proof -
  from assms(1) obtain a d where p: "p = panel_entry a d True"
    by (auto simp: service_entries_def map_filter_def)
  have k: "panel_key p = (True, 0, a) \<or> (\<exists>ord \<ge> ReservedOrderCeiling. panel_key p = (False, ord, a))"
    by (auto simp: p panel_entry_def ClampOrder_def panel_key_def split: option.splits)
  have "\<exists>ord < ReservedOrderCeiling. panel_key b = (False, ord, ''gateway'')"
    using assms(2)
    by (auto simp: builtin_entries_def buildBuiltinPanels_def panel_entry_def ClampOrder_def panel_key_def ReservedOrderCeiling_def
        chatPanelDescriptor_def sessionsPanelDescriptor_def systemPanelDescriptor_def logsPanelDescriptor_def)
  with k show ?thesis by (auto simp: less_eq_prod_def)
qed

text \<open>
  The dashboard list: the four built-in panels come first (chat, sessions, logs, system), whatever services
  have registered; after them exactly the panels of the live services, those with an explicit order
  ascending (ties by service id), then the others by service id.
\<close>

theorem dashboard_order:
  "map pe_Descriptor (take 4 (aggregatePanels reg)) =
     [chatPanelDescriptor, sessionsPanelDescriptor, logsPanelDescriptor, systemPanelDescriptor] \<and>
   mset (drop 4 (aggregatePanels reg)) = mset (service_entries reg) \<and>
   sorted (map panel_key (drop 4 (aggregatePanels reg)))"
proof -
  have "aggregatePanels reg = sort_key panel_key builtin_entries @ sort_key panel_key (service_entries reg)"
    unfolding aggregatePanels_def by (rule sort_key_below) (rule service_key_above)
  moreover have "length (sort_key panel_key builtin_entries) = 4"
    by (simp add: builtin_entries_def buildBuiltinPanels_def)
  moreover have "map pe_Descriptor (sort_key panel_key builtin_entries) =
      [chatPanelDescriptor, sessionsPanelDescriptor, logsPanelDescriptor, systemPanelDescriptor]"
    by code_simp
  ultimately show ?thesis by simp
qed

section \<open>Forms and actions that do not work\<close>

text \<open>
  The form of the LLM proxy names a section that the gateway does not have: what is entered there can never be saved.
\<close>

theorem llm_proxy_form_unsaveable:
  "\<exists>f. sec_Form (hd (pd_Sections (llm_proxy_panel ident))) = Some f \<and>
     handlePutConfig e (Some (JObj [(''section'', JStr (form_ConfigKey f)), (''values'', v)])) db =
       (db, Some (GwError 400 ''invalid_section'' ''Invalid config section: llm_proxy''))"
  by (simp add: llm_proxy_panel_def form_section_def handlePutConfig_def dec_configUpdateRequest_def ValidSection_def
      validSections_def key_simps)

text \<open>
  The action that adds an MCP server has text inputs for the arguments and the environment; the dashboard
  sends them as strings, and the gateway refuses every such request, empty inputs included.
\<close>

theorem dashboard_cannot_add_server:
  "handleAddMCPServer e quote
     (Some (JObj [(''name'', JStr n), (''command'', JStr c), (''args'', JStr a), (''env'', JStr v), (''enabled'', JBool b)])) db =
   (db, GwError 400 ''invalid_request'' ''failed to decode body'')"
  by (simp add: handleAddMCPServer_def dec_MCPServerConfig_def zero_MCPServerConfig_def key_simps)

end
