(* ===== verification/Announcements.thy ===== *)
theory Announcements
  imports Panels
begin

text \<open>
  How a service becomes visible. A service announces itself with its registrar (\<^verbatim>\<open>internal/registry/agent.go\<close>): a message on the
  registry stream and a record under its own key. The gateway's registry consumer reads the message, and the dashboard
  lists the panel (\<^verbatim>\<open>handleListDashboardPanels\<close> of \<^verbatim>\<open>internal/gateway/dashboard.go\<close>). On the way a panel is marshalled and
  unmarshalled; the first part shows that nothing of it is lost.
\<close>

section \<open>A panel through JSON\<close>

definition enc_PanelDescriptor :: "PanelDescriptor \<Rightarrow> json option" where
  "enc_PanelDescriptor d =
     map_option (\<lambda>secs. JObj ([(''version'', JInt (pd_Version d)), (''title'', JStr (pd_Title d))] @
         (case pd_Order d of None \<Rightarrow> [] | Some n \<Rightarrow> [(''order'', JInt n)]) @ [(''sections'', JArr secs)]))
       (those_map Section_MarshalJSON (pd_Sections d))"

text \<open>A Go map has no order: after decoding, its entries are those of the sent one in the order of their keys.\<close>

definition action_canon :: "Action \<Rightarrow> Action" where
  "action_canon a = a\<lparr>act_Body := sort_key fst (act_Body a)\<rparr>"

definition section_canon :: "Section \<Rightarrow> Section" where
  "section_canon s = s
     \<lparr>sec_Form := map_option (\<lambda>f. f\<lparr>form_Fields := sort_key fst (form_Fields f)\<rparr>) (sec_Form s),
      sec_Action := map_option (\<lambda>a. a\<lparr>as_Actions := map action_canon (as_Actions a)\<rparr>) (sec_Action s)\<rparr>"

definition panel_canon :: "PanelDescriptor \<Rightarrow> PanelDescriptor" where
  "panel_canon d = d\<lparr>pd_Sections := map section_canon (pd_Sections d)\<rparr>"

text \<open>A section as the comment in the source wants it: exactly one body, that of its kind; keys of maps are distinct.\<close>

definition section_clean :: "Section \<Rightarrow> bool" where
  "section_clean s \<longleftrightarrow>
     sec_Kind s \<in> {KindForm, KindIframe, KindStatus, KindLogs, KindAction} \<and>
     (sec_Form s \<noteq> None \<longleftrightarrow> sec_Kind s = KindForm) \<and> (sec_Iframe s \<noteq> None \<longleftrightarrow> sec_Kind s = KindIframe) \<and>
     (sec_Status s \<noteq> None \<longleftrightarrow> sec_Kind s = KindStatus) \<and> (sec_Logs s \<noteq> None \<longleftrightarrow> sec_Kind s = KindLogs) \<and>
     (sec_Action s \<noteq> None \<longleftrightarrow> sec_Kind s = KindAction) \<and>
     (case sec_Form s of None \<Rightarrow> True | Some f \<Rightarrow> distinct (map fst (form_Fields f))) \<and>
     (case sec_Action s of None \<Rightarrow> True | Some a \<Rightarrow> list_all (\<lambda>x. distinct (map fst (act_Body x))) (as_Actions a))"

definition panel_clean :: "PanelDescriptor \<Rightarrow> bool" where
  "panel_clean d \<longleftrightarrow> list_all section_clean (pd_Sections d)"

lemma dec_omit_bool:
  assumes "dec_key fs k (JBool v) a = Some b" "\<not> v \<Longrightarrow> b = a"
  shows "dec_keys fs a (omit_empty k (JBool v) @ kvs) = dec_keys fs b kvs"
    and "dec_keys fs a (omit_empty k (JBool v)) = Some b"
  using assms by (auto simp: omit_empty_def)

lemma dec_omit_any:
  assumes "dec_key fs k v a = Some b" "v = JNull \<Longrightarrow> b = a"
  shows "dec_keys fs a (enc_any k v @ kvs) = dec_keys fs b kvs"
  using assms by (auto simp: enc_any_def)

lemma dec_float_enc [simp]: "dec_float old (enc_float q) = Some q" "enc_float q \<noteq> JNull"
  by (auto simp: enc_float_def)

lemma dec_opt_float [simp]:
  "dec_option 0 dec_float old (case q of None \<Rightarrow> JNull | Some x \<Rightarrow> enc_float x) = Some q"
  by (cases q) (simp_all add: dec_option_def)

lemma dec_omit_float:
  assumes "dec_key fs k (case q of None \<Rightarrow> JNull | Some x \<Rightarrow> enc_float x) a = Some b" "q = None \<Longrightarrow> b = a"
  shows "dec_keys fs a (enc_opt_float k q @ kvs) = dec_keys fs b kvs"
  using assms by (auto simp: enc_opt_float_def split: option.splits)

lemmas panel_omits = dec_omits dec_omit_bool dec_omit_any dec_omit_float

lemma dec_enc_ActionParam [simp]: "dec_ActionParam zero_ActionParam (enc_ActionParam p) = Some p"
  unfolding dec_ActionParam_def enc_ActionParam_def zero_ActionParam_def
  by (cases p) (simp add: panel_omits key_simps dec_raw_def)

lemma dec_enc_FieldSchema [simp]: "dec_FieldSchema zero_FieldSchema (enc_FieldSchema f) = Some f"
  unfolding dec_FieldSchema_def enc_FieldSchema_def zero_FieldSchema_def
  by (cases f) (simp add: panel_omits key_simps dec_raw_def)

lemma update_absent: "k \<notin> fst ` set m \<Longrightarrow> AList.update k v m = m @ [(k, v)]"
  by (induction m) auto

lemma fold_update_distinct:
  "distinct (map fst (old @ kas)) \<Longrightarrow> foldl (\<lambda>m (k, a). AList.update k a m) old kas = old @ kas"
proof (induction kas arbitrary: old)
  case (Cons ka kas)
  from Cons.prems have "AList.update (fst ka) (snd ka) old = old @ [ka]" by (simp add: update_absent)
  moreover from Cons.prems have "foldl (\<lambda>m (k, a). AList.update k a m) (old @ [ka]) kas = (old @ [ka]) @ kas"
    by (intro Cons.IH) auto
  ultimately show ?case by (cases ka) simp
qed simp

lemma dec_enc_map:
  assumes "distinct (map fst m)" "\<And>a. d z (e a) = Some a"
  shows "dec_map z d [] (enc_map e m) = Some (sort_key fst m)"
proof -
  have "those_map (\<lambda>(k, j). map_option (Pair k) (d z j)) (map (\<lambda>(k, a). (k, e a)) (sort_key fst m)) = Some (sort_key fst m)"
    by (rule those_map_Some) (auto simp: assms(2))
  moreover have "distinct (map fst (sort_key fst m))"
    using assms(1) by (metis distinct_map distinct_sort inj_on_def mset_sort set_mset_mset)
  ultimately show ?thesis using fold_update_distinct [of "[]" "sort_key fst m"] by (simp add: enc_map_def)
qed

lemma dec_omit_emap:
  assumes "dec_key fs k (enc_map e m) a = Some b" "m = [] \<Longrightarrow> b = a"
  shows "dec_keys fs a (omit_empty k (enc_map e m) @ kvs) = dec_keys fs b kvs"
  using assms by (auto simp: omit_empty_def enc_map_def) (metis length_sort length_0_conv)+

lemma dec_enc_Action:
  assumes "distinct (map fst (act_Body a))"
  shows "dec_Action zero_Action (enc_Action a) = Some (action_canon a)"
proof -
  have "dec_map JNull dec_raw [] (enc_map (\<lambda>j. j) (act_Body a)) = Some (sort_key fst (act_Body a))"
    using assms by (rule dec_enc_map) (simp add: dec_raw_def)
  then show ?thesis
    unfolding dec_Action_def enc_Action_def zero_Action_def action_canon_def
    by (cases a) (simp add: panel_omits dec_omit_emap key_simps)
qed

lemma dec_enc_Actions:
  assumes "list_all (\<lambda>x. distinct (map fst (act_Body x))) as"
  shows "dec_list zero_Action dec_Action old (enc_list enc_Action as) = Some (map action_canon as)"
  using assms unfolding enc_list_def by (induction as) (simp_all add: dec_enc_Action)

text \<open>The body of a section and its kind are read from the same object.\<close>

lemma dec_enc_kind:
  "dec_envelope (enc_kind k (enc_FormSection f)) = Some k"
  "dec_envelope (enc_kind k (enc_IframeSection i)) = Some k"
  "dec_envelope (enc_kind k (enc_StatusSection st)) = Some k"
  "dec_envelope (enc_kind k (enc_LogsSection l)) = Some k"
  "dec_envelope (enc_kind k (enc_ActionSection a)) = Some k"
  by (simp_all add: dec_envelope_def enc_kind_def enc_FormSection_def enc_IframeSection_def enc_StatusSection_def
      enc_LogsSection_def enc_ActionSection_def panel_omits key_simps)

lemma dec_enc_bodies:
  "distinct (map fst (form_Fields f)) \<Longrightarrow>
     dec_FormSection (enc_kind k (enc_FormSection f)) = Some (f\<lparr>form_Fields := sort_key fst (form_Fields f)\<rparr>)"
  "dec_IframeSection (enc_kind k (enc_IframeSection i)) = Some i"
  "dec_StatusSection (enc_kind k (enc_StatusSection st)) = Some st"
  "dec_LogsSection (enc_kind k (enc_LogsSection l)) = Some l"
  "list_all (\<lambda>x. distinct (map fst (act_Body x))) (as_Actions a) \<Longrightarrow>
     dec_ActionSection (enc_kind k (enc_ActionSection a)) = Some (a\<lparr>as_Actions := map action_canon (as_Actions a)\<rparr>)"
  by (cases f, simp add: dec_FormSection_def enc_kind_def enc_FormSection_def dec_enc_map key_simps)
    (cases i, simp add: dec_IframeSection_def enc_kind_def enc_IframeSection_def panel_omits key_simps,
     cases st, simp add: dec_StatusSection_def enc_kind_def enc_StatusSection_def key_simps,
     cases l, simp add: dec_LogsSection_def enc_kind_def enc_LogsSection_def panel_omits key_simps,
     cases a, simp add: dec_ActionSection_def enc_kind_def enc_ActionSection_def dec_enc_Actions key_simps)

lemma section_roundtrip:
  assumes "section_clean s"
  shows "\<exists>j. Section_MarshalJSON s = Some j \<and> Section_UnmarshalJSON (blank_section []) j = Some (section_canon s)"
proof -
  obtain k f i st l a where s: "s = \<lparr>sec_Kind = k, sec_Form = f, sec_Iframe = i, sec_Status = st, sec_Logs = l, sec_Action = a\<rparr>"
    by (cases s)
  from assms have bodies: "f \<noteq> None \<longleftrightarrow> k = KindForm" "i \<noteq> None \<longleftrightarrow> k = KindIframe" "st \<noteq> None \<longleftrightarrow> k = KindStatus"
    "l \<noteq> None \<longleftrightarrow> k = KindLogs" "a \<noteq> None \<longleftrightarrow> k = KindAction"
    "case f of None \<Rightarrow> True | Some b \<Rightarrow> distinct (map fst (form_Fields b))"
    "case a of None \<Rightarrow> True | Some b \<Rightarrow> list_all (\<lambda>x. distinct (map fst (act_Body x))) (as_Actions b)"
    by (simp_all only: section_clean_def s Section.select_convs)
  note defs = Section_MarshalJSON_def Section_UnmarshalJSON_def section_canon_def blank_section_def dec_enc_kind dec_enc_bodies s
  from assms consider "k = KindForm" | "k = KindIframe" | "k = KindStatus" | "k = KindLogs" | "k = KindAction"
    unfolding section_clean_def s by force
  then show ?thesis
  proof cases
    case 1
    with bodies obtain b where "f = Some b" "i = None" "st = None" "l = None" "a = None" by auto
    with 1 bodies(6,7) show ?thesis by (simp add: defs)
  next
    case 2
    with bodies obtain b where "i = Some b" "f = None" "st = None" "l = None" "a = None" by auto
    with 2 bodies(6,7) show ?thesis by (simp add: defs)
  next
    case 3
    with bodies obtain b where "st = Some b" "f = None" "i = None" "l = None" "a = None" by auto
    with 3 bodies(6,7) show ?thesis by (simp add: defs)
  next
    case 4
    with bodies obtain b where "l = Some b" "f = None" "i = None" "st = None" "a = None" by auto
    with 4 bodies(6,7) show ?thesis by (simp add: defs)
  next
    case 5
    with bodies obtain b where "a = Some b" "f = None" "i = None" "st = None" "l = None" by auto
    with 5 bodies(6,7) show ?thesis by (simp add: defs)
  qed
qed

lemma sections_roundtrip:
  assumes "list_all section_clean ss"
  shows "\<exists>js. those_map Section_MarshalJSON ss = Some js \<and>
    dec_list (blank_section []) Section_UnmarshalJSON old (JArr js) = Some (map section_canon ss)"
  using assms
proof (induction ss)
  case (Cons s ss)
  then obtain js where "those_map Section_MarshalJSON ss = Some js"
    "dec_list (blank_section []) Section_UnmarshalJSON old (JArr js) = Some (map section_canon ss)" by auto
  moreover from Cons.prems section_roundtrip obtain j where
    "Section_MarshalJSON s = Some j" "Section_UnmarshalJSON (blank_section []) j = Some (section_canon s)" by auto
  ultimately show ?case by simp
qed simp

lemma panel_roundtrip:
  assumes "panel_clean d"
  shows "\<exists>j. enc_PanelDescriptor d = Some j \<and> j \<noteq> JNull \<and> dec_PanelDescriptor zero_PanelDescriptor j = Some (panel_canon d)"
proof -
  from sections_roundtrip [of "pd_Sections d" "[]"] assms obtain js where js:
    "those_map Section_MarshalJSON (pd_Sections d) = Some js"
    "those_map (Section_UnmarshalJSON (blank_section [])) js = Some (map section_canon (pd_Sections d))"
    by (auto simp: panel_clean_def)
  then show ?thesis
    by (cases d; cases "pd_Order d")
      (simp_all add: enc_PanelDescriptor_def dec_PanelDescriptor_def zero_PanelDescriptor_def panel_canon_def dec_option_def key_simps)
qed

lemma section_ok_canon: "section_ok (section_canon s) \<longleftrightarrow> section_ok s"
proof -
  have "sort_key fst m = [] \<longleftrightarrow> m = []" for m :: "(string \<times> FieldSchema) list" by (metis length_sort length_0_conv)
  moreover have "action_ok (action_canon a) \<longleftrightarrow> action_ok a" for a by (simp add: action_ok_def action_canon_def)
  ultimately show ?thesis by (cases "sec_Form s"; cases "sec_Action s") (simp_all add: section_ok_def section_canon_def)
qed

lemma panel_canon_valid: "ValidateDescriptor (Some (panel_canon d)) = None \<longleftrightarrow> ValidateDescriptor (Some d) = None"
  by (simp add: ValidateDescriptor_exact [THEN conjunct1] panel_canon_def section_ok_canon)

section \<open>The registrar of a service\<close>

definition enc_RegisterPayload :: "RegisterPayload \<Rightarrow> json option" where
  "enc_RegisterPayload p =
     (let common = [(''agent_id'', JStr (rp_AgentID p)), (''priority'', JInt (rp_Priority p)),
            (''preemptible'', JBool (rp_Preemptible p)), (''capabilities'', enc_list JStr (rp_Capabilities p)),
            (''trigger'', JStr (rp_Trigger p)), (''heartbeat_interval_ms'', JInt (rp_HeartbeatIntervalMS p))]
      in case rp_DashboardPanel p of
           None \<Rightarrow> Some (JObj common)
         | Some d \<Rightarrow> map_option (\<lambda>j. JObj (common @ [(''dashboard_panel'', j)])) (enc_PanelDescriptor d))"

record AgentRegistrar =
  ar_agentID :: string
  ar_info :: RegisterPayload

definition NewAgentRegistrar :: "RegisterPayload \<Rightarrow> AgentRegistrar" where
  "NewAgentRegistrar info = \<lparr>ar_agentID = rp_AgentID info, ar_info = info\<rparr>"

definition agentKey :: "string \<Rightarrow> string" where
  "agentKey agentID = ''agent:'' @ agentID"

text \<open>What a registrar meets: the clock, a fresh id, whether the stream and the store take what they get, and the text of a value.\<close>

record registrar_env =
  ra_now :: int
  ra_fresh :: string
  ra_published :: bool
  ra_stored :: bool
  ra_render :: "json \<Rightarrow> string"

datatype registrar_error = RegEncode | RegPublish | RegStore

definition StreamRegistryAnnounce :: string where
  "StreamRegistryAnnounce = ''stream:registry:announce''"

definition Registrar_Register ::
  "registrar_env \<Rightarrow> AgentRegistrar \<Rightarrow> redis \<Rightarrow> (string \<times> Message) list \<times> redis \<times> registrar_error option" where
  "Registrar_Register e r db =
     (case enc_RegisterPayload (ar_info r) of
        None \<Rightarrow> ([], db, Some RegEncode)
      | Some data \<Rightarrow>
          if \<not> ra_published e then ([], db, Some RegPublish)
          else ([(StreamRegistryAnnounce, NewMessage (ra_fresh e) (ra_now e) TypeRegister (ar_agentID r) data)],
                if ra_stored e then (rdb_Set (agentKey (ar_agentID r)) (ra_render e data) None db, None)
                else (db, Some RegStore)))"

definition Registrar_Deregister ::
  "registrar_env \<Rightarrow> AgentRegistrar \<Rightarrow> redis \<Rightarrow> (string \<times> Message) list \<times> redis \<times> registrar_error option" where
  "Registrar_Deregister e r db =
     (if \<not> ra_published e then ([], db, Some RegPublish)
      else ([(StreamRegistryAnnounce, NewMessage (ra_fresh e) (ra_now e) TypeDeregister (ar_agentID r)
               (enc_DeregisterPayload \<lparr>dr_AgentID = ar_agentID r\<rparr>))],
            if ra_stored e then (rdb_Del (agentKey (ar_agentID r)) db, None) else (db, Some RegStore)))"

text \<open>
  The heartbeat: one message per tick, the i-th at \<open>start + (i + 1) * interval\<close>, until the context ends after \<open>n\<close> ticks.
  \<^verbatim>\<open>time.NewTicker\<close> panics on an interval that is not positive (\<open>None\<close>).
\<close>

definition RunHeartbeat :: "registrar_env \<Rightarrow> (nat \<Rightarrow> string) \<Rightarrow> AgentRegistrar \<Rightarrow> nat \<Rightarrow> (string \<times> Message) list option" where
  "RunHeartbeat e fresh r n =
     (let interval = rp_HeartbeatIntervalMS (ar_info r) * 1000000
      in if interval \<le> 0 then None
         else Some (map (\<lambda>i. (''channel:heartbeat:'' @ ar_agentID r,
                NewMessage (fresh i) (ra_now e + (int i + 1) * interval) ''heartbeat'' (ar_agentID r) JNull)) [0..<n]))"

section \<open>The list of panels\<close>

definition enc_panelEntry :: "panelEntry \<Rightarrow> json option" where
  "enc_panelEntry p =
     map_option (\<lambda>d. JObj [(''service_id'', JStr (pe_ServiceID p)), (''order'', JInt (pe_Order p)), (''descriptor'', d)])
       (enc_PanelDescriptor (pe_Descriptor p))"

text \<open>If one descriptor cannot be marshalled nothing is written, and the reply is an empty 200.\<close>

definition handleListDashboardPanels :: "Registry \<Rightarrow> gw_reply" where
  "handleListDashboardPanels reg =
     (case those_map enc_panelEntry (aggregatePanels reg) of
        None \<Rightarrow> GwStatus 200
      | Some ps \<Rightarrow> GwBody 200 (JObj [(''panels'', JArr ps)]))"

lemma register_payload_roundtrip:
  assumes "case rp_DashboardPanel p of None \<Rightarrow> True | Some d \<Rightarrow> panel_clean d"
  shows "\<exists>j. enc_RegisterPayload p = Some j \<and>
    dec_RegisterPayload j = Some (p\<lparr>rp_DashboardPanel := map_option panel_canon (rp_DashboardPanel p)\<rparr>)"
proof (cases "rp_DashboardPanel p")
  case None
  then show ?thesis
    by (cases p) (simp add: enc_RegisterPayload_def dec_RegisterPayload_def key_simps)
next
  case (Some d)
  with assms panel_roundtrip obtain j where
    "enc_PanelDescriptor d = Some j" "j \<noteq> JNull" "dec_PanelDescriptor zero_PanelDescriptor j = Some (panel_canon d)"
    by auto
  with Some show ?thesis
    by (cases p) (simp add: enc_RegisterPayload_def dec_RegisterPayload_def dec_option_def key_simps)
qed

section \<open>From announcement to dashboard\<close>

lemma service_entries_get:
  assumes "registry_inv reg"
  shows "set (service_entries reg) =
    {panel_entry a d True | a i d. Registry_Get a reg = Some i \<and> ai_Alive i \<and> ai_DashboardPanel i = Some d}"
proof (intro set_eqI iffI)
  fix q assume "q \<in> set (service_entries reg)"
  then obtain a i d where q: "(a, i) \<in> set reg" "ai_Alive i" "ai_DashboardPanel i = Some d" "q = panel_entry (ai_AgentID i) d True"
    by (auto simp: service_entries_def ListAlive_def map_filter_def)
  with assms have "Registry_Get a reg = Some i" "ai_AgentID i = a"
    by (auto simp: registry_inv_def Registry_Get_def)
  with q(2-4) show "q \<in> {panel_entry a d True | a i d. Registry_Get a reg = Some i \<and> ai_Alive i \<and> ai_DashboardPanel i = Some d}" by blast
next
  fix q assume "q \<in> {panel_entry a d True | a i d. Registry_Get a reg = Some i \<and> ai_Alive i \<and> ai_DashboardPanel i = Some d}"
  then obtain a i d where q: "Registry_Get a reg = Some i" "ai_Alive i" "ai_DashboardPanel i = Some d" "q = panel_entry a d True" by blast
  with assms have "(a, i) \<in> set reg" "ai_AgentID i = a"
    by (auto simp: Registry_Get_def registry_inv_Get dest: map_of_SomeD)
  with q(2-4) show "q \<in> set (service_entries reg)"
    by (force simp: service_entries_def ListAlive_def map_filter_def)
qed

lemma pe_ServiceID_entry [simp]: "pe_ServiceID (panel_entry a d c) = a"
  by (simp add: panel_entry_def split: prod.split)

lemma entries_register:
  assumes "registry_inv reg" "ai_DashboardPanel i = Some d"
  shows "set (service_entries (Registry_Register now i reg)) =
    insert (panel_entry (ai_AgentID i) d True) {q \<in> set (service_entries reg). pe_ServiceID q \<noteq> ai_AgentID i}"
  using assms reg.inv_register [OF assms(1), of now i]
  by (auto simp: service_entries_get reg.get_register split: if_splits)

lemma entries_deregister:
  assumes "registry_inv reg"
  shows "set (service_entries (Registry_Deregister a reg)) = {q \<in> set (service_entries reg). pe_ServiceID q \<noteq> a}"
  using assms reg.inv_deregister [OF assms, of a]
  by (auto simp: service_entries_get reg.get_deregister split: if_splits)


text \<open>Every panel the program ships is clean, so the theorem applies to each of them.\<close>

lemma shipped_panels_clean:
  "list_all panel_clean [broker_panel, llm_proxy_panel ident, retro_panel, memory_panel cpURL bankID statusURL, mcp_panel]"
  by (simp add: panel_clean_def section_clean_def broker_panel_def llm_proxy_panel_def retro_panel_def memory_panel_def mcp_panel_def panel_defs)


end
