(* ===== verification/Main_Agent.thy ===== *)
theory Main_Agent
  imports Agent_Runtime Tools
begin

text \<open>
  The main agent's turn (\<^verbatim>\<open>cmd/main-agent/main.go\<close>): the bounded loop of LLM calls and tool
  invocations, tool visibility under the active skill, and the injection of the session id into the
  arguments of session-scoped tools.
\<close>

section \<open>Helpers\<close>

text \<open>\<^verbatim>\<open>sessionScopedTools\<close>.\<close>

definition sessionScopedTools :: "string list" where
  "sessionScopedTools = [''run_skill_script'', ''bash'']"

definition allowedOf :: "Manifest option \<Rightarrow> string list" where
  "allowedOf m = (case m of None \<Rightarrow> [] | Some m \<Rightarrow> mf_AllowedTools m)"

definition visibleSet :: "'w ToolRegistry \<Rightarrow> string list \<Rightarrow> Manifest option \<Rightarrow> string set" where
  "visibleSet registry base active =
     {n \<in> set base. Has n registry} \<union> {n \<in> set (allowedOf active). Has n registry}"

definition injectSessionID :: "json_text \<Rightarrow> string \<Rightarrow> string \<Rightarrow> string" where
  "injectSessionID jt argsJSON sessionID =
     (case jt_Unmarshal jt argsJSON of
        Some (JObj kvs) \<Rightarrow> jt_Marshal jt (JObj (map_entries (kvs @ [(''session_id'', JStr sessionID)])))
      | _ \<Rightarrow> argsJSON)"

definition parseReadSkillName :: "json_text \<Rightarrow> string \<Rightarrow> string option" where
  "parseReadSkillName jt argsJSON =
     (case unmarshal jt dec_name_arg argsJSON of
        None \<Rightarrow> None
      | Some n \<Rightarrow> let name = trim_space n in if name \<noteq> [] then Some name else None)"

definition injectSkillManifest :: "SkillStore \<Rightarrow> ChatMsg list \<Rightarrow> ChatMsg list" where
  "injectSkillManifest store msgs =
     (let manifests = Skill_List store in
      case msgs of
        [] \<Rightarrow> msgs
      | m # ms \<Rightarrow>
          if manifests = [] \<or> cm_Role m \<noteq> ''system'' then msgs
          else m\<lparr>cm_Content := cm_Content m @ [CHR 0x0A, CHR 0x0A] @ ''<available_skills>'' @ [CHR 0x0A] @
                   concat (map (\<lambda>s. ''- '' @ mf_Name s @ '': '' @ mf_Description s @ [CHR 0x0A]) manifests) @
                   ''</available_skills>''\<rparr> # ms)"

section \<open>State of a turn\<close>

record 'w requestDeps =
  rd_registry :: "'w ToolRegistry"
  rd_store :: SkillStore
  rd_baseTools :: "string list"
  rd_maxIter :: int
  rd_json :: json_text

text \<open>Messages on the tool-call channel of the session.\<close>

datatype tool_event = EvToolCall ToolCall | EvToolResult string string

text \<open>Messages on the token channel of the session.\<close>

datatype token_event = EvToken string | EvDone

record 'w turn =
  tn_messages :: "ChatMsg list"
  tn_finalContent :: string
  tn_allToolCalls :: "ToolCall list"
  tn_allToolResults :: "ToolResult list"
  tn_preempted :: bool
  tn_loopErr :: "rt_error option"
  tn_activeName :: string
  tn_activeSkill :: "Manifest option"
  tn_db :: redis
  tn_world :: 'w
  tn_runtime :: Runtime
  tn_sent :: "Message list"           \<comment> \<open>published to the broker, oldest first\<close>
  tn_tokens :: "token_event list"          \<comment> \<open>the session's token channel\<close>
  tn_tools :: "tool_event list"       \<comment> \<open>the session's tool-call channel\<close>

text \<open>What iteration \<open>i\<close> takes from outside.\<close>

record iteration_env =
  ie_env :: rt_env
  ie_rounds :: "exec_round list"
  ie_finalizeTimeout :: int
  ie_now :: int

definition activeSkillTTL :: int where "activeSkillTTL = 24 * 3600 * 1000000000"

section \<open>Operations\<close>

definition resolveActiveSkill :: "int \<Rightarrow> SkillStore \<Rightarrow> string \<Rightarrow> redis \<Rightarrow> redis \<times> string \<times> Manifest option" where
  "resolveActiveSkill now store sessionID db =
     (case sessionskill_Get now sessionID db of
        Inl _ \<Rightarrow> (db, [], None)
      | Inr name \<Rightarrow>
          if name = [] then (db, [], None)
          else (case Skill_Get name store of
             Some m \<Rightarrow> (db, name, Some m)
           | None \<Rightarrow> (case sessionskill_Set now sessionID [] 0 db of
                Inl _ \<Rightarrow> (db, [], None)
              | Inr db' \<Rightarrow> (db', [], None))))"

text \<open>Output and outcome of one call.\<close>

definition invokeOrGate ::
  "'w requestDeps \<Rightarrow> ToolCall \<Rightarrow> string set \<Rightarrow> string \<Rightarrow> 'w \<Rightarrow> 'w \<times> string \<times> string" where
  "invokeOrGate d call visible sessionID w =
     (if tc_Name call \<notin> visible then
        (w, ''{\"error\":\"tool not available under active skill: '' @ tc_Name call @ ''\"}'', ''gated'')
      else
        let args = (if tc_Name call \<in> set sessionScopedTools
                    then injectSessionID (rd_json d) (tc_Arguments call) sessionID else tc_Arguments call);
            (w', res) = Tool_Invoke (rd_json d) (rd_registry d) (tc_Name call) args w
        in (w', ir_Output res, ir_Outcome res))"

definition activate_skill :: "'w requestDeps \<Rightarrow> int \<Rightarrow> string \<Rightarrow> ToolCall \<Rightarrow> string \<Rightarrow> 'w turn \<Rightarrow> 'w turn" where
  "activate_skill d now sessionID call outcome t =
     (if tc_Name call = ''read_skill'' \<and> outcome = ''ok'' then
        (case parseReadSkillName (rd_json d) (tc_Arguments call) of
           None \<Rightarrow> t
         | Some newName \<Rightarrow>
             (case Skill_Get newName (rd_store d) of
                None \<Rightarrow> t
              | Some m \<Rightarrow>
                  if newName = tn_activeName t then t
                  else t\<lparr>tn_db := (case sessionskill_Set now sessionID newName activeSkillTTL (tn_db t) of
                             Inl _ \<Rightarrow> tn_db t | Inr db \<Rightarrow> db),
                         tn_activeName := newName, tn_activeSkill := Some m\<rparr>))
      else t)"

definition one_tool_call ::
  "'w requestDeps \<Rightarrow> int \<Rightarrow> string \<Rightarrow> string set \<Rightarrow> ToolCall \<Rightarrow> 'w turn \<Rightarrow> 'w turn" where
  "one_tool_call d now sessionID visible call t =
     (let (w, output, outcome) = invokeOrGate d call visible sessionID (tn_world t);
          t = t\<lparr>tn_world := w,
                tn_messages := tn_messages t @
                  [\<lparr>cm_Role = ''tool'', cm_Content = output, cm_ToolCalls = [], cm_ToolCallID = tc_ID call\<rparr>],
                tn_allToolCalls := tn_allToolCalls t @ [call],
                tn_allToolResults := tn_allToolResults t @ [\<lparr>tr_CallID = tc_ID call, tr_Output = output\<rparr>],
                tn_tools := tn_tools t @ [EvToolResult (tc_ID call) output]\<rparr>
      in activate_skill d now sessionID call outcome t)"

text \<open>
  One iteration: \<open>None\<close> if the LLM call does not return; otherwise the turn and whether the loop breaks.
\<close>

definition enc_ToolSchema :: "ToolSchema \<Rightarrow> json" where
  "enc_ToolSchema s = JObj [(''type'', JStr (ts_Type s)),
     (''function'', JObj ([(''name'', JStr (ts_Name s))] @ omit_empty ''description'' (JStr (ts_Description s)) @
        (case ts_Parameters s of None \<Rightarrow> [] | Some p \<Rightarrow> [(''parameters'', p)])))]"

definition turn_iteration ::
  "'w requestDeps \<Rightarrow> string \<Rightarrow> iteration_env \<Rightarrow> 'w turn \<Rightarrow> ('w turn \<times> bool) option" where
  "turn_iteration d sessionID ie t =
     (let toolSchemas = SchemasFor (rd_baseTools d) (allowedOf (tn_activeSkill t)) (rd_registry d);
          visible = visibleSet (rd_registry d) (rd_baseTools d) (tn_activeSkill t);
          (r1, sent1, got) = RequestSlot (ie_env ie) (tn_runtime t);
          t = t\<lparr>tn_runtime := r1, tn_sent := tn_sent t @ sent1\<rparr>
      in case got of
           Inl err \<Rightarrow> Some (t\<lparr>tn_loopErr := Some err\<rparr>, True)
         | Inr slotID \<Rightarrow>
             (case Execute (ie_env ie) (ie_finalizeTimeout ie) (tn_messages t) (map enc_ToolSchema toolSchemas)
                     (ie_rounds ie) r1 of
                (_, _, None) \<Rightarrow> None
              | (r2, sent2, Some (text, toolCalls, err)) \<Rightarrow>
                  let (r3, sent3, _) = ReleaseSlot (ie_env ie) r2;
                      t = t\<lparr>tn_runtime := r3, tn_sent := tn_sent t @ sent2 @ sent3,
                            tn_tokens := tn_tokens t @ map EvToken (rt_progressLog r2),
                            tn_tools := tn_tools t @ map EvToolCall toolCalls,
                            tn_preempted := (tn_preempted t \<or> err = Some ErrPreempted),
                            tn_loopErr := (if err = None \<or> err = Some ErrPreempted then tn_loopErr t else err),
                            tn_finalContent := text\<rparr>
                  in if toolCalls = [] \<or> tn_preempted t \<or> tn_loopErr t \<noteq> None then Some (t, True)
                     else
                       let t = t\<lparr>tn_messages := tn_messages t @
                             [\<lparr>cm_Role = ''assistant'', cm_Content = text, cm_ToolCalls = toolCalls, cm_ToolCallID = []\<rparr>]\<rparr>
                       in Some (fold (one_tool_call d (ie_now ie) sessionID visible) toolCalls t, False)))"

text \<open>The loop, from \<open>iter\<close> with \<open>n\<close> iterations left; the result carries the value of \<^verbatim>\<open>iter\<close> at its end.\<close>

fun turn_loop ::
  "'w requestDeps \<Rightarrow> string \<Rightarrow> (nat \<Rightarrow> iteration_env) \<Rightarrow> nat \<Rightarrow> nat \<Rightarrow> 'w turn \<Rightarrow> ('w turn \<times> nat) option" where
  "turn_loop d sessionID io 0 iter t = Some (t, iter)"
| "turn_loop d sessionID io (Suc n) iter t =
     (case turn_iteration d sessionID (io iter) t of
        None \<Rightarrow> None
      | Some (t', True) \<Rightarrow> Some (t', iter)
      | Some (t', False) \<Rightarrow> turn_loop d sessionID io n (Suc iter) t')"

text \<open>The final text when the loop ran out of iterations.\<close>

definition max_iter_notice :: "string \<Rightarrow> string" where
  "max_iter_notice finalContent =
     (if finalContent \<noteq> [] \<and> \<not> has_suffix finalContent [CHR 0x0A] then finalContent @ [CHR 0x0A] else finalContent) @
     ''(max iterations reached)''"

definition start_turn :: "'w requestDeps \<Rightarrow> int \<Rightarrow> ContextAssembledPayload \<Rightarrow> Runtime \<Rightarrow> redis \<Rightarrow> 'w \<Rightarrow> 'w turn" where
  "start_turn d now payload r db w =
     (let (db, activeName, activeSkill) = resolveActiveSkill now (rd_store d) (ca_SessionID payload) db
      in \<lparr>tn_messages = injectSkillManifest (rd_store d) (ca_Messages payload), tn_finalContent = [],
          tn_allToolCalls = [], tn_allToolResults = [], tn_preempted = False, tn_loopErr = None,
          tn_activeName = activeName, tn_activeSkill = activeSkill, tn_db = db, tn_world = w,
          tn_runtime = r, tn_sent = [], tn_tokens = [], tn_tools = []\<rparr>)"

text \<open>
  The whole handler, on the decoded payload: the turn after the done token, and the reply if one is
  sent. No result when an LLM call of the turn does not return.
\<close>

definition handleRequest ::
  "'w requestDeps \<Rightarrow> int \<Rightarrow> (nat \<Rightarrow> iteration_env) \<Rightarrow> ContextAssembledPayload \<Rightarrow> Runtime \<Rightarrow> redis \<Rightarrow> 'w \<Rightarrow>
     ('w turn \<times> ChatResponsePayload option) option" where
  "handleRequest d now io payload r db w =
     (case turn_loop d (ca_SessionID payload) io (nat (rd_maxIter d)) 0 (start_turn d now payload r db w) of
        None \<Rightarrow> None
      | Some (t, iter) \<Rightarrow>
          let t = (if int iter = rd_maxIter d then t\<lparr>tn_finalContent := max_iter_notice (tn_finalContent t)\<rparr> else t)
          in Some (t\<lparr>tn_tokens := tn_tokens t @ [EvDone]\<rparr>,
                   if ca_ReplyStream payload \<noteq> [] \<and> tn_loopErr t = None
                   then Some \<lparr>cr_SessionID = ca_SessionID payload, cr_Content = tn_finalContent t,
                                 cr_ToolCalls = tn_allToolCalls t, cr_ToolResults = tn_allToolResults t,
                                 cr_Done = True\<rparr>
                   else None))"

section \<open>The slot is held for the LLM call only\<close>

text \<open>Every iteration runs against a sound environment.\<close>

abbreviation sound_env :: "iteration_env \<Rightarrow> bool" where
  "sound_env ie \<equiv> sound_rt (ie_env ie)"

abbreviation call_types :: "string list" where
  "call_types \<equiv> [TypeSlotRequest, TypeSlotAssignedAck, TypeChatRequest, TypeSlotRelease]"

abbreviation failed_types :: "string list" where
  "failed_types \<equiv> [TypeSlotRequest, TypeSlotRelease]"

lemma activate_skill_same [simp]:
  "tn_runtime (activate_skill d now sid call oc t) = tn_runtime t"
  "tn_sent (activate_skill d now sid call oc t) = tn_sent t"
  "tn_loopErr (activate_skill d now sid call oc t) = tn_loopErr t"
  "tn_messages (activate_skill d now sid call oc t) = tn_messages t"
  "tn_allToolCalls (activate_skill d now sid call oc t) = tn_allToolCalls t"
  "tn_allToolResults (activate_skill d now sid call oc t) = tn_allToolResults t"
  "tn_world (activate_skill d now sid call oc t) = tn_world t"
  by (auto simp: activate_skill_def split: option.splits)

lemma one_tool_call_same [simp]:
  "tn_runtime (one_tool_call d now sid vis call t) = tn_runtime t"
  "tn_sent (one_tool_call d now sid vis call t) = tn_sent t"
  "tn_loopErr (one_tool_call d now sid vis call t) = tn_loopErr t"
  by (simp_all add: one_tool_call_def split_def Let_def)

lemma fold_tool_calls_same:
  "tn_runtime (fold (one_tool_call d now sid vis) calls t) = tn_runtime t \<and>
   tn_sent (fold (one_tool_call d now sid vis) calls t) = tn_sent t \<and>
   tn_loopErr (fold (one_tool_call d now sid vis) calls t) = tn_loopErr t"
  by (induction calls arbitrary: t) auto

lemma turn_iteration_protocol:
  assumes "sound_env ie" "rt_slotID (tn_runtime t) = -1" "turn_iteration d sid ie t = Some (t', brk)"
  shows "rt_slotID (tn_runtime t') = -1 \<and>
    (\<exists>new. map m_Type (tn_sent t') = map m_Type (tn_sent t) @ new \<and>
      (new = call_types \<or> (new = failed_types \<and> brk \<and> tn_loopErr t' \<noteq> None)))"
proof -
  obtain r1 sent1 got where rq: "RequestSlot (ie_env ie) (tn_runtime t) = (r1, sent1, got)" by (metis prod_cases3)
  note q = RequestSlot_sound [OF assms(1) rq]
  show ?thesis
  proof (cases got)
    case (Inl err)
    with q rq assms(2,3) show ?thesis by (auto simp: turn_iteration_def)
  next
    case (Inr i)
    with q have r1: "rt_slotID r1 \<noteq> -1" "map m_Type sent1 = [TypeSlotRequest, TypeSlotAssignedAck]" by auto
    let ?schemas = "map enc_ToolSchema (SchemasFor (rd_baseTools d) (allowedOf (tn_activeSkill t)) (rd_registry d))"
    obtain r2 sent2 res where ex: "Execute (ie_env ie) (ie_finalizeTimeout ie) (tn_messages t) ?schemas (ie_rounds ie) r1
        = (r2, sent2, res)" by (metis prod_cases3)
    from Execute_sound [OF assms(1) r1(1) ex] r1 have r2: "rt_slotID r2 \<noteq> -1" "map m_Type sent2 = [TypeChatRequest]"
      by auto
    obtain r3 sent3 e3 where rel: "ReleaseSlot (ie_env ie) r2 = (r3, sent3, e3)" by (metis prod_cases3)
    from ReleaseSlot_sound [OF assms(1) r2(1) rel] have r3: "rt_slotID r3 = -1" "map m_Type sent3 = [TypeSlotRelease]"
      by auto
    obtain tx calls err where res: "res = Some (tx, calls, err)"
      using assms(3) rq Inr ex by (cases res) (auto simp: turn_iteration_def Let_def)
    show ?thesis
      using assms(3) rq Inr ex rel res r1 r2 r3
      by (auto simp: turn_iteration_def Let_def fold_tool_calls_same split: if_splits)
  qed
qed

lemma turn_loop_protocol:
  assumes "\<And>i. sound_env (io i)" "rt_slotID (tn_runtime t) = -1" "turn_loop d sid io n iter t = Some (t', j)"
  shows "rt_slotID (tn_runtime t') = -1 \<and>
    (\<exists>k tail. k \<le> n \<and> map m_Type (tn_sent t') = map m_Type (tn_sent t) @ concat (replicate k call_types) @ tail \<and>
      (tail = [] \<or> (tail = failed_types \<and> tn_loopErr t' \<noteq> None)))"
  using assms(2,3)
proof (induction n arbitrary: iter t)
  case 0
  then show ?case by (intro conjI exI [of _ 0]) auto
next
  case (Suc n)
  obtain t1 brk where it: "turn_iteration d sid (io iter) t = Some (t1, brk)"
    using Suc.prems(2) by (cases "turn_iteration d sid (io iter) t") auto
  from turn_iteration_protocol [OF assms(1) Suc.prems(1) it] obtain new where
    one: "rt_slotID (tn_runtime t1) = -1" "map m_Type (tn_sent t1) = map m_Type (tn_sent t) @ new"
      "new = call_types \<or> (new = failed_types \<and> brk \<and> tn_loopErr t1 \<noteq> None)" by blast
  show ?case
  proof (cases brk)
    case True
    with Suc.prems(2) it have "t' = t1" by auto
    with one show ?thesis
      by (auto intro: exI [of _ "1::nat"] exI [of _ "0::nat"])
  next
    case False
    with Suc.prems(2) it have lp: "turn_loop d sid io n (Suc iter) t1 = Some (t', j)" by auto
    from Suc.IH [OF one(1) lp] obtain k tail where
      "rt_slotID (tn_runtime t') = -1" "k \<le> n"
      "map m_Type (tn_sent t') = map m_Type (tn_sent t1) @ concat (replicate k call_types) @ tail"
      "tail = [] \<or> (tail = failed_types \<and> tn_loopErr t' \<noteq> None)" by blast
    with one False show ?thesis by (intro conjI exI [of _ "Suc k"] exI [of _ tail]) auto
  qed
qed


definition idle_iteration :: iteration_env where
  "idle_iteration = \<lparr>ie_env = rt_calm, ie_rounds = [], ie_finalizeTimeout = 0, ie_now = 0\<rparr>"

definition sample_deps :: "nat requestDeps" where
  "sample_deps = \<lparr>rd_registry = NewToolRegistry, rd_store = \<lparr>sk_manifests = [], sk_order = [], sk_fileMaxBytes = 0\<rparr>,
     rd_baseTools = [], rd_maxIter = 3,
     rd_json = \<lparr>jt_Marshal = (\<lambda>_. []), jt_Unmarshal = (\<lambda>_. None), jt_Error = (\<lambda>_. [])\<rparr>\<rparr>"

definition sample_payload :: ContextAssembledPayload where
  "sample_payload = \<lparr>ca_SessionID = ''s'', ca_Messages = [], ca_TargetAgent = [], ca_ReplyStream = ''r'', ca_SpeakerID = []\<rparr>"


section \<open>The conversation stays well-formed\<close>

text \<open>What one iteration with tool calls adds: the assistant's message and one answer per call.\<close>

type_synonym block = "string \<times> (ToolCall \<times> string) list"

definition block_msgs :: "block \<Rightarrow> ChatMsg list" where
  "block_msgs b = \<lparr>cm_Role = ''assistant'', cm_Content = fst b, cm_ToolCalls = map fst (snd b), cm_ToolCallID = []\<rparr> #
     map (\<lambda>(c, out). \<lparr>cm_Role = ''tool'', cm_Content = out, cm_ToolCalls = [], cm_ToolCallID = tc_ID c\<rparr>) (snd b)"

definition block_calls :: "block \<Rightarrow> ToolCall list" where
  "block_calls b = map fst (snd b)"

definition block_results :: "block \<Rightarrow> ToolResult list" where
  "block_results b = map (\<lambda>(c, out). \<lparr>tr_CallID = tc_ID c, tr_Output = out\<rparr>) (snd b)"

lemma fold_tool_calls_block:
  "\<exists>outs. length outs = length calls \<and>
    (let t' = fold (one_tool_call d now sid vis) calls t; b = zip calls outs in
     tn_messages t' = tn_messages t @
       map (\<lambda>(c, out). \<lparr>cm_Role = ''tool'', cm_Content = out, cm_ToolCalls = [], cm_ToolCallID = tc_ID c\<rparr>) b \<and>
     tn_allToolCalls t' = tn_allToolCalls t @ map fst b \<and>
     tn_allToolResults t' = tn_allToolResults t @ map (\<lambda>(c, out). \<lparr>tr_CallID = tc_ID c, tr_Output = out\<rparr>) b)"
proof (induction calls arbitrary: t)
  case Nil
  then show ?case by simp
next
  case (Cons call calls)
  let ?t1 = "one_tool_call d now sid vis call t"
  obtain w out oc where inv: "invokeOrGate d call vis sid (tn_world t) = (w, out, oc)" by (metis prod_cases3)
  have t1: "tn_messages ?t1 = tn_messages t @
      [\<lparr>cm_Role = ''tool'', cm_Content = out, cm_ToolCalls = [], cm_ToolCallID = tc_ID call\<rparr>]"
    "tn_allToolCalls ?t1 = tn_allToolCalls t @ [call]"
    "tn_allToolResults ?t1 = tn_allToolResults t @ [\<lparr>tr_CallID = tc_ID call, tr_Output = out\<rparr>]"
    by (simp_all add: one_tool_call_def inv Let_def)
  from Cons.IH [of ?t1] obtain outs where "length outs = length calls"
    "let t' = fold (one_tool_call d now sid vis) calls ?t1; b = zip calls outs in
     tn_messages t' = tn_messages ?t1 @
       map (\<lambda>(c, out). \<lparr>cm_Role = ''tool'', cm_Content = out, cm_ToolCalls = [], cm_ToolCallID = tc_ID c\<rparr>) b \<and>
     tn_allToolCalls t' = tn_allToolCalls ?t1 @ map fst b \<and>
     tn_allToolResults t' = tn_allToolResults ?t1 @ map (\<lambda>(c, out). \<lparr>tr_CallID = tc_ID c, tr_Output = out\<rparr>) b"
    by blast
  then show ?case by (intro exI [of _ "out # outs"]) (simp add: t1 Let_def)
qed

definition grows_by :: "'w turn \<Rightarrow> block list \<Rightarrow> 'w turn \<Rightarrow> bool" where
  "grows_by t bs t' \<longleftrightarrow>
     tn_messages t' = tn_messages t @ concat (map block_msgs bs) \<and>
     tn_allToolCalls t' = tn_allToolCalls t @ concat (map block_calls bs) \<and>
     tn_allToolResults t' = tn_allToolResults t @ concat (map block_results bs) \<and>
     (\<forall>b \<in> set bs. snd b \<noteq> [])"

lemma turn_iteration_grows:
  assumes "turn_iteration d sid ie t = Some (t', brk)"
  shows "\<exists>bs. grows_by t bs t' \<and> length bs = (if brk then 0 else 1)"
proof -
  obtain r1 sent1 got where rq: "RequestSlot (ie_env ie) (tn_runtime t) = (r1, sent1, got)" by (metis prod_cases3)
  show ?thesis
  proof (cases got)
    case (Inl err)
    with rq assms show ?thesis by (intro exI [of _ "[]"]) (auto simp: turn_iteration_def grows_by_def)
  next
    case (Inr i)
    let ?schemas = "map enc_ToolSchema (SchemasFor (rd_baseTools d) (allowedOf (tn_activeSkill t)) (rd_registry d))"
    obtain r2 sent2 res where ex: "Execute (ie_env ie) (ie_finalizeTimeout ie) (tn_messages t) ?schemas (ie_rounds ie) r1
        = (r2, sent2, res)" by (metis prod_cases3)
    obtain r3 sent3 e3 where rel: "ReleaseSlot (ie_env ie) r2 = (r3, sent3, e3)" by (metis prod_cases3)
    obtain tx calls err where res: "res = Some (tx, calls, err)"
      using assms rq Inr ex by (cases res) (auto simp: turn_iteration_def Let_def)
    show ?thesis
    proof (cases brk)
      case True
      with assms rq Inr ex rel res show ?thesis
        by (intro exI [of _ "[]"]) (auto simp: turn_iteration_def Let_def grows_by_def split: if_splits)
    next
      case False
      with assms rq Inr ex rel res obtain t1 vis where
        t': "t' = fold (one_tool_call d (ie_now ie) sid vis) calls t1" and ne: "calls \<noteq> []"
        and t1: "tn_messages t1 = tn_messages t @
            [\<lparr>cm_Role = ''assistant'', cm_Content = tx, cm_ToolCalls = calls, cm_ToolCallID = []\<rparr>]"
          "tn_allToolCalls t1 = tn_allToolCalls t" "tn_allToolResults t1 = tn_allToolResults t"
        by (fastforce simp: turn_iteration_def Let_def split: if_splits)
      from fold_tool_calls_block [of calls d "ie_now ie" sid vis t1] obtain outs where
        "length outs = length calls" "let t' = fold (one_tool_call d (ie_now ie) sid vis) calls t1; b = zip calls outs in
         tn_messages t' = tn_messages t1 @
           map (\<lambda>(c, out). \<lparr>cm_Role = ''tool'', cm_Content = out, cm_ToolCalls = [], cm_ToolCallID = tc_ID c\<rparr>) b \<and>
         tn_allToolCalls t' = tn_allToolCalls t1 @ map fst b \<and>
         tn_allToolResults t' = tn_allToolResults t1 @ map (\<lambda>(c, out). \<lparr>tr_CallID = tc_ID c, tr_Output = out\<rparr>) b"
        by blast
      with t1 t' ne False show ?thesis
        by (intro exI [of _ "[(tx, zip calls outs)]"])
          (auto simp: grows_by_def block_msgs_def block_calls_def block_results_def Let_def)
    qed
  qed
qed

lemma grows_by_trans: "grows_by t bs t1 \<Longrightarrow> grows_by t1 cs t2 \<Longrightarrow> grows_by t (bs @ cs) t2"
  by (auto simp: grows_by_def)

lemma turn_loop_grows:
  "turn_loop d sid io n iter t = Some (t', j) \<Longrightarrow> \<exists>bs. grows_by t bs t' \<and> length bs \<le> n \<and> j = iter + length bs"
proof (induction n arbitrary: iter t)
  case 0
  then show ?case by (intro exI [of _ "[]"]) (auto simp: grows_by_def)
next
  case (Suc n)
  obtain t1 brk where it: "turn_iteration d sid (io iter) t = Some (t1, brk)"
    using Suc.prems by (cases "turn_iteration d sid (io iter) t") auto
  from turn_iteration_grows [OF it] obtain bs where bs: "grows_by t bs t1" "length bs = (if brk then 0 else 1)" by blast
  show ?case
  proof (cases brk)
    case True
    with Suc.prems it bs show ?thesis by (intro exI [of _ bs]) auto
  next
    case False
    with Suc.prems it have "turn_loop d sid io n (Suc iter) t1 = Some (t', j)" by auto
    from Suc.IH [OF this] obtain cs where "grows_by t1 cs t'" "length cs \<le> n" "j = Suc iter + length cs" by blast
    with bs False grows_by_trans show ?thesis by (intro exI [of _ "bs @ cs"]) auto
  qed
qed

text \<open>
  C9. The conversation of a turn stays well-formed: it is the request's messages followed by blocks of
  one assistant message with its tool calls and one answer per call, in call order and under the
  call's id; the reply's calls and results are those of the blocks, in the same order and with
  matching ids; there are at most \<^verbatim>\<open>maxIter\<close> blocks, and the final text says so when the bound is hit.
\<close>

theorem conversation_wellformed:
  assumes "handleRequest d now io payload r db w = Some (t, reply)"
  shows "\<exists>bs. tn_messages t = injectSkillManifest (rd_store d) (ca_Messages payload) @ concat (map block_msgs bs) \<and>
    tn_allToolCalls t = concat (map block_calls bs) \<and> tn_allToolResults t = concat (map block_results bs) \<and>
    map tr_CallID (tn_allToolResults t) = map tc_ID (tn_allToolCalls t) \<and>
    (\<forall>b \<in> set bs. snd b \<noteq> []) \<and> int (length bs) \<le> max 0 (rd_maxIter d) \<and>
    (int (length bs) = rd_maxIter d \<longrightarrow> has_suffix (tn_finalContent t) ''(max iterations reached)'') \<and>
    (\<forall>p. reply = Some p \<longrightarrow> cr_Content p = tn_finalContent t \<and> cr_ToolCalls p = tn_allToolCalls t \<and>
       cr_ToolResults p = tn_allToolResults t)"
proof -
  let ?t0 = "start_turn d now payload r db w"
  from assms obtain t1 j where lp: "turn_loop d (ca_SessionID payload) io (nat (rd_maxIter d)) 0 ?t0 = Some (t1, j)"
    and t: "tn_messages t = tn_messages t1" "tn_allToolCalls t = tn_allToolCalls t1" "tn_allToolResults t = tn_allToolResults t1"
      "int j = rd_maxIter d \<Longrightarrow> tn_finalContent t = max_iter_notice (tn_finalContent t1)"
    and reply: "\<forall>p. reply = Some p \<longrightarrow> cr_Content p = tn_finalContent t \<and> cr_ToolCalls p = tn_allToolCalls t \<and>
       cr_ToolResults p = tn_allToolResults t"
    by (auto simp: handleRequest_def Let_def split: option.splits if_splits)
  have t0: "tn_messages ?t0 = injectSkillManifest (rd_store d) (ca_Messages payload)"
    "tn_allToolCalls ?t0 = []" "tn_allToolResults ?t0 = []"
    by (simp_all add: start_turn_def split_def Let_def)
  from turn_loop_grows [OF lp] obtain bs where bs: "grows_by ?t0 bs t1" "length bs \<le> nat (rd_maxIter d)" "j = length bs"
    by auto
  have "map tr_CallID (concat (map block_results bs)) = map tc_ID (concat (map block_calls bs))"
    by (induction bs) (auto simp: block_results_def block_calls_def)
  moreover have "int (length bs) = rd_maxIter d \<longrightarrow> has_suffix (tn_finalContent t) ''(max iterations reached)''"
    using t(4) bs(3) by (auto simp: max_iter_notice_def)
  ultimately show ?thesis
    using bs t t0 reply by (intro exI [of _ bs]) (auto simp: grows_by_def)
qed

definition date_call :: ToolCall where
  "date_call = \<lparr>tc_ID = ''c1'', tc_Type = ''function'', tc_Name = ''date'', tc_Arguments = ''{}''\<rparr>"

definition two_rounds :: "nat \<Rightarrow> iteration_env" where
  "two_rounds i = \<lparr>ie_env = granting,
     ie_rounds = [reads (Inr (if i = 0
        then [(NewMessage ''x'' 0 TypeToolCall ''llm-broker''
                 (enc_ToolCallPayload \<lparr>tcp_SessionID = [], tcp_Call = date_call, tcp_Done = False\<rparr>), ''1''),
              (token_of [] True, ''2'')]
        else [(token_of ''ok'' False, ''3''), (token_of [] True, ''4'')]))],
     ie_finalizeTimeout = 5, ie_now = 0\<rparr>"

theorem conversation_wellformed_witness:
  "\<exists>t p. handleRequest sample_deps 0 two_rounds sample_payload (NewRuntime ''main'' 0 False) [] 0 = Some (t, Some p) \<and>
     cr_ToolCalls p = [date_call] \<and> map tr_CallID (cr_ToolResults p) = [''c1'']"
proof -
  let ?h = "handleRequest sample_deps 0 two_rounds sample_payload (NewRuntime ''main'' 0 False) [] 0"
  have "case ?h of Some (t, Some p) \<Rightarrow> tn_allToolCalls t = [date_call] | _ \<Rightarrow> False" by code_simp
  then obtain t p where h: "?h = Some (t, Some p)" and c: "tn_allToolCalls t = [date_call]"
    by (auto split: option.splits)
  from conversation_wellformed [OF h] have "cr_ToolCalls p = tn_allToolCalls t"
    "map tr_CallID (cr_ToolResults p) = map tc_ID (tn_allToolCalls t)"
    by (metis, metis)
  with h c show ?thesis by (intro exI [of _ t] exI [of _ p]) (auto simp: date_call_def)
qed

section \<open>Offered tools are the invocable ones\<close>

text \<open>
  What the model is offered is exactly what it may invoke: in every registry the process can
  build, the schemas sent with an LLM call are those of the registered tools in the visible set, each
  once and in registration order; a call outside the set is answered without running anything, and a
  call inside it always reaches the registered tool.
\<close>

theorem offered_iff_invocable:
  assumes "tools_reachable (rd_registry d)"
  shows "\<exists>names. distinct names \<and> set names = visibleSet (rd_registry d) (rd_baseTools d) active \<and>
    SchemasFor (rd_baseTools d) (allowedOf active) (rd_registry d) = map (\<lambda>n. tl_Schema (tool_at (rd_registry d) n)) names \<and>
    (\<forall>call sid w. case invokeOrGate d call (visibleSet (rd_registry d) (rd_baseTools d) active) sid w of (w', out, outcome) \<Rightarrow>
       if tc_Name call \<in> set names
       then tl_Name (tool_at (rd_registry d) (tc_Name call)) = tc_Name call \<and>
         (\<exists>args. w' = fst (tl_Invoke (tool_at (rd_registry d) (tc_Name call)) args w)) \<and> outcome \<in> {''ok'', ''error'', ''panic''}
       else w' = w \<and> outcome = ''gated'')"
proof -
  let ?r = "rd_registry d"
  let ?names = "filter (\<lambda>n. n \<in> set (rd_baseTools d) \<union> set (allowedOf active)) (tg_order ?r)"
  note inv = tools_reachable_inv [OF assms, unfolded tool_registry_inv_def]
  have dom: "map_of (tg_tools ?r) n \<noteq> None \<longleftrightarrow> n \<in> set (tg_order ?r)" for n
    using inv by (simp add: map_of_eq_None_iff)
  then have vis: "set ?names = visibleSet ?r (rd_baseTools d) active" by (auto simp: visibleSet_def Has_def)
  have "case invokeOrGate d call (visibleSet ?r (rd_baseTools d) active) sid w of (w', out, outcome) \<Rightarrow>
       if tc_Name call \<in> set ?names
       then tl_Name (tool_at ?r (tc_Name call)) = tc_Name call \<and>
         (\<exists>args. w' = fst (tl_Invoke (tool_at ?r (tc_Name call)) args w)) \<and> outcome \<in> {''ok'', ''error'', ''panic''}
       else w' = w \<and> outcome = ''gated''" for call sid w
  proof (cases "tc_Name call \<in> set ?names")
    case False
    then show ?thesis unfolding vis by (simp add: invokeOrGate_def)
  next
    case True
    then obtain tl where tl: "map_of (tg_tools ?r) (tc_Name call) = Some tl" using dom by fastforce
    with inv have n: "tl_Name tl = tc_Name call" by blast
    define args where "args = (if tc_Name call \<in> set sessionScopedTools
      then injectSessionID (rd_json d) (tc_Arguments call) sid else tc_Arguments call)"
    obtain w' res where r: "tl_Invoke tl args w = (w', res)" by fastforce
    from True have v: "tc_Name call \<in> visibleSet ?r (rd_baseTools d) active" unfolding vis .
    then have "invokeOrGate d call (visibleSet ?r (rd_baseTools d) active) sid w =
      (case Tool_Invoke (rd_json d) ?r (tc_Name call) args w of (w', res) \<Rightarrow> (w', ir_Output res, ir_Outcome res))"
      by (simp add: invokeOrGate_def args_def Let_def)
    then show ?thesis using True v n tl r
      by (cases res) (auto simp: Tool_Invoke_def tool_at_def Let_def intro: exI [of _ args])
  qed
  with vis inv show ?thesis
    by (intro exI [of _ ?names]) (simp add: SchemasFor_def)
qed

definition clock_tool :: "nat Tool" where
  "clock_tool = \<lparr>tl_Name = ''current_time'',
     tl_Schema = \<lparr>ts_Type = ''function'', ts_Name = ''current_time'', ts_Description = [], ts_Parameters = Some (JObj [])\<rparr>,
     tl_Invoke = (\<lambda>args w. (Suc w, ToolOk args))\<rparr>"

definition clock_deps :: "nat requestDeps" where
  "clock_deps = sample_deps\<lparr>rd_registry := \<lparr>tg_tools = [(''current_time'', clock_tool)], tg_order = [''current_time'']\<rparr>,
     rd_baseTools := [''current_time'']\<rparr>"

theorem offered_iff_invocable_witness:
  "tools_reachable (rd_registry clock_deps) \<and>
   (\<exists>names. distinct names \<and> set names = {''current_time''} \<and>
     SchemasFor [''current_time''] [] (rd_registry clock_deps) = map (\<lambda>n. tl_Schema (tool_at (rd_registry clock_deps) n)) names)"
proof -
  have "Tool_Register clock_tool NewToolRegistry = Inr (rd_registry clock_deps)"
    by (simp add: Tool_Register_def register_tool_def NewToolRegistry_def clock_deps_def clock_tool_def
        has_prefix_def mcpPrefix_def Let_def)
  then have r: "tools_reachable (rd_registry clock_deps)" by (rule tools_reachable.builtin [OF tools_reachable.new])
  have v: "visibleSet (rd_registry clock_deps) [''current_time''] None = {''current_time''}"
    "rd_baseTools clock_deps = [''current_time'']" "allowedOf None = []"
    by (simp_all add: visibleSet_def Has_def clock_deps_def allowedOf_def)
  show ?thesis using r offered_iff_invocable [OF r, of None] unfolding v by blast
qed

section \<open>Session scoping\<close>

lemma strictly_sorted_split:
  "sorted (xs @ k # ys) \<Longrightarrow> distinct (xs @ k # ys) \<Longrightarrow> y \<in> set ys \<Longrightarrow> k < y"
  by (metis (no_types, lifting) distinct.simps(2) distinct_append order_le_less sorted_append sorted_wrt.simps(2))

text \<open>
  A field that a decoder sets from the keys that fold to \<open>k\<close> only has the value of the last of them.
\<close>

lemma dec_keys_frame:
  assumes "\<And>k' v a b. fold_key k' \<noteq> fold_key k \<Longrightarrow> dec_key fs k' v a = Some b \<Longrightarrow> get b = get a"
    and "dec_keys fs a kvs = Some b" "\<And>k'. k' \<in> fst ` set kvs \<Longrightarrow> fold_key k' \<noteq> fold_key k"
  shows "get b = get a"
  using assms(2,3)
proof (induction kvs arbitrary: a)
  case (Cons kv kvs)
  obtain k' v where kv: "kv = (k', v)" by fastforce
  with Cons.prems obtain c where c: "dec_key fs k' v a = Some c" "dec_keys fs c kvs = Some b"
    by (auto split: option.splits)
  with Cons.prems kv assms(1) [of k' v a c] Cons.IH [of c] show ?case by auto
qed simp

lemma injected_field:
  assumes frame: "\<And>k' v a b. fold_key k' \<noteq> fold_key k \<Longrightarrow> dec_key fs k' v a = Some b \<Longrightarrow> get b = get a"
    and set_field: "\<And>a b. dec_key fs k (JStr s) a = Some b \<Longrightarrow> get b = s"
    and keys: "\<And>k'. k' \<in> fst ` set kvs \<Longrightarrow> fold_key k' = fold_key k \<Longrightarrow> k' \<le> k"
    and dec: "dec_keys fs a (map_entries (kvs @ [(k, JStr s)])) = Some b"
  shows "get b = s"
proof -
  let ?m = "map_entries (kvs @ [(k, JStr s)])"
  have "(k, JStr s) \<in> set ?m" by (simp add: map_entries_last)
  then obtain xs ys where m: "?m = xs @ (k, JStr s) # ys" by (meson split_list)
  then have eq: "map fst xs @ k # map fst ys = sort (remdups (map fst (kvs @ [(k, JStr s)])))"
    using map_entries_keys [of "kvs @ [(k, JStr s)]"] by simp
  have so: "sorted (map fst xs @ k # map fst ys)" "distinct (map fst xs @ k # map fst ys)" unfolding eq by simp_all
  from arg_cong [OF eq, of set] have sub: "set (map fst ys) \<subseteq> insert k (fst ` set kvs)" by auto
  have after: "fold_key k' \<noteq> fold_key k" if "k' \<in> fst ` set ys" for k'
  proof -
    from strictly_sorted_split [OF so, of k'] that have lt: "k < k'" by simp
    with sub that have "k' \<in> fst ` set kvs" by auto
    with keys [of k'] lt show ?thesis by fastforce
  qed
  from dec obtain c e where "dec_key fs k (JStr s) c = Some e" "dec_keys fs e ys = Some b"
    unfolding m dec_keys_append by (auto split: option.splits)
  from dec_keys_frame [where get = get, OF frame this(2) after] set_field [OF this(1)] show ?thesis by simp
qed

lemma bash_session_frame:
  "fold_key k' \<noteq> fold_key ''session_id'' \<Longrightarrow>
   dec_key [fld ''command'' dec_string br_Command br_Command_update,
      fld ''session_id'' dec_string br_SessionID br_SessionID_update,
      fld ''timeout_s'' dec_int br_TimeoutS br_TimeoutS_update] k' v a = Some b \<Longrightarrow> br_SessionID b = br_SessionID a"
  by (auto simp: dec_key_def fld_def split: if_splits option.splits)

lemma bash_session_set:
  "dec_key [fld ''command'' dec_string br_Command br_Command_update,
      fld ''session_id'' dec_string br_SessionID br_SessionID_update,
      fld ''timeout_s'' dec_int br_TimeoutS br_TimeoutS_update] ''session_id'' (JStr s) a = Some b \<Longrightarrow> br_SessionID b = s"
  by (auto simp: key_simps)

lemma run_session_frame:
  "fold_key k' \<noteq> fold_key ''session_id'' \<Longrightarrow>
   dec_key [fld ''skill'' dec_string rr_Skill rr_Skill_update,
      fld ''script'' dec_string rr_Script rr_Script_update,
      fld ''args'' (dec_list [] dec_string) rr_Args rr_Args_update,
      fld ''stdin'' dec_string rr_Stdin rr_Stdin_update,
      fld ''timeout_s'' dec_int rr_TimeoutS rr_TimeoutS_update,
      fld ''session_id'' dec_string rr_SessionID rr_SessionID_update] k' v a = Some b \<Longrightarrow> rr_SessionID b = rr_SessionID a"
  by (auto simp: dec_key_def fld_def split: if_splits option.splits)

lemma run_session_set:
  "dec_key [fld ''skill'' dec_string rr_Skill rr_Skill_update,
      fld ''script'' dec_string rr_Script rr_Script_update,
      fld ''args'' (dec_list [] dec_string) rr_Args rr_Args_update,
      fld ''stdin'' dec_string rr_Stdin rr_Stdin_update,
      fld ''timeout_s'' dec_int rr_TimeoutS rr_TimeoutS_update,
      fld ''session_id'' dec_string rr_SessionID rr_SessionID_update] ''session_id'' (JStr s) a = Some b \<Longrightarrow> rr_SessionID b = s"
  by (auto simp: key_simps)

lemma trim_space_Nil: "trim_space [] = []"
  by code_simp

text \<open>Arguments that are no object are an error of the tool, or (for \<^verbatim>\<open>null\<close>) leave every argument empty.\<close>

lemma bash_injected:
  assumes "\<And>kvs. jt_Unmarshal jt args = Some (JObj kvs) \<Longrightarrow>
      (\<forall>k \<in> fst ` set kvs. fold_key k = fold_key ''session_id'' \<longrightarrow> k \<le> ''session_id'') \<and>
      jt_Unmarshal jt (injectSessionID jt args sid) = Some (JObj (map_entries (kvs @ [(''session_id'', JStr sid)])))"
    and "unmarshal jt dec_BashRequest (injectSessionID jt args sid) = Some b" "trim_space (br_Command b) \<noteq> []"
  shows "br_SessionID b = sid"
proof (cases "\<exists>kvs. jt_Unmarshal jt args = Some (JObj kvs)")
  case True
  then obtain kvs where "jt_Unmarshal jt args = Some (JObj kvs)" by blast
  note k = assms(1) [OF this]
  with assms(2) have "dec_BashRequest (JObj (map_entries (kvs @ [(''session_id'', JStr sid)]))) = Some b"
    by (simp add: unmarshal_def)
  note dec = this [unfolded dec_BashRequest_def dec_struct.simps]
  show ?thesis by (rule injected_field [where get = br_SessionID, OF bash_session_frame bash_session_set _ dec]) (use k in auto)
next
  case False
  then have "injectSessionID jt args sid = args" by (auto simp: injectSessionID_def split: option.splits json.splits)
  with assms(2) False have "jt_Unmarshal jt args = Some JNull" "dec_BashRequest JNull = Some b"
    by (auto simp: unmarshal_def dec_BashRequest_def split: option.splits elim: dec_struct.elims)
  then have "br_Command b = []" by (auto simp: dec_BashRequest_def)
  with assms(3) show ?thesis by (simp add: trim_space_Nil)
qed

lemma run_injected:
  assumes "\<And>kvs. jt_Unmarshal jt args = Some (JObj kvs) \<Longrightarrow>
      (\<forall>k \<in> fst ` set kvs. fold_key k = fold_key ''session_id'' \<longrightarrow> k \<le> ''session_id'') \<and>
      jt_Unmarshal jt (injectSessionID jt args sid) = Some (JObj (map_entries (kvs @ [(''session_id'', JStr sid)])))"
    and "unmarshal jt dec_RunRequest (injectSessionID jt args sid) = Some b" "trim_space (rr_Skill b) \<noteq> []"
  shows "rr_SessionID b = sid"
proof (cases "\<exists>kvs. jt_Unmarshal jt args = Some (JObj kvs)")
  case True
  then obtain kvs where "jt_Unmarshal jt args = Some (JObj kvs)" by blast
  note k = assms(1) [OF this]
  with assms(2) have "dec_RunRequest (JObj (map_entries (kvs @ [(''session_id'', JStr sid)]))) = Some b"
    by (simp add: unmarshal_def)
  note dec = this [unfolded dec_RunRequest_def dec_struct.simps]
  show ?thesis by (rule injected_field [where get = rr_SessionID, OF run_session_frame run_session_set _ dec]) (use k in auto)
next
  case False
  then have "injectSessionID jt args sid = args" by (auto simp: injectSessionID_def split: option.splits json.splits)
  with assms(2) False have "jt_Unmarshal jt args = Some JNull" "dec_RunRequest JNull = Some b"
    by (auto simp: unmarshal_def dec_RunRequest_def split: option.splits elim: dec_struct.elims)
  then have "rr_Skill b = []" by (auto simp: dec_RunRequest_def)
  with assms(3) show ?thesis by (simp add: trim_space_Nil)
qed

text \<open>
  The exec service sees the session of the turn, whatever the model wrote: with the session id
  injected, \<^verbatim>\<open>bash\<close> and \<^verbatim>\<open>run_skill_script\<close> behave as if their client overwrote the session id of every request,
  provided no argument key that the decoder takes for \<^verbatim>\<open>session_id\<close> is greater than it (any ASCII
  variant such as \<^verbatim>\<open>Session_ID\<close> is smaller) and the marshalled arguments are read back as they were written.
\<close>

theorem injected_session_wins:
  assumes "\<And>kvs. jt_Unmarshal jt args = Some (JObj kvs) \<Longrightarrow>
      (\<forall>k \<in> fst ` set kvs. fold_key k = fold_key ''session_id'' \<longrightarrow> k \<le> ''session_id'') \<and>
      jt_Unmarshal jt (injectSessionID jt args sid) = Some (JObj (map_entries (kvs @ [(''session_id'', JStr sid)])))"
  shows "bash_Invoke jt client (injectSessionID jt args sid) w =
      bash_Invoke jt (\<lambda>b. client (b\<lparr>br_SessionID := sid\<rparr>)) (injectSessionID jt args sid) w \<and>
    run_skill_script_Invoke jt runner (injectSessionID jt args sid) w =
      run_skill_script_Invoke jt (\<lambda>b. runner (b\<lparr>rr_SessionID := sid\<rparr>)) (injectSessionID jt args sid) w"
proof (intro conjI)
  note bash_injected [OF assms]
  then show "bash_Invoke jt client (injectSessionID jt args sid) w =
      bash_Invoke jt (\<lambda>b. client (b\<lparr>br_SessionID := sid\<rparr>)) (injectSessionID jt args sid) w"
    by (cases "unmarshal jt dec_BashRequest (injectSessionID jt args sid)") (auto simp: bash_Invoke_def Let_def)
  note run_injected [OF assms]
  then show "run_skill_script_Invoke jt runner (injectSessionID jt args sid) w =
      run_skill_script_Invoke jt (\<lambda>b. runner (b\<lparr>rr_SessionID := sid\<rparr>)) (injectSessionID jt args sid) w"
    by (cases "unmarshal jt dec_RunRequest (injectSessionID jt args sid)") (auto simp: run_skill_script_Invoke_def Let_def)
qed

text \<open>A text layer that knows two texts: the model's arguments and the marshalled object.\<close>

definition two_texts :: "(string \<times> json) list \<Rightarrow> string \<Rightarrow> json_text" where
  "two_texts kvs sid = \<lparr>jt_Marshal = (\<lambda>_. ''m''),
     jt_Unmarshal = (\<lambda>s. if s = ''a'' then Some (JObj kvs)
       else if s = ''m'' then Some (JObj (map_entries (kvs @ [(''session_id'', JStr sid)]))) else None),
     jt_Error = (\<lambda>_. [])\<rparr>"

lemma two_texts_inject: "injectSessionID (two_texts kvs sid) ''a'' sid = ''m''"
  by (simp add: two_texts_def injectSessionID_def)

theorem injected_session_wins_witness:
  "let jt = two_texts [(''command'', JStr ''ls''), (''Session_ID'', JStr ''other'')] ''mine'';
       client = (\<lambda>b w. (w @ [br_SessionID b], Inr JNull))
   in fst (bash_Invoke jt client (injectSessionID jt ''a'' ''mine'') []) = [''mine'']"
proof -
  let ?kvs = "[(''command'', JStr ''ls''), (''Session_ID'', JStr ''other'')]"
  let ?jt = "two_texts ?kvs ''mine''"
  let ?client = "\<lambda>b w. (w @ [br_SessionID b], Inr JNull) :: string list \<times> (client_error + json)"
  have le: "fold_key ''command'' \<noteq> fold_key ''session_id''" "''Session_ID'' \<le> ''session_id''" by code_simp+
  have h: "(\<forall>k \<in> fst ` set kvs. fold_key k = fold_key ''session_id'' \<longrightarrow> k \<le> ''session_id'') \<and>
      jt_Unmarshal ?jt (injectSessionID ?jt ''a'' ''mine'') = Some (JObj (map_entries (kvs @ [(''session_id'', JStr ''mine'')])))"
    if "jt_Unmarshal ?jt ''a'' = Some (JObj kvs)" for kvs
  proof -
    from that have kvs: "kvs = ?kvs" by (simp add: two_texts_def)
    show ?thesis unfolding kvs two_texts_inject using le by (simp add: two_texts_def)
  qed
  have m: "unmarshal ?jt dec_BashRequest ''m'' = Some \<lparr>br_Command = ''ls'', br_SessionID = ''mine'', br_TimeoutS = 0\<rparr>"
    by code_simp
  have "trim_space ''ls'' = ''ls''" by code_simp
  with injected_session_wins [OF h, of ?client "[]"] m show ?thesis
    unfolding two_texts_inject Let_def by (simp add: bash_Invoke_def)
qed

definition long_s_session_id :: string where
  "long_s_session_id = [CHR 0xC5, CHR 0xBF] @ ''ession_id''"

text \<open>
  The injection can be bypassed: the decoder also takes a key for \<^verbatim>\<open>session_id\<close> in which an s is written as U+017F,
  and such a key is written after \<^verbatim>\<open>session_id\<close>, so its value is the one the exec service gets. An argument
  object with this key runs the command in the session the model names.
\<close>

theorem long_s_key_overrides_session:
  assumes "jt_Unmarshal jt args = Some (JObj [(''command'', JStr cmd), (long_s_session_id, JStr other)])"
    and "jt_Unmarshal jt (injectSessionID jt args sid) =
      Some (JObj (map_entries ([(''command'', JStr cmd), (long_s_session_id, JStr other)] @ [(''session_id'', JStr sid)])))"
    and "trim_space cmd \<noteq> []"
  shows "bash_Invoke jt client (injectSessionID jt args sid) w =
    (case client \<lparr>br_Command = trim_space cmd, br_SessionID = other, br_TimeoutS = 0\<rparr> w of
       (w', Inl err) \<Rightarrow> (w', jsonError jt (classifyClientError err))
     | (w', Inr resp) \<Rightarrow> (w', jt_Marshal jt resp))"
proof -
  let ?kvs = "[(''command'', JStr cmd), (long_s_session_id, JStr other)] @ [(''session_id'', JStr sid)]"
  have "sort (remdups (map fst ?kvs)) = [''command'', ''session_id'', long_s_session_id]"
    unfolding list.map append.simps fst_conv by code_simp
  moreover have "long_s_session_id \<noteq> ''session_id''" "long_s_session_id \<noteq> ''command''" by code_simp+
  ultimately have m: "map_entries ?kvs =
      [(''command'', JStr cmd), (''session_id'', JStr sid), (long_s_session_id, JStr other)]"
    unfolding map_entries_def by simp
  have k: "fold_key long_s_session_id = ''session_id''" "fold_key ''session_id'' = ''session_id''"
    "fold_key ''command'' = ''command''" by code_simp+
  have "unmarshal jt dec_BashRequest (injectSessionID jt args sid) =
      Some \<lparr>br_Command = cmd, br_SessionID = other, br_TimeoutS = 0\<rparr>"
    using assms(2) unfolding m by (simp add: unmarshal_def dec_BashRequest_def dec_key_def fld_def k char_lower_def)
  with assms(3) show ?thesis by (simp add: bash_Invoke_def Let_def split: prod.splits sum.splits)
qed

theorem long_s_key_overrides_session_witness:
  "let jt = two_texts [(''command'', JStr ''ls''), (long_s_session_id, JStr ''other'')] ''mine'';
       client = (\<lambda>b w. (w @ [br_SessionID b], Inr JNull))
   in fst (bash_Invoke jt client (injectSessionID jt ''a'' ''mine'') []) = [''other'']"
proof -
  let ?kvs = "[(''command'', JStr ''ls''), (long_s_session_id, JStr ''other'')]"
  let ?jt = "two_texts ?kvs ''mine''"
  let ?client = "\<lambda>b w. (w @ [br_SessionID b], Inr JNull) :: string list \<times> (client_error + json)"
  have "jt_Unmarshal ?jt ''a'' = Some (JObj ?kvs)"
    "jt_Unmarshal ?jt (injectSessionID ?jt ''a'' ''mine'') = Some (JObj (map_entries (?kvs @ [(''session_id'', JStr ''mine'')])))"
    unfolding two_texts_inject by (simp_all add: two_texts_def)
  moreover have "trim_space ''ls'' \<noteq> []" by code_simp
  ultimately show ?thesis
    using long_s_key_overrides_session [of ?jt "''a''" "''ls''" "''other''" "''mine''" ?client "[]"]
    unfolding Let_def by simp
qed

end
