(* ===== verification/Mcp.thy ===== *)
theory Mcp
  imports Tools Config_Store
begin

text \<open>
  MCP servers (\<^verbatim>\<open>internal/mcp\<close>): the JSON-RPC client of one subprocess, with its table of pending calls and its read loop; the
  handshake, tool listing and tool calls on top of it; the tools it gives the registry; and the manager that starts the
  configured servers and publishes their health. Spawning and killing the process, and the bytes of a line, are outside:
  a line that is read is its JSON value, \<open>None\<close> when it does not parse.
\<close>

section \<open>Messages\<close>

record rpcError =
  re_Code :: int
  re_Message :: string
  re_Data :: "json option"

record rpcMessage =
  rm_JSONRPC :: string
  rm_ID :: "json option"          \<comment> \<open>a raw member, \<open>None\<close> when it is missing\<close>
  rm_Method :: string
  rm_Params :: "json option"
  rm_Result :: "json option"
  rm_Error :: "rpcError option"

definition dec_raw_member :: "json option decoder" where
  "dec_raw_member old j = Some (Some j)"

definition dec_rpcError :: "rpcError decoder" where
  "dec_rpcError = dec_struct
     [fld ''code'' dec_int re_Code re_Code_update,
      fld ''message'' dec_string re_Message re_Message_update,
      fld ''data'' dec_raw_member re_Data re_Data_update]"

definition dec_rpcMessage :: "json \<Rightarrow> rpcMessage option" where
  "dec_rpcMessage = dec_struct
     [fld ''jsonrpc'' dec_string rm_JSONRPC rm_JSONRPC_update,
      fld ''id'' dec_raw_member rm_ID rm_ID_update,
      fld ''method'' dec_string rm_Method rm_Method_update,
      fld ''params'' dec_raw_member rm_Params rm_Params_update,
      fld ''result'' dec_raw_member rm_Result rm_Result_update,
      fld ''error'' (\<lambda>old. dec_option (case old of Some x \<Rightarrow> x | None \<Rightarrow> \<lparr>re_Code = 0, re_Message = [], re_Data = None\<rparr>)
         dec_rpcError old) rm_Error rm_Error_update]
     \<lparr>rm_JSONRPC = [], rm_ID = None, rm_Method = [], rm_Params = None, rm_Result = None, rm_Error = None\<rparr>"

text \<open>The text of an id, without the quotes of a string; a string is taken not to hold escapes.\<close>

fun parseID :: "json \<Rightarrow> int option" where
  "parseID (JInt n) = Some n"
| "parseID (JStr s) = atoi s"
| "parseID _ = None"

section \<open>Calls in flight\<close>

text \<open>
  The state of a client, and of the calls on it: \<open>mp_calls\<close> are the calls that wait, \<open>mp_inbox\<close> the one-message channels,
  \<open>mp_done\<close> the results, in order.
\<close>

datatype mcp_error = McpClosed | McpCtx | McpWrite | McpOther string

record mcp_state =
  mp_nextID :: int
  mp_pending :: "int list"
  mp_inbox :: "int \<rightharpoonup> rpcMessage"
  mp_closed :: bool
  mp_sent :: "json list"
  mp_calls :: "int list"
  mp_done :: "(int \<times> (mcp_error + rpcMessage)) list"

definition mcp_start :: mcp_state where
  "mcp_start = \<lparr>mp_nextID = 0, mp_pending = [], mp_inbox = Map.empty, mp_closed = False, mp_sent = [], mp_calls = [], mp_done = []\<rparr>"

definition rpc_request :: "int \<Rightarrow> string \<Rightarrow> json option \<Rightarrow> json" where
  "rpc_request i method params =
     JObj ([(''id'', JInt i), (''jsonrpc'', JStr ''2.0''), (''method'', JStr method)] @
           (case params of None \<Rightarrow> [] | Some p \<Rightarrow> [(''params'', p)]))"

text \<open>The first half of \<^verbatim>\<open>call\<close>: \<open>ok\<close> says whether the write to the process works.\<close>

definition call_send :: "string \<Rightarrow> json option \<Rightarrow> bool \<Rightarrow> mcp_state \<Rightarrow> mcp_state \<times> (mcp_error + int)" where
  "call_send method params ok st =
     (if mp_closed st then (st, Inl McpClosed)
      else
        let i = mp_nextID st + 1 in
        if \<not> ok then (st\<lparr>mp_nextID := i\<rparr>, Inl McpWrite)
        else (st\<lparr>mp_nextID := i, mp_pending := i # mp_pending st, mp_sent := mp_sent st @ [rpc_request i method params],
                 mp_calls := i # mp_calls st\<rparr>, Inr i))"

text \<open>One line in \<^verbatim>\<open>readLoop\<close>.\<close>

definition read_line :: "json option \<Rightarrow> mcp_state \<Rightarrow> mcp_state" where
  "read_line line st =
     (case Option.bind line dec_rpcMessage of
        None \<Rightarrow> st
      | Some msg \<Rightarrow>
          (case rm_ID msg of
             None \<Rightarrow> st
           | Some raw \<Rightarrow>
               (case parseID raw of
                  None \<Rightarrow> st
                | Some i \<Rightarrow>
                    if i \<notin> set (mp_pending st) then st
                    else st\<lparr>mp_pending := removeAll i (mp_pending st), mp_inbox := (mp_inbox st)(i \<mapsto> msg)\<rparr>)))"

definition read_eof :: "mcp_state \<Rightarrow> mcp_state" where
  "read_eof st = st\<lparr>mp_closed := True, mp_pending := []\<rparr>"

text \<open>The second half of \<^verbatim>\<open>call\<close>: the branch of the \<^verbatim>\<open>select\<close> that is taken.\<close>

datatype wake = ByAnswer | ByContext | ByEnd

definition call_wait :: "int \<Rightarrow> wake \<Rightarrow> mcp_state \<Rightarrow> mcp_state" where
  "call_wait i how st =
     (if i \<notin> set (mp_calls st) then st
      else
        let finish = (\<lambda>r st. st\<lparr>mp_calls := removeAll i (mp_calls st), mp_done := mp_done st @ [(i, r)]\<rparr>) in
        case how of
          ByAnswer \<Rightarrow> (case mp_inbox st i of None \<Rightarrow> st | Some msg \<Rightarrow> finish (Inr msg) (st\<lparr>mp_inbox := (mp_inbox st)(i := None)\<rparr>))
        | ByContext \<Rightarrow> finish (Inl McpCtx) (st\<lparr>mp_pending := removeAll i (mp_pending st)\<rparr>)
        | ByEnd \<Rightarrow> if mp_closed st then finish (Inl McpClosed) st else st)"

inductive mcp_reach :: "mcp_state \<Rightarrow> json option list \<Rightarrow> bool" where
  init: "mcp_reach mcp_start []"
| sends: "mcp_reach st ls \<Longrightarrow> mcp_reach (fst (call_send method params ok st)) ls"
| reads: "mcp_reach st ls \<Longrightarrow> \<not> mp_closed st \<Longrightarrow> mcp_reach (read_line line st) (ls @ [line])"
| ends: "mcp_reach st ls \<Longrightarrow> mcp_reach (read_eof st) ls"
| wakes: "mcp_reach st ls \<Longrightarrow> mcp_reach (call_wait i how st) ls"

section \<open>Handshake, listing and tool calls\<close>

text \<open>
  Each is given the result of its call; \<^verbatim>\<open>Initialize\<close> sends a notification afterwards, whose outcome is \<open>notified\<close>. A
  decode error is reported by its place.
\<close>

definition initialize_params :: json where
  "initialize_params = JObj
     [(''capabilities'', JObj []), (''clientInfo'', JObj [(''name'', JStr ''microagent2''), (''version'', JStr ''0.1.0'')]),
      (''protocolVersion'', JStr ''2024-11-05'')]"

definition mcp_notify :: "string \<Rightarrow> json option \<Rightarrow> bool \<Rightarrow> mcp_state \<Rightarrow> mcp_state \<times> mcp_error option" where
  "mcp_notify method params ok st =
     (if mp_closed st then (st, Some McpClosed)
      else if \<not> ok then (st, Some McpWrite)
      else (st\<lparr>mp_sent := mp_sent st @ [JObj ([(''jsonrpc'', JStr ''2.0''), (''method'', JStr method)] @
              (case params of None \<Rightarrow> [] | Some p \<Rightarrow> [(''params'', p)]))]\<rparr>, None))"

definition mcp_Initialize :: "mcp_error + rpcMessage \<Rightarrow> mcp_error option \<Rightarrow> mcp_error option" where
  "mcp_Initialize res notified =
     (case res of
        Inl err \<Rightarrow> Some err
      | Inr resp \<Rightarrow>
          (case rm_Error resp of
             Some err \<Rightarrow> Some (McpOther (''initialize error: '' @ re_Message err))
           | None \<Rightarrow> (case notified of Some err \<Rightarrow> Some (McpOther ''send initialized notification'') | None \<Rightarrow> None)))"

record MCPTool =
  mt_Name :: string
  mt_Description :: string
  mt_InputSchema :: "json option"

definition dec_MCPTool :: "MCPTool decoder" where
  "dec_MCPTool = dec_struct
     [fld ''name'' dec_string mt_Name mt_Name_update,
      fld ''description'' dec_string mt_Description mt_Description_update,
      fld ''inputSchema'' dec_raw_member mt_InputSchema mt_InputSchema_update]"

definition mcp_ListTools :: "mcp_error + rpcMessage \<Rightarrow> mcp_error + MCPTool list" where
  "mcp_ListTools res =
     (case res of
        Inl err \<Rightarrow> Inl err
      | Inr resp \<Rightarrow>
          (case rm_Error resp of
             Some err \<Rightarrow> Inl (McpOther (''tools/list error: '' @ re_Message err))
           | None \<Rightarrow>
               (case Option.bind (rm_Result resp)
                       (dec_struct [fld ''tools'' (dec_list \<lparr>mt_Name = [], mt_Description = [], mt_InputSchema = None\<rparr> dec_MCPTool) id id] []) of
                  None \<Rightarrow> Inl (McpOther ''decode tools/list'')
                | Some ts \<Rightarrow> Inr ts)))"

record contentBlock =
  cb_Type :: string
  cb_Text :: string

record callToolResponse =
  ct_Content :: "contentBlock list"
  ct_IsError :: bool

definition dec_contentBlock :: "contentBlock decoder" where
  "dec_contentBlock = dec_struct [fld ''type'' dec_string cb_Type cb_Type_update, fld ''text'' dec_string cb_Text cb_Text_update]"

definition dec_callToolResponse :: "json \<Rightarrow> callToolResponse option" where
  "dec_callToolResponse = dec_struct
     [fld ''content'' (dec_list \<lparr>cb_Type = [], cb_Text = []\<rparr> dec_contentBlock) ct_Content ct_Content_update,
      fld ''isError'' dec_bool ct_IsError ct_IsError_update]
     \<lparr>ct_Content = [], ct_IsError = False\<rparr>"

definition flattenContent :: "contentBlock list \<Rightarrow> string" where
  "flattenContent blocks =
     concat (map (\<lambda>b. if cb_Type b = ''text'' then cb_Text b else ''[non-text content omitted: '' @ cb_Type b @ '']'') blocks)"

text \<open>
  The parameters of a tool call: the arguments are decoded into a map, so that numbers go through \<^verbatim>\<open>float64\<close>
  (\<open>num\<close>) and an empty text gives null.
\<close>

definition call_params :: "(json \<Rightarrow> json) \<Rightarrow> json_text \<Rightarrow> string \<Rightarrow> string \<Rightarrow> mcp_error + json" where
  "call_params num jt toolName argsJSON =
     (if argsJSON = [] then Inr (JObj [(''arguments'', JNull), (''name'', JStr toolName)])
      else case jt_Unmarshal jt argsJSON of
        None \<Rightarrow> Inl (McpOther (''parse arguments: '' @ jt_Error jt argsJSON))
      | Some JNull \<Rightarrow> Inr (JObj [(''arguments'', JNull), (''name'', JStr toolName)])
      | Some (JObj kvs) \<Rightarrow> Inr (JObj [(''arguments'', through_any num (JObj kvs)), (''name'', JStr toolName)])
      | Some _ \<Rightarrow> Inl (McpOther (''parse arguments: '' @ jt_Error jt argsJSON)))"

definition call_result :: "json_text \<Rightarrow> mcp_error + rpcMessage \<Rightarrow> mcp_error + string" where
  "call_result jt res =
     (case res of
        Inl err \<Rightarrow> Inl err
      | Inr resp \<Rightarrow>
          (case rm_Error resp of
             Some err \<Rightarrow> Inl (McpOther (''tools/call error: '' @ re_Message err))
           | None \<Rightarrow>
               (case Option.bind (rm_Result resp) dec_callToolResponse of
                  None \<Rightarrow> Inl (McpOther ''decode tools/call'')
                | Some payload \<Rightarrow>
                    let flat = flattenContent (ct_Content payload) in
                    Inr (if ct_IsError payload then jsonError jt flat else flat))))"

text \<open>
  A client as the tools see it: whether it is disconnected, and a call as a change of the world \<open>'w\<close>.
\<close>

record 'w mcp_client =
  cl_Disconnected :: "'w \<Rightarrow> bool"
  cl_call :: "string \<Rightarrow> json \<Rightarrow> 'w \<Rightarrow> 'w \<times> (mcp_error + rpcMessage)"

definition CallTool :: "(json \<Rightarrow> json) \<Rightarrow> json_text \<Rightarrow> 'w mcp_client \<Rightarrow> string \<Rightarrow> string \<Rightarrow> 'w \<Rightarrow> 'w \<times> (mcp_error + string)" where
  "CallTool num jt c toolName argsJSON w =
     (if cl_Disconnected c w then (w, Inl McpClosed)
      else case call_params num jt toolName argsJSON of
        Inl err \<Rightarrow> (w, Inl err)
      | Inr params \<Rightarrow> (case cl_call c ''tools/call'' params w of (w', res) \<Rightarrow> (w', call_result jt res)))"

definition mcp_error_text :: "mcp_error \<Rightarrow> string" where
  "mcp_error_text err =
     (case err of McpClosed \<Rightarrow> ''mcp client closed'' | McpCtx \<Rightarrow> ''context deadline exceeded'' | McpWrite \<Rightarrow> ''write'' | McpOther s \<Rightarrow> s)"

definition mcp_tool_name :: "string \<Rightarrow> string \<Rightarrow> string" where
  "mcp_tool_name serverName toolName = ''mcp__'' @ serverName @ ''__'' @ toolName"

definition mcp_tool_Schema :: "string \<Rightarrow> MCPTool \<Rightarrow> ToolSchema" where
  "mcp_tool_Schema serverName t =
     \<lparr>ts_Type = ''function'', ts_Name = mcp_tool_name serverName (mt_Name t), ts_Description = mt_Description t,
      ts_Parameters = (case mt_InputSchema t of
         None \<Rightarrow> Some (JObj [(''type'', JStr ''object''), (''properties'', JObj [])]) | Some j \<Rightarrow> Some j)\<rparr>"

definition mcp_tool_Invoke :: "(json \<Rightarrow> json) \<Rightarrow> json_text \<Rightarrow> 'w mcp_client \<Rightarrow> string \<Rightarrow> string \<Rightarrow> string \<Rightarrow> 'w \<Rightarrow> 'w \<times> tool_result" where
  "mcp_tool_Invoke num jt c serverName toolName argsJSON w =
     (if cl_Disconnected c w then (w, ToolOk (jsonError jt (''mcp server '' @ serverName @ '' disconnected'')))
      else case CallTool num jt c toolName argsJSON w of
        (w', Inl err) \<Rightarrow> (w', ToolErr (mcp_error_text err))
      | (w', Inr out) \<Rightarrow> (w', ToolOk out))"

definition NewTool :: "(json \<Rightarrow> json) \<Rightarrow> json_text \<Rightarrow> string \<Rightarrow> MCPTool \<Rightarrow> 'w mcp_client \<Rightarrow> 'w Tool" where
  "NewTool num jt serverName t c =
     \<lparr>tl_Name = mcp_tool_name serverName (mt_Name t), tl_Schema = mcp_tool_Schema serverName t,
      tl_Invoke = mcp_tool_Invoke num jt c serverName (mt_Name t)\<rparr>"

section \<open>The manager\<close>

record HealthEntry =
  he_Name :: string
  he_Enabled :: bool
  he_Connected :: bool
  he_ToolCount :: int
  he_LastError :: string

definition enc_HealthEntry :: "HealthEntry \<Rightarrow> json" where
  "enc_HealthEntry h = JObj
     ([(''name'', JStr (he_Name h)), (''enabled'', JBool (he_Enabled h)), (''connected'', JBool (he_Connected h)),
       (''tool_count'', JInt (he_ToolCount h))] @ omit_empty ''last_error'' (JStr (he_LastError h)))"

record 'w mcp_manager =
  mg_clients :: "string \<rightharpoonup> 'w mcp_client"
  mg_health :: "string \<rightharpoonup> HealthEntry"
  mg_order :: "string list"

definition NewManager :: "'w mcp_manager" where
  "NewManager = \<lparr>mg_clients = Map.empty, mg_health = Map.empty, mg_order = []\<rparr>"

definition invokeTimeoutFromEnv :: "string \<Rightarrow> int" where
  "invokeTimeoutFromEnv v = (case atoi v of Some n \<Rightarrow> if n > 0 then wrap64 (n * second) else 30 * second | None \<Rightarrow> 30 * second)"

definition setFailure :: "string \<Rightarrow> string \<Rightarrow> string \<Rightarrow> 'w mcp_manager \<Rightarrow> 'w mcp_manager" where
  "setFailure name phase err m =
     (let entry = (case mg_health m name of Some h \<Rightarrow> h
         | None \<Rightarrow> \<lparr>he_Name = name, he_Enabled = True, he_Connected = False, he_ToolCount = 0, he_LastError = []\<rparr>)
      in m\<lparr>mg_health := (mg_health m)(name \<mapsto> entry\<lparr>he_Connected := False, he_LastError := phase @ '': '' @ err\<rparr>)\<rparr>)"

text \<open>How far a server gets: the phase that fails and its error, or a client and its tools.\<close>

datatype 'w start_outcome = StartFails string string | Starts "'w mcp_client" "MCPTool list"

fun register_all ::
  "(json \<Rightarrow> json) \<Rightarrow> json_text \<Rightarrow> string \<Rightarrow> 'w mcp_client \<Rightarrow> MCPTool list \<Rightarrow> 'w ToolRegistry \<Rightarrow> int \<Rightarrow> 'w ToolRegistry \<times> int" where
  "register_all num jt name c [] r n = (r, n)"
| "register_all num jt name c (t # ts) r n =
     (case RegisterMCP (NewTool num jt name t c) r of
        Inl _ \<Rightarrow> register_all num jt name c ts r n
      | Inr r' \<Rightarrow> register_all num jt name c ts r' (n + 1))"

definition startOne ::
  "(json \<Rightarrow> json) \<Rightarrow> json_text \<Rightarrow> (MCPServerConfig \<Rightarrow> 'w start_outcome) \<Rightarrow> MCPServerConfig \<Rightarrow>
     'w mcp_manager \<times> 'w ToolRegistry \<Rightarrow> 'w mcp_manager \<times> 'w ToolRegistry" where
  "startOne num jt starts cfg s =
     (case starts cfg of
        StartFails phase err \<Rightarrow> (setFailure (mcp_Name cfg) phase err (fst s), snd s)
      | Starts c ts \<Rightarrow>
          (case register_all num jt (mcp_Name cfg) c ts (snd s) 0 of (r, toolCount) \<Rightarrow>
             ((fst s)\<lparr>mg_clients := (mg_clients (fst s))(mcp_Name cfg \<mapsto> c),
                mg_health := (mg_health (fst s))(mcp_Name cfg \<mapsto>
                  \<lparr>he_Name = mcp_Name cfg, he_Enabled = True, he_Connected = True, he_ToolCount = toolCount, he_LastError = []\<rparr>)\<rparr>, r)))"

definition note_server :: "MCPServerConfig \<Rightarrow> 'w mcp_manager \<Rightarrow> 'w mcp_manager" where
  "note_server s m = m\<lparr>mg_health := (mg_health m)(mcp_Name s \<mapsto>
       \<lparr>he_Name = mcp_Name s, he_Enabled = mcp_Enabled s, he_Connected = False, he_ToolCount = 0, he_LastError = []\<rparr>),
     mg_order := mg_order m @ [mcp_Name s]\<rparr>"

definition health_list :: "'w \<Rightarrow> 'w mcp_manager \<Rightarrow> HealthEntry list" where
  "health_list w m =
     List.map_filter (\<lambda>name. map_option (\<lambda>h. case mg_clients m name of
         Some c \<Rightarrow> h\<lparr>he_Connected := \<not> cl_Disconnected c w\<rparr> | None \<Rightarrow> h) (mg_health m name)) (mg_order m)"

text \<open>\<^verbatim>\<open>publishHealth\<close>, when the write to Valkey works; the refreshed flags stay in the table.\<close>

definition publishHealth :: "json_text \<Rightarrow> 'w \<Rightarrow> 'w mcp_manager \<Rightarrow> redis \<Rightarrow> 'w mcp_manager \<times> redis" where
  "publishHealth jt w m db =
     (m\<lparr>mg_health := (\<lambda>name. case mg_health m name of
          None \<Rightarrow> None
        | Some h \<Rightarrow> Some (if name \<in> set (mg_order m)
             then (case mg_clients m name of Some c \<Rightarrow> h\<lparr>he_Connected := \<not> cl_Disconnected c w\<rparr> | None \<Rightarrow> h) else h))\<rparr>,
      rdb_Set ''health:main-agent:mcp'' (jt_Marshal jt (enc_list enc_HealthEntry (health_list w m))) None db)"

text \<open>
  \<^verbatim>\<open>Start\<close>: the servers are started concurrently; \<open>sched\<close> lists the enabled ones in the order in which they finish.
\<close>

definition Manager_Start ::
  "(json \<Rightarrow> json) \<Rightarrow> json_text \<Rightarrow> (MCPServerConfig \<Rightarrow> 'w start_outcome) \<Rightarrow> MCPServerConfig list \<Rightarrow> MCPServerConfig list \<Rightarrow>
     'w mcp_manager \<times> 'w ToolRegistry \<Rightarrow> 'w mcp_manager \<times> 'w ToolRegistry" where
  "Manager_Start num jt starts servers sched s = fold (startOne num jt starts) sched (fold note_server servers (fst s), snd s)"

section \<open>Every call gets its own answer\<close>

definition answers :: "json option list \<Rightarrow> int \<Rightarrow> rpcMessage \<Rightarrow> bool" where
  "answers ls i msg \<longleftrightarrow> (\<exists>line \<in> set ls. Option.bind line dec_rpcMessage = Some msg \<and> Option.bind (rm_ID msg) parseID = Some i)"

definition mcp_inv :: "mcp_state \<Rightarrow> json option list \<Rightarrow> bool" where
  "mcp_inv st ls \<longleftrightarrow>
     0 \<le> mp_nextID st \<and>
     distinct (mp_calls st @ map fst (mp_done st)) \<and>
     (\<forall>i \<in> set (mp_calls st @ map fst (mp_done st)). 1 \<le> i \<and> i \<le> mp_nextID st) \<and>
     (\<forall>i msg. mp_inbox st i = Some msg \<longrightarrow> answers ls i msg \<and> i \<le> mp_nextID st \<and> i \<notin> set (mp_pending st)) \<and>
     set (mp_pending st) \<subseteq> set (mp_calls st) \<and> (mp_closed st \<longrightarrow> mp_pending st = []) \<and>
     (\<forall>i msg. (i, Inr msg) \<in> set (mp_done st) \<longrightarrow> answers ls i msg)"

lemma answers_snoc: "answers ls i msg \<Longrightarrow> answers (ls @ [line]) i msg"
  by (auto simp: answers_def)

lemma fresh_inbox: "mcp_inv st ls \<Longrightarrow> mp_inbox st (mp_nextID st + 1) = None"
  unfolding mcp_inv_def by (metis not_None_eq zle_add1_eq_le less_irrefl)

lemma call_send_inv: "mcp_inv st ls \<Longrightarrow> mcp_inv (fst (call_send method params ok st)) ls"
proof -
  assume inv: "mcp_inv st ls"
  have b: "\<forall>i \<in> set (mp_calls st @ map fst (mp_done st)). 1 \<le> i \<and> i \<le> mp_nextID st + 1 \<and> i \<noteq> mp_nextID st + 1"
  proof
    fix i assume "i \<in> set (mp_calls st @ map fst (mp_done st))"
    with inv have "1 \<le> i \<and> i \<le> mp_nextID st" unfolding mcp_inv_def by blast
    then show "1 \<le> i \<and> i \<le> mp_nextID st + 1 \<and> i \<noteq> mp_nextID st + 1" by simp
  qed
  then have "mp_nextID st + 1 \<notin> set (mp_calls st @ map fst (mp_done st))" by blast
  moreover have "mp_inbox st (mp_nextID st + 1) = None" by (rule fresh_inbox [OF inv])
  moreover have "i \<le> mp_nextID st + 1" if "mp_inbox st i = Some msg" for i msg using inv that by (fastforce simp: mcp_inv_def)
  ultimately show ?thesis using inv b by (auto simp: mcp_inv_def call_send_def Let_def)
qed

lemma read_line_inv: "mcp_inv st ls \<Longrightarrow> mcp_inv (read_line line st) (ls @ [line])"
proof -
  assume inv: "mcp_inv st ls"
  then have old: "mcp_inv st (ls @ [line])" by (auto simp: mcp_inv_def intro: answers_snoc)
  show ?thesis
  proof (cases "read_line line st = st")
    case True
    with old show ?thesis by simp
  next
    case False
    then obtain msg i where m: "Option.bind line dec_rpcMessage = Some msg" "Option.bind (rm_ID msg) parseID = Some i"
      "read_line line st = st\<lparr>mp_pending := removeAll i (mp_pending st), mp_inbox := (mp_inbox st)(i \<mapsto> msg)\<rparr>"
      by (auto simp: read_line_def split: option.splits if_splits)
    then have "answers (ls @ [line]) i msg" by (auto simp: answers_def)
    moreover have "i \<in> set (mp_pending st)" using False m(1,2) by (auto simp: read_line_def split: option.splits if_splits)
    then have "i \<le> mp_nextID st" using inv by (auto simp: mcp_inv_def)
    ultimately show ?thesis using old unfolding m(3) by (auto simp: mcp_inv_def)
  qed
qed

lemma finish_inv:
  assumes "mcp_inv st ls" "i \<in> set (mp_calls st)" "i \<notin> set (mp_pending st)" "\<And>msg. r = Inr msg \<Longrightarrow> answers ls i msg"
  shows "mcp_inv (st\<lparr>mp_calls := removeAll i (mp_calls st), mp_done := mp_done st @ [(i, r)]\<rparr>) ls"
  using assms by (auto simp: mcp_inv_def distinct_removeAll)

lemma drop_pending_inv: "mcp_inv st ls \<Longrightarrow> mcp_inv (st\<lparr>mp_pending := removeAll i (mp_pending st)\<rparr>) ls"
  by (auto simp: mcp_inv_def)

lemma drop_inbox_inv: "mcp_inv st ls \<Longrightarrow> mcp_inv (st\<lparr>mp_inbox := (mp_inbox st)(i := None)\<rparr>) ls"
  by (auto simp: mcp_inv_def)

lemma call_wait_inv: "mcp_inv st ls \<Longrightarrow> mcp_inv (call_wait i how st) ls"
proof (cases "i \<in> set (mp_calls st)")
  case True
  assume inv: "mcp_inv st ls"
  show ?thesis
  proof (cases how)
    case ByAnswer
    show ?thesis
    proof (cases "mp_inbox st i")
      case None
      with ByAnswer inv show ?thesis by (simp add: call_wait_def)
    next
      case (Some msg)
      with inv have "answers ls i msg" "i \<notin> set (mp_pending st)" by (simp_all add: mcp_inv_def)
      with finish_inv [OF drop_inbox_inv [OF inv, of i], of i "Inr msg"] True ByAnswer Some show ?thesis
        by (simp add: call_wait_def)
    qed
  next
    case ByContext
    with finish_inv [OF drop_pending_inv [OF inv, of i], of i "Inl McpCtx"] True show ?thesis
      by (simp add: call_wait_def)
  next
    case ByEnd
    then show ?thesis using finish_inv [OF inv True, of "Inl McpClosed"] inv by (auto simp: call_wait_def mcp_inv_def)
  qed
qed (simp add: call_wait_def)

lemma mcp_reach_inv: "mcp_reach st ls \<Longrightarrow> mcp_inv st ls"
proof (induction rule: mcp_reach.induct)
  case init
  then show ?case by (simp add: mcp_inv_def mcp_start_def)
next
  case (ends st ls)
  then show ?case by (simp add: mcp_inv_def read_eof_def)
qed (simp_all add: call_send_inv read_line_inv call_wait_inv)

text \<open>A reader that gets a line with the id of a call.\<close>

lemma read_line_answer:
  assumes "answers [line] i msg"
  shows "read_line line st = (if i \<notin> set (mp_pending st) then st
     else st\<lparr>mp_pending := removeAll i (mp_pending st), mp_inbox := (mp_inbox st)(i \<mapsto> msg)\<rparr>)"
  using assms by (auto simp: answers_def read_line_def bind_eq_Some_conv split: option.splits)

text \<open>
  C15. Calls and answers are matched. Whatever the interleaving of calls, lines from the server, deadlines and the end of
  the process: every call ends at most once; a call that returns a message returns one that the server sent with the id
  of this call; a new call never finds an answer that was read before it was sent. The first answer to a waiting call is the one it returns, and
  a second answer with the same id changes nothing. Once the process has ended no call is left hanging.
\<close>

theorem mcp_calls_matched:
  assumes "mcp_reach st ls"
  shows "distinct (map fst (mp_done st)) \<and>
    (\<forall>i msg. (i, Inr msg) \<in> set (mp_done st) \<longrightarrow> answers ls i msg) \<and>
    (\<forall>meth args ok st' i. call_send meth args ok st = (st', Inr i) \<longrightarrow>
       mp_inbox st' i = None \<and> i \<notin> fst ` set (mp_done st') \<and> i \<in> set (mp_pending st')) \<and>
    (\<forall>i line line' msg msg'. i \<in> set (mp_pending st) \<longrightarrow> answers [line] i msg \<longrightarrow> answers [line'] i msg' \<longrightarrow>
       read_line line' (read_line line st) = read_line line st \<and>
       (i, Inr msg) \<in> set (mp_done (call_wait i ByAnswer (read_line line st)))) \<and>
    (mp_closed st \<longrightarrow> (\<forall>i \<in> set (mp_calls st). (i, Inl McpClosed) \<in> set (mp_done (call_wait i ByEnd st))))"
proof -
  note inv = mcp_reach_inv [OF assms]
  have "mp_inbox st' i = None \<and> i \<notin> fst ` set (mp_done st') \<and> i \<in> set (mp_pending st')"
    if "call_send meth args ok st = (st', Inr i)" for meth args ok st' i
  proof -
    from that have st': "i = mp_nextID st + 1" "mp_inbox st' = mp_inbox st" "mp_done st' = mp_done st" "i \<in> set (mp_pending st')"
      by (auto simp: call_send_def Let_def split: if_splits)
    moreover have "mp_inbox st i = None" using fresh_inbox [OF inv] st'(1) by simp
    moreover have "\<forall>i \<in> fst ` set (mp_done st). i \<le> mp_nextID st" using inv by (simp add: mcp_inv_def)
    then have "i \<notin> fst ` set (mp_done st)" using st'(1) by fastforce
    ultimately show ?thesis by simp
  qed
  moreover have "i \<in> set (mp_calls st)" if "i \<in> set (mp_pending st)" for i using inv that by (auto simp: mcp_inv_def)
  ultimately show ?thesis using inv by (auto simp: mcp_inv_def call_wait_def read_line_answer)
qed

theorem mcp_calls_matched_witness:
  "\<exists>st msg. mcp_reach st [Some (JObj [(''id'', JInt 1), (''result'', JObj [])])] \<and> mp_done st = [(1, Inr msg)] \<and>
     answers [Some (JObj [(''id'', JInt 1), (''result'', JObj [])])] 1 msg"
proof -
  let ?l = "Some (JObj [(''id'', JInt 1), (''result'', JObj [])])"
  let ?s1 = "fst (call_send ''tools/list'' (Some (JObj [])) True mcp_start)"
  let ?s2 = "read_line ?l ?s1" and ?msg = "the (dec_rpcMessage (the ?l))"
  let ?s3 = "call_wait 1 ByAnswer ?s2"
  have "mcp_reach ?s1 []" by (rule mcp_reach.sends [OF mcp_reach.init])
  moreover have "\<not> mp_closed ?s1" by (simp add: call_send_def mcp_start_def Let_def)
  ultimately have "mcp_reach ?s2 ([] @ [?l])" by (rule mcp_reach.reads)
  then have r: "mcp_reach ?s3 [?l]" using mcp_reach.wakes by simp
  have dec: "dec_rpcMessage (the ?l) = Some \<lparr>rm_JSONRPC = [], rm_ID = Some (JInt 1), rm_Method = [], rm_Params = None,
      rm_Result = Some (JObj []), rm_Error = None\<rparr>" by code_simp
  then have "mp_done ?s3 = [(1, Inr ?msg)]"
    by (simp add: call_send_def mcp_start_def Let_def read_line_def call_wait_def)
  with mcp_calls_matched [OF r] r show ?thesis by (intro exI [of _ ?s3] exI [of _ ?msg]) simp
qed

text \<open>
  The read loop does not look at \<^verbatim>\<open>method\<close>: a request of the server, whose ids are its own, is taken as the answer to the
  pending call with the same number.
\<close>

theorem server_request_taken_as_answer:
  assumes "1 \<in> set (mp_pending st)"
  shows "\<exists>msg. mp_inbox (read_line (Some (JObj [(''id'', JInt 1), (''method'', JStr ''ping'')])) st) 1 = Some msg \<and>
    rm_Method msg = ''ping'' \<and> rm_Result msg = None \<and> mcp_ListTools (Inr msg) = Inl (McpOther ''decode tools/list'')"
proof -
  let ?j = "JObj [(''id'', JInt 1), (''method'', JStr ''ping'')]"
  have "dec_rpcMessage ?j = Some \<lparr>rm_JSONRPC = [], rm_ID = Some (JInt 1), rm_Method = ''ping'', rm_Params = None,
      rm_Result = None, rm_Error = None\<rparr>" by code_simp
  with assms show ?thesis by (simp add: read_line_def mcp_ListTools_def)
qed

text \<open>Two servers with valid names can give the same tool name; the second tool is not registered.\<close>

theorem mcp_tool_names_collide:
  "mcp_tool_name ''a'' ''b__c'' = mcp_tool_name ''a__b'' ''c''"
  by (simp add: mcp_tool_name_def)

section \<open>Health\<close>

definition named_health :: "'w mcp_manager \<Rightarrow> bool" where
  "named_health m \<longleftrightarrow> (\<forall>n h. mg_health m n = Some h \<longrightarrow> he_Name h = n)"

lemma startOne_simps:
  "mg_order (fst (startOne num jt starts cfg s)) = mg_order (fst s)"
  "n \<noteq> mcp_Name cfg \<Longrightarrow> mg_health (fst (startOne num jt starts cfg s)) n = mg_health (fst s) n"
  "mg_health (fst s) n \<noteq> None \<Longrightarrow> mg_health (fst (startOne num jt starts cfg s)) n \<noteq> None"
  by (auto simp: startOne_def setFailure_def Let_def split: start_outcome.splits prod.splits option.splits)

lemma startOne_named: "named_health (fst s) \<Longrightarrow> named_health (fst (startOne num jt starts cfg s))"
  by (auto simp: named_health_def startOne_def setFailure_def Let_def split: start_outcome.splits prod.splits option.splits)

lemma register_all_count:
  "n \<le> snd (register_all num jt name c ts r n) \<and> snd (register_all num jt name c ts r n) \<le> n + int (length ts)"
proof (induction ts arbitrary: r n)
  case (Cons t ts)
  show ?case
  proof (cases "RegisterMCP (NewTool num jt name t c) r")
    case (Inl err)
    with Cons.IH [of n r] show ?thesis by simp
  next
    case (Inr r')
    with Cons.IH [of "n + 1" r'] show ?thesis by simp
  qed
qed simp

definition started_as :: "'w start_outcome \<Rightarrow> HealthEntry \<Rightarrow> bool" where
  "started_as out h \<longleftrightarrow>
     (case out of
        StartFails phase err \<Rightarrow> \<not> he_Connected h \<and> he_LastError h = phase @ '': '' @ err
      | Starts c ts \<Rightarrow> he_Connected h \<and> he_LastError h = [] \<and> 0 \<le> he_ToolCount h \<and> he_ToolCount h \<le> int (length ts))"

lemma startOne_health: "\<exists>h. mg_health (fst (startOne num jt starts cfg s)) (mcp_Name cfg) = Some h \<and> started_as (starts cfg) h"
proof (cases "starts cfg")
  case (StartFails phase err)
  then show ?thesis by (simp add: startOne_def setFailure_def started_as_def Let_def)
next
  case (Starts c ts)
  with register_all_count [of 0 num jt "mcp_Name cfg" c ts "snd s"] show ?thesis
    by (simp add: startOne_def started_as_def split_def)
qed

lemma fold_startOne:
  assumes "distinct (map mcp_Name sched)"
  shows "mg_order (fst (fold (startOne num jt starts) sched s)) = mg_order (fst s) \<and>
    (named_health (fst s) \<longrightarrow> named_health (fst (fold (startOne num jt starts) sched s))) \<and>
    (\<forall>n. mg_health (fst s) n \<noteq> None \<longrightarrow> mg_health (fst (fold (startOne num jt starts) sched s)) n \<noteq> None) \<and>
    (\<forall>n. n \<notin> mcp_Name ` set sched \<longrightarrow> mg_health (fst (fold (startOne num jt starts) sched s)) n = mg_health (fst s) n) \<and>
    (\<forall>cfg \<in> set sched. \<exists>h. mg_health (fst (fold (startOne num jt starts) sched s)) (mcp_Name cfg) = Some h \<and> started_as (starts cfg) h)"
  using assms
proof (induction sched arbitrary: s)
  case Nil
  then show ?case by simp
next
  case (Cons cfg sched)
  let ?s = "startOne num jt starts cfg s"
  from Cons.prems have ne: "mcp_Name cfg \<notin> mcp_Name ` set sched" by simp
  from startOne_health [of num jt starts cfg s] obtain h where
    h: "mg_health (fst ?s) (mcp_Name cfg) = Some h" "started_as (starts cfg) h" by blast
  from Cons.IH [of ?s] Cons.prems have IH: "mg_order (fst (fold (startOne num jt starts) sched ?s)) = mg_order (fst ?s)"
    "named_health (fst ?s) \<longrightarrow> named_health (fst (fold (startOne num jt starts) sched ?s))"
    "\<forall>n. mg_health (fst ?s) n \<noteq> None \<longrightarrow> mg_health (fst (fold (startOne num jt starts) sched ?s)) n \<noteq> None"
    "\<forall>n. n \<notin> mcp_Name ` set sched \<longrightarrow> mg_health (fst (fold (startOne num jt starts) sched ?s)) n = mg_health (fst ?s) n"
    "\<forall>cfg \<in> set sched. \<exists>h. mg_health (fst (fold (startOne num jt starts) sched ?s)) (mcp_Name cfg) = Some h \<and> started_as (starts cfg) h"
    by auto
  have "mg_health (fst (fold (startOne num jt starts) sched ?s)) (mcp_Name cfg) = Some h" using IH(4) ne h(1) by simp
  moreover have "\<forall>n. mg_health (fst s) n \<noteq> None \<longrightarrow> mg_health (fst ?s) n \<noteq> None" using startOne_simps(3) by blast
  moreover have "\<forall>n. n \<noteq> mcp_Name cfg \<longrightarrow> mg_health (fst ?s) n = mg_health (fst s) n" using startOne_simps(2) by blast
  moreover note startOne_named [of s num jt starts cfg] startOne_simps(1) [of num jt starts cfg s]
  ultimately show ?case using IH h(2) by simp
qed

lemma fold_note_server:
  "mg_order (fold note_server servers m) = mg_order m @ map mcp_Name servers \<and>
    (named_health m \<longrightarrow> named_health (fold note_server servers m)) \<and>
    (\<forall>n. mg_health m n \<noteq> None \<longrightarrow> mg_health (fold note_server servers m) n \<noteq> None) \<and>
    (\<forall>s \<in> set servers. mg_health (fold note_server servers m) (mcp_Name s) \<noteq> None)"
proof (induction servers arbitrary: m)
  case Nil
  then show ?case by simp
next
  case (Cons s servers)
  have "mg_health (note_server s m) n \<noteq> None" if "mg_health m n \<noteq> None \<or> n = mcp_Name s" for n
    using that by (auto simp: note_server_def)
  moreover have "named_health m \<longrightarrow> named_health (note_server s m)" by (auto simp: named_health_def note_server_def)
  moreover have "mg_order (note_server s m) = mg_order m @ [mcp_Name s]" by (simp add: note_server_def)
  ultimately show ?case using Cons.IH [of "note_server s m"] by simp
qed

lemma health_list_names:
  assumes "named_health m" "\<forall>n \<in> set (mg_order m). mg_health m n \<noteq> None"
  shows "map he_Name (health_list w m) = mg_order m"
proof -
  have "map he_Name (List.map_filter (\<lambda>name. map_option (\<lambda>h. case mg_clients m name of
         Some c \<Rightarrow> h\<lparr>he_Connected := \<not> cl_Disconnected c w\<rparr> | None \<Rightarrow> h) (mg_health m name)) ns) = ns"
    if "\<forall>n \<in> set ns. mg_health m n \<noteq> None" for ns
    using that assms(1)
    by (induction ns) (auto simp: List.map_filter_simps named_health_def split: option.splits)
  then show ?thesis using assms(2) by (simp add: health_list_def)
qed

lemma Manager_Start_health:
  assumes "distinct (map mcp_Name sched)" "set sched \<subseteq> set servers"
    and m: "m = fst (Manager_Start num jt starts servers sched (NewManager, r))"
  shows "map he_Name (health_list w m) = map mcp_Name servers"
    and "cfg \<in> set sched \<Longrightarrow> \<exists>h. mg_health m (mcp_Name cfg) = Some h \<and> started_as (starts cfg) h"
proof -
  let ?n = "fold note_server servers (NewManager :: 'a mcp_manager)"
  have n: "mg_order ?n = map mcp_Name servers" "named_health ?n" "\<forall>s \<in> set servers. mg_health ?n (mcp_Name s) \<noteq> None"
    using fold_note_server [of servers "NewManager :: 'a mcp_manager"] by (simp_all add: NewManager_def named_health_def)
  note f = fold_startOne [OF assms(1), of num jt starts "(?n, r)"]
  have m': "m = fst (fold (startOne num jt starts) sched (?n, r))" by (simp add: m Manager_Start_def)
  have "named_health m" "mg_order m = map mcp_Name servers" "\<forall>k \<in> set (mg_order m). mg_health m k \<noteq> None"
    using f n unfolding m' by auto
  then show "map he_Name (health_list w m) = map mcp_Name servers" by (simp add: health_list_names)
  show "\<exists>h. mg_health m (mcp_Name cfg) = Some h \<and> started_as (starts cfg) h" if "cfg \<in> set sched"
    using f that unfolding m' by blast
qed

section \<open>Tools of servers and tools of the program\<close>

lemma register_all_keeps:
  "map_of (tg_tools r) name = Some t \<Longrightarrow> map_of (tg_tools (fst (register_all num jt srv c ts r n))) name = Some t"
proof (induction ts arbitrary: r n)
  case (Cons x ts)
  have "map_of (tg_tools r') name = Some t" if "RegisterMCP (NewTool num jt srv x c) r = Inr r'" for r'
    using that Cons.prems by (auto simp: RegisterMCP_def register_tool_def Let_def update_conv split: if_splits)
  with Cons show ?case by (auto split: sum.splits)
qed simp

lemma register_all_new:
  "map_of (tg_tools (fst (register_all num jt srv c ts r n))) name = Some t \<Longrightarrow>
    map_of (tg_tools r) name = Some t \<or> has_prefix name mcpPrefix"
proof (induction ts arbitrary: r n)
  case (Cons x ts)
  have "map_of (tg_tools r) name = Some t \<or> has_prefix name mcpPrefix"
    if "RegisterMCP (NewTool num jt srv x c) r = Inr r'" "map_of (tg_tools r') name = Some t" for r'
    using that by (auto simp: RegisterMCP_def register_tool_def Let_def update_conv split: if_splits)
  with Cons show ?case by (auto split: sum.splits)
qed simp

end
