(* ===== verification/Mcp_View.thy ===== *)
theory Mcp_View
  imports Mcp Gateway_Api
begin

text \<open>
  MCP servers from the settings to the dashboard: the list that is stored is resolved, the manager of the main agent starts the
  enabled servers and publishes their health (\<^verbatim>\<open>internal/mcp/manager.go\<close>), and the gateway shows it (\<^verbatim>\<open>internal/gateway/mcp.go\<close>).
\<close>

definition mcp_Start ::
  "(json \<Rightarrow> json) \<Rightarrow> json_text \<Rightarrow> (MCPServerConfig \<Rightarrow> 'w start_outcome) \<Rightarrow> MCPServerConfig list \<Rightarrow> MCPServerConfig list \<Rightarrow> 'w \<Rightarrow>
     'w mcp_manager \<times> 'w ToolRegistry \<Rightarrow> redis \<Rightarrow> ('w mcp_manager \<times> 'w ToolRegistry) \<times> redis" where
  "mcp_Start num jt starts servers sched w s db =
     (case Manager_Start num jt starts servers sched s of (m, r) \<Rightarrow>
      case publishHealth jt w m db of (m', db') \<Rightarrow> ((m', r), db'))"

text \<open>One tick of the health ticker, at which the servers are as \<open>w\<close> says.\<close>

definition mcp_heartbeat :: "json_text \<Rightarrow> 'w list \<Rightarrow> 'w mcp_manager \<times> redis \<Rightarrow> 'w mcp_manager \<times> redis" where
  "mcp_heartbeat jt ws s = fold (\<lambda>w (m, db). publishHealth jt w m db) ws s"

section \<open>What the manager records\<close>

text \<open>A server that has been noted but not started, and one that has been.\<close>

definition noted :: "MCPServerConfig \<Rightarrow> 'w mcp_manager \<Rightarrow> bool" where
  "noted s m \<longleftrightarrow> mg_clients m (mcp_Name s) = None \<and> mg_health m (mcp_Name s) =
     Some \<lparr>he_Name = mcp_Name s, he_Enabled = mcp_Enabled s, he_Connected = False, he_ToolCount = 0, he_LastError = []\<rparr>"

definition recorded :: "(MCPServerConfig \<Rightarrow> 'w start_outcome) \<Rightarrow> MCPServerConfig \<Rightarrow> 'w mcp_manager \<Rightarrow> bool" where
  "recorded starts s m \<longleftrightarrow>
     (case starts s of
        StartFails phase err \<Rightarrow> mg_clients m (mcp_Name s) = None \<and> mg_health m (mcp_Name s) =
          Some \<lparr>he_Name = mcp_Name s, he_Enabled = True, he_Connected = False, he_ToolCount = 0, he_LastError = phase @ '': '' @ err\<rparr>
      | Starts c ts \<Rightarrow> mg_clients m (mcp_Name s) = Some c \<and> (\<exists>k \<ge> 0. k \<le> int (length ts) \<and> mg_health m (mcp_Name s) =
          Some \<lparr>he_Name = mcp_Name s, he_Enabled = True, he_Connected = True, he_ToolCount = k, he_LastError = []\<rparr>))"

lemma note_other:
  "n \<noteq> mcp_Name s \<Longrightarrow> mg_health (note_server s m) n = mg_health m n \<and> mg_clients (note_server s m) n = mg_clients m n"
  by (simp add: note_server_def)

lemma fold_note_other:
  "n \<notin> mcp_Name ` set servers \<Longrightarrow>
    mg_health (fold note_server servers m) n = mg_health m n \<and> mg_clients (fold note_server servers m) n = mg_clients m n"
  by (induction servers arbitrary: m) (simp_all add: note_other)

lemma fold_noted:
  assumes "distinct (map mcp_Name servers)" "s \<in> set servers" "\<forall>n. mg_clients m n = None"
  shows "noted s (fold note_server servers m)"
  using assms
proof (induction servers arbitrary: m)
  case (Cons t servers)
  show ?case
  proof (cases "s = t")
    case True
    with Cons.prems have "mcp_Name s \<notin> mcp_Name ` set servers" by simp
    moreover have "noted s (note_server t m)" using True Cons.prems(3) by (simp add: noted_def note_server_def)
    ultimately show ?thesis using fold_note_other [of "mcp_Name s" servers "note_server t m"] by (simp add: noted_def)
  next
    case False
    moreover have "\<forall>n. mg_clients (note_server t m) n = None" using Cons.prems(3) by (simp add: note_server_def)
    ultimately show ?thesis using Cons.IH [of "note_server t m"] Cons.prems by simp
  qed
qed simp

lemma startOne_other:
  assumes "mcp_Name cfg \<noteq> n"
  shows "mg_health (fst (startOne num jt starts cfg st)) n = mg_health (fst st) n"
    and "mg_clients (fst (startOne num jt starts cfg st)) n = mg_clients (fst st) n"
  using assms by (auto simp: startOne_def setFailure_def Let_def split: start_outcome.splits prod.splits)

lemma startOne_recorded:
  assumes "noted cfg (fst st)" "mcp_Enabled cfg"
  shows "recorded starts cfg (fst (startOne num jt starts cfg st))"
proof (cases "starts cfg")
  case (StartFails phase err)
  with assms show ?thesis by (simp add: recorded_def noted_def startOne_def setFailure_def Let_def)
next
  case (Starts c ts)
  with register_all_count [of 0 num jt "mcp_Name cfg" c ts "snd st"] show ?thesis
    by (simp add: recorded_def startOne_def split_def)
qed

lemma fold_start_other:
  "n \<notin> mcp_Name ` set sched \<Longrightarrow>
    mg_health (fst (fold (startOne num jt starts) sched st)) n = mg_health (fst st) n \<and>
    mg_clients (fst (fold (startOne num jt starts) sched st)) n = mg_clients (fst st) n"
proof (induction sched arbitrary: st)
  case (Cons cfg sched)
  then have "mcp_Name cfg \<noteq> n" by auto
  with Cons.IH [of "startOne num jt starts cfg st"] Cons.prems startOne_other [of cfg n num jt starts st] show ?case by simp
qed simp

lemma recorded_same:
  assumes "mg_health m (mcp_Name s) = mg_health m' (mcp_Name s)" "mg_clients m (mcp_Name s) = mg_clients m' (mcp_Name s)"
  shows "recorded starts s m \<longleftrightarrow> recorded starts s m'"
  using assms by (simp add: recorded_def split: start_outcome.split)

lemma fold_recorded:
  assumes "distinct (map mcp_Name sched)" "s \<in> set sched" "\<forall>c \<in> set sched. noted c (fst st) \<and> mcp_Enabled c"
  shows "recorded starts s (fst (fold (startOne num jt starts) sched st))"
  using assms
proof (induction sched arbitrary: st)
  case (Cons cfg sched)
  let ?st = "startOne num jt starts cfg st"
  from Cons.prems have ne: "mcp_Name cfg \<notin> mcp_Name ` set sched" by simp
  show ?case
  proof (cases "s = cfg")
    case True
    with Cons.prems(3) have "recorded starts s (fst ?st)" by (simp add: startOne_recorded)
    with fold_start_other [of "mcp_Name s" sched num jt starts ?st] ne True show ?thesis
      using recorded_same [of "fst ?st" s "fst (fold (startOne num jt starts) sched ?st)" starts] by simp
  next
    case False
    have "noted c (fst ?st)" if "c \<in> set sched" for c
    proof -
      from ne that have "mcp_Name cfg \<noteq> mcp_Name c" by auto
      with startOne_other [of cfg "mcp_Name c" num jt starts st] that Cons.prems(3) show ?thesis by (simp add: noted_def)
    qed
    with False Cons show ?thesis by simp
  qed
qed simp

section \<open>From the settings to the dashboard\<close>

text \<open>The entry the dashboard gets for a server.\<close>

definition shows_server :: "(MCPServerConfig \<Rightarrow> 'w start_outcome) \<Rightarrow> 'w \<Rightarrow> MCPServerConfig \<Rightarrow> HealthEntry \<Rightarrow> bool" where
  "shows_server starts w s h \<longleftrightarrow> he_Name h = mcp_Name s \<and> he_Enabled h = mcp_Enabled s \<and>
     (if \<not> mcp_Enabled s then \<not> he_Connected h \<and> he_ToolCount h = 0 \<and> he_LastError h = []
      else case starts s of
        StartFails phase err \<Rightarrow> \<not> he_Connected h \<and> he_ToolCount h = 0 \<and> he_LastError h = phase @ '': '' @ err
      | Starts c ts \<Rightarrow> (he_Connected h \<longleftrightarrow> \<not> cl_Disconnected c w) \<and> 0 \<le> he_ToolCount h \<and> he_ToolCount h \<le> int (length ts) \<and> he_LastError h = [])"

lemma health_list_shows:
  assumes "mg_order m = map mcp_Name servers"
    and "\<And>s. s \<in> set servers \<Longrightarrow> if mcp_Enabled s then recorded starts s m else noted s m"
  shows "list_all2 (shows_server starts w) servers (health_list w m)"
  using assms(2) unfolding health_list_def assms(1)
proof (induction servers)
  case (Cons s servers)
  then have s: "if mcp_Enabled s then recorded starts s m else noted s m" by simp
  let ?h = "map_option (\<lambda>h. case mg_clients m (mcp_Name s) of
         Some c \<Rightarrow> h\<lparr>he_Connected := \<not> cl_Disconnected c w\<rparr> | None \<Rightarrow> h) (mg_health m (mcp_Name s))"
  have "?h \<noteq> None \<and> shows_server starts w s (the ?h)"
    using s by (cases "starts s"; cases "mcp_Enabled s") (auto simp: recorded_def noted_def shows_server_def)
  then obtain h where "?h = Some h" "shows_server starts w s h" by force
  with Cons.IH Cons.prems show ?case by (auto simp: List.map_filter_simps)
qed (simp add: List.map_filter_simps)

lemma health_list_published [simp]: "health_list x (fst (publishHealth jt w m db)) = health_list x m"
  unfolding health_list_def publishHealth_def
  by (auto simp: map_filter_def comp_def option.map_comp split: option.splits intro!: map_cong filter_cong)

text \<open>The ticker only ever writes the health key, and each of its writes shows the servers at the time of the tick.\<close>

lemma mcp_heartbeat_writes:
  "snd (mcp_heartbeat jt ws (m, db)) =
     fold (\<lambda>v. rdb_Set ''health:main-agent:mcp'' v None) (map (\<lambda>w. jt_Marshal jt (enc_list enc_HealthEntry (health_list w m))) ws) db"
proof (induction ws arbitrary: m db)
  case (Cons w ws)
  have "publishHealth jt w m db = (fst (publishHealth jt w m db),
      rdb_Set ''health:main-agent:mcp'' (jt_Marshal jt (enc_list enc_HealthEntry (health_list w m))) None db)"
    by (simp add: publishHealth_def)
  then have "mcp_heartbeat jt (w # ws) (m, db) = mcp_heartbeat jt ws (fst (publishHealth jt w m db),
      rdb_Set ''health:main-agent:mcp'' (jt_Marshal jt (enc_list enc_HealthEntry (health_list w m))) None db)"
    by (simp add: mcp_heartbeat_def)
  with Cons.IH show ?case by simp
qed (simp add: mcp_heartbeat_def)

lemma mcp_heartbeat_last:
  assumes "rdb_Get now db ''health:main-agent:mcp'' = Inr (Some (jt_Marshal jt (enc_list enc_HealthEntry (health_list w m))))"
  shows "rdb_Get now (snd (mcp_heartbeat jt ws (m, db))) ''health:main-agent:mcp'' =
    Inr (Some (jt_Marshal jt (enc_list enc_HealthEntry (health_list (last (w # ws)) m))))"
proof (cases "ws = []")
  case True
  with assms show ?thesis by (simp add: mcp_heartbeat_def)
next
  case False
  then show ?thesis
    using kv.last_put [of "map (\<lambda>w. jt_Marshal jt (enc_list enc_HealthEntry (health_list w m))) ws"]
    by (simp add: mcp_heartbeat_writes last_map)
qed

lemma resolved_names_distinct: "distinct (map mcp_Name (ResolveMCPServers e db))"
proof -
  have "distinct (map mcp_Name (keep_valid seen cs)) \<and> set (map mcp_Name (keep_valid seen cs)) \<inter> set seen = {}" for seen cs
    by (induction seen cs rule: keep_valid.induct) (auto simp: validateMCPServerEntry_def split: if_splits)
  then show ?thesis by (auto simp: ResolveMCPServers_def split: sum.splits option.splits)
qed

lemma fold_start_keeps:
  "map_of (tg_tools (snd st)) name = Some t \<Longrightarrow>
    map_of (tg_tools (snd (fold (startOne num jt starts) sched st))) name = Some t"
proof (induction sched arbitrary: st)
  case (Cons cfg sched)
  have "map_of (tg_tools (snd (startOne num jt starts cfg st))) name = Some t"
    using Cons.prems register_all_keeps [of "snd st" name t num jt "mcp_Name cfg"]
    by (auto simp: startOne_def split: start_outcome.splits prod.splits) (metis fst_conv)
  then show ?case using Cons.IH by simp
qed simp

text \<open>
  C27. Configured servers are visible. When the main agent starts the servers that the stored settings resolve to, in whatever order
  their starts finish, the gateway's view, then and after any number of ticks of the health ticker, has one entry for each of them, in the order of the settings: a disabled one as such; an enabled one
  whose start failed with the phase and the error; a running one as connected if its process lived at the last tick, with no
  more tools than it offers. Tools that were registered before stay what they were.
\<close>

theorem configured_servers_visible:
  fixes w :: 'w
  assumes start: "mcp_Start num jt starts (ResolveMCPServers c db) sched w (NewManager, r) db = ((m, r'), db')"
    and sched: "mset sched = mset (filter mcp_Enabled (ResolveMCPServers c db))"
    and layer: "let j = enc_list enc_HealthEntry (health_list (last (w # ws)) m) in ge_parse e (jt_Marshal jt j) = Some j \<and> jt_Marshal jt j \<noteq> []"
  shows "(\<exists>hs. readMCPHealth e (snd (mcp_heartbeat jt ws (m, db'))) = map enc_HealthEntry hs \<and>
       list_all2 (shows_server starts (last (w # ws))) (ResolveMCPServers c db) hs) \<and>
    (\<forall>name t. map_of (tg_tools r) name = Some t \<longrightarrow> map_of (tg_tools r') name = Some t)"
proof -
  let ?servers = "ResolveMCPServers c db" and ?n = "fold note_server (ResolveMCPServers c db) (NewManager :: 'w mcp_manager)"
  let ?s = "fold (startOne num jt starts) sched (?n, r)" and ?x = "last (w # ws)"
  have sub: "set sched = {s \<in> set ?servers. mcp_Enabled s}" using sched by (metis set_mset_mset set_filter)
  have "mset (map mcp_Name sched) = mset (map mcp_Name (filter mcp_Enabled ?servers))" using sched by (simp only: mset_map)
  then have dist: "distinct (map mcp_Name sched)"
    using resolved_names_distinct [of c db] by (metis distinct_map_filter mset_eq_imp_distinct_iff)
  have noted: "noted s ?n" if "s \<in> set ?servers" for s
    using fold_noted [OF resolved_names_distinct that, of "NewManager :: 'w mcp_manager"] by (simp add: NewManager_def)
  have rec: "if mcp_Enabled s then recorded starts s (fst ?s) else noted s (fst ?s)" if s: "s \<in> set ?servers" for s
  proof (cases "mcp_Enabled s")
    case True
    with s sub have "s \<in> set sched" by simp
    moreover have "\<forall>c \<in> set sched. noted c (fst (?n, r)) \<and> mcp_Enabled c" using sub noted by simp
    ultimately have "recorded starts s (fst ?s)" by (rule fold_recorded [OF dist])
    with True show ?thesis by simp
  next
    case False
    have "mcp_Name s \<notin> mcp_Name ` set sched"
      using resolved_names_distinct [of c db] s False sub by (auto simp: distinct_map inj_on_def)
    with fold_start_other [of "mcp_Name s" sched num jt starts "(?n, r)"] noted [OF s] False show ?thesis by (simp add: noted_def)
  qed
  have "mg_order (fst ?s) = map mcp_Name ?servers"
    using fold_startOne [OF dist, of num jt starts "(?n, r)"] fold_note_server [of ?servers "NewManager :: 'w mcp_manager"] by (simp add: NewManager_def)
  with rec have "list_all2 (shows_server starts ?x) ?servers (health_list ?x (fst ?s))" by (intro health_list_shows) auto
  moreover from start have pub: "publishHealth jt w (fst ?s) db = (m, db')" and r': "r' = snd ?s"
    by (auto simp: mcp_Start_def Manager_Start_def split: prod.splits)
  moreover have same: "health_list y m = health_list y (fst ?s)" for y using health_list_published [of y jt w "fst ?s" db] pub by simp
  have "rdb_Get (ge_now e) db' ''health:main-agent:mcp'' = Inr (Some (jt_Marshal jt (enc_list enc_HealthEntry (health_list w m))))"
    using pub by (auto simp: publishHealth_def kv.get_put same)
  from mcp_heartbeat_last [OF this, of ws] layer
  have "readMCPHealth e (snd (mcp_heartbeat jt ws (m, db'))) = map enc_HealthEntry (health_list ?x (fst ?s))"
    by (simp add: readMCPHealth_def same Let_def enc_list_def those_map_raw del: last.simps)
  ultimately show ?thesis using fold_start_keeps [where st = "(?n, r)"] by (metis snd_conv)
qed

definition two_servers :: "MCPServerConfig list" where
  "two_servers = [zero_MCPServerConfig\<lparr>mcp_Name := ''fs'', mcp_Command := ''run'', mcp_Enabled := True\<rparr>,
     zero_MCPServerConfig\<lparr>mcp_Name := ''web'', mcp_Command := ''run'', mcp_Enabled := False\<rparr>]"

definition two_entries :: "HealthEntry list" where
  "two_entries = [\<lparr>he_Name = ''fs'', he_Enabled = True, he_Connected = False, he_ToolCount = 0, he_LastError = ''spawn: no such file''\<rparr>,
     \<lparr>he_Name = ''web'', he_Enabled = False, he_Connected = False, he_ToolCount = 0, he_LastError = []\<rparr>]"

definition two_config :: config_env where
  "two_config = \<lparr>cf_parse = (\<lambda>s. Some (if s = ''h'' then enc_list enc_HealthEntry two_entries else enc_list enc_MCPServerConfig two_servers)),
     cf_render = (\<lambda>_. ''s''), cf_now = 0\<rparr>"

lemma two_resolved: "ResolveMCPServers two_config [(KeyMCPServers, RString ''s'' None)] = two_servers"
proof -
  have "dec_list zero_MCPServerConfig dec_MCPServerConfig [] (enc_list enc_MCPServerConfig two_servers) = Some two_servers"
    by (rule dec_enc_list, rule dec_enc_MCPServerConfig) (auto simp: two_servers_def zero_MCPServerConfig_def map_entries_def)
  moreover have "keep_valid [] two_servers = two_servers" by code_simp
  ultimately show ?thesis by (simp add: ResolveMCPServers_def two_config_def rdb_Get_def)
qed

theorem configured_servers_visible_witness:
  "\<exists>(m :: unit mcp_manager) r' db' hs. mcp_Start id \<lparr>jt_Marshal = (\<lambda>_. ''h''), jt_Unmarshal = (\<lambda>_. None), jt_Error = (\<lambda>_. [])\<rparr>
       (\<lambda>_. StartFails ''spawn'' ''no such file'') (ResolveMCPServers two_config [(KeyMCPServers, RString ''s'' None)]) [hd two_servers] ()
       (NewManager, NewToolRegistry) [(KeyMCPServers, RString ''s'' None)] = ((m, r'), db') \<and>
     readMCPHealth (sample_gw\<lparr>ge_config := two_config\<rparr>) (snd (mcp_heartbeat \<lparr>jt_Marshal = (\<lambda>_. ''h''), jt_Unmarshal = (\<lambda>_. None), jt_Error = (\<lambda>_. [])\<rparr>
       [(), ()] (m, db'))) = map enc_HealthEntry hs \<and>
     list_all2 (shows_server (\<lambda>_. StartFails ''spawn'' ''no such file'' :: unit start_outcome) ()) two_servers hs"
proof -
  let ?jt = "\<lparr>jt_Marshal = (\<lambda>_. ''h''), jt_Unmarshal = (\<lambda>_. None), jt_Error = (\<lambda>_. [])\<rparr>"
  let ?db = "[(KeyMCPServers, RString ''s'' None)]"
  obtain m r' db' where start: "mcp_Start id ?jt (\<lambda>_. StartFails ''spawn'' ''no such file'' :: unit start_outcome)
      (ResolveMCPServers two_config ?db) [hd two_servers] () (NewManager, NewToolRegistry) ?db = ((m, r'), db')"
    by (metis surj_pair)
  have sched: "mset [hd two_servers] = mset (filter mcp_Enabled (ResolveMCPServers two_config ?db))"
    unfolding two_resolved by (simp add: two_servers_def)
  have "health_list () m = two_entries"
  proof -
    from start have "m = fst (publishHealth ?jt () (fst (Manager_Start id ?jt (\<lambda>_. StartFails ''spawn'' ''no such file'' :: unit start_outcome)
        two_servers [hd two_servers] (NewManager, NewToolRegistry))) ?db)"
      unfolding two_resolved mcp_Start_def by (simp split: prod.splits)
    then have "health_list () m = health_list () (fst (Manager_Start id ?jt (\<lambda>_. StartFails ''spawn'' ''no such file'' :: unit start_outcome)
        two_servers [hd two_servers] (NewManager, NewToolRegistry)))" by simp
    also have "\<dots> = two_entries" by code_simp
    finally show ?thesis .
  qed
  then have "let j = enc_list enc_HealthEntry (health_list (last (() # [(), ()])) m) in
      ge_parse (sample_gw\<lparr>ge_config := two_config\<rparr>) (jt_Marshal ?jt j) = Some j \<and> jt_Marshal ?jt j \<noteq> []"
    by (simp add: two_config_def)
  from configured_servers_visible [OF start sched this] start show ?thesis unfolding two_resolved by auto
qed

end
