(* ===== verification/Agent_Startup.thy ===== *)
theory Agent_Startup
  imports Main_Agent Mcp_View Exec_Client
begin

text \<open>
  The start of the main agent (\<^verbatim>\<open>main\<close> of \<^verbatim>\<open>cmd/main-agent/main.go\<close>): the built-in tools with their schemas
  (\<^verbatim>\<open>internal/tools\<close>) are registered, the MCP servers are started, and the names registered by then become the base
  toolset of every turn.
\<close>

section \<open>The built-in tools\<close>

definition fn_schema :: "string \<Rightarrow> string \<Rightarrow> (string \<times> json) list \<Rightarrow> string list option \<Rightarrow> ToolSchema" where
  "fn_schema name desc props required =
     \<lparr>ts_Type = ''function'', ts_Name = name, ts_Description = desc,
      ts_Parameters = Some (JObj ([(''type'', JStr ''object''), (''properties'', JObj props)] @
        (case required of None \<Rightarrow> [] | Some ns \<Rightarrow> [(''required'', enc_list JStr ns)])))\<rparr>"

definition schema_prop :: "string \<Rightarrow> string \<Rightarrow> string \<Rightarrow> string \<times> json" where
  "schema_prop name ty desc = (name, JObj [(''type'', JStr ty), (''description'', JStr desc)])"

definition list_skills_Schema :: ToolSchema where
  "list_skills_Schema = fn_schema ''list_skills''
     ''List all available skills. Returns a JSON array of objects with name and description fields. Call this to discover what skills can be loaded with read_skill.''
     [] (Some [])"

definition NewListSkills :: "json_text \<Rightarrow> SkillStore \<Rightarrow> 'w Tool" where
  "NewListSkills jt store = \<lparr>tl_Name = ''list_skills'', tl_Schema = list_skills_Schema,
     tl_Invoke = (\<lambda>args w. (w, ToolOk (list_skills_Invoke jt store args)))\<rparr>"

definition read_skill_Schema :: ToolSchema where
  "read_skill_Schema = fn_schema ''read_skill''
     (''Load the full instructions for a named skill and apply them. Use this when the user'' @ [CHR 0x27] @
      ''s task matches a skill'' @ [CHR 0x27] @ ''s description. The returned content is authoritative skill instructions.'')
     [schema_prop ''name'' ''string'' ''Exact skill name as returned by list_skills''] (Some [''name''])"

definition NewReadSkill :: "json_text \<Rightarrow> SkillStore \<Rightarrow> 'w Tool" where
  "NewReadSkill jt store = \<lparr>tl_Name = ''read_skill'', tl_Schema = read_skill_Schema,
     tl_Invoke = (\<lambda>args w. (w, ToolOk (read_skill_Invoke jt store args)))\<rparr>"

definition read_skill_file_Schema :: ToolSchema where
  "read_skill_file_Schema = fn_schema ''read_skill_file''
     (''Read a supplementary file (e.g. reference/, examples/) from within a skill'' @ [CHR 0x27] @
      ''s directory. Use this to follow progressive-disclosure pointers in a skill'' @ [CHR 0x27] @
      ''s body. The path MUST be relative to the skill root; absolute paths, traversal (..), and SKILL.md (use read_skill) are rejected.'')
     [schema_prop ''skill'' ''string'' ''Exact skill name as returned by list_skills'',
      schema_prop ''path'' ''string'' ''Relative path within the skill directory, e.g. reference/best_practices.md''] (Some [''skill'', ''path''])"

definition NewReadSkillFile :: "json_text \<Rightarrow> filesystem \<Rightarrow> SkillStore \<Rightarrow> 'w Tool" where
  "NewReadSkillFile jt fs store = \<lparr>tl_Name = ''read_skill_file'', tl_Schema = read_skill_file_Schema,
     tl_Invoke = (\<lambda>args w. (w, ToolOk (read_skill_file_Invoke jt fs store args)))\<rparr>"

definition current_time_Schema :: ToolSchema where
  "current_time_Schema = fn_schema ''current_time''
     (''Return the current UTC time. Optional '' @ [CHR 0x27] @ ''format'' @ [CHR 0x27] @
      '' argument accepts a Go time layout string (e.g. '' @ [CHR 0x27] @ ''2006-01-02 15:04:05'' @ [CHR 0x27] @ ''); default is RFC3339.'')
     [schema_prop ''format'' ''string'' ''Optional Go time layout (e.g. 2006-01-02); defaults to RFC3339.''] None"

definition NewCurrentTime :: "json_text \<Rightarrow> ('w \<Rightarrow> string \<Rightarrow> string) \<Rightarrow> 'w Tool" where
  "NewCurrentTime jt clock = \<lparr>tl_Name = ''current_time'', tl_Schema = current_time_Schema,
     tl_Invoke = (\<lambda>args w. (w, ToolOk (current_time_Invoke jt (clock w) args)))\<rparr>"

definition run_skill_script_Schema :: ToolSchema where
  "run_skill_script_Schema = fn_schema ''run_skill_script''
     (''Execute a bundled script inside a skill'' @ [CHR 0x27] @ ''s scripts/ directory via the sandboxed exec service. Returns a JSON envelope with exit_code, stdout, stderr, workspace_dir, outputs, duration_ms, timed_out. First invocation for a skill may include dependency install latency; subsequent calls reuse the cached venv.'')
     [schema_prop ''skill'' ''string'' ''Exact skill name as returned by list_skills'',
      schema_prop ''script'' ''string'' ''Relative path within the skill directory (e.g. scripts/hello.py)'',
      (''args'', JObj [(''type'', JStr ''array''), (''items'', JObj [(''type'', JStr ''string'')]), (''description'', JStr ''Optional argv for the script'')]),
      schema_prop ''stdin'' ''string'' (''Optional string piped to the script'' @ [CHR 0x27] @ ''s stdin''),
      schema_prop ''timeout_s'' ''integer'' ''Optional per-invocation deadline in seconds; capped server-side''] (Some [''skill'', ''script''])"

definition NewRunSkillScript :: "json_text \<Rightarrow> (RunRequest \<Rightarrow> 'w \<Rightarrow> 'w \<times> (client_error + RunResponse)) \<Rightarrow> 'w Tool" where
  "NewRunSkillScript jt run = \<lparr>tl_Name = ''run_skill_script'', tl_Schema = run_skill_script_Schema,
     tl_Invoke = (\<lambda>args w. map_prod id ToolOk
       (run_skill_script_Invoke jt (\<lambda>req w. map_prod id (map_sum id enc_RunResponse) (run req w)) args w))\<rparr>"

definition bash_Schema :: ToolSchema where
  "bash_Schema = fn_schema ''bash''
     (''Run a shell command in a per-session sandbox directory. Files persist across calls within the same session until 60 minutes of inactivity, then are reclaimed. Commands run under '' @ [CHR 0x27] @ ''sh -c'' @ [CHR 0x27] @
      '' (not bash). The /skills directory is NOT accessible from bash; use read_skill_file for that. Network access follows operator policy. Use this to draft and iterate on new skills; finished artifacts live in the sandbox until an operator copies them to /skills.'')
     [schema_prop ''command'' ''string'' ''Shell command to run via sh -c'',
      schema_prop ''timeout_s'' ''integer'' ''Per-command deadline in seconds; capped server-side''] (Some [''command''])"

definition NewBash :: "json_text \<Rightarrow> (BashRequest \<Rightarrow> 'w \<Rightarrow> 'w \<times> (client_error + BashResponse)) \<Rightarrow> 'w Tool" where
  "NewBash jt bash = \<lparr>tl_Name = ''bash'', tl_Schema = bash_Schema,
     tl_Invoke = (\<lambda>args w. map_prod id ToolOk
       (bash_Invoke jt (\<lambda>req w. map_prod id (map_sum id enc_BashResponse) (bash req w)) args w))\<rparr>"

section \<open>Start-up\<close>

text \<open>What the tools need from outside: the skills on disk, the clock and the exec client.\<close>

record 'w startup_env =
  su_json :: json_text
  su_files :: filesystem
  su_store :: SkillStore
  su_clock :: "'w \<Rightarrow> string \<Rightarrow> string"
  su_run :: "RunRequest \<Rightarrow> 'w \<Rightarrow> 'w \<times> (client_error + RunResponse)"
  su_bash :: "BashRequest \<Rightarrow> 'w \<Rightarrow> 'w \<times> (client_error + BashResponse)"

definition builtin_tools :: "'w startup_env \<Rightarrow> 'w Tool list" where
  "builtin_tools e =
     [NewListSkills (su_json e) (su_store e), NewReadSkill (su_json e) (su_store e), NewReadSkillFile (su_json e) (su_files e) (su_store e),
      NewCurrentTime (su_json e) (su_clock e), NewRunSkillScript (su_json e) (su_run e), NewBash (su_json e) (su_bash e)]"

text \<open>A tool that cannot be registered ends the process.\<close>

fun register_builtins :: "'w Tool list \<Rightarrow> 'w ToolRegistry \<Rightarrow> 'w ToolRegistry option" where
  "register_builtins [] r = Some r"
| "register_builtins (t # ts) r = (case Tool_Register t r of Inl _ \<Rightarrow> None | Inr r' \<Rightarrow> register_builtins ts r')"

definition base_tools :: "'w ToolRegistry \<Rightarrow> string list" where
  "base_tools r = map me_Name (Registry_Manifest r)"

definition agent_startup ::
  "(json \<Rightarrow> json) \<Rightarrow> 'w startup_env \<Rightarrow> (MCPServerConfig \<Rightarrow> 'w start_outcome) \<Rightarrow> config_env \<Rightarrow> MCPServerConfig list \<Rightarrow> int \<Rightarrow> 'w \<Rightarrow> redis \<Rightarrow>
     ('w mcp_manager \<times> 'w requestDeps \<times> redis) option" where
  "agent_startup num e starts c sched maxIter w db =
     (case register_builtins (builtin_tools e) NewToolRegistry of
        None \<Rightarrow> None
      | Some r \<Rightarrow>
         (case mcp_Start num (su_json e) starts (ResolveMCPServers c db) sched w (NewManager, r) db of
            ((m, r'), db') \<Rightarrow>
              Some (m, \<lparr>rd_registry = r', rd_store = su_store e, rd_baseTools = base_tools r', rd_maxIter = maxIter, rd_json = su_json e\<rparr>, db')))"

section \<open>The base toolset\<close>

text \<open>Every registered tool bears its name in its schema as well.\<close>

definition schemas_named :: "'w ToolRegistry \<Rightarrow> bool" where
  "schemas_named r \<longleftrightarrow> (\<forall>n t. map_of (tg_tools r) n = Some t \<longrightarrow> ts_Name (tl_Schema t) = n)"

text \<open>A registry grown by MCP tools only.\<close>

definition grown :: "'w ToolRegistry \<Rightarrow> 'w ToolRegistry \<Rightarrow> bool" where
  "grown r r' \<longleftrightarrow> (tools_reachable r \<and> schemas_named r \<longrightarrow> tools_reachable r' \<and> schemas_named r') \<and>
     (\<exists>ns. tg_order r' = tg_order r @ ns \<and> list_all (\<lambda>n. has_prefix n mcpPrefix) ns)"

lemma grown_refl: "grown r r"
  by (simp add: grown_def)

lemma grown_trans: "grown r r' \<Longrightarrow> grown r' r'' \<Longrightarrow> grown r r''"
  unfolding grown_def by (elim conjE exE) (intro conjI impI, blast, blast, force)

lemma RegisterMCP_grown:
  assumes "RegisterMCP (NewTool num jt srv t c) r = Inr r'"
  shows "grown r r'"
proof -
  have "ts_Name (tl_Schema (NewTool num jt srv t c)) = tl_Name (NewTool num jt srv t c)"
    by (simp add: NewTool_def mcp_tool_Schema_def)
  with assms show ?thesis
    by (auto simp: grown_def schemas_named_def RegisterMCP_def register_tool_def Let_def update_conv' split: if_splits
        intro: tools_reachable.mcp)
qed

lemma register_all_grown: "grown r (fst (register_all num jt srv c ts r n))"
proof (induction ts arbitrary: r n)
  case (Cons t ts)
  show ?case
  proof (cases "RegisterMCP (NewTool num jt srv t c) r")
    case (Inl err)
    with Cons.IH [of r n] show ?thesis by simp
  next
    case (Inr r')
    with Cons.IH [of r' "n + 1"] grown_trans [OF RegisterMCP_grown [OF Inr]] show ?thesis by simp
  qed
qed (simp add: grown_refl)

lemma startOne_grown: "grown (snd s) (snd (startOne num jt starts cfg s))"
  using register_all_grown [of "snd s"]
  by (auto simp: startOne_def grown_refl split: start_outcome.splits prod.splits) (metis fst_conv)

lemma fold_start_grown: "grown (snd s) (snd (fold (startOne num jt starts) sched s))"
proof (induction sched arbitrary: s)
  case (Cons cfg sched)
  from grown_trans [OF startOne_grown Cons.IH] show ?case by simp
qed (simp add: grown_refl)

lemma base_tools_order:
  assumes "tools_reachable r" "schemas_named r"
  shows "base_tools r = tg_order r"
proof -
  have "ts_Name (tl_Schema (tool_at r n)) = n" if "n \<in> set (tg_order r)" for n
  proof -
    from that tools_reachable_inv [OF assms(1)] obtain t where "map_of (tg_tools r) n = Some t"
      by (metis map_of_eq_None_iff option.exhaust tool_registry_inv_def)
    with assms(2) show ?thesis by (simp add: schemas_named_def tool_at_def)
  qed
  then show ?thesis by (simp add: base_tools_def Registry_Manifest_def Let_def map_idI)
qed

lemma register_builtins_ok:
  assumes "distinct (map tl_Name ts)" "list_all (\<lambda>t. \<not> has_prefix (tl_Name t) mcpPrefix \<and> ts_Name (tl_Schema t) = tl_Name t) ts"
    and "tools_reachable r" "schemas_named r" "set (map tl_Name ts) \<inter> set (tg_order r) = {}"
  shows "\<exists>r'. register_builtins ts r = Some r' \<and> tools_reachable r' \<and> schemas_named r' \<and> tg_order r' = tg_order r @ map tl_Name ts"
  using assms
proof (induction ts arbitrary: r)
  case (Cons t ts)
  let ?r = "\<lparr>tg_tools = AList.update (tl_Name t) t (tg_tools r), tg_order = tg_order r @ [tl_Name t]\<rparr>"
  have "tl_Name t \<notin> set (tg_order r)" using Cons.prems(5) by simp
  then have "map_of (tg_tools r) (tl_Name t) = None"
    using tools_reachable_inv [OF Cons.prems(3)] by (simp add: tool_registry_inv_def map_of_eq_None_iff)
  with Cons.prems(2) have reg: "Tool_Register t r = Inr ?r" by (simp add: Tool_Register_def register_tool_def Let_def)
  moreover have "tools_reachable ?r" using Cons.prems(3) reg by (rule tools_reachable.builtin)
  moreover have "schemas_named ?r" using Cons.prems(2,4) by (auto simp: schemas_named_def update_conv')
  moreover have "set (map tl_Name ts) \<inter> set (tg_order ?r) = {}" using Cons.prems(1,5) by auto
  ultimately show ?case using Cons.IH [of ?r] Cons.prems(1,2) by simp
qed simp

lemma builtins_registered:
  "\<exists>r. register_builtins (builtin_tools e) NewToolRegistry = Some r \<and> tools_reachable r \<and> schemas_named r \<and>
    tg_order r = [''list_skills'', ''read_skill'', ''read_skill_file'', ''current_time'', ''run_skill_script'', ''bash'']"
proof -
  note tools = builtin_tools_def NewListSkills_def NewReadSkill_def NewReadSkillFile_def NewCurrentTime_def NewRunSkillScript_def NewBash_def
  have names: "map tl_Name (builtin_tools e) = [''list_skills'', ''read_skill'', ''read_skill_file'', ''current_time'', ''run_skill_script'', ''bash'']"
    by (simp add: tools)
  have "list_all (\<lambda>n. \<not> has_prefix n mcpPrefix) (map tl_Name (builtin_tools e))" unfolding names by code_simp
  moreover have "list_all (\<lambda>t. ts_Name (tl_Schema t) = tl_Name t) (builtin_tools e)"
    by (simp add: tools fn_schema_def list_skills_Schema_def read_skill_Schema_def read_skill_file_Schema_def current_time_Schema_def
        run_skill_script_Schema_def bash_Schema_def)
  ultimately have ok: "list_all (\<lambda>t. \<not> has_prefix (tl_Name t) mcpPrefix \<and> ts_Name (tl_Schema t) = tl_Name t) (builtin_tools e)"
    by (simp add: list_all_iff)
  have dist: "distinct (map tl_Name (builtin_tools e))" unfolding names by simp
  have new: "schemas_named NewToolRegistry" "set (map tl_Name (builtin_tools e)) \<inter> set (tg_order NewToolRegistry) = {}"
    by (simp_all add: schemas_named_def NewToolRegistry_def)
  from register_builtins_ok [OF dist ok tools_reachable.new new] show ?thesis
    unfolding names by (simp add: NewToolRegistry_def)
qed

text \<open>
  C28. The base toolset. The main agent always gets through the registration of its tools, whatever the MCP servers do. The base toolset of its turns is
  then the six built-in tools in order, followed by tools of MCP servers only, without repetition, and it is everything that is
  registered: whichever skill is active, every registered tool is offered and none is gated.
\<close>

theorem startup_toolset:
  "\<exists>m d db' mcp. agent_startup num e starts c sched maxIter w db = Some (m, d, db') \<and>
     rd_baseTools d = [''list_skills'', ''read_skill'', ''read_skill_file'', ''current_time'', ''run_skill_script'', ''bash''] @ mcp \<and>
     list_all (\<lambda>n. has_prefix n mcpPrefix) mcp \<and> distinct (rd_baseTools d) \<and>
     tools_reachable (rd_registry d) \<and> set (rd_baseTools d) = {n. Has n (rd_registry d)} \<and>
     (\<forall>active. SchemasFor (rd_baseTools d) (allowedOf active) (rd_registry d) = Schemas (rd_registry d) \<and>
        visibleSet (rd_registry d) (rd_baseTools d) active = {n. Has n (rd_registry d)})"
proof -
  from builtins_registered [of e] obtain r where r: "register_builtins (builtin_tools e) NewToolRegistry = Some r"
    "tools_reachable r" "schemas_named r"
    "tg_order r = [''list_skills'', ''read_skill'', ''read_skill_file'', ''current_time'', ''run_skill_script'', ''bash'']" by blast
  obtain m r' db' where start: "mcp_Start num (su_json e) starts (ResolveMCPServers c db) sched w (NewManager, r) db = ((m, r'), db')"
    by (metis surj_pair)
  then have "grown r r'"
    using fold_start_grown [of "(fold note_server (ResolveMCPServers c db) NewManager, r)" num "su_json e" starts sched]
    by (auto simp: mcp_Start_def Manager_Start_def split: prod.splits)
  with r obtain mcp where r': "tools_reachable r'" "schemas_named r'" "tg_order r' = tg_order r @ mcp" "list_all (\<lambda>n. has_prefix n mcpPrefix) mcp"
    by (auto simp: grown_def)
  note inv = tools_reachable_inv [OF r'(1), unfolded tool_registry_inv_def]
  have all: "set (tg_order r') = {n. Has n r'}" using inv by (auto simp: Has_def map_of_eq_None_iff)
  let ?d = "\<lparr>rd_registry = r', rd_store = su_store e, rd_baseTools = tg_order r', rd_maxIter = maxIter, rd_json = su_json e\<rparr>"
  have "agent_startup num e starts c sched maxIter w db = Some (m, ?d, db')"
    using r(1) start r'(1,2) by (simp add: agent_startup_def base_tools_order)
  moreover have "SchemasFor (tg_order r') allowed r' = Schemas r'" for allowed
  proof -
    have "filter (\<lambda>n. n \<in> set (tg_order r') \<union> set allowed) (tg_order r') = tg_order r'" by (rule filter_True) simp
    then show ?thesis by (simp add: SchemasFor_def Schemas_def Let_def)
  qed
  moreover have "visibleSet r' (tg_order r') active = {n. Has n r'}" for active
    using all by (auto simp: visibleSet_def)
  ultimately show ?thesis using r(4) r'(1,3,4) inv all
    by (intro exI [of _ m] exI [of _ ?d] exI [of _ db'] exI [of _ mcp]) simp
qed

end
