(* ===== verification/Spec2Isabelle.thy ===== *)
theory Spec2Isabelle
  imports Slot_Protocol Exec_Client Retro_Dispatch Slot_View Log_View Llm_Proxy Memory_Sync Announcements Agent_Startup
begin

text \<open>
  \<^bold>\<open>A verification development for microagent2.\<close>

  microagent2 runs LLM agents as a set of processes that talk through the streams, channels and keys of a Redis-compatible
  store (Valkey). A client posts a turn to the gateway, which finds the session, hands the request to the context
  manager (history, memories, system prompt) and waits for the answer of the main agent. The main agent runs the
  tool loop of a turn; every call of the inference server needs a slot of the broker, which queues requests,
  preempts less urgent agents and watches the agents' heartbeats. Tools are the skills on disk, the clock, a
  sandboxed exec service and the tools of MCP servers. Finished responses are kept per session; the retro agent
  turns idle sessions into memories, which the memory service keeps in the engine Hindsight. The engine in
  turn reaches the inference server through the LLM proxy and the same slots. A dashboard shows settings, slots, logs and the panels
  that services announce.

  \<^bold>\<open>Conventions.\<close> Definitions keep the source's names; a prefix names the Go receiver or the package where a name would clash
  (\<^verbatim>\<open>Skill_Get\<close>, \<^verbatim>\<open>Registry_Get\<close>, \<^verbatim>\<open>exec_handleRun\<close>). A struct is a record, an enumeration a datatype, an error a value of a sum
  type, a panic a value of its own; a Go map is an association list where the order of iteration is fixed by the code and a
  function otherwise. Go strings are byte strings. Times are integers in nanoseconds; integers are unbounded except
  where the code can overflow, where the 64-bit wrap-around is written out (\<^verbatim>\<open>wrap64\<close>). A \<^verbatim>\<open>float64\<close> is a rational number.
  What the program takes from outside (clock, fresh ids, the outcome of publishing, the environment, the YAML and JSON
  text layers, SHA-256 and HMAC, the file system and processes, the network, the inference server) is an
  argument of the definition that uses it; a theorem that needs something of it has that as a hypothesis, such as
  parsing undoing rendering. Logging is left out.

  \<^bold>\<open>Concurrency and loops.\<close> Where goroutines share state, a handler is a sequence of atomic steps (one per locked region) or an
  event on an explicit state, and theorems hold for every interleaving: the broker (\<^verbatim>\<open>broker_step\<close>), the heartbeat monitor
  (\<^verbatim>\<open>monitor_step\<close>), the MCP client, the log publisher. Starting an MCP server is one step, in the order in which the starts
  finish. A loop that may run for ever is a recursion over the rounds it has run, with \<open>None\<close> for not having returned by then; that it returns
  is proved, and no bound on the rounds is chosen. Other loops are total functions; the measure of \<^verbatim>\<open>WalkChain\<close> is the number of
  stored keys not yet seen. There is no fuel.

  \<^bold>\<open>Interfaces.\<close> Locales state what one part may rely on in another, and are interpreted on the definitions of the part
  that provides it: \<^verbatim>\<open>slot_pool\<close> (who holds a slot after which operation; the slot table), \<^verbatim>\<open>agent_directory\<close> (the registry), \<^verbatim>\<open>lease\<close> (the
  job locks), \<^verbatim>\<open>kv_store\<close> (keys of Valkey, with and without expiry), \<^verbatim>\<open>wire_payload\<close> (payloads through a stream).

  \<^bold>\<open>Theories and source files\<close> (under \<^verbatim>\<open>src/internal\<close> unless stated otherwise)

  \<^item> \<open>Go_Prelude\<close>, \<open>Go_Strconv\<close>: strings, paths, lists, updates of the first match, argmin scans; 64-bit numbers, durations, \<^verbatim>\<open>Atoi\<close>.
  \<^item> \<open>Go_Json\<close>, \<open>Go_Http\<close>: JSON values with the decoding rules of \<^verbatim>\<open>encoding/json\<close>, folding of keys included; the exchange the HTTP clients share.
  \<^item> \<open>Valkey\<close>: the commands the program uses, on a store of typed values with expiry.
  \<^item> \<open>Slots\<close> (\<^verbatim>\<open>broker/slots.go\<close>): the slot table, its invariant and reachable tables, the choice of a preemption victim, the undoing of
    a provisional assignment.
  \<^item> \<open>Messaging\<close> (\<^verbatim>\<open>messaging\<close>): envelopes, payloads, stream entries, and the consumer loop with its backoff: round trips,
    exactly-once handling of what was read.
  \<^item> \<open>Dashboard\<close> (\<^verbatim>\<open>dashboard/descriptor.go\<close>): panel descriptors; the validator decides exactly the intended set.
  \<^item> \<open>Registry\<close> (\<^verbatim>\<open>registry\<close>): the agent registry, its consumer, and the heartbeat monitor: one watcher per agent.
  \<^item> \<open>Llm_Stream\<close>, \<open>Broker\<close> (\<^verbatim>\<open>broker/broker.go\<close>): the request to the inference server and the readers of its answers, equal to a
    specification of what the stream says; the handlers, the queue and the timers: safety of all reachable states, the
    outcome of each handler, priority of the queue, gating of LLM requests.
  \<^item> \<open>Agent_Runtime\<close> (\<^verbatim>\<open>agent/runtime.go\<close>), \<open>Slot_Protocol\<close>: the agent's side, and both sides together: a slot's life, an LLM
    call and a preemption from end to end.
  \<^item> \<open>Llm_Proxy\<close> (\<^verbatim>\<open>llmproxy/server.go\<close>): a completion through the proxy and the broker gives the inference server's answer; the slot is always given back.
  \<^item> \<open>Response_Store\<close> (\<^verbatim>\<open>response\<close>): responses, chains, sessions, and the hash that recognises a conversation.
  \<^item> \<open>Skills\<close> (\<^verbatim>\<open>skills\<close>, \<^verbatim>\<open>sessionskill\<close>), \<open>Tools\<close> (\<^verbatim>\<open>tools\<close>): front matter, store and confined reader; the tool registry, invocation, built-in tools.
  \<^item> \<open>Main_Agent\<close>, \<open>Agent_Startup\<close> (\<^verbatim>\<open>src/cmd/main-agent/main.go\<close>): the turn with its bounded loop, gating and session scoping: the conversation
    stays well-formed, every slot is released; the start-up of the tools and the base toolset.
  \<^item> \<open>Mcp\<close>, \<open>Mcp_View\<close> (\<^verbatim>\<open>mcp\<close>): the JSON-RPC client, in which every answer goes to the call it belongs to; the adapter and the manager; from the
    settings to the dashboard.
  \<^item> \<open>Exec_Output\<close>, \<open>Exec_Workspace\<close>, \<open>Exec_Config\<close>, \<open>Exec_Service\<close>, \<open>Exec_Client\<close> (\<^verbatim>\<open>exec\<close>, \<^verbatim>\<open>execclient\<close>): capped output, workspaces and sandboxes with
    their collectors, settings, installation, script and shell runs, handlers and client: what commands are run and
    where, what collection removes, a call from end to end.
  \<^item> \<open>Config_Store\<close> (\<^verbatim>\<open>config\<close>): defaults, environment, stored sections and their precedence; the list of MCP servers.
  \<^item> \<open>Context_Manager\<close> (\<^verbatim>\<open>context\<close>): history, recall with its time limit, the prompt that is assembled.
  \<^item> \<open>Gateway_Turn\<close>, \<open>Gateway_Api\<close> (\<^verbatim>\<open>gateway/responses.go\<close>, \<^verbatim>\<open>server.go\<close>, \<^verbatim>\<open>speaker.go\<close>, \<^verbatim>\<open>mcp.go\<close>, \<^verbatim>\<open>health.go\<close>): the responses API: what a turn stores is what the next
    turn's prompt contains, streaming stores what waiting stores, a replayed conversation finds its session; the other endpoints.
  \<^item> \<open>Panels\<close>, \<open>Announcements\<close>, \<open>Slot_View\<close>, \<open>Log_View\<close> (\<^verbatim>\<open>gateway/dashboard.go\<close>, \<^verbatim>\<open>broker.go\<close>, \<^verbatim>\<open>logs.go\<close>, \<^verbatim>\<open>registry/agent.go\<close>): the panels the program ships are
    valid; an announced panel is shown as sent; the slots shown are the broker's; the tail of a log has no gaps.
  \<^item> \<open>Log_Stream\<close> (\<^verbatim>\<open>logstream\<close>): rendering, truncation, and the bounded queue that accounts for every record.
  \<^item> \<open>Retro_Jobs\<close>, \<open>Retro_Dispatch\<close> (\<^verbatim>\<open>retro\<close>, \<^verbatim>\<open>src/cmd/retro-agent/main.go\<close>): extraction, skill creation and curation with their checkpoints; locks, triggers and dispatch.
  \<^item> \<open>Memory_Client\<close>, \<open>Hindsight\<close>, \<open>Memory_Service\<close>, \<open>Memory_Sync\<close> (\<^verbatim>\<open>memoryclient\<close>, \<^verbatim>\<open>hindsight\<close>, \<^verbatim>\<open>memoryservice\<close>): the clients, the request handlers (recall from end to end, policy of
    retaining, signed webhooks), and the synchronisation of bank and directives, which converges.

  \<^bold>\<open>Not modelled.\<close> Process set-up in \<^verbatim>\<open>src/cmd\<close> apart from what is named above (reading the environment, connecting, signals, listening), HTTP
  serving and routing, the embedded web files, spawning and killing of child processes and their standard error, the wire
  protocol and the failures of Valkey connections where the code only passes them on, the wrapped \<^verbatim>\<open>slog\<close> handler, and a
  signal helper of the tests: they are calls of the operating system or of libraries with no logic of the program's own.
\<close>

end
